(* ===== verification/Prelude.thy ===== *)
theory Prelude
  imports Main "HOL-Library.Char_ord" "HOL-Library.List_Lexorder"
begin

text \<open>
  What every component shares: the clock, Go's fixed-width integers, and tables as lists of rows.

  An instant (Go's \<open>time.Time\<close>) is the integer number of nanoseconds since the Unix epoch and a
  \<open>time.Duration\<close> a number of nanoseconds. Columns hold \<open>UnixMilli\<close>, the floor to milliseconds.
  A table is the list of its rows in insertion order; SQL's DELETE, UPDATE and upsert are the list
  functions below.
\<close>

named_theorems table_simps \<open>algebra of rows: keys, lookups and filters\<close>
named_theorems time_simps \<open>unfolding of instants and durations\<close>

section \<open>Machine integers\<close>

text \<open>The value an \<open>int64\<close> holds after arithmetic on unbounded integers (two's complement).\<close>

definition int64 :: "int \<Rightarrow> int" where
  "int64 x = (x + 2 ^ 63) mod 2 ^ 64 - 2 ^ 63"

lemma int64_id: "- (2 ^ 63) \<le> x \<Longrightarrow> x < 2 ^ 63 \<Longrightarrow> int64 x = x"
  by (simp add: int64_def)

lemma int64_range: "- (2 ^ 63) \<le> int64 x \<and> int64 x < 2 ^ 63"
proof -
  have "0 \<le> (x + 2 ^ 63) mod 2 ^ 64" and "(x + 2 ^ 63) mod 2 ^ 64 < 2 ^ 64"
    by simp_all
  then show ?thesis by (simp add: int64_def)
qed

text \<open>Go's \<open>/\<close> on signed integers truncates towards zero.\<close>

definition go_quot :: "int \<Rightarrow> int \<Rightarrow> int" where
  "go_quot a b = sgn a * sgn b * (\<bar>a\<bar> div \<bar>b\<bar>)"

lemma go_quot_nonneg: "0 \<le> a \<Longrightarrow> 0 < b \<Longrightarrow> go_quot a b = a div b"
  by (cases "a = 0") (simp_all add: go_quot_def)

lemma go_quot_mono:
  assumes "a \<le> b" and "0 < k"
  shows "go_quot a k \<le> go_quot b k"
proof -
  consider "0 \<le> a" | "a < 0" "0 \<le> b" | "b < 0" using assms by linarith
  then show ?thesis
  proof cases
    case 1
    then show ?thesis using assms by (simp add: go_quot_nonneg zdiv_mono1)
  next
    case 2
    then have "go_quot a k \<le> 0" and "0 \<le> go_quot b k"
      using assms by (auto simp: go_quot_def sgn_if pos_imp_zdiv_nonneg_iff)
    then show ?thesis by linarith
  next
    case 3
    then show ?thesis using assms by (simp add: go_quot_def sgn_if zdiv_mono1)
  qed
qed

section \<open>Instants and durations\<close>

type_synonym instant = int
type_synonym duration = int
type_synonym millis = int

abbreviation millisecond :: duration where "millisecond \<equiv> 1000000"
abbreviation second :: duration where "second \<equiv> 1000000000"
abbreviation minute :: duration where "minute \<equiv> 60000000000"
abbreviation hour :: duration where "hour \<equiv> 3600000000000"

definition unix_milli :: "instant \<Rightarrow> millis" where
  "unix_milli t = t div millisecond"

definition of_unix_milli :: "millis \<Rightarrow> instant" where
  "of_unix_milli m = m * millisecond"

definition unix_seconds :: "instant \<Rightarrow> int" where
  "unix_seconds t = t div second"

text \<open>
  \<open>time.Unix(sec, 0)\<close>: the internal second counter is an \<open>int64\<close> that counts from year 1, so the
  addition of the epoch offset wraps around for extreme arguments.
\<close>

definition of_unix_seconds :: "int \<Rightarrow> instant" where
  "of_unix_seconds s = (int64 (s + 62135596800) - 62135596800) * second"

text \<open>\<open>Time.Sub\<close> saturates at the range of a \<open>Duration\<close>; the negation of a \<open>Duration\<close> wraps.\<close>

definition time_sub :: "instant \<Rightarrow> instant \<Rightarrow> duration" where
  "time_sub a b = max (- (2 ^ 63)) (min (2 ^ 63 - 1) (a - b))"

definition duration_neg :: "duration \<Rightarrow> duration" where
  "duration_neg d = int64 (- d)"

text \<open>The zero \<open>time.Time\<close> is 1 January of year 1, 00:00 UTC.\<close>

definition zero_time :: instant where
  "zero_time = - 62135596800 * second"

lemma unix_milli_mono: "a \<le> b \<Longrightarrow> unix_milli a \<le> unix_milli b"
  by (simp add: unix_milli_def zdiv_mono1)

lemma unix_milli_less: "unix_milli a < unix_milli b \<Longrightarrow> a < b"
  using unix_milli_mono [of b a] by linarith

lemma unix_milli_of [simp]: "unix_milli (of_unix_milli m) = m"
  by (simp add: unix_milli_def of_unix_milli_def)

lemma unix_milli_add: "unix_milli (t + m * millisecond) = unix_milli t + m"
  by (simp add: unix_milli_def)

lemma unix_milli_floor: "of_unix_milli (unix_milli t) \<le> t \<and> t < of_unix_milli (unix_milli t) + millisecond"
proof -
  have "t = t div millisecond * millisecond + t mod millisecond" by simp
  moreover have "0 \<le> t mod millisecond" "t mod millisecond < millisecond" by simp_all
  ultimately show ?thesis unfolding unix_milli_def of_unix_milli_def by linarith
qed

lemma time_sub_exact: "\<bar>a - b\<bar> < 2 ^ 63 \<Longrightarrow> time_sub a b = a - b"
  by (simp add: time_sub_def)

lemma time_sub_less: "time_sub a b < d \<Longrightarrow> d \<le> 2 ^ 63 - 1 \<Longrightarrow> a - b < d"
  by (auto simp: time_sub_def min_def max_def split: if_splits)

section \<open>Tables as lists of rows\<close>

definition delete_rows :: "('r \<Rightarrow> bool) \<Rightarrow> 'r list \<Rightarrow> 'r list" where
  "delete_rows P rows = filter (\<lambda>r. \<not> P r) rows"

definition update_rows :: "('r \<Rightarrow> bool) \<Rightarrow> ('r \<Rightarrow> 'r) \<Rightarrow> 'r list \<Rightarrow> 'r list" where
  "update_rows P f rows = map (\<lambda>r. if P r then f r else r) rows"

definition count_rows :: "('r \<Rightarrow> bool) \<Rightarrow> 'r list \<Rightarrow> nat" where
  "count_rows P rows = length (filter P rows)"

text \<open>\<open>QueryRow(...).Scan\<close>: the first row that matches, \<open>None\<close> for \<open>sql.ErrNoRows\<close>.\<close>

abbreviation query_row :: "('r \<Rightarrow> bool) \<Rightarrow> 'r list \<Rightarrow> 'r option" where
  "query_row P rows \<equiv> find P rows"

text \<open>INSERT into a table with a key: \<open>None\<close> when a row with that key exists (a constraint error).\<close>

definition insert_row :: "('r \<Rightarrow> 'k) \<Rightarrow> 'r \<Rightarrow> 'r list \<Rightarrow> 'r list option" where
  "insert_row key r rows = (if list_ex (\<lambda>x. key x = key r) rows then None else Some (rows @ [r]))"

text \<open>INSERT ... ON CONFLICT(key) DO UPDATE: \<open>merge old new\<close> is the row the update leaves.\<close>

definition upsert_row :: "('r \<Rightarrow> 'k) \<Rightarrow> ('r \<Rightarrow> 'r \<Rightarrow> 'r) \<Rightarrow> 'r \<Rightarrow> 'r list \<Rightarrow> 'r list" where
  "upsert_row key merge r rows =
     (if list_ex (\<lambda>x. key x = key r) rows
      then update_rows (\<lambda>x. key x = key r) (\<lambda>old. merge old r) rows
      else rows @ [r])"

text \<open>The primary key of a table is never shared by two rows.\<close>

definition keyed :: "('r \<Rightarrow> 'k) \<Rightarrow> 'r list \<Rightarrow> bool" where
  "keyed key rows \<longleftrightarrow> distinct (map key rows)"

lemma set_delete_rows [table_simps]: "set (delete_rows P rows) = {r \<in> set rows. \<not> P r}"
  by (simp add: delete_rows_def)

lemma set_update_rows [table_simps]:
  "set (update_rows P f rows) = (\<lambda>r. if P r then f r else r) ` set rows"
  by (simp add: update_rows_def)

lemma length_update_rows [simp]: "length (update_rows P f rows) = length rows"
  by (simp add: update_rows_def)

lemma update_rows_none: "\<forall>r\<in>set rows. \<not> P r \<Longrightarrow> update_rows P f rows = rows"
  by (simp add: update_rows_def map_idI)

lemma delete_rows_none: "\<forall>r\<in>set rows. \<not> P r \<Longrightarrow> delete_rows P rows = rows"
  by (simp add: delete_rows_def)

lemma keyed_Nil [simp]: "keyed key []"
  by (simp add: keyed_def)

lemma keyed_delete [intro, simp]: "keyed key rows \<Longrightarrow> keyed key (delete_rows P rows)"
  by (induction rows) (auto simp: keyed_def delete_rows_def)

lemma map_key_update: "(\<And>r. P r \<Longrightarrow> key (f r) = key r) \<Longrightarrow> map key (update_rows P f rows) = map key rows"
  by (simp add: update_rows_def)

lemma keyed_update:
  "keyed key rows \<Longrightarrow> (\<And>r. P r \<Longrightarrow> key (f r) = key r) \<Longrightarrow> keyed key (update_rows P f rows)"
  by (simp add: keyed_def map_key_update)

lemma image_update_key:
  "(\<And>r. P r \<Longrightarrow> key (f r) = key r) \<Longrightarrow> key ` set (update_rows P f rows) = key ` set rows"
  using map_key_update [of P key f rows] by (metis set_map)

lemma keyed_snoc [simp]: "keyed key (rows @ [r]) \<longleftrightarrow> keyed key rows \<and> key r \<notin> key ` set rows"
  by (auto simp: keyed_def)

lemma keyed_unique: "keyed key rows \<Longrightarrow> r \<in> set rows \<Longrightarrow> s \<in> set rows \<Longrightarrow> key r = key s \<Longrightarrow> r = s"
  by (metis keyed_def distinct_map inj_onD)

lemma list_ex_key [simp]: "list_ex (\<lambda>x. key x = k) rows \<longleftrightarrow> k \<in> key ` set rows"
  by (induction rows) auto

lemma query_row_None_key: "query_row (\<lambda>x. key x = k) rows = None \<longleftrightarrow> k \<notin> key ` set rows"
  by (auto simp: find_None_iff)

lemma keyed_insert: "insert_row key r rows = Some rows' \<Longrightarrow> keyed key rows \<Longrightarrow> keyed key rows'"
  by (auto simp: insert_row_def split: if_splits)

lemma insert_row_Some:
  "insert_row key r rows = Some rows' \<longleftrightarrow> rows' = rows @ [r] \<and> key r \<notin> key ` set rows"
  by (auto simp: insert_row_def)

lemma insert_row_None: "insert_row key r rows = None \<longleftrightarrow> key r \<in> key ` set rows"
  by (simp add: insert_row_def)

lemma keyed_upsert:
  assumes "keyed key rows" and "\<And>old. key (merge old r) = key old"
  shows "keyed key (upsert_row key merge r rows)"
  using assms by (auto simp: upsert_row_def intro!: keyed_update)

lemma query_row_SomeD: "query_row P rows = Some r \<Longrightarrow> r \<in> set rows \<and> P r"
  by (auto simp: find_Some_iff)

lemma query_row_keyed:
  assumes "keyed key rows" and "r \<in> set rows"
  shows "query_row (\<lambda>x. key x = key r) rows = Some r"
proof -
  have "query_row (\<lambda>x. key x = key r) rows \<noteq> None" using assms(2) by (auto simp: find_None_iff)
  then obtain s where s: "query_row (\<lambda>x. key x = key r) rows = Some s" by blast
  from query_row_SomeD [OF s] have "s \<in> set rows" and "key s = key r" by simp_all
  then have "s = r" using assms keyed_unique [of key rows s r] by simp
  with s show ?thesis by simp
qed

lemma query_row_append:
  "query_row P (xs @ ys) = (case query_row P xs of Some r \<Rightarrow> Some r | None \<Rightarrow> query_row P ys)"
  by (induction xs) auto

lemma query_row_delete_other:
  "(\<And>r. P r \<Longrightarrow> \<not> Q r) \<Longrightarrow> query_row P (delete_rows Q rows) = query_row P rows"
  by (induction rows) (auto simp: delete_rows_def)

lemma query_row_delete_same: "query_row P (delete_rows P rows) = None"
  by (auto simp: find_None_iff delete_rows_def)

lemma query_row_delete:
  assumes "keyed key rows"
  shows "query_row (\<lambda>r. key r = k) (delete_rows Q rows) =
    (case query_row (\<lambda>r. key r = k) rows of None \<Rightarrow> None | Some r \<Rightarrow> if Q r then None else Some r)"
  using assms
proof (induction rows)
  case (Cons a rows)
  then have "key x \<noteq> key a" if "x \<in> set rows" for x
    using that by (auto simp: keyed_def image_iff)
  then have "query_row (\<lambda>r. key r = key a) (delete_rows Q rows) = None"
    by (auto simp: find_None_iff delete_rows_def)
  with Cons show ?case by (auto simp: delete_rows_def keyed_def)
qed (simp add: delete_rows_def)

lemma query_row_update_key:
  assumes "\<And>r. Q r \<Longrightarrow> key (f r) = key r"
  shows "query_row (\<lambda>x. key x = k) (update_rows Q f rows)
       = map_option (\<lambda>r. if Q r then f r else r) (query_row (\<lambda>x. key x = k) rows)"
  using assms by (induction rows) (auto simp: update_rows_def)

lemma query_row_upsert_same:
  assumes "\<And>old. key (merge old r) = key old"
  shows "query_row (\<lambda>x. key x = key r) (upsert_row key merge r rows)
       = Some (case query_row (\<lambda>x. key x = key r) rows of None \<Rightarrow> r | Some old \<Rightarrow> merge old r)"
proof (cases "query_row (\<lambda>x. key x = key r) rows")
  case None
  then have "key r \<notin> key ` set rows" by (auto simp: find_None_iff)
  with None show ?thesis by (simp add: upsert_row_def query_row_append)
next
  case (Some old)
  from query_row_SomeD [OF Some] have "old \<in> set rows" and old: "key old = key r" by simp_all
  then have "key r \<in> key ` set rows" by (metis imageI)
  with Some old show ?thesis
    by (simp add: upsert_row_def query_row_update_key [where key = key] assms)
qed

lemma query_row_upsert_other:
  assumes "\<And>old. key (merge old r) = key old" and "k \<noteq> key r"
  shows "query_row (\<lambda>x. key x = k) (upsert_row key merge r rows) = query_row (\<lambda>x. key x = k) rows"
proof -
  have "map_option (\<lambda>x. if key x = key r then merge x r else x) (query_row (\<lambda>x. key x = k) rows)
      = query_row (\<lambda>x. key x = k) rows"
    using assms(2) by (cases "query_row (\<lambda>x. key x = k) rows") (auto dest: query_row_SomeD)
  then show ?thesis
    using assms by (auto simp: upsert_row_def query_row_update_key [where key = key] query_row_append
        split: option.splits)
qed

lemma count_rows_zero: "count_rows P rows = 0 \<longleftrightarrow> (\<forall>r\<in>set rows. \<not> P r)"
  by (auto simp: count_rows_def filter_empty_conv)

lemma count_rows_append [simp]: "count_rows P (xs @ ys) = count_rows P xs + count_rows P ys"
  by (simp add: count_rows_def)

lemma sum_count_rows: "(\<Sum>r\<leftarrow>rows. n * of_bool (P r)) = n * count_rows P rows"
  by (induction rows) (simp_all add: count_rows_def)

lemma count_rows_keyed_le:
  assumes "keyed key rows" and "\<And>r. P r \<Longrightarrow> key r = k"
  shows "count_rows P rows \<le> 1"
proof -
  have "keyed key (filter P rows)" using assms(1) by (induction rows) (auto simp: keyed_def)
  moreover have "\<forall>r\<in>set (filter P rows). key r = k" using assms(2) by auto
  ultimately show ?thesis
    unfolding count_rows_def keyed_def by (cases "filter P rows" rule: remdups_adj.cases) auto
qed

section \<open>Distinct values in order, and maxima\<close>

text \<open>The loop that appends a value unless a map has seen it.\<close>

fun unique_from :: "'a list \<Rightarrow> 'a list \<Rightarrow> 'a list" where
  "unique_from seen [] = []"
| "unique_from seen (v # vs) =
     (if v \<in> set seen then unique_from seen vs else v # unique_from (v # seen) vs)"

lemma set_unique_from [simp]: "set (unique_from seen vs) = set vs - set seen"
  by (induction seen vs rule: unique_from.induct) auto

lemma distinct_unique_from [simp]: "distinct (unique_from seen vs)"
  by (induction seen vs rule: unique_from.induct) auto

lemma unique_from_distinct: "distinct vs \<Longrightarrow> set vs \<inter> set seen = {} \<Longrightarrow> unique_from seen vs = vs"
  by (induction seen vs rule: unique_from.induct) auto

text \<open>SQL's MAX: \<open>None\<close> (NULL) on no rows.\<close>

definition sql_max :: "int list \<Rightarrow> int option" where
  "sql_max xs = (case xs of [] \<Rightarrow> None | y # ys \<Rightarrow> Some (fold max ys y))"

lemma fold_max_ge: "(y::int) \<le> fold max ys y \<and> (\<forall>x\<in>set ys. x \<le> fold max ys y)"
  by (induction ys arbitrary: y) (force simp: max_def split: if_splits)+

lemma fold_max_in: "fold max ys (y::int) \<in> insert y (set ys)"
  by (induction ys arbitrary: y) (auto simp: max_def split: if_splits)

lemma sql_max_None [simp]: "sql_max xs = None \<longleftrightarrow> xs = []"
  by (auto simp: sql_max_def split: list.splits)

lemma sql_max_Nil [simp]: "sql_max [] = None"
  by simp

lemma sql_max_Some: "sql_max xs = Some m \<Longrightarrow> m \<in> set xs \<and> (\<forall>x\<in>set xs. x \<le> m)"
  using fold_max_ge fold_max_in by (fastforce simp: sql_max_def split: list.splits)

section \<open>Transactions\<close>

text \<open>
  An operation of the store maps the database to a result and the database it leaves: \<open>Inl\<close> is the
  error the Go method returns. Any database call can fail for a reason outside the program (I/O, a
  cancelled context, a full disk); its transaction is then rolled back and the caller sees an
  error. \<open>db_call True\<close> is such a failing call.
\<close>

definition db_call :: "'e \<Rightarrow> bool \<Rightarrow> ('d \<Rightarrow> ('e + 'a) \<times> 'd) \<Rightarrow> 'd \<Rightarrow> ('e + 'a) \<times> 'd" where
  "db_call e fault run_op db = (if fault then (Inl e, db) else run_op db)"

lemma db_call_fault [simp]: "db_call e True run_op db = (Inl e, db)"
  by (simp add: db_call_def)

lemma db_call_ok [simp]: "db_call e False run_op db = run_op db"
  by (simp add: db_call_def)

end
