(* ===== verification/GoText.thy ===== *)
theory GoText
  imports Prelude
begin

text \<open>
  Go strings and byte slices are lists of bytes (\<open>string\<close>, one \<open>char\<close> per byte). This theory holds
  the parts of the standard library the gateway uses on them: UTF-8 decoding as \<open>[]rune(s)\<close> does
  it, \<open>strings.TrimSpace\<close>, \<open>Fields\<close>, \<open>Split\<close>, \<open>HasPrefix\<close>, \<open>encoding/hex\<close>, \<open>strconv.ParseInt\<close>
  and the regular expressions of the source as predicates.
\<close>

section \<open>Bytes\<close>

abbreviation byte :: "char \<Rightarrow> nat" where "byte c \<equiv> of_char c"

definition is_digit :: "char \<Rightarrow> bool" where
  "is_digit c \<longleftrightarrow> 48 \<le> byte c \<and> byte c \<le> 57"

definition is_upper :: "char \<Rightarrow> bool" where
  "is_upper c \<longleftrightarrow> 65 \<le> byte c \<and> byte c \<le> 90"

definition is_lower :: "char \<Rightarrow> bool" where
  "is_lower c \<longleftrightarrow> 97 \<le> byte c \<and> byte c \<le> 122"

definition is_alnum :: "char \<Rightarrow> bool" where
  "is_alnum c \<longleftrightarrow> is_upper c \<or> is_lower c \<or> is_digit c"

definition ascii_lower :: "char \<Rightarrow> char" where
  "ascii_lower c = (if is_upper c then char_of (byte c + 32) else c)"

text \<open>The class \<open>[A-Za-z0-9._:-]\<close> of the identifier patterns.\<close>

definition is_ident_char :: "char \<Rightarrow> bool" where
  "is_ident_char c \<longleftrightarrow> is_alnum c \<or> c \<in> set ''._:-''"

lemmas byte_class_defs = is_digit_def is_upper_def is_lower_def is_alnum_def is_ident_char_def

section \<open>Substrings\<close>

definition has_prefix :: "string \<Rightarrow> string \<Rightarrow> bool" where
  "has_prefix p s \<longleftrightarrow> take (length p) s = p"

definition trim_prefix :: "string \<Rightarrow> string \<Rightarrow> string" where
  "trim_prefix p s = (if has_prefix p s then drop (length p) s else s)"

definition trim_suffix :: "string \<Rightarrow> string \<Rightarrow> string" where
  "trim_suffix p s = (if has_prefix (rev p) (rev s) then take (length s - length p) s else s)"

text \<open>SQLite's \<open>instr(s, p) > 0\<close>.\<close>

fun contains_sub :: "string \<Rightarrow> string \<Rightarrow> bool" where
  "contains_sub p [] = (p = [])"
| "contains_sub p (c # s) = (has_prefix p (c # s) \<or> contains_sub p s)"

text \<open>
  SQLite's \<open>s LIKE 'p%'\<close> with a pattern free of other wildcards: ASCII letters compare without
  regard to case.
\<close>

definition like_prefix :: "string \<Rightarrow> string \<Rightarrow> bool" where
  "like_prefix p s \<longleftrightarrow> map ascii_lower (take (length p) s) = map ascii_lower p"

fun split_on :: "char \<Rightarrow> string \<Rightarrow> string list" where
  "split_on d [] = [ [] ]"
| "split_on d (c # s) =
     (if c = d then [] # split_on d s
      else (case split_on d s of [] \<Rightarrow> [ [c] ] | w # ws \<Rightarrow> (c # w) # ws))"

text \<open>\<open>strings.SplitN(s, d, 2)\<close>: the text before and after the first separator, if there is one.\<close>

fun split_two :: "char \<Rightarrow> string \<Rightarrow> (string \<times> string) option" where
  "split_two d [] = None"
| "split_two d (c # s) =
     (if c = d then Some ([], s) else map_option (\<lambda>(a, b). (c # a, b)) (split_two d s))"

fun join_with :: "string \<Rightarrow> string list \<Rightarrow> string" where
  "join_with sep [] = []"
| "join_with sep [w] = w"
| "join_with sep (w # v # ws) = w @ sep @ join_with sep (v # ws)"

lemma has_prefix_append [simp]: "has_prefix p (p @ s)"
  by (simp add: has_prefix_def)

lemma has_prefix_iff: "has_prefix p s \<longleftrightarrow> (\<exists>r. s = p @ r)"
  by (metis append_take_drop_id has_prefix_append has_prefix_def)

lemma trim_prefix_append [simp]: "trim_prefix p (p @ s) = s"
  by (simp add: trim_prefix_def)

lemma like_prefix_append [simp]: "like_prefix p (p @ s)"
  by (simp add: like_prefix_def)

lemma has_prefix_like: "has_prefix p s \<Longrightarrow> like_prefix p s"
  by (auto simp: has_prefix_iff)

lemma contains_sub_iff: "contains_sub p s \<longleftrightarrow> (\<exists>a b. s = a @ p @ b)"
proof (induction s)
  case Nil
  then show ?case by auto
next
  case (Cons c s)
  show ?case
  proof
    assume "contains_sub p (c # s)"
    then consider "has_prefix p (c # s)" | "contains_sub p s" by auto
    then show "\<exists>a b. c # s = a @ p @ b"
    proof cases
      case 1
      then obtain r where "c # s = [] @ p @ r" by (auto simp: has_prefix_iff)
      then show ?thesis by blast
    next
      case 2
      then obtain a b where "c # s = (c # a) @ p @ b" using Cons.IH by auto
      then show ?thesis by blast
    qed
  next
    assume "\<exists>a b. c # s = a @ p @ b"
    then obtain a b where ab: "c # s = a @ p @ b" by blast
    show "contains_sub p (c # s)"
    proof (cases a)
      case Nil
      with ab have "has_prefix p (c # s)" by simp
      then show ?thesis by simp
    next
      case (Cons x a')
      with ab have "s = a' @ p @ b" by simp
      then show ?thesis using Cons.IH by auto
    qed
  qed
qed

lemma split_two_Some: "split_two d s = Some (a, b) \<longleftrightarrow> s = a @ d # b \<and> d \<notin> set a"
proof (induction s arbitrary: a)
  case Nil
  then show ?case by simp
next
  case (Cons c s)
  then show ?case by (cases a) auto
qed

lemma split_on_nonempty [simp]: "split_on d s \<noteq> []"
  by (induction s) (auto split: list.splits)

lemma join_split [simp]: "join_with [d] (split_on d s) = s"
proof (induction s)
  case Nil
  then show ?case by simp
next
  case (Cons c s)
  then show ?case
    by (cases "split_on d s" rule: remdups_adj.cases) auto
qed

section \<open>UTF-8 and white space\<close>

definition in_range :: "nat \<Rightarrow> nat \<Rightarrow> char \<Rightarrow> bool" where
  "in_range lo hi c \<longleftrightarrow> lo \<le> byte c \<and> byte c \<le> hi"

text \<open>
  The width of the first rune as \<open>utf8.DecodeRune\<close> takes it; an invalid or truncated sequence is one
  byte (\<open>RuneError\<close>). The range of the second byte depends on the first.
\<close>

definition second_ok :: "nat \<Rightarrow> char \<Rightarrow> bool" where
  "second_ok x d =
     (if x = 224 then in_range 160 191 d
      else if x = 237 then in_range 128 159 d
      else if x = 240 then in_range 144 191 d
      else if x = 244 then in_range 128 143 d
      else in_range 128 191 d)"

definition rune_width :: "string \<Rightarrow> nat" where
  "rune_width s =
     (case s of [] \<Rightarrow> 0
      | c # cs \<Rightarrow>
        (let x = byte c in
         if 194 \<le> x \<and> x \<le> 223 then
           (case cs of d # _ \<Rightarrow> if second_ok x d then 2 else 1 | _ \<Rightarrow> 1)
         else if 224 \<le> x \<and> x \<le> 239 then
           (case cs of d # e # _ \<Rightarrow> if second_ok x d \<and> in_range 128 191 e then 3 else 1 | _ \<Rightarrow> 1)
         else if 240 \<le> x \<and> x \<le> 244 then
           (case cs of d # e # f # _ \<Rightarrow>
              if second_ok x d \<and> in_range 128 191 e \<and> in_range 128 191 f then 4 else 1 | _ \<Rightarrow> 1)
         else 1))"

text \<open>The string cut into the byte sequences of its runes.\<close>

fun runes :: "string \<Rightarrow> string list" where
  "runes [] = []"
| "runes (c # cs) =
     (let n = rune_width (c # cs) in (c # take (n - 1) cs) # runes (drop (n - 1) cs))"

definition rune_count :: "string \<Rightarrow> nat" where
  "rune_count s = length (runes s)"

text \<open>\<open>unicode.IsSpace\<close>, on the encodings of the white-space code points.\<close>

definition space_rune :: "string \<Rightarrow> bool" where
  "space_rune r \<longleftrightarrow>
     (let v = map byte r in
      v \<in> {[9], [10], [11], [12], [13], [32], [194, 133], [194, 160], [225, 154, 128],
           [226, 128, 168], [226, 128, 169], [226, 128, 175], [226, 129, 159], [227, 128, 128]}
      \<or> (length v = 3 \<and> v ! 0 = 226 \<and> v ! 1 = 128 \<and> 128 \<le> v ! 2 \<and> v ! 2 \<le> 138))"

text \<open>
  \<open>strings.TrimSpace\<close>. UTF-8 is self-synchronising, so cutting the string into runes from the front
  finds the same trailing white space as \<open>DecodeLastRune\<close> does from the back.
\<close>

definition trim_space :: "string \<Rightarrow> string" where
  "trim_space s = concat (rev (dropWhile space_rune (rev (dropWhile space_rune (runes s)))))"

text \<open>\<open>strings.Fields\<close>: the maximal runs of non-space runes.\<close>

fun str_fields_of :: "string list \<Rightarrow> string \<Rightarrow> string list" where
  "str_fields_of [] acc = (if acc = [] then [] else [acc])"
| "str_fields_of (r # rs) acc =
     (if space_rune r then (if acc = [] then str_fields_of rs [] else acc # str_fields_of rs [])
      else str_fields_of rs (acc @ r))"

definition str_fields :: "string \<Rightarrow> string list" where
  "str_fields s = str_fields_of (runes s) []"

definition has_line_break :: "string \<Rightarrow> bool" where
  "has_line_break s \<longleftrightarrow> (\<exists>c\<in>set s. byte c = 10 \<or> byte c = 13)"

lemma concat_runes [simp]: "concat (runes s) = s"
  by (induction s rule: runes.induct) (simp_all add: Let_def)

lemma rune_count_le: "rune_count s \<le> length s"
proof (induction s rule: runes.induct)
  case 1
  then show ?case by (simp add: rune_count_def)
next
  case (2 c cs)
  then show ?case by (simp add: rune_count_def Let_def)
qed

lemma rune_count_0 [simp]: "rune_count s = 0 \<longleftrightarrow> s = []"
  by (cases s) (simp_all add: rune_count_def Let_def)

lemma runes_ascii: "\<forall>c\<in>set s. byte c < 128 \<Longrightarrow> runes s = map (\<lambda>c. [c]) s"
  by (induction s) (auto simp: rune_width_def)

lemma rune_count_ascii: "\<forall>c\<in>set s. byte c < 128 \<Longrightarrow> rune_count s = length s"
  by (simp add: rune_count_def runes_ascii)

lemma trim_space_Nil [simp]: "trim_space [] = []"
  by (simp add: trim_space_def)

lemma set_trim_space: "set (trim_space s) \<subseteq> set s"
proof -
  have "set (rev (dropWhile space_rune (rev (dropWhile space_rune (runes s))))) \<subseteq> set (runes s)"
    by (auto dest!: set_dropWhileD)
  then have "set (trim_space s) \<subseteq> set (concat (runes s))"
    unfolding trim_space_def set_concat by blast
  then show ?thesis by simp
qed

text \<open>Printable bytes other than the space separate nothing.\<close>

definition is_graphic :: "char \<Rightarrow> bool" where
  "is_graphic c \<longleftrightarrow> 33 \<le> byte c \<and> byte c < 127"

lemma graphic_no_space: "is_graphic c \<Longrightarrow> \<not> space_rune [c]"
  by (auto simp: is_graphic_def space_rune_def)

lemma str_fields_of_graphic:
  "\<forall>c\<in>set s. is_graphic c \<Longrightarrow> str_fields_of (map (\<lambda>c. [c]) s @ rs) acc = str_fields_of rs (acc @ s)"
  by (induction s arbitrary: acc) (simp_all add: graphic_no_space)

lemma str_fields_two:
  assumes "\<forall>c\<in>set s. is_graphic c" and "\<forall>c\<in>set t. is_graphic c" and "s \<noteq> []" and "t \<noteq> []"
  shows "str_fields (s @ CHR '' '' # t) = [s, t]"
proof -
  have "\<forall>c\<in>set (s @ CHR '' '' # t). byte c < 128" using assms(1,2) by (auto simp: is_graphic_def)
  then have "runes (s @ CHR '' '' # t) = map (\<lambda>c. [c]) s @ [CHR '' ''] # map (\<lambda>c. [c]) t"
    using runes_ascii [of "s @ CHR '' '' # t"] by simp
  then have "str_fields (s @ CHR '' '' # t) = str_fields_of ([CHR '' ''] # map (\<lambda>c. [c]) t) s"
    using str_fields_of_graphic [OF assms(1), of "[CHR '' ''] # map (\<lambda>c. [c]) t" "[]"]
    by (simp add: str_fields_def)
  also have "\<dots> = s # str_fields_of (map (\<lambda>c. [c]) t @ []) []"
    using assms(3) by (simp add: space_rune_def)
  also have "\<dots> = [s, t]"
    using str_fields_of_graphic [OF assms(2), of "[]" "[]"] assms(4) by simp
  finally show ?thesis .
qed

section \<open>Hexadecimal\<close>

definition hex_digit :: "nat \<Rightarrow> char" where
  "hex_digit n = (if n < 10 then char_of (48 + n) else char_of (87 + n))"

fun hex_encode :: "string \<Rightarrow> string" where
  "hex_encode [] = []"
| "hex_encode (c # cs) = hex_digit (byte c div 16) # hex_digit (byte c mod 16) # hex_encode cs"

definition hex_value :: "char \<Rightarrow> nat option" where
  "hex_value c =
     (if is_digit c then Some (byte c - 48)
      else if 97 \<le> byte c \<and> byte c \<le> 102 then Some (byte c - 87)
      else if 65 \<le> byte c \<and> byte c \<le> 70 then Some (byte c - 55)
      else None)"

text \<open>\<open>hex.DecodeString\<close>: \<open>None\<close> for a bad digit or an odd length.\<close>

fun hex_decode :: "string \<Rightarrow> string option" where
  "hex_decode [] = Some []"
| "hex_decode [c] = None"
| "hex_decode (c # d # cs) =
     (case (hex_value c, hex_value d) of
        (Some h, Some l) \<Rightarrow> map_option (\<lambda>bs. char_of (16 * h + l) # bs) (hex_decode cs)
      | _ \<Rightarrow> None)"

lemma hex_value_digit: "n < 16 \<Longrightarrow> hex_value (hex_digit n) = Some n"
  by (simp add: hex_value_def hex_digit_def is_digit_def of_char_of)

lemma hex_decode_encode [simp]: "hex_decode (hex_encode bs) = Some bs"
proof (induction bs)
  case Nil
  then show ?case by simp
next
  case (Cons c bs)
  have "byte c < 16 * 16" by simp
  then have "byte c div 16 < 16" and "byte c mod 16 < 16" by (simp_all add: less_mult_imp_div_less)
  moreover have "16 * (byte c div 16) + byte c mod 16 = byte c" by simp
  ultimately show ?case using Cons.IH by (simp add: hex_value_digit char_of_char)
qed

lemma length_hex_encode [simp]: "length (hex_encode bs) = 2 * length bs"
  by (induction bs) simp_all

lemma hex_decode_length: "hex_decode s = Some bs \<Longrightarrow> length s = 2 * length bs"
  by (induction s arbitrary: bs rule: hex_decode.induct) (auto split: option.splits)

lemma hex_digit_alnum: "n < 16 \<Longrightarrow> is_alnum (hex_digit n)"
  by (simp add: hex_digit_def byte_class_defs of_char_of)

lemma hex_encode_alnum: "c \<in> set (hex_encode bs) \<Longrightarrow> is_alnum c"
proof (induction bs)
  case (Cons b bs)
  have "byte b < 16 * 16" by simp
  then have "byte b div 16 < 16" and "byte b mod 16 < 16" by (simp_all add: less_mult_imp_div_less)
  then show ?case using Cons hex_digit_alnum by auto
qed simp

section \<open>Decimal integers\<close>

fun digits_value :: "nat \<Rightarrow> string \<Rightarrow> nat option" where
  "digits_value acc [] = Some acc"
| "digits_value acc (c # cs) =
     (if is_digit c then digits_value (10 * acc + (byte c - 48)) cs else None)"

definition parse_nat :: "string \<Rightarrow> nat option" where
  "parse_nat s = (if s = [] then None else digits_value 0 s)"

text \<open>\<open>strconv.ParseInt(s, 10, 64)\<close>: an optional sign, digits, and the range of \<open>int64\<close>.\<close>

definition parse_int64 :: "string \<Rightarrow> int option" where
  "parse_int64 s =
     (let (neg, digits) =
        (case s of [] \<Rightarrow> (False, []) | c # cs \<Rightarrow>
           if c = CHR ''-'' then (True, cs) else if c = CHR ''+'' then (False, cs) else (False, s))
      in case parse_nat digits of
           None \<Rightarrow> None
         | Some n \<Rightarrow>
             if neg then (if int n \<le> 2 ^ 63 then Some (- int n) else None)
             else (if int n < 2 ^ 63 then Some (int n) else None))"

lemma parse_int64_range: "parse_int64 s = Some n \<Longrightarrow> - (2 ^ 63) \<le> n \<and> n < 2 ^ 63"
  by (auto simp: parse_int64_def Let_def split: prod.splits option.splits if_splits)

text \<open>\<open>fmt.Sprint\<close> and \<open>strconv.FormatInt(n, 10)\<close>.\<close>

fun show_nat :: "nat \<Rightarrow> string" where
  "show_nat n = (if n < 10 then [char_of (n + 48)] else show_nat (n div 10) @ [char_of (n mod 10 + 48)])"

declare show_nat.simps [simp del]

definition show_int :: "int \<Rightarrow> string" where
  "show_int i = (if i < 0 then CHR ''-'' # show_nat (nat (- i)) else show_nat (nat i))"

lemma digit_char: "n < 10 \<Longrightarrow> is_digit (char_of (n + 48)) \<and> byte (char_of (n + 48)) - 48 = n"
  by (simp add: is_digit_def of_char_of)

lemma digits_value_append:
  "digits_value acc (xs @ ys) = (case digits_value acc xs of None \<Rightarrow> None | Some v \<Rightarrow> digits_value v ys)"
  by (induction acc xs rule: digits_value.induct) auto

lemma digits_value_show [simp]: "digits_value 0 (show_nat n) = Some n"
proof (induction n rule: show_nat.induct)
  case (1 n)
  show ?case
  proof (cases "n < 10")
    case True
    then show ?thesis using digit_char [of n] by (subst show_nat.simps) simp
  next
    case False
    have "n mod 10 < 10" by simp
    from digit_char [OF this] show ?thesis
      using False 1 by (subst show_nat.simps) (simp add: digits_value_append)
  qed
qed

lemma show_nat_digits: "c \<in> set (show_nat n) \<Longrightarrow> is_digit c"
proof (induction n rule: show_nat.induct)
  case (1 n)
  have "n mod 10 < 10" by simp
  from digit_char [OF this] digit_char [of n] 1 show ?case
    by (subst (asm) (2) show_nat.simps) (auto split: if_splits)
qed

lemma show_nat_nonempty [simp]: "show_nat n \<noteq> []"
  by (subst show_nat.simps) simp

lemma parse_int64_show:
  assumes "- (2 ^ 63) \<le> i" and "i < 2 ^ 63"
  shows "parse_int64 (show_int i) = Some i"
proof -
  have nat: "parse_nat (show_nat n) = Some n" for n by (simp add: parse_nat_def)
  show ?thesis
  proof (cases "i < 0")
    case True
    then show ?thesis using assms nat [of "nat (- i)"] by (simp add: parse_int64_def show_int_def Let_def)
  next
    case False
    obtain c cs where s: "show_nat (nat i) = c # cs" by (cases "show_nat (nat i)") auto
    then have "is_digit c" using show_nat_digits [of c "nat i"] by simp
    then have "c \<noteq> CHR ''-''" "c \<noteq> CHR ''+''" by (auto simp: is_digit_def)
    then show ?thesis using False assms nat [of "nat i"] s by (simp add: parse_int64_def show_int_def Let_def)
  qed
qed

section \<open>Patterns of the source\<close>

text \<open>\<open>^[A-Za-z0-9][A-Za-z0-9._:-]*$\<close>\<close>

definition matches_identifier :: "string \<Rightarrow> bool" where
  "matches_identifier s = (case s of [] \<Rightarrow> False | c # cs \<Rightarrow> is_alnum c \<and> list_all is_ident_char cs)"

text \<open>\<open>^[A-Za-z0-9_-]{8,128}$\<close>\<close>

definition matches_nonce :: "string \<Rightarrow> bool" where
  "matches_nonce s \<longleftrightarrow>
     list_all (\<lambda>c. is_alnum c \<or> c = CHR ''_'' \<or> c = CHR ''-'') s \<and> 8 \<le> length s \<and> length s \<le> 128"

lemma matches_identifier_ascii: "matches_identifier s \<Longrightarrow> c \<in> set s \<Longrightarrow> is_ident_char c"
  by (cases s) (auto simp: matches_identifier_def is_ident_char_def list_all_iff)

lemma ascii_lower_alnum: "is_alnum c \<Longrightarrow> ascii_lower c \<noteq> CHR ''@''"
proof
  assume c: "is_alnum c" and eq: "ascii_lower c = CHR ''@''"
  from eq have "byte (ascii_lower c) = 64" by simp
  with c show False by (auto simp: ascii_lower_def byte_class_defs of_char_of split: if_splits)
qed

lemma identifier_not_at: "matches_identifier s \<Longrightarrow> \<not> like_prefix (CHR ''@'' # p) s"
  using ascii_lower_alnum
  by (cases s) (auto simp: matches_identifier_def like_prefix_def ascii_lower_def [of "CHR ''@''"]
      is_upper_def)

lemma identifier_no_comma: "matches_identifier s \<Longrightarrow> CHR '','' \<notin> set s"
  using matches_identifier_ascii [of s "CHR '',''"] by (auto simp: byte_class_defs)

end
