(* ===== verification/Sha256.thy ===== *)
theory Sha256
  imports GoText "HOL-Library.Word"
begin

text \<open>
  \<open>crypto/sha256\<close> and \<open>crypto/hmac\<close> as the gateway uses them: SHA-256 (FIPS 180-4) over byte strings
  and HMAC-SHA-256 (RFC 2104). A byte string is a \<open>string\<close>; words are 32 bits wide and wrap around.
\<close>

unbundle bit_operations_syntax

type_synonym word32 = "32 word"

section \<open>The compression function\<close>

text \<open>The constants of the standard, written in decimal.\<close>

definition round_constants :: "word32 list" where
  "round_constants =
    [1116352408, 1899447441, 3049323471, 3921009573, 961987163, 1508970993,
     2453635748, 2870763221, 3624381080, 310598401, 607225278, 1426881987,
     1925078388, 2162078206, 2614888103, 3248222580, 3835390401, 4022224774,
     264347078, 604807628, 770255983, 1249150122, 1555081692, 1996064986,
     2554220882, 2821834349, 2952996808, 3210313671, 3336571891, 3584528711,
     113926993, 338241895, 666307205, 773529912, 1294757372, 1396182291,
     1695183700, 1986661051, 2177026350, 2456956037, 2730485921, 2820302411,
     3259730800, 3345764771, 3516065817, 3600352804, 4094571909, 275423344,
     430227734, 506948616, 659060556, 883997877, 958139571, 1322822218,
     1537002063, 1747873779, 1955562222, 2024104815, 2227730452, 2361852424,
     2428436474, 2756734187, 3204031479, 3329325298]"

definition initial_hash :: "word32 list" where
  "initial_hash =
    [1779033703, 3144134277, 1013904242, 2773480762, 1359893119, 2600822924,
     528734635, 1541459225]"

definition small_sigma0 :: "word32 \<Rightarrow> word32" where
  "small_sigma0 x = word_rotr 7 x XOR word_rotr 18 x XOR drop_bit 3 x"

definition small_sigma1 :: "word32 \<Rightarrow> word32" where
  "small_sigma1 x = word_rotr 17 x XOR word_rotr 19 x XOR drop_bit 10 x"

definition big_sigma0 :: "word32 \<Rightarrow> word32" where
  "big_sigma0 x = word_rotr 2 x XOR word_rotr 13 x XOR word_rotr 22 x"

definition big_sigma1 :: "word32 \<Rightarrow> word32" where
  "big_sigma1 x = word_rotr 6 x XOR word_rotr 11 x XOR word_rotr 25 x"

text \<open>The message schedule: \<open>ws\<close> holds the sixteen words before the next one, oldest first.\<close>

fun schedule :: "nat \<Rightarrow> word32 list \<Rightarrow> word32 list" where
  "schedule 0 ws = []"
| "schedule (Suc n) ws =
     ws ! 0 # schedule n (tl ws @ [small_sigma1 (ws ! 14) + ws ! 9 + small_sigma0 (ws ! 1) + ws ! 0])"

fun compress_round :: "word32 list \<Rightarrow> word32 \<times> word32 \<Rightarrow> word32 list" where
  "compress_round [a, b, c, d, e, f, g, h] (k, w) =
     (let t1 = h + big_sigma1 e + ((e AND f) XOR (NOT e AND g)) + k + w;
          t2 = big_sigma0 a + ((a AND b) XOR (a AND c) XOR (b AND c))
      in [t1 + t2, a, b, c, d + t1, e, f, g])"
| "compress_round st kw = st"

definition compress :: "word32 list \<Rightarrow> word32 list \<Rightarrow> word32 list" where
  "compress h block =
     map2 (+) h (foldl compress_round h (zip round_constants (schedule 64 block)))"

section \<open>Bytes and blocks\<close>

definition word_of_bytes :: "string \<Rightarrow> word32" where
  "word_of_bytes bs = foldl (\<lambda>acc b. 256 * acc + of_char b) 0 bs"

fun chunks :: "nat \<Rightarrow> nat \<Rightarrow> 'a list \<Rightarrow> 'a list list" where
  "chunks 0 n xs = []"
| "chunks (Suc count) n xs = take n xs # chunks count n (drop n xs)"

definition block_words :: "string \<Rightarrow> word32 list" where
  "block_words bs = map word_of_bytes (chunks 16 4 bs)"

text \<open>Big-endian bytes of a number, \<open>n\<close> of them.\<close>

definition big_endian :: "nat \<Rightarrow> int \<Rightarrow> string" where
  "big_endian n v = map (\<lambda>i. char_of (v div 256 ^ i)) (rev [0..<n])"

definition pad :: "string \<Rightarrow> string" where
  "pad msg =
     msg @ char_of (128::int) # replicate ((119 - length msg mod 64) mod 64) (char_of (0::int))
       @ big_endian 8 (8 * int (length msg) mod 2 ^ 64)"

definition sha256 :: "string \<Rightarrow> string" where
  "sha256 msg =
     (let padded = pad msg
      in concat (map (\<lambda>w. big_endian 4 (uint w))
           (foldl compress initial_hash (map block_words (chunks (length padded div 64) 64 padded)))))"

section \<open>HMAC\<close>

definition xor_bytes :: "int \<Rightarrow> string \<Rightarrow> string" where
  "xor_bytes m bs = map (\<lambda>b. char_of (of_char b XOR m)) bs"

definition hmac_sha256 :: "string \<Rightarrow> string \<Rightarrow> string" where
  "hmac_sha256 key msg =
     (let k0 = (if 64 < length key then sha256 key else key);
          k = k0 @ replicate (64 - length k0) (char_of (0::int))
      in sha256 (xor_bytes 92 k @ sha256 (xor_bytes 54 k @ msg)))"

section \<open>Sizes\<close>

lemma length_pad: "length (pad msg) mod 64 = 0"
proof -
  have "(n + 1 + (119 - n mod 64) mod 64 + 8) mod 64 = 0" for n :: nat
  proof -
    obtain q r where qr: "n div 64 = q" "n mod 64 = r" by blast
    have n: "n = 64 * q + r" using qr by (simp flip: qr)
    have r: "r < 64" using qr by auto
    show ?thesis
    proof (cases "r \<le> 55")
      case True
      then obtain k where k: "55 = r + k" by (intro that [of "55 - r"]) simp
      then have "119 - r = k + 64" by simp
      then have "n + 1 + (119 - r) mod 64 + 8 = 64 * (q + 1)" using k n by simp
      then show ?thesis unfolding qr(2) by (simp only: mod_mult_self1_is_0)
    next
      case False
      obtain k where k: "63 = r + k" using r by (intro that [of "63 - r"]) simp
      then have "119 - r = 56 + k" "56 + k < 64" using False by linarith+
      then have "n + 1 + (119 - r) mod 64 + 8 = 64 * (q + 2)" using k n by simp
      then show ?thesis unfolding qr(2) by (simp only: mod_mult_self1_is_0)
    qed
  qed
  from this [of "length msg"] show ?thesis by (simp add: pad_def big_endian_def add_ac)
qed

lemma length_compress_round: "length (compress_round st kw) = length st"
  by (induction st kw rule: compress_round.induct) (simp_all add: Let_def)

lemma length_compress: "length (compress h block) = length h"
proof -
  have "length (foldl compress_round h kws) = length h" for kws
    by (induction kws arbitrary: h) (simp_all add: length_compress_round)
  then show ?thesis by (simp add: compress_def)
qed

lemma length_sha256 [simp]: "length (sha256 msg) = 32"
proof -
  have hash: "length (foldl compress h blocks) = length h" for h blocks
    by (induction blocks arbitrary: h) (simp_all add: length_compress)
  have "length (concat (map (\<lambda>w. big_endian 4 (uint w)) ws)) = 4 * length ws" for ws :: "word32 list"
    by (induction ws) (simp_all add: big_endian_def)
  then show ?thesis by (simp add: sha256_def Let_def hash initial_hash_def)
qed

lemma length_hmac_sha256 [simp]: "length (hmac_sha256 key msg) = 32"
  by (simp add: hmac_sha256_def Let_def)

end
