(* ===== verification/Domain.thy ===== *)
theory Domain
  imports GoText
begin

text \<open>
  \<open>internal/domain/event.go\<close>: the event and its validation. \<open>Status\<close> and \<open>Severity\<close> are string types
  in the source, so any text can stand there until \<open>Validate\<close> has run. \<open>Labels\<close>, a Go map, is the
  list of its entries in the order this run iterates over them (keys are distinct). \<open>url.Parse\<close> is an
  argument of the definitions: the proofs hold for every parser.
\<close>

section \<open>The event\<close>

abbreviation StatusFiring :: string where "StatusFiring \<equiv> ''firing''"
abbreviation StatusResolved :: string where "StatusResolved \<equiv> ''resolved''"
abbreviation StatusInfo :: string where "StatusInfo \<equiv> ''info''"
abbreviation StatusTest :: string where "StatusTest \<equiv> ''test''"
abbreviation SeverityCritical :: string where "SeverityCritical \<equiv> ''critical''"
abbreviation SeverityWarning :: string where "SeverityWarning \<equiv> ''warning''"
abbreviation SeverityInfo :: string where "SeverityInfo \<equiv> ''info''"

type_synonym labels = "(string \<times> string) list"

record event =
  EventID :: string
  Source :: string
  RoutingKey :: string
  Status :: string
  Severity :: string
  Title :: string
  Message :: string
  OccurredAt :: instant
  DedupeKey :: string
  Labels :: labels
  URL :: string
  IncidentStartedAt :: "instant option"

text \<open>The parts of \<open>net/url.URL\<close> the gateway reads.\<close>

record url =
  url_scheme :: string
  url_host :: string
  url_hostname :: string
  url_port :: string
  url_path :: string
  url_query :: string
  url_fragment :: string
  url_opaque :: string
  url_has_user :: bool

type_synonym url_parser = "string \<Rightarrow> url option"

section \<open>Validation\<close>

datatype event_error =
    BadIdentifier string nat
  | BadStatus
  | BadSeverity
  | BadTitle
  | TitleLineBreak
  | BadMessage
  | NoOccurredAt
  | FutureOccurredAt
  | TooManyLabels
  | BadLabelValue string
  | BadURL

text \<open>A sequence of guards with early returns: the error of the first one that fires.\<close>

definition first_error :: "(bool \<times> 'e) list \<Rightarrow> 'e option" where
  "first_error guards = map_option snd (find fst guards)"

lemma first_error_Nil [simp]: "first_error [] = None"
  by (simp add: first_error_def)

lemma first_error_Cons [simp]:
  "first_error ((b, e) # gs) = (if b then Some e else first_error gs)"
  by (simp add: first_error_def)

lemma first_error_None: "first_error gs = None \<longleftrightarrow> (\<forall>g\<in>set gs. \<not> fst g)"
  by (auto simp: first_error_def find_None_iff)

definition validIdentifier :: "string \<Rightarrow> nat \<Rightarrow> bool" where
  "validIdentifier value maximum \<longleftrightarrow>
     \<not> (value = [] \<or> maximum < length value \<or> \<not> matches_identifier value)"

fun label_error :: "labels \<Rightarrow> event_error option" where
  "label_error [] = None"
| "label_error ((key, value) # rest) =
     (if \<not> validIdentifier key 64 then Some (BadIdentifier ''label key'' 64)
      else if 256 < rune_count value then Some (BadLabelValue key)
      else label_error rest)"

definition url_ok :: "url_parser \<Rightarrow> string \<Rightarrow> bool" where
  "url_ok parse raw \<longleftrightarrow>
     (case parse raw of
        None \<Rightarrow> False
      | Some u \<Rightarrow> \<not> (url_host u = [] \<or> (url_scheme u \<noteq> ''https'' \<and> url_scheme u \<noteq> ''http'')
                   \<or> url_has_user u))"

definition lifecycle_status :: "string \<Rightarrow> bool" where
  "lifecycle_status s \<longleftrightarrow> s = StatusFiring \<or> s = StatusResolved"

definition known_status :: "string \<Rightarrow> bool" where
  "known_status s \<longleftrightarrow> s \<in> {StatusFiring, StatusResolved, StatusInfo, StatusTest}"

definition known_severity :: "string \<Rightarrow> bool" where
  "known_severity s \<longleftrightarrow> s \<in> {SeverityCritical, SeverityWarning, SeverityInfo}"

definition event_guards :: "event \<Rightarrow> instant \<Rightarrow> (bool \<times> event_error) list" where
  "event_guards e now =
     [(\<not> validIdentifier (EventID e) 128, BadIdentifier ''event_id'' 128),
      (\<not> validIdentifier (Source e) 64, BadIdentifier ''source'' 64),
      (\<not> validIdentifier (RoutingKey e) 64, BadIdentifier ''routing_key'' 64),
      (\<not> known_status (Status e), BadStatus),
      (\<not> known_severity (Severity e), BadSeverity),
      (trim_space (Title e) = [] \<or> 200 < rune_count (Title e), BadTitle),
      (has_line_break (Title e), TitleLineBreak),
      (trim_space (Message e) = [] \<or> 4000 < rune_count (Message e), BadMessage),
      (OccurredAt e = zero_time, NoOccurredAt),
      (now + 5 * minute < OccurredAt e, FutureOccurredAt),
      ((lifecycle_status (Status e) \<or> DedupeKey e \<noteq> []) \<and> \<not> validIdentifier (DedupeKey e) 128,
       BadIdentifier ''dedupe_key'' 128),
      (20 < length (Labels e), TooManyLabels)]"

definition Validate :: "url_parser \<Rightarrow> event \<Rightarrow> instant \<Rightarrow> event_error option" where
  "Validate parse e now =
     (case first_error (event_guards e now) of
        Some err \<Rightarrow> Some err
      | None \<Rightarrow>
          (case label_error (Labels e) of
             Some err \<Rightarrow> Some err
           | None \<Rightarrow> if URL e \<noteq> [] \<and> \<not> url_ok parse (URL e) then Some BadURL else None))"

definition SortedLabelKeys :: "event \<Rightarrow> string list" where
  "SortedLabelKeys e = sort (map fst (Labels e))"

section \<open>What a validated event guarantees\<close>

text \<open>The contract of the API document, field by field, independent of the order of the checks.\<close>

definition well_formed_identifier :: "nat \<Rightarrow> string \<Rightarrow> bool" where
  "well_formed_identifier n s \<longleftrightarrow> matches_identifier s \<and> length s \<le> n"

definition event_contract :: "url_parser \<Rightarrow> instant \<Rightarrow> event \<Rightarrow> bool" where
  "event_contract parse now e \<longleftrightarrow>
     well_formed_identifier 128 (EventID e) \<and>
     well_formed_identifier 64 (Source e) \<and>
     well_formed_identifier 64 (RoutingKey e) \<and>
     known_status (Status e) \<and> known_severity (Severity e) \<and>
     trim_space (Title e) \<noteq> [] \<and> rune_count (Title e) \<le> 200 \<and> \<not> has_line_break (Title e) \<and>
     trim_space (Message e) \<noteq> [] \<and> rune_count (Message e) \<le> 4000 \<and>
     OccurredAt e \<noteq> zero_time \<and> OccurredAt e \<le> now + 5 * minute \<and>
     (lifecycle_status (Status e) \<longrightarrow> well_formed_identifier 128 (DedupeKey e)) \<and>
     (DedupeKey e \<noteq> [] \<longrightarrow> well_formed_identifier 128 (DedupeKey e)) \<and>
     length (Labels e) \<le> 20 \<and>
     (\<forall>(k, v)\<in>set (Labels e). well_formed_identifier 64 k \<and> rune_count v \<le> 256) \<and>
     (URL e \<noteq> [] \<longrightarrow> url_ok parse (URL e))"

lemma validIdentifier_iff: "validIdentifier s n \<longleftrightarrow> well_formed_identifier n s"
  by (cases s) (auto simp: validIdentifier_def well_formed_identifier_def matches_identifier_def)

lemma label_error_None:
  "label_error ls = None \<longleftrightarrow>
     (\<forall>(k, v)\<in>set ls. well_formed_identifier 64 k \<and> rune_count v \<le> 256)"
  by (induction ls rule: label_error.induct) (auto simp: validIdentifier_iff)

lemma Validate_None: "Validate parse e now = None \<longleftrightarrow> event_contract parse now e"
proof -
  have "Validate parse e now = None \<longleftrightarrow> first_error (event_guards e now) = None \<and>
      label_error (Labels e) = None \<and> (URL e \<noteq> [] \<longrightarrow> url_ok parse (URL e))"
    by (auto simp: Validate_def split: option.splits)
  then show ?thesis
    by (simp add: first_error_None event_guards_def validIdentifier_iff label_error_None not_less
        event_contract_def del: first_error_Cons) blast
qed


lemma sorted_label_keys: "sorted (SortedLabelKeys e)"
  by (simp add: SortedLabelKeys_def)

lemma set_label_keys: "set (SortedLabelKeys e) = fst ` set (Labels e)"
  by (simp add: SortedLabelKeys_def)

end
