(* ===== verification/Auth.thy ===== *)
theory Auth
  imports Sha256 Domain
begin

text \<open>
  \<open>internal/auth\<close>: HMAC request signatures (\<open>hmac.go\<close>) and bearer tokens (\<open>bearer.go\<close>). \<open>Lookup\<close> is the
  function the gateway supplies; headers, bodies, secrets and digests are byte strings.
\<close>

section \<open>Signed requests\<close>

datatype auth_error = ErrUnknownClient | ErrDisabledClient | ErrInvalidAuth | ErrStaleRequest

record client =
  ac_ID :: string
  ac_Secret :: string
  ac_Enabled :: bool
  ac_AllowedRoutes :: "string list"
  ac_RateLimit :: int

record headers =
  hd_ClientID :: string
  hd_Timestamp :: string
  hd_Nonce :: string
  hd_Signature :: string

text \<open>\<open>Lookup = None\<close> is the nil function: the map \<open>Clients\<close> is used.\<close>

record verifier =
  vf_Clients :: "(string \<times> client) list"
  vf_Lookup :: "(string \<Rightarrow> client option) option"
  vf_Tolerance :: duration

definition signed_message :: "string \<Rightarrow> string \<Rightarrow> string \<Rightarrow> string" where
  "signed_message timestamp nonce body =
     timestamp @ [CHR 0x0A] @ nonce @ [CHR 0x0A] @ hex_encode (sha256 body)"

definition Sign :: "string \<Rightarrow> string \<Rightarrow> string \<Rightarrow> string \<Rightarrow> string" where
  "Sign secret timestamp nonce body = hmac_sha256 secret (signed_message timestamp nonce body)"

definition SignHex :: "string \<Rightarrow> string \<Rightarrow> string \<Rightarrow> string \<Rightarrow> string" where
  "SignHex secret timestamp nonce body = hex_encode (Sign secret timestamp nonce body)"

definition find_client :: "verifier \<Rightarrow> string \<Rightarrow> client option" where
  "find_client v i = (case vf_Lookup v of None \<Rightarrow> map_of (vf_Clients v) i | Some lookup \<Rightarrow> lookup i)"

text \<open>\<open>delta\<close> of \<open>Verify\<close>: the age of the request by its timestamp, made positive by a negation.\<close>

definition request_age :: "instant \<Rightarrow> int \<Rightarrow> duration" where
  "request_age now timestamp =
     (let delta = time_sub now (of_unix_seconds timestamp)
      in if delta < 0 then duration_neg delta else delta)"

definition Verify :: "verifier \<Rightarrow> instant \<Rightarrow> headers \<Rightarrow> string \<Rightarrow> auth_error + client" where
  "Verify v now h body =
     (case find_client v (hd_ClientID h) of
        None \<Rightarrow> Inl ErrUnknownClient
      | Some client \<Rightarrow>
          if \<not> ac_Enabled client then Inl ErrDisabledClient
          else case parse_int64 (hd_Timestamp h) of
            None \<Rightarrow> Inl ErrInvalidAuth
          | Some timestamp \<Rightarrow>
              if timestamp \<le> 0 \<or> \<not> matches_nonce (hd_Nonce h) then Inl ErrInvalidAuth
              else if vf_Tolerance v < request_age now timestamp then Inl ErrStaleRequest
              else case hex_decode (hd_Signature h) of
                None \<Rightarrow> Inl ErrInvalidAuth
              | Some provided \<Rightarrow>
                  if length provided \<noteq> 32 \<or> provided \<noteq> Sign (ac_Secret client) (hd_Timestamp h) (hd_Nonce h) body
                  then Inl ErrInvalidAuth
                  else Inr client)"

definition CanUseRoute :: "client \<Rightarrow> string \<Rightarrow> bool" where
  "CanUseRoute c route \<longleftrightarrow> route \<in> set (ac_AllowedRoutes c)"

section \<open>Bearer tokens\<close>

record ingress_token =
  bt_ID :: string
  bt_PublicID :: string
  bt_SecretHash :: string
  bt_Enabled :: bool
  bt_RoutingKey :: string
  bt_Severity :: string
  bt_RateLimit :: int

abbreviation bearerPrefix :: string where "bearerPrefix \<equiv> ''abt_''"

text \<open>The two buffers are what the random source delivers; \<open>None\<close> when it fails.\<close>

definition GenerateBearerToken :: "string option \<Rightarrow> string option \<Rightarrow> (string \<times> string \<times> string) option" where
  "GenerateBearerToken publicValue secret =
     (case publicValue of None \<Rightarrow> None
      | Some pub \<Rightarrow> (case secret of None \<Rightarrow> None
          | Some sec \<Rightarrow>
              (let publicID = hex_encode pub
               in Some (bearerPrefix @ publicID @ ''_'' @ hex_encode sec, publicID, sha256 sec))))"

definition parseBearer :: "string \<Rightarrow> (string \<times> string) option" where
  "parseBearer value =
     (if \<not> has_prefix bearerPrefix value then None
      else case split_two CHR ''_'' (trim_prefix bearerPrefix value) of
        None \<Rightarrow> None
      | Some (pub, sec) \<Rightarrow>
          if length pub \<noteq> 16 \<or> length sec \<noteq> 64 then None
          else case hex_decode pub of None \<Rightarrow> None
            | Some _ \<Rightarrow> (case hex_decode sec of None \<Rightarrow> None
                | Some secret \<Rightarrow> if length secret \<noteq> 32 then None else Some (pub, secret)))"

definition equal_fold :: "string \<Rightarrow> string \<Rightarrow> bool" where
  "equal_fold s t \<longleftrightarrow> map ascii_lower s = map ascii_lower t"

text \<open>
  The comparison runs even when no token is found, against an empty token whose hash reads as zeros.
\<close>

definition BearerVerify :: "(string \<Rightarrow> ingress_token option) option \<Rightarrow> string \<Rightarrow> ingress_token option" where
  "BearerVerify lookup authorization =
     (case str_fields authorization of
        [scheme, value] \<Rightarrow>
          (if \<not> equal_fold scheme ''Bearer'' then None
           else case parseBearer value of
             None \<Rightarrow> None
           | Some (publicID, secret) \<Rightarrow>
               (let found = (case lookup of None \<Rightarrow> None | Some f \<Rightarrow> f publicID);
                    hash = (case found of None \<Rightarrow> [] | Some t \<Rightarrow> bt_SecretHash t);
                    expected = (if length hash = 32 then hash else replicate 32 (char_of (0::nat)));
                    matches = (sha256 secret = expected)
                in case found of
                     None \<Rightarrow> None
                   | Some token \<Rightarrow> if \<not> bt_Enabled token \<or> \<not> matches then None else Some token))
      | _ \<Rightarrow> None)"

section \<open>Facts about the clock check\<close>

lemma time_sub_range: "- (2 ^ 63) \<le> time_sub a b \<and> time_sub a b < 2 ^ 63"
  by (auto simp: time_sub_def)

lemma of_unix_seconds_id:
  "- (2 ^ 62) \<le> s \<Longrightarrow> s < 2 ^ 62 \<Longrightarrow> of_unix_seconds s = s * second"
  by (simp add: of_unix_seconds_def int64_id)

text \<open>Within the range of a duration the age is the distance; beyond it in the future it is negative.\<close>

lemma request_age_near:
  assumes "\<bar>now - of_unix_seconds ts\<bar> < 2 ^ 63"
  shows "request_age now ts = \<bar>now - of_unix_seconds ts\<bar>"
  using assms by (auto simp: request_age_def Let_def time_sub_exact duration_neg_def int64_id)

lemma request_age_far_past:
  assumes "2 ^ 63 \<le> now - of_unix_seconds ts"
  shows "request_age now ts = 2 ^ 63 - 1"
  using assms by (simp add: request_age_def Let_def time_sub_def min_def max_def)

lemma request_age_far_future:
  assumes "now + 2 ^ 63 \<le> of_unix_seconds ts"
  shows "request_age now ts = - (2 ^ 63)"
proof -
  have "time_sub now (of_unix_seconds ts) = - (2 ^ 63)"
    using assms by (simp add: time_sub_def min_def max_def)
  then show ?thesis by (simp add: request_age_def Let_def duration_neg_def int64_def)
qed

text \<open>The window the check really enforces.\<close>

lemma request_age_window:
  assumes "0 \<le> tol" and "tol < 2 ^ 63 - 1"
  shows "request_age now ts \<le> tol \<longleftrightarrow>
    \<bar>now - of_unix_seconds ts\<bar> \<le> tol \<or> now + 2 ^ 63 \<le> of_unix_seconds ts"
proof -
  consider "\<bar>now - of_unix_seconds ts\<bar> < 2 ^ 63" | "2 ^ 63 \<le> now - of_unix_seconds ts"
    | "now + 2 ^ 63 \<le> of_unix_seconds ts" by linarith
  then show ?thesis
    by cases (use assms in \<open>auto simp: request_age_near request_age_far_past request_age_far_future\<close>)
qed

section \<open>Properties of signed requests\<close>

lemma Verify_Inr:
  "Verify v now h body = Inr c \<longleftrightarrow>
     find_client v (hd_ClientID h) = Some c \<and> ac_Enabled c \<and>
     (\<exists>ts. parse_int64 (hd_Timestamp h) = Some ts \<and> 0 < ts \<and> request_age now ts \<le> vf_Tolerance v) \<and>
     matches_nonce (hd_Nonce h) \<and>
     hex_decode (hd_Signature h) = Some (Sign (ac_Secret c) (hd_Timestamp h) (hd_Nonce h) body)"
  by (auto simp: Verify_def Sign_def not_le not_less split: option.splits if_splits)

text \<open>
  C1. Exactly the authentic requests pass. A request is accepted if and only if its client is known and
  enabled, its timestamp is a positive 64-bit decimal number, its nonce has the documented form, its
  signature is the hexadecimal HMAC-SHA-256 of timestamp, nonce and body digest under the client's
  secret, and its timestamp is within the tolerance of the clock in either direction, or so far in the
  future (about 292 years and more) that the subtraction of the two times saturates.
\<close>

theorem verify_accepts_iff:
  assumes "0 \<le> vf_Tolerance v" and "vf_Tolerance v < 2 ^ 63 - 1"
  shows "Verify v now h body = Inr c \<longleftrightarrow>
     find_client v (hd_ClientID h) = Some c \<and> ac_Enabled c \<and> matches_nonce (hd_Nonce h) \<and>
     hex_decode (hd_Signature h) = Some (hmac_sha256 (ac_Secret c)
       (hd_Timestamp h @ [CHR 0x0A] @ hd_Nonce h @ [CHR 0x0A] @ hex_encode (sha256 body))) \<and>
     (\<exists>ts. parse_int64 (hd_Timestamp h) = Some ts \<and> 0 < ts \<and>
       (\<bar>now - of_unix_seconds ts\<bar> \<le> vf_Tolerance v \<or> now + 2 ^ 63 \<le> of_unix_seconds ts))"
  unfolding Verify_Inr Sign_def signed_message_def request_age_window [OF assms] by blast

definition demo_client :: client where
  "demo_client = \<lparr>ac_ID = ''c1'', ac_Secret = ''k'', ac_Enabled = True, ac_AllowedRoutes = [''ops''],
     ac_RateLimit = 60\<rparr>"

definition demo_verifier :: verifier where
  "demo_verifier = \<lparr>vf_Clients = [(''c1'', demo_client)], vf_Lookup = None, vf_Tolerance = 5 * minute\<rparr>"

definition signed_headers :: "string \<Rightarrow> client \<Rightarrow> string \<Rightarrow> int \<Rightarrow> string \<Rightarrow> headers" where
  "signed_headers i c nonce ts body =
     \<lparr>hd_ClientID = i, hd_Timestamp = show_int ts, hd_Nonce = nonce,
      hd_Signature = SignHex (ac_Secret c) (show_int ts) nonce body\<rparr>"

lemma demo_find [simp]: "find_client demo_verifier ''c1'' = Some demo_client"
  by (simp add: find_client_def demo_verifier_def)

lemma demo_nonce: "matches_nonce ''nonce-0001''"
  by code_simp

theorem verify_accepts_iff_witness:
  "Verify demo_verifier (1700000000 * second) (signed_headers ''c1'' demo_client ''nonce-0001'' 1700000100 ''{}'') ''{}''
     = Inr demo_client"
proof -
  have tol: "0 \<le> vf_Tolerance demo_verifier" "vf_Tolerance demo_verifier < 2 ^ 63 - 1"
    and en: "ac_Enabled demo_client" and age: "\<bar>1700000000 * second - of_unix_seconds 1700000100\<bar> \<le> vf_Tolerance demo_verifier"
    by (simp_all add: demo_verifier_def demo_client_def of_unix_seconds_id)
  have ts: "parse_int64 (show_int 1700000100) = Some 1700000100" by (simp add: parse_int64_show)
  show ?thesis
    unfolding verify_accepts_iff [OF tol]
    using en age ts demo_nonce by (auto simp: signed_headers_def SignHex_def Sign_def signed_message_def)
qed

text \<open>
  Signing and verifying agree. A request that an enabled client signs with its own secret for a
  well-formed nonce and a current timestamp is accepted, as that client.
\<close>

lemma signed_request_accepted:
  assumes "find_client v i = Some c" and "ac_Enabled c" and "matches_nonce nonce"
    and "0 < ts" and "ts < 2 ^ 62" and "\<bar>now - ts * second\<bar> \<le> vf_Tolerance v" and "vf_Tolerance v < 2 ^ 63 - 1"
  shows "Verify v now (signed_headers i c nonce ts body) body = Inr c"
proof -
  have "of_unix_seconds ts = ts * second" using assms(4,5) by (simp add: of_unix_seconds_id)
  then have "request_age now ts \<le> vf_Tolerance v"
    using assms(6,7) request_age_window [of "vf_Tolerance v" now ts] by linarith
  moreover have "parse_int64 (show_int ts) = Some ts" using assms(4,5) by (simp add: parse_int64_show)
  ultimately show ?thesis
    using assms(1-4) by (simp add: Verify_Inr signed_headers_def SignHex_def)
qed

text \<open>The two line breaks cut the signed message in only one way.\<close>

lemma signed_message_eq:
  assumes "signed_message ts nonce body = signed_message ts' nonce' body'"
    and "CHR 0x0A \<notin> set ts" "CHR 0x0A \<notin> set ts'"
    and "CHR 0x0A \<notin> set nonce" "CHR 0x0A \<notin> set nonce'"
  shows "ts = ts' \<and> nonce = nonce' \<and> sha256 body = sha256 body'"
proof -
  let ?nl = "CHR 0x0A"
  have cut: "a = a' \<and> b = b'" if "a @ ?nl # b = a' @ ?nl # b'" "?nl \<notin> set a" "?nl \<notin> set a'" for a a' b b'
    using split_two_Some [of ?nl "a @ ?nl # b" a b] split_two_Some [of ?nl "a @ ?nl # b" a' b'] that by simp
  have "ts = ts'" and rest: "nonce @ ?nl # hex_encode (sha256 body) = nonce' @ ?nl # hex_encode (sha256 body')"
    using cut [of ts "nonce @ ?nl # hex_encode (sha256 body)" ts' "nonce' @ ?nl # hex_encode (sha256 body')"] assms
    by (simp_all add: signed_message_def)
  from cut [OF rest assms(4,5)] have "nonce = nonce'" and "hex_encode (sha256 body) = hex_encode (sha256 body')"
    by simp_all
  with \<open>ts = ts'\<close> show ?thesis by (metis hex_decode_encode option.inject)
qed

lemma digits_value_digits: "digits_value acc s = Some n \<Longrightarrow> c \<in> set s \<Longrightarrow> is_digit c"
  by (induction acc s rule: digits_value.induct) (auto split: if_splits)

lemma parse_int64_no_newline:
  assumes "parse_int64 s = Some n"
  shows "CHR 0x0A \<notin> set s"
proof (cases s)
  case (Cons a cs)
  have digits: "\<forall>x\<in>set ds. is_digit x" if "parse_nat ds = Some k" for ds k
    using that digits_value_digits by (auto simp: parse_nat_def split: if_splits)
  have "a = CHR ''-'' \<or> a = CHR ''+'' \<or> is_digit a" and "\<forall>x\<in>set cs. is_digit x"
    using assms Cons digits
    by (auto simp: parse_int64_def Let_def split: if_splits option.splits prod.splits)
  then show ?thesis using Cons by (auto simp: is_digit_def of_char_of)
qed simp

lemma matches_nonce_no_newline: "matches_nonce s \<Longrightarrow> CHR 0x0A \<notin> set s"
  by (auto simp: matches_nonce_def list_all_iff byte_class_defs of_char_of dest!: bspec)

text \<open>
  A captured signature is worth nothing for another request. If the signature of an accepted request
  was made by the client for some timestamp, nonce and body, the request carries that timestamp, that
  nonce and a body with that digest, provided HMAC-SHA-256 under the client's secret does not collide on
  the two messages: the encoding itself leaves no second reading.
\<close>

theorem captured_signature_not_reusable:
  assumes "Verify v now h body = Inr c"
    and "hd_Signature h = SignHex (ac_Secret c) ts nonce body0"
    and "parse_int64 ts \<noteq> None" and "matches_nonce nonce"
    and "hmac_sha256 (ac_Secret c) (signed_message (hd_Timestamp h) (hd_Nonce h) body) =
         hmac_sha256 (ac_Secret c) (signed_message ts nonce body0) \<Longrightarrow>
         signed_message (hd_Timestamp h) (hd_Nonce h) body = signed_message ts nonce body0"
  shows "hd_Timestamp h = ts \<and> hd_Nonce h = nonce \<and> sha256 body = sha256 body0"
proof -
  obtain n where "parse_int64 (hd_Timestamp h) = Some n" and nonce: "matches_nonce (hd_Nonce h)"
    and mac: "hex_decode (hd_Signature h) = Some (Sign (ac_Secret c) (hd_Timestamp h) (hd_Nonce h) body)"
    using assms(1) by (auto simp: Verify_Inr)
  from mac assms(2) have "signed_message (hd_Timestamp h) (hd_Nonce h) body = signed_message ts nonce body0"
    by (intro assms(5)) (simp add: SignHex_def Sign_def)
  moreover obtain k where "parse_int64 ts = Some k" using assms(3) by blast
  ultimately show ?thesis
    using \<open>parse_int64 (hd_Timestamp h) = Some n\<close> nonce assms(4)
    by (intro signed_message_eq) (auto dest: parse_int64_no_newline matches_nonce_no_newline)
qed

theorem captured_signature_not_reusable_witness:
  "hd_Timestamp (signed_headers ''c1'' demo_client ''nonce-0001'' 1699999900 ''x'') = show_int 1699999900"
proof -
  have "Verify demo_verifier (1700000000 * second) (signed_headers ''c1'' demo_client ''nonce-0001'' 1699999900 ''x'') ''x''
     = Inr demo_client"
    by (simp add: Verify_Inr signed_headers_def SignHex_def demo_nonce parse_int64_show demo_client_def
        demo_verifier_def request_age_near of_unix_seconds_id find_client_def)
  from captured_signature_not_reusable [OF this, of "show_int 1699999900" "''nonce-0001''" "''x''"]
  show ?thesis by (simp add: signed_headers_def demo_nonce parse_int64_show)
qed

text \<open>
  C40. The clock check has a hole: a request that a client signs with a timestamp more than about 292 years
  ahead is accepted at every later moment up to then, whatever the tolerance, because the difference of
  the two times saturates at the least 64-bit value, whose negation is itself. Such a request never
  becomes stale.
\<close>

theorem far_future_timestamp_never_stale:
  assumes "find_client v i = Some c" and "ac_Enabled c" and "matches_nonce nonce"
    and "0 < ts" and "ts < 2 ^ 62" and "now + 2 ^ 63 \<le> ts * second" and "- (2 ^ 63) \<le> vf_Tolerance v"
  shows "Verify v now (signed_headers i c nonce ts body) body = Inr c"
proof -
  have "of_unix_seconds ts = ts * second" using assms(4,5) by (simp add: of_unix_seconds_id)
  then have "request_age now ts \<le> vf_Tolerance v"
    using assms(6,7) by (simp add: request_age_far_future)
  moreover have "parse_int64 (show_int ts) = Some ts" using assms(4,5) by (simp add: parse_int64_show)
  ultimately show ?thesis
    using assms(1-4) by (simp add: Verify_Inr signed_headers_def SignHex_def)
qed

theorem far_future_timestamp_never_stale_witness:
  "Verify demo_verifier (1700000000 * second) (signed_headers ''c1'' demo_client ''nonce-0001'' 99999999999 ''x'') ''x''
     = Inr demo_client \<and>
   Verify demo_verifier (2000000000 * second) (signed_headers ''c1'' demo_client ''nonce-0001'' 99999999999 ''x'') ''x''
     = Inr demo_client"
  using far_future_timestamp_never_stale [OF demo_find _ demo_nonce, of 99999999999 "1700000000 * second" "''x''"]
    far_future_timestamp_never_stale [OF demo_find _ demo_nonce, of 99999999999 "2000000000 * second" "''x''"]
  by (simp add: demo_client_def demo_verifier_def)

section \<open>Properties of bearer tokens\<close>

lemma alnum_graphic: "is_alnum c \<Longrightarrow> is_graphic c"
  by (auto simp: byte_class_defs is_graphic_def)

lemma bearer_graphic: "\<forall>c\<in>set (bearerPrefix @ hex_encode a @ ''_'' @ hex_encode b). is_graphic c"
  using hex_encode_alnum [THEN alnum_graphic] by (auto simp: is_graphic_def)

lemma parseBearer_generated:
  assumes "length pub = 8" and "length sec = 32"
  shows "parseBearer (bearerPrefix @ hex_encode pub @ ''_'' @ hex_encode sec) = Some (hex_encode pub, sec)"
proof -
  have "CHR ''_'' \<notin> set (hex_encode pub)"
    using hex_encode_alnum by (fastforce simp: byte_class_defs)
  then have "split_two CHR ''_'' (hex_encode pub @ CHR ''_'' # hex_encode sec) = Some (hex_encode pub, hex_encode sec)"
    by (simp add: split_two_Some)
  moreover have "has_prefix bearerPrefix (bearerPrefix @ s)" "trim_prefix bearerPrefix (bearerPrefix @ s) = s" for s
    by (rule has_prefix_append, rule trim_prefix_append)
  ultimately show ?thesis using assms unfolding parseBearer_def by simp
qed

text \<open>
  A generated token works. The token text that \<open>GenerateBearerToken\<close> returns, sent as \<open>Bearer\<close> in any
  spelling of the case, is accepted as the enabled token stored under its public id and hash.
\<close>

lemma generated_token_accepted:
  assumes "GenerateBearerToken (Some pub) (Some sec) = Some (plain, publicID, hash)"
    and "length pub = 8" and "length sec = 32"
    and "lookup publicID = Some t" and "bt_Enabled t" and "bt_SecretHash t = hash"
    and "equal_fold scheme ''Bearer''" and "\<forall>c\<in>set scheme. is_graphic c"
  shows "BearerVerify (Some lookup) (scheme @ '' '' @ plain) = Some t"
proof -
  have plain: "plain = bearerPrefix @ hex_encode pub @ ''_'' @ hex_encode sec" "publicID = hex_encode pub"
    "hash = sha256 sec"
    using assms(1) by (auto simp: GenerateBearerToken_def Let_def)
  have "\<forall>c\<in>set plain. is_graphic c"
    unfolding plain(1) by (rule bearer_graphic)
  moreover have "scheme \<noteq> []" using assms(7) by (auto simp: equal_fold_def)
  ultimately have "str_fields (scheme @ '' '' @ plain) = [scheme, plain]"
    using str_fields_two [OF assms(8), of plain] by (simp add: plain(1))
  moreover have "parseBearer plain = Some (publicID, sec)"
    unfolding plain by (rule parseBearer_generated [OF assms(2,3)])
  ultimately show ?thesis
    using assms(4-7) by (simp add: BearerVerify_def Let_def plain(3))
qed

text \<open>
  Nothing else is accepted. A header passes only if it is two fields, the scheme \<open>Bearer\<close> and a token
  text \<open>abt_<16 hex digits>_<64 hex digits>\<close> whose first part is a public id under which the lookup has an
  enabled token and whose second part encodes 32 bytes with exactly the stored hash; an unknown public id
  fails even if the secret hashed to zeros.
\<close>

theorem bearer_accepts_only_stored_hash:
  assumes "BearerVerify lookup authorization = Some t"
    and "length (bt_SecretHash t) = 32"
  shows "\<exists>scheme pub sec secret f. str_fields authorization = [scheme, bearerPrefix @ pub @ ''_'' @ sec] \<and>
    equal_fold scheme ''Bearer'' \<and> length pub = 16 \<and> length sec = 64 \<and>
    hex_decode sec = Some secret \<and> sha256 secret = bt_SecretHash t \<and>
    lookup = Some f \<and> f pub = Some t \<and> bt_Enabled t"
proof -
  obtain scheme val where fs: "str_fields authorization = [scheme, val]" and sch: "equal_fold scheme ''Bearer''"
    using assms(1) by (auto simp: BearerVerify_def split: list.splits if_splits)
  obtain pub secret where pb: "parseBearer val = Some (pub, secret)"
    using assms(1) fs by (auto simp: BearerVerify_def split: list.splits if_splits option.splits)
  from pb obtain sec where two: "split_two CHR ''_'' (trim_prefix bearerPrefix val) = Some (pub, sec)"
    and len: "length pub = 16" "length sec = 64" "hex_decode sec = Some secret" and pre: "has_prefix bearerPrefix val"
    unfolding parseBearer_def by (auto split: if_splits option.splits)
  from pre obtain rest where val: "val = bearerPrefix @ rest" unfolding has_prefix_iff by blast
  with two have rest: "rest = pub @ ''_'' @ sec"
    using trim_prefix_append [of bearerPrefix rest] by (simp add: split_two_Some)
  obtain f where f: "lookup = Some f" "f pub = Some t" "bt_Enabled t"
    using assms(1) fs pb sch by (auto simp: BearerVerify_def Let_def split: if_splits option.splits)
  then have "sha256 secret = bt_SecretHash t"
    using assms fs pb sch by (auto simp: BearerVerify_def Let_def split: if_splits)
  then show ?thesis using fs sch len f val rest by blast
qed

theorem bearer_accepts_only_stored_hash_witness:
  "\<exists>scheme pub sec. str_fields (''Bearer '' @ bearerPrefix @ hex_encode ''12345678'' @ ''_'' @ hex_encode (replicate 32 CHR ''s''))
     = [scheme, bearerPrefix @ pub @ ''_'' @ sec] \<and> length pub = 16"
proof -
  let ?tok = "\<lambda>i. \<lparr>bt_ID = ''t'', bt_PublicID = i, bt_SecretHash = sha256 (replicate 32 CHR ''s''),
       bt_Enabled = True, bt_RoutingKey = ''ops'', bt_Severity = ''info'', bt_RateLimit = 10\<rparr>"
  let ?plain = "bearerPrefix @ hex_encode ''12345678'' @ ''_'' @ hex_encode (replicate 32 CHR ''s'')"
  have parse: "parseBearer ?plain = Some (hex_encode ''12345678'', replicate 32 CHR ''s'')"
    by (rule parseBearer_generated) simp_all
  have "\<forall>c\<in>set ''Bearer''. is_graphic c" by (simp add: is_graphic_def)
  from str_fields_two [OF this bearer_graphic] have "str_fields (''Bearer'' @ '' '' @ ?plain) = [''Bearer'', ?plain]"
    by (simp del: hex_encode.simps)
  with parse have run: "BearerVerify (Some (\<lambda>i. Some (?tok i))) (''Bearer'' @ '' '' @ ?plain) =
      Some (?tok (hex_encode ''12345678''))"
    by (simp add: BearerVerify_def equal_fold_def del: hex_encode.simps)
  show ?thesis using bearer_accepts_only_stored_hash [OF run] by auto
qed

end
