(* ===== verification/Channel.thy ===== *)
theory Channel
  imports Domain
begin

text \<open>
  \<open>internal/channel\<close>: what a channel's \<open>Send\<close> returns to the worker. A sender is a function of the
  event: the outside world (DNS, TLS, the provider) decides which, so the proofs quantify over it.
\<close>

record send_error =
  se_message :: string
  se_status :: int
  se_retryable :: bool

definition send_error_text :: "send_error \<Rightarrow> string" where
  "send_error_text e =
     (if se_status e \<noteq> 0 then se_message e @ '' (status '' @ show_int (se_status e) @ '')'' else se_message e)"

text \<open>An \<open>error\<close> a sender returns: a (wrapped) \<open>*SendError\<close> or any other, with its text.\<close>

datatype send_failure = Typed send_error | Untyped string

fun failure_text :: "send_failure \<Rightarrow> string" where
  "failure_text (Typed e) = send_error_text e"
| "failure_text (Untyped text) = text"

type_synonym sender = "event \<Rightarrow> int \<times> send_failure option"

definition retryableHTTP :: "int \<Rightarrow> bool" where
  "retryableHTTP status \<longleftrightarrow> status = 408 \<or> status = 425 \<or> status = 429 \<or> 500 \<le> status"

end
