(* ===== verification/ChannelConfig.thy ===== *)
theory ChannelConfig
  imports Auth Channel
begin

text \<open>
  The channel configurations of \<open>internal/runtimecfg/manager.go\<close>: how an administrator's input is merged
  into a stored configuration, and how a stored configuration becomes a sender. The URL and mail address
  parsers, the cipher, the JSON form of a configuration and the senders themselves are the fields of
  \<open>environment\<close>. Letters are folded to lower case in ASCII only.
\<close>

record channel_config =
  cg_Webhook :: string
  cg_SigningSecret :: string
  cg_MessageType :: string
  cg_Keyword :: string
  cg_AllowedHosts :: "string list"
  cg_BotToken :: string
  cg_ChatID :: string
  cg_BaseURL :: string
  cg_Endpoint :: string
  cg_Token :: string
  cg_SMTPHost :: string
  cg_SMTPPort :: int
  cg_SMTPUsername :: string
  cg_SMTPPassword :: string
  cg_SMTPFrom :: string
  cg_SMTPRecipients :: "string list"
  cg_SMTPMode :: string

definition empty_config :: channel_config where
  "empty_config =
     \<lparr>cg_Webhook = [], cg_SigningSecret = [], cg_MessageType = [], cg_Keyword = [], cg_AllowedHosts = [],
      cg_BotToken = [], cg_ChatID = [], cg_BaseURL = [], cg_Endpoint = [], cg_Token = [], cg_SMTPHost = [],
      cg_SMTPPort = 0, cg_SMTPUsername = [], cg_SMTPPassword = [], cg_SMTPFrom = [], cg_SMTPRecipients = [],
      cg_SMTPMode = []\<rparr>"

record channel_input =
  ci_ID :: string
  ci_Type :: string
  ci_Enabled :: bool
  ci_Endpoint :: string
  ci_Secret :: string
  ci_ChatID :: string
  ci_SMTPHost :: string
  ci_SMTPPort :: int
  ci_SMTPUsername :: string
  ci_SMTPFrom :: string
  ci_SMTPRecipients :: "string list"
  ci_SMTPMode :: string
  ci_MessageType :: string
  ci_Keyword :: "string option"

record channel_view =
  cv_ID :: string
  cv_Type :: string
  cv_Enabled :: bool
  cv_Summary :: string
  cv_HasSecret :: bool
  cv_HasKeyword :: bool
  cv_UpdatedAt :: millis

record environment =
  en_parse_url :: url_parser
  en_address_ok :: "string \<Rightarrow> bool"
  en_encrypt :: "string \<Rightarrow> string option"
  en_decrypt :: "string \<Rightarrow> string option"
  en_marshal :: "channel_config \<Rightarrow> string"
  en_unmarshal :: "string \<Rightarrow> channel_config option"
  en_allow_http :: bool
  en_sender :: "string \<Rightarrow> channel_config \<Rightarrow> sender"

abbreviation telegramAPI :: string where "telegramAPI \<equiv> ''https://api.telegram.org''"

section \<open>Helpers\<close>

definition to_lower :: "string \<Rightarrow> string" where
  "to_lower s = map ascii_lower s"

definition trim_right_slash :: "string \<Rightarrow> string" where
  "trim_right_slash s = rev (dropWhile (\<lambda>c. c = CHR ''/'') (rev s))"

definition validSeverity :: "string \<Rightarrow> bool" where
  "validSeverity v \<longleftrightarrow> v = SeverityCritical \<or> v = SeverityWarning \<or> v = SeverityInfo"

definition matches_config_identifier :: "string \<Rightarrow> bool" where
  "matches_config_identifier s \<longleftrightarrow> matches_identifier s \<and> length s \<le> 128"

definition unique :: "string list \<Rightarrow> string list" where
  "unique vs = unique_from [] (filter (\<lambda>v. v \<noteq> []) (map trim_space vs))"

definition validateURL :: "environment \<Rightarrow> string \<Rightarrow> string list \<Rightarrow> string option" where
  "validateURL env raw allowedHosts =
     (case en_parse_url env raw of
        None \<Rightarrow> Some ''endpoint must be an absolute URL without credentials or fragment''
      | Some u \<Rightarrow>
          if url_hostname u = [] \<or> url_has_user u \<or> url_fragment u \<noteq> []
          then Some ''endpoint must be an absolute URL without credentials or fragment''
          else if url_scheme u \<noteq> ''https'' \<and> \<not> (en_allow_http env \<and> url_scheme u = ''http'')
          then Some ''endpoint must use HTTPS''
          else if allowedHosts \<noteq> [] \<and> \<not> list_ex (\<lambda>host. equal_fold (url_hostname u) host) allowedHosts
          then Some ''endpoint host is not allowed''
          else None)"

definition hostSummary :: "environment \<Rightarrow> string \<Rightarrow> string" where
  "hostSummary env raw = (case en_parse_url env raw of None \<Rightarrow> ''configured'' | Some u \<Rightarrow> url_hostname u)"

definition netJoin :: "string \<Rightarrow> int \<Rightarrow> string" where
  "netJoin host port = host @ '':'' @ show_int port"

definition smtp_endpoint_bad :: "channel_config \<Rightarrow> bool" where
  "smtp_endpoint_bad cfg \<longleftrightarrow> cg_SMTPHost cfg = [] \<or> cg_SMTPPort cfg < 1 \<or> 65535 < cg_SMTPPort cfg \<or>
     (cg_SMTPMode cfg \<noteq> ''tls'' \<and> cg_SMTPMode cfg \<noteq> ''starttls'')"

definition keep_or :: "string \<Rightarrow> string \<Rightarrow> string \<Rightarrow> string" where
  "keep_or given value old = (if given \<noteq> [] then value else old)"

section \<open>Merging an input\<close>

definition merge_feishu :: "environment \<Rightarrow> channel_config \<Rightarrow> channel_input \<Rightarrow> string + channel_config" where
  "merge_feishu env cfg0 input =
     (let cfg1 = cfg0\<lparr>cg_Webhook := keep_or (ci_Endpoint input) (trim_space (ci_Endpoint input)) (cg_Webhook cfg0),
                     cg_SigningSecret := keep_or (ci_Secret input) (ci_Secret input) (cg_SigningSecret cfg0),
                     cg_MessageType := keep_or (ci_MessageType input) (ci_MessageType input) (cg_MessageType cfg0)\<rparr>;
          keyword = (case ci_Keyword input of None \<Rightarrow> cg_Keyword cfg1 | Some k \<Rightarrow> trim_space k)
      in if ci_Keyword input \<noteq> None \<and> (has_line_break keyword \<or> 64 < rune_count keyword)
         then Inl ''Feishu keyword must be at most 64 characters without line breaks''
         else
           let cfg2 = cfg1\<lparr>cg_Keyword := keyword,
                          cg_MessageType := (if cg_MessageType cfg1 = [] then ''card'' else cg_MessageType cfg1)\<rparr>
           in if cg_MessageType cfg2 \<noteq> ''card'' \<and> cg_MessageType cfg2 \<noteq> ''text''
              then Inl ''feishu message type must be card or text''
              else case en_parse_url env (cg_Webhook cfg2) of
                None \<Rightarrow> Inl ''invalid Feishu webhook''
              | Some u \<Rightarrow>
                  if url_hostname u = [] then Inl ''invalid Feishu webhook''
                  else if \<not> en_allow_http env \<and> url_hostname u \<noteq> ''open.feishu.cn'' \<and> url_hostname u \<noteq> ''open.larksuite.com''
                  then Inl ''feishu webhook must use an official host''
                  else (let cfg3 = cfg2\<lparr>cg_AllowedHosts := [url_hostname u]\<rparr>
                        in case validateURL env (cg_Webhook cfg3) (cg_AllowedHosts cfg3) of
                             Some e \<Rightarrow> Inl e | None \<Rightarrow> Inr cfg3))"

definition merge_telegram :: "environment \<Rightarrow> channel_config \<Rightarrow> channel_input \<Rightarrow> string + channel_config" where
  "merge_telegram env cfg0 input =
     (let cfg1 = cfg0\<lparr>cg_BotToken := keep_or (ci_Secret input) (ci_Secret input) (cg_BotToken cfg0),
                     cg_ChatID := keep_or (ci_ChatID input) (trim_space (ci_ChatID input)) (cg_ChatID cfg0),
                     cg_BaseURL := keep_or (ci_Endpoint input) (trim_right_slash (trim_space (ci_Endpoint input)))
                       (cg_BaseURL cfg0)\<rparr>;
          cfg2 = (if cg_BaseURL cfg1 = [] then cfg1\<lparr>cg_BaseURL := telegramAPI\<rparr> else cfg1)
      in if cg_BotToken cfg2 = [] \<or> cg_ChatID cfg2 = [] then Inl ''telegram bot token and chat id are required''
         else if \<not> en_allow_http env \<and> cg_BaseURL cfg2 \<noteq> telegramAPI
         then Inl ''telegram endpoint must be https://api.telegram.org''
         else Inr cfg2)"

definition merge_ntfy :: "environment \<Rightarrow> channel_config \<Rightarrow> channel_input \<Rightarrow> string + channel_config" where
  "merge_ntfy env cfg0 input =
     (let cfg1 = cfg0\<lparr>cg_Endpoint := keep_or (ci_Endpoint input) (trim_space (ci_Endpoint input)) (cg_Endpoint cfg0),
                     cg_Token := keep_or (ci_Secret input) (ci_Secret input) (cg_Token cfg0)\<rparr>
      in case validateURL env (cg_Endpoint cfg1) [] of Some e \<Rightarrow> Inl e | None \<Rightarrow> Inr cfg1)"

definition merge_smtp :: "environment \<Rightarrow> channel_config \<Rightarrow> channel_input \<Rightarrow> string + channel_config" where
  "merge_smtp env cfg0 input =
     (let cfg1 = cfg0\<lparr>cg_SMTPHost := keep_or (ci_SMTPHost input) (trim_space (ci_SMTPHost input)) (cg_SMTPHost cfg0),
                     cg_SMTPPort := (if ci_SMTPPort input \<noteq> 0 then ci_SMTPPort input else cg_SMTPPort cfg0),
                     cg_SMTPUsername := keep_or (ci_SMTPUsername input) (trim_space (ci_SMTPUsername input))
                       (cg_SMTPUsername cfg0),
                     cg_SMTPPassword := keep_or (ci_Secret input) (ci_Secret input) (cg_SMTPPassword cfg0),
                     cg_SMTPFrom := keep_or (ci_SMTPFrom input) (trim_space (ci_SMTPFrom input)) (cg_SMTPFrom cfg0),
                     cg_SMTPRecipients := (if ci_SMTPRecipients input \<noteq> [] then ci_SMTPRecipients input
                                           else cg_SMTPRecipients cfg0),
                     cg_SMTPMode := keep_or (ci_SMTPMode input) (ci_SMTPMode input) (cg_SMTPMode cfg0)\<rparr>
      in if smtp_endpoint_bad cfg1 then Inl ''SMTP host, port and TLS mode are required''
         else if \<not> en_address_ok env (cg_SMTPFrom cfg1) then Inl ''invalid SMTP sender''
         else if cg_SMTPRecipients cfg1 = [] then Inl ''SMTP recipient is required''
         else Inr cfg1)"

text \<open>The type is normalised here only, in the function's own copy of the input.\<close>

definition mergeChannelInput :: "environment \<Rightarrow> channel_config \<Rightarrow> channel_input \<Rightarrow> string + channel_config" where
  "mergeChannelInput env cfg input =
     (let t = to_lower (trim_space (ci_Type input)) in
      if t = ''feishu'' then merge_feishu env cfg input
      else if t = ''telegram'' then merge_telegram env cfg input
      else if t = ''ntfy'' then merge_ntfy env cfg input
      else if t = ''smtp'' then merge_smtp env cfg input
      else Inl ''channel type must be feishu, telegram, ntfy, or smtp'')"

section \<open>Building a sender\<close>

definition smtp_error :: "environment \<Rightarrow> channel_config \<Rightarrow> string option" where
  "smtp_error env cfg =
     (if smtp_endpoint_bad cfg then Some ''invalid SMTP endpoint''
      else if \<not> en_address_ok env (cg_SMTPFrom cfg) then Some ''invalid SMTP sender''
      else if cg_SMTPRecipients cfg = [] then Some ''SMTP recipient is required''
      else if \<not> list_all (en_address_ok env) (cg_SMTPRecipients cfg) then Some ''invalid SMTP recipient''
      else None)"

text \<open>\<open>buildChannel\<close>, for a row with this id, type, flag and time.\<close>

definition buildChannel ::
  "environment \<Rightarrow> string \<Rightarrow> string \<Rightarrow> bool \<Rightarrow> millis \<Rightarrow> channel_config \<Rightarrow> string + sender \<times> channel_view" where
  "buildChannel env i ctype enabled updated cfg =
     (let view = \<lparr>cv_ID = i, cv_Type = ctype, cv_Enabled = enabled, cv_Summary = [], cv_HasSecret = False,
                  cv_HasKeyword = False, cv_UpdatedAt = updated\<rparr> in
      if ctype = ''feishu'' then
        (case validateURL env (cg_Webhook cfg) (cg_AllowedHosts cfg) of
           Some e \<Rightarrow> Inl e
         | None \<Rightarrow> Inr (en_sender env ''feishu'' cfg,
             view\<lparr>cv_Summary := hostSummary env (cg_Webhook cfg), cv_HasSecret := cg_SigningSecret cfg \<noteq> [],
                  cv_HasKeyword := cg_Keyword cfg \<noteq> []\<rparr>))
      else if ctype = ''telegram'' then
        (if cg_BotToken cfg = [] \<or> cg_ChatID cfg = [] then Inl ''bot token and chat id are required''
         else let cfg1 = (if cg_BaseURL cfg = [] then cfg\<lparr>cg_BaseURL := telegramAPI\<rparr> else cfg) in
           if \<not> en_allow_http env \<and> cg_BaseURL cfg1 \<noteq> telegramAPI
           then Inl ''telegram base URL must be the official API''
           else Inr (en_sender env ''telegram'' cfg1,
                  view\<lparr>cv_Summary := ''Chat '' @ cg_ChatID cfg1, cv_HasSecret := True\<rparr>))
      else if ctype = ''ntfy'' then
        (case validateURL env (cg_Endpoint cfg) [] of
           Some e \<Rightarrow> Inl e
         | None \<Rightarrow> Inr (en_sender env ''ntfy'' cfg,
             view\<lparr>cv_Summary := hostSummary env (cg_Endpoint cfg), cv_HasSecret := cg_Token cfg \<noteq> []\<rparr>))
      else if ctype = ''smtp'' then
        (case smtp_error env cfg of
           Some e \<Rightarrow> Inl e
         | None \<Rightarrow> Inr (en_sender env ''smtp'' cfg,
             view\<lparr>cv_Summary := netJoin (cg_SMTPHost cfg) (cg_SMTPPort cfg), cv_HasSecret := cg_SMTPPassword cfg \<noteq> []\<rparr>))
      else Inl (''unsupported channel type '' @ ctype))"

section \<open>Stored configurations\<close>

definition encryptConfig :: "environment \<Rightarrow> channel_config \<Rightarrow> string option" where
  "encryptConfig env cfg = en_encrypt env (en_marshal env cfg)"

definition decryptConfig :: "environment \<Rightarrow> string \<Rightarrow> channel_config option" where
  "decryptConfig env value =
     (case en_decrypt env value of None \<Rightarrow> None | Some data \<Rightarrow> en_unmarshal env data)"

text \<open>The cipher and JSON give back what was stored.\<close>

definition storage_ok :: "environment \<Rightarrow> bool" where
  "storage_ok env \<longleftrightarrow> (\<forall>s c. en_encrypt env s = Some c \<longrightarrow> en_decrypt env c = Some s) \<and>
     (\<forall>cfg. en_unmarshal env (en_marshal env cfg) = Some cfg)"

lemma decrypt_encryptConfig: "storage_ok env \<Longrightarrow> encryptConfig env cfg = Some c \<Longrightarrow> decryptConfig env c = Some cfg"
  by (simp add: storage_ok_def encryptConfig_def decryptConfig_def)

section \<open>What is accepted can be built\<close>

lemma equal_fold_refl [simp]: "equal_fold s s"
  by (simp add: equal_fold_def)

lemma merge_feishu_builds:
  assumes "merge_feishu env cfg0 input = Inr cfg"
  shows "validateURL env (cg_Webhook cfg) (cg_AllowedHosts cfg) = None"
  using assms by (auto simp: merge_feishu_def Let_def split: if_splits option.splits)

lemma merge_telegram_builds:
  assumes "merge_telegram env cfg0 input = Inr cfg"
  shows "cg_BotToken cfg \<noteq> [] \<and> cg_ChatID cfg \<noteq> [] \<and> cg_BaseURL cfg \<noteq> [] \<and>
    (en_allow_http env \<or> cg_BaseURL cfg = telegramAPI)"
  using assms by (auto simp: merge_telegram_def Let_def split: if_splits)

lemma merge_ntfy_builds:
  assumes "merge_ntfy env cfg0 input = Inr cfg"
  shows "validateURL env (cg_Endpoint cfg) [] = None"
  using assms by (auto simp: merge_ntfy_def Let_def split: if_splits option.splits)

lemma merge_smtp_builds:
  assumes "merge_smtp env cfg0 input = Inr cfg"
  shows "\<not> smtp_endpoint_bad cfg \<and> en_address_ok env (cg_SMTPFrom cfg) \<and> cg_SMTPRecipients cfg \<noteq> []"
  using assms by (auto simp: merge_smtp_def Let_def split: if_splits)

text \<open>
  C35. An accepted channel configuration can be built, with two exceptions that the checks of the input do
  not make. If \<open>mergeChannelInput\<close> accepts an input, then \<open>buildChannel\<close>, with the type as given,
  succeeds if and only if the type was spelled in its normal form and, for SMTP, every recipient is a mail
  address. In both exceptions the row has been stored by the time the build fails.
\<close>

theorem accepted_channel_builds_iff:
  assumes "mergeChannelInput env cfg0 input = Inr cfg"
  shows "(\<exists>r. buildChannel env (ci_ID input) (ci_Type input) enabled updated cfg = Inr r) \<longleftrightarrow>
    ci_Type input \<in> {''feishu'', ''telegram'', ''ntfy'', ''smtp''} \<and>
    (ci_Type input = ''smtp'' \<longrightarrow> list_all (en_address_ok env) (cg_SMTPRecipients cfg))"
proof -
  have norm: "to_lower (trim_space t) = t" if "t \<in> {''feishu'', ''telegram'', ''ntfy'', ''smtp''}" for t
    using that by safe code_simp+
  consider "ci_Type input = ''feishu''" | "ci_Type input = ''telegram''" | "ci_Type input = ''ntfy''"
    | "ci_Type input = ''smtp''" | "ci_Type input \<notin> {''feishu'', ''telegram'', ''ntfy'', ''smtp''}" by blast
  then show ?thesis
  proof cases
    case 1
    with assms norm [of "ci_Type input"] have "merge_feishu env cfg0 input = Inr cfg"
      by (simp add: mergeChannelInput_def Let_def)
    from merge_feishu_builds [OF this] 1 show ?thesis by (simp add: buildChannel_def Let_def)
  next
    case 2
    with assms norm [of "ci_Type input"] have "merge_telegram env cfg0 input = Inr cfg"
      by (simp add: mergeChannelInput_def Let_def)
    from merge_telegram_builds [OF this] 2 show ?thesis by (auto simp: buildChannel_def Let_def)
  next
    case 3
    with assms norm [of "ci_Type input"] have "merge_ntfy env cfg0 input = Inr cfg"
      by (simp add: mergeChannelInput_def Let_def)
    from merge_ntfy_builds [OF this] 3 show ?thesis by (simp add: buildChannel_def Let_def)
  next
    case 4
    with assms norm [of "ci_Type input"] have "merge_smtp env cfg0 input = Inr cfg"
      by (simp add: mergeChannelInput_def Let_def)
    from merge_smtp_builds [OF this] 4 show ?thesis by (simp add: buildChannel_def Let_def smtp_error_def)
  next
    case 5
    then show ?thesis by (simp add: buildChannel_def Let_def)
  qed
qed

text \<open>An environment for concrete instances: the cipher adds a byte, an address has an at sign.\<close>

definition demo_env :: environment where
  "demo_env =
     \<lparr>en_parse_url = (\<lambda>s. None), en_address_ok = (\<lambda>s. CHR ''@'' \<in> set s), en_encrypt = (\<lambda>s. Some (CHR ''!'' # s)),
      en_decrypt = (\<lambda>s. case s of [] \<Rightarrow> None | c # cs \<Rightarrow> Some cs), en_marshal = (\<lambda>cfg. []),
      en_unmarshal = (\<lambda>s. None), en_allow_http = False, en_sender = (\<lambda>t cfg e. (200, None))\<rparr>"

definition smtp_input :: "string \<Rightarrow> string \<Rightarrow> channel_input" where
  "smtp_input ctype recipient =
     \<lparr>ci_ID = ''mail'', ci_Type = ctype, ci_Enabled = True, ci_Endpoint = [], ci_Secret = ''pw'', ci_ChatID = [],
      ci_SMTPHost = ''smtp.example.com'', ci_SMTPPort = 465, ci_SMTPUsername = [], ci_SMTPFrom = ''a@example.com'',
      ci_SMTPRecipients = [recipient], ci_SMTPMode = ''tls'', ci_MessageType = [], ci_Keyword = None\<rparr>"

definition smtp_config :: "string \<Rightarrow> channel_config" where
  "smtp_config recipient = empty_config\<lparr>cg_SMTPHost := ''smtp.example.com'', cg_SMTPPort := 465,
     cg_SMTPPassword := ''pw'', cg_SMTPFrom := ''a@example.com'', cg_SMTPRecipients := [recipient], cg_SMTPMode := ''tls''\<rparr>"

lemma smtp_input_accepted:
  assumes "to_lower (trim_space ctype) = ''smtp''"
  shows "mergeChannelInput demo_env empty_config (smtp_input ctype recipient) = Inr (smtp_config recipient)"
proof -
  have trim: "trim_space ''smtp.example.com'' = ''smtp.example.com''" "trim_space ''a@example.com'' = ''a@example.com''"
    by code_simp+
  show ?thesis
    using assms trim
    by (simp add: mergeChannelInput_def smtp_input_def merge_smtp_def Let_def keep_or_def empty_config_def
        smtp_config_def smtp_endpoint_bad_def demo_env_def)
qed

text \<open>A recipient that is no address is accepted, and so is a type in capitals; neither can be built.\<close>

theorem accepted_channel_builds_iff_witness:
  "mergeChannelInput demo_env empty_config (smtp_input ''smtp'' ''ops'') = Inr (smtp_config ''ops'') \<and>
   \<not> (\<exists>r. buildChannel demo_env ''mail'' ''smtp'' True 0 (smtp_config ''ops'') = Inr r) \<and>
   mergeChannelInput demo_env empty_config (smtp_input ''SMTP'' ''o@p'') = Inr (smtp_config ''o@p'') \<and>
   \<not> (\<exists>r. buildChannel demo_env ''mail'' ''SMTP'' True 0 (smtp_config ''o@p'') = Inr r)"
proof -
  have "to_lower (trim_space ''smtp'') = ''smtp''" "to_lower (trim_space ''SMTP'') = ''smtp''" by code_simp+
  note ok = smtp_input_accepted [OF this(1), of "''ops''"] smtp_input_accepted [OF this(2), of "''o@p''"]
  show ?thesis
    using accepted_channel_builds_iff [OF ok(1), of True 0] accepted_channel_builds_iff [OF ok(2), of True 0] ok
    by (simp add: smtp_input_def demo_env_def smtp_config_def)
qed

end
