(* ===== verification/Schema.thy ===== *)
theory Schema
  imports Domain
begin

text \<open>
  The SQLite schema (\<open>store.go\<close>, \<open>admin_store.go\<close>, \<open>oauth.go\<close>, \<open>mcp_events.go\<close>): a row type per
  table and the database as the record of its tables. A table is the list of its rows in the order
  of their rowids. Text that holds JSON (\<open>labels_json\<close>, \<open>allowed_routes_json\<close>) is kept as the value
  it encodes; Boolean columns with CHECK(x IN (0,1)) are Booleans, the delivery status with its
  CHECK is a datatype.
\<close>

section \<open>Results\<close>

datatype store_error =
    ErrReplay
  | ErrRateLimit
  | ErrNotFound
  | ErrInvalidState
  | ErrOAuthGrant
  | ErrTransition nat
  | ErrSubscriptionLimit
  | ErrQuery string
  | ErrConstraint
  | ErrStorage

datatype outcome = OutcomeQueued | OutcomeSuppressed | OutcomeDuplicate

datatype delivery_status = Pending | Processing | Retrying | Sent | Dead

section \<open>Rows\<close>

record nonce_row =
  nr_client :: string
  nr_nonce :: string
  nr_expires :: millis

record rate_row =
  rr_key :: string
  rr_bucket :: int
  rr_count :: int

record incident_row =
  in_client :: string
  in_route :: string
  in_dedupe :: string
  in_state :: string
  in_first :: millis
  in_seen :: millis
  in_notified :: millis

record event_row =
  ev_id :: string
  ev_client :: string
  ev_event :: string
  ev_source :: string
  ev_route :: string
  ev_status :: string
  ev_severity :: string
  ev_title :: string
  ev_message :: string
  ev_occurred :: millis
  ev_dedupe :: string
  ev_labels :: labels
  ev_url :: string
  ev_payload :: string
  ev_outcome :: outcome
  ev_incident :: "millis option"
  ev_created :: millis

record delivery_row =
  dl_id :: string
  dl_event :: string
  dl_channel :: string
  dl_status :: delivery_status
  dl_attempts :: int
  dl_next :: millis
  dl_lease :: "millis option"
  dl_code :: int
  dl_error :: string
  dl_created :: millis
  dl_sent :: "millis option"

record client_row =
  cl_id :: string
  cl_enabled :: bool
  cl_secret :: string
  cl_routes :: "string list"
  cl_limit :: int
  cl_created :: millis
  cl_updated :: millis

record token_row =
  tk_id :: string
  tk_public :: string
  tk_hash :: string
  tk_enabled :: bool
  tk_route :: string
  tk_severity :: string
  tk_limit :: int
  tk_created :: millis
  tk_updated :: millis

record channel_row =
  ch_id :: string
  ch_type :: string
  ch_enabled :: bool
  ch_config :: string
  ch_created :: millis
  ch_updated :: millis

record route_row =
  ro_route :: string
  ro_severity :: string
  ro_channel :: string
  ro_created :: millis

record silence_row =
  si_id :: string
  si_route :: string
  si_severity :: string
  si_starts :: millis
  si_ends :: millis
  si_reason :: string
  si_created :: millis

record session_row =
  se_hash :: string
  se_csrf :: string
  se_expires :: millis
  se_created :: millis

record login_row =
  lw_bucket :: int
  lw_count :: int

record credential_row =
  cr_username :: string
  cr_password :: string
  cr_created :: millis
  cr_updated :: millis

record code_row =
  co_hash :: string
  co_challenge :: string
  co_redirect :: string
  co_resource :: string
  co_policy :: string
  co_expires :: millis

record grant_row =
  gr_id :: string
  gr_access :: string
  gr_refresh :: string
  gr_policy :: string
  gr_access_expires :: millis
  gr_expires :: millis

record used_row =
  us_hash :: string
  us_grant :: string

record sub_row =
  sb_id :: string
  sb_owner :: string
  sb_policy :: string
  sb_generation :: string
  sb_routes :: string
  sb_source :: string
  sb_severity :: string
  sb_status :: string
  sb_encrypted :: string
  sb_expires :: millis
  sb_verified :: millis

record subdelivery_row =
  sd_delivery :: string
  sd_generation :: string

section \<open>The database\<close>

record db =
  nonces :: "nonce_row list"
  rate_windows :: "rate_row list"
  incidents :: "incident_row list"
  events :: "event_row list"
  deliveries :: "delivery_row list"
  gateway_clients :: "client_row list"
  ingress_tokens :: "token_row list"
  notification_channels :: "channel_row list"
  route_rules :: "route_row list"
  silences :: "silence_row list"
  admin_sessions :: "session_row list"
  admin_login_windows :: "login_row list"
  admin_credentials :: "credential_row list"
  oauth_codes :: "code_row list"
  oauth_grants :: "grant_row list"
  oauth_used_refresh :: "used_row list"
  event_subscriptions :: "sub_row list"
  event_deliveries :: "subdelivery_row list"

definition empty_db :: db where
  "empty_db =
     \<lparr>nonces = [], rate_windows = [], incidents = [], events = [], deliveries = [],
      gateway_clients = [], ingress_tokens = [], notification_channels = [], route_rules = [],
      silences = [], admin_sessions = [], admin_login_windows = [], admin_credentials = [],
      oauth_codes = [], oauth_grants = [], oauth_used_refresh = [], event_subscriptions = [],
      event_deliveries = []\<rparr>"

type_synonym 'a store_op = "db \<Rightarrow> (store_error + 'a) \<times> db"

text \<open>A call of the store that may fail outside the program.\<close>

abbreviation store_call :: "bool \<Rightarrow> 'a store_op \<Rightarrow> 'a store_op" where
  "store_call \<equiv> db_call ErrStorage"

section \<open>Keys\<close>

definition nonce_key :: "nonce_row \<Rightarrow> string \<times> string" where
  "nonce_key r = (nr_client r, nr_nonce r)"

definition rate_key :: "rate_row \<Rightarrow> string \<times> int" where
  "rate_key r = (rr_key r, rr_bucket r)"

definition incident_key :: "incident_row \<Rightarrow> string \<times> string \<times> string" where
  "incident_key r = (in_client r, in_route r, in_dedupe r)"

definition event_key :: "event_row \<Rightarrow> string \<times> string" where
  "event_key r = (ev_client r, ev_event r)"

definition delivery_key :: "delivery_row \<Rightarrow> string \<times> string" where
  "delivery_key r = (dl_event r, dl_channel r)"

definition route_key :: "route_row \<Rightarrow> string \<times> string \<times> string" where
  "route_key r = (ro_route r, ro_severity r, ro_channel r)"

lemmas key_defs = nonce_key_def rate_key_def incident_key_def event_key_def delivery_key_def
  route_key_def

text \<open>
  Integrity of the tables the ingest and delivery paths share: primary keys and UNIQUE constraints,
  and the foreign keys with ON DELETE CASCADE (\<open>PRAGMA foreign_keys=ON\<close>).
\<close>

definition queue_integrity :: "db \<Rightarrow> bool" where
  "queue_integrity d \<longleftrightarrow>
     keyed ev_id (events d) \<and> keyed event_key (events d) \<and>
     keyed dl_id (deliveries d) \<and> keyed delivery_key (deliveries d) \<and>
     keyed incident_key (incidents d) \<and>
     keyed sd_delivery (event_deliveries d) \<and>
     dl_event ` set (deliveries d) \<subseteq> ev_id ` set (events d) \<and>
     sd_delivery ` set (event_deliveries d) \<subseteq> dl_id ` set (deliveries d)"

lemma queue_integrity_empty [simp]: "queue_integrity empty_db"
  by (simp add: queue_integrity_def empty_db_def)

text \<open>Operations that leave the five tables alone keep their integrity.\<close>

lemma queue_integrity_frame:
  assumes "queue_integrity d" and "events d' = events d" and "deliveries d' = deliveries d"
    and "incidents d' = incidents d" and "event_deliveries d' = event_deliveries d"
  shows "queue_integrity d'"
  using assms by (simp add: queue_integrity_def)

end
