(* ===== verification/OAuthStore.thy ===== *)
theory OAuthStore
  imports Schema
begin

text \<open>
  \<open>internal/store/oauth.go\<close>: authorization codes, grants with their access and refresh tokens (only
  hashes are stored) and the retired refresh tokens. A retired refresh token that comes back revokes
  its whole grant.
\<close>

section \<open>Operations\<close>

text \<open>DELETE FROM mcp_oauth_grants with its cascade to the retired refresh tokens.\<close>

definition delete_grants :: "(grant_row \<Rightarrow> bool) \<Rightarrow> db \<Rightarrow> db" where
  "delete_grants P d =
     (let gone = map gr_id (filter P (oauth_grants d))
      in d\<lparr>oauth_grants := delete_rows P (oauth_grants d),
           oauth_used_refresh := delete_rows (\<lambda>u. us_grant u \<in> set gone) (oauth_used_refresh d)\<rparr>)"

definition SaveOAuthCode ::
  "string \<Rightarrow> string \<Rightarrow> string \<Rightarrow> string \<Rightarrow> string \<Rightarrow> instant \<Rightarrow> unit store_op" where
  "SaveOAuthCode hash challenge redirect resource policy now d =
     (let live = delete_rows (\<lambda>c. co_expires c \<le> unix_milli now) (oauth_codes d);
          d1 = delete_grants (\<lambda>g. gr_expires g \<le> unix_milli now) (d\<lparr>oauth_codes := live\<rparr>)
      in case insert_row co_hash
                \<lparr>co_hash = hash, co_challenge = challenge, co_redirect = redirect,
                 co_resource = resource, co_policy = policy,
                 co_expires = unix_milli (now + 5 * minute)\<rparr> live of
           None \<Rightarrow> (Inl ErrConstraint, d)
         | Some codes \<Rightarrow> (Inr (), d1\<lparr>oauth_codes := codes\<rparr>))"

definition grant_conflict :: "string \<Rightarrow> string \<Rightarrow> string \<Rightarrow> grant_row list \<Rightarrow> bool" where
  "grant_conflict grantID access refresh grants \<longleftrightarrow>
     list_ex (\<lambda>g. gr_id g \<noteq> grantID \<and> (gr_access g = access \<or> gr_refresh g = refresh)) grants"

definition ExchangeOAuthCode ::
  "string \<Rightarrow> string \<Rightarrow> string \<Rightarrow> string \<Rightarrow> string \<Rightarrow> string \<Rightarrow> string \<Rightarrow> string \<Rightarrow> instant
     \<Rightarrow> unit store_op" where
  "ExchangeOAuthCode hash challenge redirect resource policy grantID access refresh now d =
     (let usable = (\<lambda>c. co_hash c = hash \<and> co_challenge c = challenge \<and> co_redirect c = redirect \<and>
                      co_resource c = resource \<and> co_policy c = policy \<and> unix_milli now < co_expires c)
      in if count_rows usable (oauth_codes d) \<noteq> 1 then (Inl ErrOAuthGrant, d)
         else if list_ex (\<lambda>g. gr_id g = grantID) (oauth_grants d)
                 \<or> grant_conflict grantID access refresh (oauth_grants d) then (Inl ErrConstraint, d)
         else (Inr (),
           d\<lparr>oauth_codes := delete_rows usable (oauth_codes d),
             oauth_grants := oauth_grants d @
               [\<lparr>gr_id = grantID, gr_access = access, gr_refresh = refresh, gr_policy = policy,
                 gr_access_expires = unix_milli (now + hour),
                 gr_expires = unix_milli (now + 30 * 24 * hour)\<rparr>]\<rparr>))"

definition OAuthAccess :: "string \<Rightarrow> string \<Rightarrow> instant \<Rightarrow> db \<Rightarrow> string option" where
  "OAuthAccess hash policy now d =
     map_option gr_id
       (query_row (\<lambda>g. gr_access g = hash \<and> gr_policy g = policy \<and>
          unix_milli now < gr_access_expires g \<and> unix_milli now < gr_expires g) (oauth_grants d))"

text \<open>Reusing any retired refresh token revokes its entire grant, including access.\<close>

definition RotateOAuthRefresh ::
  "string \<Rightarrow> string \<Rightarrow> string \<Rightarrow> string \<Rightarrow> instant \<Rightarrow> unit store_op" where
  "RotateOAuthRefresh old policy access refresh now d =
     (case query_row (\<lambda>u. us_hash u = old) (oauth_used_refresh d) of
        Some u \<Rightarrow> (Inl ErrOAuthGrant, delete_grants (\<lambda>g. gr_id g = us_grant u) d)
      | None \<Rightarrow>
         (case query_row (\<lambda>g. gr_refresh g = old \<and> gr_policy g = policy \<and> unix_milli now < gr_expires g)
                 (oauth_grants d) of
            None \<Rightarrow> (Inl ErrOAuthGrant, d)
          | Some g \<Rightarrow>
              if grant_conflict (gr_id g) access refresh (oauth_grants d) then (Inl ErrConstraint, d)
              else (Inr (),
                d\<lparr>oauth_used_refresh := oauth_used_refresh d @ [\<lparr>us_hash = old, us_grant = gr_id g\<rparr>],
                  oauth_grants := update_rows (\<lambda>h. gr_id h = gr_id g)
                    (\<lambda>h. h\<lparr>gr_access := access, gr_refresh := refresh,
                           gr_access_expires := unix_milli (now + hour)\<rparr>) (oauth_grants d)\<rparr>)))"

definition RevokeOAuthToken :: "string \<Rightarrow> unit store_op" where
  "RevokeOAuthToken hash d =
     (Inr (), delete_grants
        (\<lambda>g. gr_access g = hash \<or> gr_refresh g = hash \<or>
             list_ex (\<lambda>u. us_hash u = hash \<and> us_grant u = gr_id g) (oauth_used_refresh d)) d)"

definition RevokeAllOAuth :: "unit store_op" where
  "RevokeAllOAuth d = (Inr (), delete_grants (\<lambda>_. True) (d\<lparr>oauth_codes := []\<rparr>))"

definition OAuthGrantActive :: "string \<Rightarrow> string \<Rightarrow> instant \<Rightarrow> db \<Rightarrow> bool" where
  "OAuthGrantActive grantID policy now d \<longleftrightarrow>
     list_ex (\<lambda>g. gr_id g = grantID \<and> gr_policy g = policy \<and> unix_milli now < gr_expires g) (oauth_grants d)"

section \<open>Integrity\<close>

definition oauth_integrity :: "db \<Rightarrow> bool" where
  "oauth_integrity d \<longleftrightarrow>
     keyed co_hash (oauth_codes d) \<and> keyed gr_id (oauth_grants d) \<and>
     keyed gr_access (oauth_grants d) \<and> keyed gr_refresh (oauth_grants d) \<and>
     keyed us_hash (oauth_used_refresh d) \<and>
     us_grant ` set (oauth_used_refresh d) \<subseteq> gr_id ` set (oauth_grants d)"

lemma oauth_integrity_empty [simp]: "oauth_integrity empty_db"
  by (simp add: oauth_integrity_def empty_db_def)

lemma oauth_integrity_frame:
  assumes "oauth_integrity d" and "oauth_codes d' = oauth_codes d" and "oauth_grants d' = oauth_grants d"
    and "oauth_used_refresh d' = oauth_used_refresh d"
  shows "oauth_integrity d'"
  using assms by (simp add: oauth_integrity_def)

lemma delete_grants_fields [simp]:
  "oauth_grants (delete_grants P d) = delete_rows P (oauth_grants d)"
  "oauth_codes (delete_grants P d) = oauth_codes d"
  by (simp_all add: delete_grants_def Let_def)

lemma delete_grants_used:
  "set (oauth_used_refresh (delete_grants P d)) =
     {u \<in> set (oauth_used_refresh d). \<forall>g\<in>set (oauth_grants d). P g \<longrightarrow> gr_id g \<noteq> us_grant u}"
  unfolding delete_grants_def Let_def by (fastforce simp: table_simps image_iff)

lemma delete_grants_integrity:
  assumes "oauth_integrity d"
  shows "oauth_integrity (delete_grants P d)"
proof -
  have "keyed us_hash (oauth_used_refresh (delete_grants P d))"
    using assms by (simp add: delete_grants_def Let_def oauth_integrity_def)
  moreover have "us_grant ` set (oauth_used_refresh (delete_grants P d))
      \<subseteq> gr_id ` set (oauth_grants (delete_grants P d))"
  proof
    fix k
    assume "k \<in> us_grant ` set (oauth_used_refresh (delete_grants P d))"
    then obtain u where u: "u \<in> set (oauth_used_refresh d)" "k = us_grant u"
        "\<forall>g\<in>set (oauth_grants d). P g \<longrightarrow> gr_id g \<noteq> us_grant u"
      by (auto simp: delete_grants_used)
    then obtain g where "g \<in> set (oauth_grants d)" "gr_id g = k"
      using assms by (force simp: oauth_integrity_def)
    with u have "g \<in> set (oauth_grants (delete_grants P d))"
      by (auto simp: table_simps)
    with \<open>gr_id g = k\<close> show "k \<in> gr_id ` set (oauth_grants (delete_grants P d))"
      by blast
  qed
  ultimately show ?thesis using assms by (simp add: oauth_integrity_def)
qed

lemma SaveOAuthCode_integrity:
  assumes "oauth_integrity d"
  shows "oauth_integrity (snd (SaveOAuthCode h c r s p now d))"
proof -
  let ?live = "delete_rows (\<lambda>c. co_expires c \<le> unix_milli now) (oauth_codes d)"
  have "oauth_integrity (delete_grants (\<lambda>g. gr_expires g \<le> unix_milli now) (d\<lparr>oauth_codes := ?live\<rparr>))"
    using assms by (intro delete_grants_integrity) (auto simp: oauth_integrity_def)
  then show ?thesis
    using assms
    by (auto simp: SaveOAuthCode_def Let_def oauth_integrity_def split: option.splits dest: keyed_insert)
qed

lemma grant_conflict_False:
  "\<not> grant_conflict i a r gs \<Longrightarrow> g \<in> set gs \<Longrightarrow> gr_id g \<noteq> i \<Longrightarrow> gr_access g \<noteq> a \<and> gr_refresh g \<noteq> r"
  by (auto simp: grant_conflict_def list_ex_iff)

lemma ExchangeOAuthCode_integrity:
  assumes "oauth_integrity d"
  shows "oauth_integrity (snd (ExchangeOAuthCode h c r s p i a f now d))"
  using assms
  by (auto simp: ExchangeOAuthCode_def Let_def oauth_integrity_def dest: grant_conflict_False)

lemma keyed_update_one:
  assumes "keyed key rows" and "keyed uid rows"
    and "\<And>r. uid (f r) = uid r" and "\<And>r. key (f r) = k"
    and "\<forall>r\<in>set rows. uid r \<noteq> i \<longrightarrow> key r \<noteq> k"
  shows "keyed key (update_rows (\<lambda>r. uid r = i) f rows)"
  using assms
  by (induction rows) (auto simp: keyed_def update_rows_def image_iff split: if_splits)

lemma RotateOAuthRefresh_integrity:
  assumes "oauth_integrity d"
  shows "oauth_integrity (snd (RotateOAuthRefresh old p a f now d))"
proof -
  have upd: "keyed gr_id (update_rows P (\<lambda>h. h\<lparr>gr_access := a, gr_refresh := f, gr_access_expires := x\<rparr>)
      (oauth_grants d))" for P x
    using assms by (intro keyed_update) (auto simp: oauth_integrity_def)
  have ids: "gr_id ` set (update_rows P (\<lambda>h. h\<lparr>gr_access := a, gr_refresh := f, gr_access_expires := x\<rparr>)
      (oauth_grants d)) = gr_id ` set (oauth_grants d)" for P x
    by (intro image_update_key) simp
  show ?thesis
    using assms delete_grants_integrity [OF assms]
    by (auto simp: RotateOAuthRefresh_def oauth_integrity_def upd ids query_row_None_key
        split: option.splits dest!: query_row_SomeD intro!: keyed_update_one [where uid = gr_id]
        dest: grant_conflict_False)
qed

lemma Revoke_integrity:
  assumes "oauth_integrity d"
  shows "oauth_integrity (snd (RevokeOAuthToken h d))" and "oauth_integrity (snd (RevokeAllOAuth d))"
proof -
  show "oauth_integrity (snd (RevokeOAuthToken h d))"
    using assms by (simp add: RevokeOAuthToken_def delete_grants_integrity)
  have "oauth_integrity (d\<lparr>oauth_codes := []\<rparr>)" using assms by (simp add: oauth_integrity_def)
  then show "oauth_integrity (snd (RevokeAllOAuth d))"
    by (simp add: RevokeAllOAuth_def delete_grants_integrity)
qed

section \<open>Behaviour\<close>

text \<open>The grant a refresh token, live or retired, belongs to.\<close>

definition refresh_family :: "string \<Rightarrow> string \<Rightarrow> db \<Rightarrow> bool" where
  "refresh_family hash grantID d \<longleftrightarrow>
     (\<exists>u\<in>set (oauth_used_refresh d). us_hash u = hash \<and> us_grant u = grantID)"

lemma delete_grants_access:
  assumes "\<forall>g\<in>set (oauth_grants d). gr_id g = i \<longrightarrow> P g"
  shows "OAuthAccess h p now (delete_grants P d) \<noteq> Some i"
  using assms by (auto simp: OAuthAccess_def table_simps dest!: query_row_SomeD)

lemma Rotate_success:
  assumes "RotateOAuthRefresh old p a f now d = (Inr (), d1)"
  obtains g where "g \<in> set (oauth_grants d)" "gr_refresh g = old" "gr_policy g = p"
    "unix_milli now < gr_expires g"
    "oauth_used_refresh d1 = oauth_used_refresh d @ [\<lparr>us_hash = old, us_grant = gr_id g\<rparr>]"
    "oauth_grants d1 = update_rows (\<lambda>h. gr_id h = gr_id g)
       (\<lambda>h. h\<lparr>gr_access := a, gr_refresh := f, gr_access_expires := unix_milli (now + hour)\<rparr>) (oauth_grants d)"
  using assms
  by (auto simp: RotateOAuthRefresh_def split: option.splits if_splits dest!: query_row_SomeD)

lemma Rotate_retired:
  assumes "query_row (\<lambda>u. us_hash u = old) (oauth_used_refresh d) = Some u"
  shows "RotateOAuthRefresh old p a f now d =
    (Inl ErrOAuthGrant, delete_grants (\<lambda>g. gr_id g = us_grant u) d)"
  using assms by (simp add: RotateOAuthRefresh_def)

text \<open>No operation moves the end of a grant: its 30 days run from the exchange of its code.\<close>

definition grant_ends :: "db \<Rightarrow> (string \<times> millis) set" where
  "grant_ends d = (\<lambda>g. (gr_id g, gr_expires g)) ` set (oauth_grants d)"

lemma grant_ends_delete: "grant_ends (delete_grants P d) \<subseteq> grant_ends d"
  by (auto simp: grant_ends_def table_simps)

lemma grant_ends_rotate: "grant_ends (snd (RotateOAuthRefresh old p a f now d)) \<subseteq> grant_ends d"
proof -
  have "(\<lambda>g. (gr_id g, gr_expires g)) ` set (update_rows P
      (\<lambda>h. h\<lparr>gr_access := a, gr_refresh := f, gr_access_expires := x\<rparr>) gs)
    = (\<lambda>g. (gr_id g, gr_expires g)) ` set gs" for P x and gs :: "grant_row list"
    by (rule image_update_key) simp
  then show ?thesis
    using grant_ends_delete [of _ d]
    by (simp add: RotateOAuthRefresh_def grant_ends_def split: option.splits)
qed

lemma grant_ends_exchange:
  "grant_ends (snd (ExchangeOAuthCode h c r s p i a f now d))
     \<subseteq> insert (i, unix_milli (now + 30 * 24 * hour)) (grant_ends d)"
  by (auto simp: ExchangeOAuthCode_def Let_def grant_ends_def)

section \<open>Properties\<close>

text \<open>
  An authorization code is good for one exchange: after a successful exchange no later exchange
  of the same code succeeds, whatever its other arguments and time, as long as the code has not been
  issued again.
\<close>

theorem oauth_code_single_use:
  assumes "oauth_integrity d"
    and "ExchangeOAuthCode h c r s p i a f now d = (Inr (), d1)"
  shows "ExchangeOAuthCode h c' r' s' p' i' a' f' now' d1 = (Inl ErrOAuthGrant, d1)"
proof -
  let ?usable = "\<lambda>k. co_hash k = h \<and> co_challenge k = c \<and> co_redirect k = r \<and> co_resource k = s \<and>
      co_policy k = p \<and> unix_milli now < co_expires k"
  have one: "count_rows ?usable (oauth_codes d) = 1"
    and d1: "oauth_codes d1 = delete_rows ?usable (oauth_codes d)"
    using assms(2) by (auto simp: ExchangeOAuthCode_def Let_def split: if_splits)
  obtain k where k: "k \<in> set (oauth_codes d)" "?usable k"
    using one count_rows_zero [of ?usable "oauth_codes d"] by auto
  have "co_hash k' \<noteq> h" if "k' \<in> set (oauth_codes d1)" for k'
  proof
    assume "co_hash k' = h"
    with that k assms(1) have "k' = k"
      by (auto simp: d1 table_simps oauth_integrity_def dest: keyed_unique)
    with that k show False by (simp add: d1 table_simps)
  qed
  then have "count_rows (\<lambda>k. co_hash k = h \<and> Q k) (oauth_codes d1) = 0" for Q
    by (auto simp: count_rows_zero)
  then show ?thesis by (simp add: ExchangeOAuthCode_def)
qed

definition demo_code_db :: db where
  "demo_code_db = empty_db\<lparr>oauth_codes :=
     [\<lparr>co_hash = ''h'', co_challenge = ''c'', co_redirect = ''r'', co_resource = ''s'', co_policy = ''p'',
       co_expires = 300000\<rparr>]\<rparr>"

lemma demo_code_integrity: "oauth_integrity demo_code_db"
  by (simp add: demo_code_db_def oauth_integrity_def empty_db_def keyed_def)

theorem oauth_code_single_use_witness:
  "\<exists>d1. ExchangeOAuthCode ''h'' ''c'' ''r'' ''s'' ''p'' ''g'' ''a'' ''f'' 0 demo_code_db = (Inr (), d1)
     \<and> ExchangeOAuthCode ''h'' ''c'' ''r'' ''s'' ''p'' ''g2'' ''a2'' ''f2'' second d1 = (Inl ErrOAuthGrant, d1)"
proof -
  have "fst (ExchangeOAuthCode ''h'' ''c'' ''r'' ''s'' ''p'' ''g'' ''a'' ''f'' 0 demo_code_db) = Inr ()"
    by (simp add: ExchangeOAuthCode_def demo_code_db_def empty_db_def count_rows_def unix_milli_def
        grant_conflict_def)
  then obtain d1 where
    "ExchangeOAuthCode ''h'' ''c'' ''r'' ''s'' ''p'' ''g'' ''a'' ''f'' 0 demo_code_db = (Inr (), d1)"
    by (metis prod.collapse)
  with oauth_code_single_use [OF demo_code_integrity this] show ?thesis by blast
qed

text \<open>
  C31. Refresh-token reuse is detected: once a refresh token has been rotated, presenting it again is
  refused and ends its grant, so neither the rotated access token nor any other token of the grant
  authenticates from then on and the grant is no longer active.
\<close>

theorem refresh_reuse_revokes_grant:
  assumes "RotateOAuthRefresh old p a f now d = (Inr (), d1)"
    and "RotateOAuthRefresh old p' a' f' now' d1 = (res, d2)"
  shows "res = Inl ErrOAuthGrant \<and>
    (\<exists>i. (\<exists>g\<in>set (oauth_grants d). gr_id g = i \<and> gr_refresh g = old) \<and>
         (\<forall>h q t. OAuthAccess h q t d2 \<noteq> Some i \<and> \<not> OAuthGrantActive i q t d2))"
proof -
  obtain g where g: "g \<in> set (oauth_grants d)" "gr_refresh g = old"
    and used: "oauth_used_refresh d1 = oauth_used_refresh d @ [\<lparr>us_hash = old, us_grant = gr_id g\<rparr>]"
    using Rotate_success [OF assms(1)] by metis
  have fresh: "query_row (\<lambda>u. us_hash u = old) (oauth_used_refresh d) = None"
    using assms(1) by (auto simp: RotateOAuthRefresh_def split: option.splits)
  have "query_row (\<lambda>u. us_hash u = old) (oauth_used_refresh d1) = Some \<lparr>us_hash = old, us_grant = gr_id g\<rparr>"
    using fresh by (simp add: used query_row_append)
  from Rotate_retired [OF this]
  have out: "res = Inl ErrOAuthGrant" "d2 = delete_grants (\<lambda>h. gr_id h = gr_id g) d1"
    using assms(2) by auto
  have "OAuthAccess h q t d2 \<noteq> Some (gr_id g) \<and> \<not> OAuthGrantActive (gr_id g) q t d2" for h q t
    unfolding out(2) by (auto simp: OAuthGrantActive_def list_ex_iff table_simps intro!: delete_grants_access)
  with g show ?thesis using out(1) by blast
qed

definition demo_grant_db :: db where
  "demo_grant_db = empty_db\<lparr>oauth_grants :=
     [\<lparr>gr_id = ''g'', gr_access = ''a'', gr_refresh = ''f'', gr_policy = ''p'', gr_access_expires = 3600000,
       gr_expires = 2592000000\<rparr>]\<rparr>"

theorem refresh_reuse_revokes_grant_witness:
  "\<exists>d1. RotateOAuthRefresh ''f'' ''p'' ''a1'' ''f1'' 0 demo_grant_db = (Inr (), d1) \<and>
        fst (RotateOAuthRefresh ''f'' ''p'' ''a2'' ''f2'' second d1) = Inl ErrOAuthGrant"
proof -
  have "fst (RotateOAuthRefresh ''f'' ''p'' ''a1'' ''f1'' 0 demo_grant_db) = Inr ()"
    by (simp add: RotateOAuthRefresh_def demo_grant_db_def empty_db_def unix_milli_def grant_conflict_def)
  then obtain d1 where d1: "RotateOAuthRefresh ''f'' ''p'' ''a1'' ''f1'' 0 demo_grant_db = (Inr (), d1)"
    by (metis prod.collapse)
  obtain res d2 where d2: "RotateOAuthRefresh ''f'' ''p'' ''a2'' ''f2'' second d1 = (res, d2)"
    by (cases "RotateOAuthRefresh ''f'' ''p'' ''a2'' ''f2'' second d1")
  with d1 refresh_reuse_revokes_grant [OF d1 d2] show ?thesis by simp
qed

end
