(* ===== verification/EventStore.thy ===== *)
theory EventStore
  imports OAuthStore
begin

text \<open>
  \<open>internal/store/mcp_events.go\<close>: webhook subscriptions to accepted alerts and the delivery rows
  they create. A subscription delivery names its subscription in the channel column
  (\<open>@mcp-event:\<close> followed by its id) and carries the generation it was created under.
\<close>

section \<open>Subscriptions\<close>

abbreviation eventChannelPrefix :: string where "eventChannelPrefix \<equiv> ''@mcp-event:''"

text \<open>\<open>owner NOT LIKE 'oauth:%' OR EXISTS (an active grant under the subscription's policy)\<close>\<close>

definition owner_active :: "instant \<Rightarrow> db \<Rightarrow> sub_row \<Rightarrow> bool" where
  "owner_active now d s \<longleftrightarrow>
     \<not> like_prefix ''oauth:'' (sb_owner s) \<or>
     list_ex (\<lambda>g. gr_id g = drop 6 (sb_owner s) \<and> gr_policy g = sb_policy s \<and>
                 unix_milli now < gr_expires g) (oauth_grants d)"

definition SaveEventSubscription :: "sub_row \<Rightarrow> instant \<Rightarrow> unit store_op" where
  "SaveEventSubscription s now d =
     (let live = delete_rows (\<lambda>r. sb_expires r \<le> unix_milli now) (event_subscriptions d)
      in if 1000 \<le> count_rows (\<lambda>r. sb_id r \<noteq> sb_id s) live then (Inl ErrSubscriptionLimit, d)
         else if 100 \<le> count_rows (\<lambda>r. sb_owner r = sb_owner s \<and> sb_id r \<noteq> sb_id s) live
              then (Inl ErrSubscriptionLimit, d)
         else (Inr (), d\<lparr>event_subscriptions :=
                 upsert_row sb_id
                   (\<lambda>old new. old\<lparr>sb_generation := sb_generation new, sb_encrypted := sb_encrypted new,
                      sb_expires := sb_expires new, sb_verified := sb_verified new\<rparr>) s live\<rparr>))"

definition EventSubscription :: "string \<Rightarrow> db \<Rightarrow> sub_row option" where
  "EventSubscription subID d = query_row (\<lambda>s. sb_id s = subID) (event_subscriptions d)"

definition RemoveEventSubscription :: "string \<Rightarrow> string \<Rightarrow> unit store_op" where
  "RemoveEventSubscription subID owner d =
     (Inr (), d\<lparr>event_subscriptions :=
        delete_rows (\<lambda>s. sb_id s = subID \<and> sb_owner s = owner) (event_subscriptions d)\<rparr>)"

definition PruneEventSubscriptions :: "instant \<Rightarrow> unit store_op" where
  "PruneEventSubscriptions now d =
     (Inr (), d\<lparr>event_subscriptions :=
        delete_rows (\<lambda>s. sb_expires s \<le> unix_milli now \<or>
          (like_prefix ''oauth:'' (sb_owner s) \<and> \<not> owner_active now d s)) (event_subscriptions d)\<rparr>)"

section \<open>Delivery rows\<close>

text \<open>INSERT INTO deliveries: the primary key and UNIQUE(event_record_id, channel_id).\<close>

definition insert_delivery :: "delivery_row \<Rightarrow> delivery_row list \<Rightarrow> delivery_row list option" where
  "insert_delivery r rows =
     (if list_ex (\<lambda>x. delivery_key x = delivery_key r) rows then None else insert_row dl_id r rows)"

fun insert_deliveries :: "delivery_row list \<Rightarrow> delivery_row list \<Rightarrow> delivery_row list option" where
  "insert_deliveries [] rows = Some rows"
| "insert_deliveries (r # rs) rows =
     (case insert_delivery r rows of None \<Rightarrow> None | Some rows' \<Rightarrow> insert_deliveries rs rows')"

definition new_delivery :: "string \<Rightarrow> string \<Rightarrow> string \<Rightarrow> instant \<Rightarrow> delivery_row" where
  "new_delivery deliveryID recordID channel now =
     \<lparr>dl_id = deliveryID, dl_event = recordID, dl_channel = channel, dl_status = Pending,
      dl_attempts = 0, dl_next = unix_milli now, dl_lease = None, dl_code = 0, dl_error = [],
      dl_created = unix_milli now, dl_sent = None\<rparr>"

text \<open>The WHERE clause of \<open>enqueueEventSubscriptions\<close>.\<close>

definition subscription_matches :: "event \<Rightarrow> instant \<Rightarrow> db \<Rightarrow> sub_row \<Rightarrow> bool" where
  "subscription_matches e now d s \<longleftrightarrow>
     unix_milli now < sb_expires s \<and> owner_active now d s \<and>
     contains_sub ('','' @ RoutingKey e @ '','') ('','' @ sb_routes s @ '','') \<and>
     (sb_source s = [] \<or> sb_source s = Source e) \<and>
     (sb_severity s = [] \<or> sb_severity s = Severity e) \<and>
     (sb_status s = [] \<or> sb_status s = Status e)"

definition subscription_deliveries :: "string \<Rightarrow> event \<Rightarrow> instant \<Rightarrow> db \<Rightarrow> delivery_row list" where
  "subscription_deliveries recordID e now d =
     map (\<lambda>s. new_delivery (recordID @ '':'' @ sb_id s) recordID (eventChannelPrefix @ sb_id s) now)
       (filter (subscription_matches e now d) (event_subscriptions d))"

text \<open>The second INSERT: the generation of the subscription each delivery of the record names.\<close>

definition generation_rows :: "string \<Rightarrow> sub_row list \<Rightarrow> delivery_row list \<Rightarrow> subdelivery_row list" where
  "generation_rows recordID subs rows =
     concat (map (\<lambda>r. map (\<lambda>s. \<lparr>sd_delivery = dl_id r, sd_generation = sb_generation s\<rparr>)
                       (filter (\<lambda>s. dl_channel r = eventChannelPrefix @ sb_id s) subs))
              (filter (\<lambda>r. dl_event r = recordID) rows))"

fun insert_generations :: "subdelivery_row list \<Rightarrow> subdelivery_row list \<Rightarrow> subdelivery_row list option" where
  "insert_generations [] rows = Some rows"
| "insert_generations (r # rs) rows =
     (case insert_row sd_delivery r rows of None \<Rightarrow> None | Some rows' \<Rightarrow> insert_generations rs rows')"

definition enqueueEventSubscriptions :: "string \<Rightarrow> event \<Rightarrow> instant \<Rightarrow> db \<Rightarrow> db option" where
  "enqueueEventSubscriptions recordID e now d =
     (case insert_deliveries (subscription_deliveries recordID e now d) (deliveries d) of
        None \<Rightarrow> None
      | Some rows \<Rightarrow>
          (case insert_generations (generation_rows recordID (event_subscriptions d) rows) (event_deliveries d) of
             None \<Rightarrow> None
           | Some gens \<Rightarrow> Some (d\<lparr>deliveries := rows, event_deliveries := gens\<rparr>)))"

section \<open>Insertions\<close>

lemma delivery_key_new [simp]: "delivery_key (new_delivery i r c t) = (r, c)"
  by (simp add: new_delivery_def delivery_key_def)

lemma new_delivery_simps [simp]:
  "dl_id (new_delivery i r c t) = i" "dl_event (new_delivery i r c t) = r"
  "dl_channel (new_delivery i r c t) = c" "dl_status (new_delivery i r c t) = Pending"
  "dl_attempts (new_delivery i r c t) = 0" "dl_created (new_delivery i r c t) = unix_milli t"
  "dl_next (new_delivery i r c t) = unix_milli t"
  by (simp_all add: new_delivery_def)

lemma insert_delivery_Some:
  "insert_delivery r rows = Some rows' \<longleftrightarrow>
     rows' = rows @ [r] \<and> dl_id r \<notin> dl_id ` set rows \<and> delivery_key r \<notin> delivery_key ` set rows"
  by (auto simp: insert_delivery_def insert_row_Some)

lemma subscription_delivery_channel:
  "r \<in> set (subscription_deliveries i e now d) \<Longrightarrow>
     like_prefix eventChannelPrefix (dl_channel r) \<and> dl_event r = i \<and> dl_status r = Pending"
  using like_prefix_append [of eventChannelPrefix] by (auto simp: subscription_deliveries_def)

text \<open>A run of inserts appends exactly its rows and keeps both keys.\<close>

lemma insert_deliveries_Some: "insert_deliveries rs rows = Some rows' \<Longrightarrow> rows' = rows @ rs"
proof (induction rs arbitrary: rows)
  case (Cons r rs)
  then have "insert_deliveries rs (rows @ [r]) = Some rows'"
    by (auto simp: insert_delivery_Some split: option.splits)
  from Cons.IH [OF this] show ?case by simp
qed simp

lemma insert_deliveries_keyed:
  "insert_deliveries rs rows = Some rows' \<Longrightarrow> keyed dl_id rows \<Longrightarrow> keyed delivery_key rows \<Longrightarrow>
     keyed dl_id rows' \<and> keyed delivery_key rows'"
  by (induction rs arbitrary: rows) (auto simp: insert_delivery_Some split: option.splits)

lemma insert_generations_Some: "insert_generations rs rows = Some rows' \<Longrightarrow> rows' = rows @ rs"
proof (induction rs arbitrary: rows)
  case (Cons r rs)
  then have "insert_generations rs (rows @ [r]) = Some rows'"
    by (auto simp: insert_row_Some split: option.splits)
  from Cons.IH [OF this] show ?case by simp
qed simp

lemma insert_generations_keyed:
  "insert_generations rs rows = Some rows' \<Longrightarrow> keyed sd_delivery rows \<Longrightarrow> keyed sd_delivery rows'"
  by (induction rs arbitrary: rows) (auto simp: insert_row_Some split: option.splits)

lemma enqueueEventSubscriptions_Some:
  assumes "enqueueEventSubscriptions recordID e now d = Some d1"
  shows "deliveries d1 = deliveries d @ subscription_deliveries recordID e now d"
    and "d1 = d\<lparr>deliveries := deliveries d1, event_deliveries := event_deliveries d1\<rparr>"
    and "event_deliveries d1 = event_deliveries d @
           generation_rows recordID (event_subscriptions d) (deliveries d1)"
  using assms
  by (auto simp: enqueueEventSubscriptions_def split: option.splits
      dest!: insert_deliveries_Some insert_generations_Some)

lemma enqueueEventSubscriptions_frame:
  assumes "enqueueEventSubscriptions recordID e now d = Some d1"
  shows "events d1 = events d \<and> nonces d1 = nonces d \<and> incidents d1 = incidents d \<and>
    rate_windows d1 = rate_windows d \<and> event_subscriptions d1 = event_subscriptions d"
  using assms by (auto simp: enqueueEventSubscriptions_def split: option.splits)

lemma generation_rows_ids:
  "sd_delivery ` set (generation_rows recordID subs rows) \<subseteq> dl_id ` set rows"
  by (auto simp: generation_rows_def)

lemma enqueueEventSubscriptions_integrity:
  assumes "enqueueEventSubscriptions recordID e now d = Some d1" and "queue_integrity d"
    and "recordID \<in> ev_id ` set (events d)"
  shows "queue_integrity d1"
proof -
  obtain rows gens where
    rows: "insert_deliveries (subscription_deliveries recordID e now d) (deliveries d) = Some rows"
    and gens: "insert_generations (generation_rows recordID (event_subscriptions d) rows)
                 (event_deliveries d) = Some gens"
    and d1: "d1 = d\<lparr>deliveries := rows, event_deliveries := gens\<rparr>"
    using assms(1) by (auto simp: enqueueEventSubscriptions_def split: option.splits)
  have "dl_event ` set rows \<subseteq> ev_id ` set (events d)"
    using assms(2,3) insert_deliveries_Some [OF rows]
    by (auto simp: queue_integrity_def subscription_deliveries_def)
  moreover have "sd_delivery ` set gens \<subseteq> dl_id ` set rows"
  proof -
    have "sd_delivery ` set (event_deliveries d) \<subseteq> dl_id ` set (deliveries d)"
      using assms(2) by (simp add: queue_integrity_def)
    also have "\<dots> \<subseteq> dl_id ` set rows"
      using insert_deliveries_Some [OF rows] by (simp add: image_Un)
    finally show ?thesis
      using generation_rows_ids [of recordID "event_subscriptions d" rows]
        insert_generations_Some [OF gens] by (simp add: image_Un)
  qed
  ultimately show ?thesis
    using assms(2) insert_deliveries_keyed [OF rows] insert_generations_keyed [OF gens]
    by (simp add: queue_integrity_def d1)
qed

section \<open>Limits\<close>

definition subscription_limits :: "db \<Rightarrow> bool" where
  "subscription_limits d \<longleftrightarrow>
     keyed sb_id (event_subscriptions d) \<and> length (event_subscriptions d) \<le> 1000 \<and>
     (\<forall>owner. count_rows (\<lambda>s. sb_owner s = owner) (event_subscriptions d) \<le> 100)"

lemma subscription_limits_empty [simp]: "subscription_limits empty_db"
  by (simp add: subscription_limits_def empty_db_def count_rows_def)

lemma count_rows_delete_le: "count_rows P (delete_rows Q rows) \<le> count_rows P rows"
  by (induction rows) (auto simp: count_rows_def delete_rows_def)

lemma subscription_limits_delete:
  assumes "subscription_limits d"
  shows "subscription_limits (d\<lparr>event_subscriptions := delete_rows P (event_subscriptions d)\<rparr>)"
proof -
  have "length (delete_rows P (event_subscriptions d)) \<le> length (event_subscriptions d)"
    by (simp add: delete_rows_def)
  moreover have "count_rows Q (delete_rows P (event_subscriptions d)) \<le> 100"
    if "count_rows Q (event_subscriptions d) \<le> 100" for Q
    using that count_rows_delete_le le_trans by blast
  ultimately show ?thesis using assms by (auto simp: subscription_limits_def)
qed

lemma count_rows_update_same:
  "(\<And>r. Q (if P r then f r else r) = Q r) \<Longrightarrow> count_rows Q (update_rows P f rows) = count_rows Q rows"
  by (induction rows) (auto simp: count_rows_def update_rows_def)

lemma count_rows_all_but:
  assumes "k \<notin> key ` set rows"
  shows "count_rows (\<lambda>r. P r \<and> key r \<noteq> k) rows = count_rows P rows"
    and "count_rows (\<lambda>r. key r \<noteq> k) rows = length rows"
proof -
  have "filter (\<lambda>r. P r \<and> key r \<noteq> k) rows = filter P rows"
    using assms by (intro filter_cong) auto
  then show "count_rows (\<lambda>r. P r \<and> key r \<noteq> k) rows = count_rows P rows" by (simp add: count_rows_def)
  have "filter (\<lambda>r. key r \<noteq> k) rows = rows" using assms by (intro filter_True) auto
  then show "count_rows (\<lambda>r. key r \<noteq> k) rows = length rows" by (simp add: count_rows_def)
qed

text \<open>
  The subscription table is bounded: no save leaves more than 1000 subscriptions, or more than 100
  of one owner, and ids stay unique.
\<close>

theorem subscription_limits_kept:
  assumes "subscription_limits d"
  shows "subscription_limits (snd (SaveEventSubscription s now d))"
proof -
  let ?live = "delete_rows (\<lambda>r. sb_expires r \<le> unix_milli now) (event_subscriptions d)"
  let ?merge = "\<lambda>old new. old\<lparr>sb_generation := sb_generation new, sb_encrypted := sb_encrypted new,
      sb_expires := sb_expires new, sb_verified := sb_verified new\<rparr> :: sub_row"
  have live: "keyed sb_id ?live" "length ?live \<le> 1000"
      "\<And>owner. count_rows (\<lambda>s. sb_owner s = owner) ?live \<le> 100"
    using subscription_limits_delete [OF assms] by (auto simp: subscription_limits_def)
  show ?thesis
  proof (cases "fst (SaveEventSubscription s now d) = Inr ()")
    case False
    then show ?thesis using assms by (auto simp: SaveEventSubscription_def Let_def)
  next
    case True
    then have few: "count_rows (\<lambda>r. sb_id r \<noteq> sb_id s) ?live < 1000"
        "count_rows (\<lambda>r. sb_owner r = sb_owner s \<and> sb_id r \<noteq> sb_id s) ?live < 100"
      and res: "event_subscriptions (snd (SaveEventSubscription s now d)) = upsert_row sb_id ?merge s ?live"
      by (auto simp: SaveEventSubscription_def Let_def split: if_splits)
    have keyed: "keyed sb_id (upsert_row sb_id ?merge s ?live)"
      using live(1) by (rule keyed_upsert) simp
    show ?thesis
    proof (cases "sb_id s \<in> sb_id ` set ?live")
      case True
      then have "upsert_row sb_id ?merge s ?live = update_rows (\<lambda>x. sb_id x = sb_id s) (\<lambda>old. ?merge old s) ?live"
        by (simp add: upsert_row_def)
      then show ?thesis
        using live keyed by (simp add: subscription_limits_def res count_rows_update_same)
    next
      case False
      then have new: "upsert_row sb_id ?merge s ?live = ?live @ [s]" by (simp add: upsert_row_def)
      have "count_rows (\<lambda>r. sb_owner r = sb_owner s) ?live < 100" and "length ?live < 1000"
        using few False by (simp_all add: count_rows_all_but)
      moreover have "count_rows P [s] = (if P s then 1 else 0)" for P by (simp add: count_rows_def)
      ultimately show ?thesis
        using live keyed by (auto simp: subscription_limits_def res new)
    qed
  qed
qed

theorem subscription_limits_kept_witness:
  "subscription_limits (snd (SaveEventSubscription
     \<lparr>sb_id = ''s'', sb_owner = ''static:x'', sb_policy = ''p'', sb_generation = ''g'', sb_routes = ''ops'',
      sb_source = [], sb_severity = [], sb_status = [], sb_encrypted = [], sb_expires = 10, sb_verified = 0\<rparr>
     0 empty_db))"
  by (rule subscription_limits_kept) simp

end
