(* ===== verification/Ingest.thy ===== *)
theory Ingest
  imports EventStore
begin

text \<open>
  \<open>Store.AcceptEvent\<close> of \<open>internal/store/store.go\<close>: idempotency, the incident state machine,
  suppression, and the creation of the event and its deliveries, in one transaction. \<open>ids n\<close> is the
  \<open>n\<close>-th identifier \<open>newID\<close> draws in the call, \<open>None\<close> when the random source fails.
\<close>

record accept_params =
  ClientID :: string
  Event :: event
  Targets :: "string list"
  Now :: instant
  DedupeWindow :: duration
  SuppressReason :: string
  RawPayload :: string

record accept_result =
  ar_event_id :: string
  ar_outcome :: outcome
  ar_reason :: string
  ar_deliveries :: nat
  ar_started :: "instant option"

section \<open>Reading the stored state\<close>

definition find_duplicate :: "db \<Rightarrow> accept_params \<Rightarrow> (string \<times> nat) option" where
  "find_duplicate d p =
     (case query_row (\<lambda>e. event_key e = (ClientID p, EventID (Event p))) (events d) of
        None \<Rightarrow> None
      | Some e \<Rightarrow> Some (ev_id e,
          count_rows (\<lambda>r. dl_event r = ev_id e \<and> \<not> like_prefix eventChannelPrefix (dl_channel r))
            (deliveries d)))"

definition incident_of :: "accept_params \<Rightarrow> string \<times> string \<times> string" where
  "incident_of p = (ClientID p, RoutingKey (Event p), DedupeKey (Event p))"

definition find_incident :: "db \<Rightarrow> accept_params \<Rightarrow> incident_row option" where
  "find_incident d p = query_row (\<lambda>r. incident_key r = incident_of p) (incidents d)"

definition same_incident :: "accept_params \<Rightarrow> event_row \<Rightarrow> bool" where
  "same_incident p e \<longleftrightarrow> (ev_client e, ev_route e, ev_dedupe e) = incident_of p"

text \<open>\<open>MAX(occurred_at)\<close> over the events that moved or tried to move the incident.\<close>

definition latest_occurred :: "db \<Rightarrow> accept_params \<Rightarrow> millis option" where
  "latest_occurred d p =
     sql_max (map ev_occurred (filter (\<lambda>e. same_incident p e \<and>
       (ev_status e = StatusFiring \<or> (ev_status e = StatusResolved \<and> ev_incident e \<noteq> None))) (events d)))"

definition sql_rank :: "string \<Rightarrow> int" where
  "sql_rank s = (if s = SeverityCritical then 3 else if s = SeverityWarning then 2 else 1)"

definition rank :: "string \<Rightarrow> int" where
  "rank s = (if s = SeverityInfo then 1 else if s = SeverityWarning then 2
             else if s = SeverityCritical then 3 else 0)"

text \<open>The highest severity queued for the current incident, 0 when nothing was.\<close>

definition previous_severity :: "db \<Rightarrow> accept_params \<Rightarrow> millis \<Rightarrow> int" where
  "previous_severity d p firstFired =
     (case sql_max (map (sql_rank \<circ> ev_severity) (filter (\<lambda>e. same_incident p e \<and>
        ev_status e = StatusFiring \<and> ev_outcome e = OutcomeQueued \<and> firstFired \<le> ev_created e) (events d)))
      of None \<Rightarrow> 0 | Some m \<Rightarrow> m)"

section \<open>The decision\<close>

text \<open>What the transaction does to the incident row.\<close>

datatype incident_action = Keep | Open | Touch | Renotify | Close

definition is_stale :: "db \<Rightarrow> accept_params \<Rightarrow> bool" where
  "is_stale d p \<longleftrightarrow>
     (case latest_occurred d p of None \<Rightarrow> False
      | Some latest \<Rightarrow> unix_milli (OccurredAt (Event p)) < latest)"

definition within_dedupe :: "db \<Rightarrow> accept_params \<Rightarrow> incident_row \<Rightarrow> bool" where
  "within_dedupe d p inc \<longleftrightarrow>
     rank (Severity (Event p)) \<le> previous_severity d p (in_first inc) \<and>
     time_sub (Now p) (of_unix_milli (in_notified inc)) < DedupeWindow p"

definition lifecycle :: "db \<Rightarrow> accept_params \<Rightarrow> outcome \<times> string \<times> instant option \<times> incident_action" where
  "lifecycle d p =
     (if \<not> lifecycle_status (Status (Event p)) then (OutcomeQueued, [], None, Keep)
      else if is_stale d p then (OutcomeSuppressed, ''stale_event'', None, Keep)
      else if Status (Event p) = StatusFiring then
        (case find_incident d p of
           None \<Rightarrow> (OutcomeQueued, [], None, Open)
         | Some inc \<Rightarrow>
             if in_state inc = StatusResolved then (OutcomeQueued, [], None, Open)
             else if within_dedupe d p inc then (OutcomeSuppressed, ''dedupe_window'', None, Touch)
             else (OutcomeQueued, [], None, Renotify))
      else
        (case find_incident d p of
           None \<Rightarrow> (OutcomeSuppressed, ''orphan_resolved'', None, Keep)
         | Some inc \<Rightarrow>
             if in_state inc \<noteq> StatusFiring then (OutcomeSuppressed, ''orphan_resolved'', None, Keep)
             else (OutcomeQueued, [], Some (of_unix_milli (in_first inc)), Close)))"

definition apply_action :: "incident_action \<Rightarrow> accept_params \<Rightarrow> incident_row list \<Rightarrow> incident_row list" where
  "apply_action act p rows =
     (let now = unix_milli (Now p); mine = (\<lambda>r. incident_key r = incident_of p) in
      case act of
        Keep \<Rightarrow> rows
      | Open \<Rightarrow>
          upsert_row incident_key
            (\<lambda>old new. old\<lparr>in_state := in_state new, in_first := in_first new, in_seen := in_seen new,
                           in_notified := in_notified new\<rparr>)
            \<lparr>in_client = ClientID p, in_route = RoutingKey (Event p), in_dedupe = DedupeKey (Event p),
             in_state = StatusFiring, in_first = now, in_seen = now, in_notified = now\<rparr> rows
      | Touch \<Rightarrow> update_rows mine (\<lambda>r. r\<lparr>in_seen := now\<rparr>) rows
      | Renotify \<Rightarrow> update_rows mine (\<lambda>r. r\<lparr>in_seen := now, in_notified := now\<rparr>) rows
      | Close \<Rightarrow> update_rows mine (\<lambda>r. r\<lparr>in_state := StatusResolved, in_seen := now, in_notified := now\<rparr>) rows)"

definition suppress :: "accept_params \<Rightarrow> outcome \<Rightarrow> string \<Rightarrow> outcome \<times> string" where
  "suppress p oc reason =
     (if SuppressReason p \<noteq> [] \<and> oc = OutcomeQueued then (OutcomeSuppressed, SuppressReason p)
      else (oc, reason))"

section \<open>Writing the event and its deliveries\<close>

definition event_row_of :: "string \<Rightarrow> accept_params \<Rightarrow> outcome \<Rightarrow> instant option \<Rightarrow> event_row" where
  "event_row_of recordID p oc started =
     (let e = Event p in
      \<lparr>ev_id = recordID, ev_client = ClientID p, ev_event = EventID e, ev_source = Source e,
       ev_route = RoutingKey e, ev_status = Status e, ev_severity = Severity e, ev_title = Title e,
       ev_message = Message e, ev_occurred = unix_milli (OccurredAt e), ev_dedupe = DedupeKey e,
       ev_labels = Labels e, ev_url = URL e, ev_payload = RawPayload p, ev_outcome = oc,
       ev_incident = map_option unix_milli started, ev_created = unix_milli (Now p)\<rparr>)"

definition insert_event :: "event_row \<Rightarrow> event_row list \<Rightarrow> event_row list option" where
  "insert_event r rows =
     (if list_ex (\<lambda>x. event_key x = event_key r) rows then None else insert_row ev_id r rows)"

fun enqueue_targets ::
  "(nat \<Rightarrow> string option) \<Rightarrow> nat \<Rightarrow> string \<Rightarrow> instant \<Rightarrow> string list \<Rightarrow> delivery_row list
     \<Rightarrow> store_error + delivery_row list" where
  "enqueue_targets ids n recordID now [] rows = Inr rows"
| "enqueue_targets ids n recordID now (target # targets) rows =
     (case ids n of
        None \<Rightarrow> Inl ErrStorage
      | Some deliveryID \<Rightarrow>
          (case insert_delivery (new_delivery deliveryID recordID target now) rows of
             None \<Rightarrow> Inl ErrConstraint
           | Some rows' \<Rightarrow> enqueue_targets ids (Suc n) recordID now targets rows'))"

definition uniqueStrings :: "string list \<Rightarrow> string list" where
  "uniqueStrings vs = unique_from [] vs"

text \<open>The INSERTs of the transaction, on the database with the incident already updated.\<close>

definition persist_event ::
  "(nat \<Rightarrow> string option) \<Rightarrow> accept_params \<Rightarrow> outcome \<Rightarrow> string \<Rightarrow> instant option \<Rightarrow> db
     \<Rightarrow> store_error + accept_result \<times> db" where
  "persist_event ids p oc reason started d =
     (case ids 0 of
        None \<Rightarrow> Inl ErrStorage
      | Some recordID \<Rightarrow>
         (case insert_event (event_row_of recordID p oc started) (events d) of
            None \<Rightarrow> Inl ErrConstraint
          | Some evs \<Rightarrow>
             (let targets = uniqueStrings (Targets p);
                  result = (\<lambda>n. \<lparr>ar_event_id = recordID, ar_outcome = oc, ar_reason = reason,
                                  ar_deliveries = n, ar_started = started\<rparr>)
              in if oc \<noteq> OutcomeQueued then Inr (result 0, d\<lparr>events := evs\<rparr>)
                 else case enqueue_targets ids 1 recordID (Now p) targets (deliveries d) of
                        Inl err \<Rightarrow> Inl err
                      | Inr rows \<Rightarrow>
                         (case enqueueEventSubscriptions recordID (Event p) (Now p)
                                 (d\<lparr>events := evs, deliveries := rows\<rparr>) of
                            None \<Rightarrow> Inl ErrConstraint
                          | Some d1 \<Rightarrow> Inr (result (length targets), d1)))))"

text \<open>The transaction: any error after the first query rolls everything back.\<close>

definition AcceptEvent :: "(nat \<Rightarrow> string option) \<Rightarrow> accept_params \<Rightarrow> accept_result store_op" where
  "AcceptEvent ids p d =
     (case find_duplicate d p of
        Some (recordID, n) \<Rightarrow>
          (Inr \<lparr>ar_event_id = recordID, ar_outcome = OutcomeDuplicate, ar_reason = [],
                ar_deliveries = n, ar_started = None\<rparr>, d)
      | None \<Rightarrow>
         (let (oc0, reason0, started, act) = lifecycle d p;
              (oc, reason) = suppress p oc0 reason0
          in case persist_event ids p oc reason started (d\<lparr>incidents := apply_action act p (incidents d)\<rparr>) of
               Inl err \<Rightarrow> (Inl err, d)
             | Inr (result, d1) \<Rightarrow> (Inr result, d1)))"

section \<open>Shape of a call\<close>

lemma uniqueStrings_simps [simp]: "set (uniqueStrings vs) = set vs" "distinct (uniqueStrings vs)"
  by (simp_all add: uniqueStrings_def)

lemma event_key_row [simp]: "event_key (event_row_of i p oc st) = (ClientID p, EventID (Event p))"
  by (simp add: event_row_of_def event_key_def Let_def)

lemma event_row_of_simps [simp]:
  "ev_id (event_row_of i p oc st) = i" "ev_outcome (event_row_of i p oc st) = oc"
  "ev_status (event_row_of i p oc st) = Status (Event p)"
  "ev_occurred (event_row_of i p oc st) = unix_milli (OccurredAt (Event p))"
  "ev_created (event_row_of i p oc st) = unix_milli (Now p)"
  "ev_severity (event_row_of i p oc st) = Severity (Event p)"
  "ev_incident (event_row_of i p oc st) = map_option unix_milli st"
  by (simp_all add: event_row_of_def Let_def)

lemma insert_event_Some:
  "insert_event r rows = Some rows' \<longleftrightarrow>
     rows' = rows @ [r] \<and> ev_id r \<notin> ev_id ` set rows \<and> event_key r \<notin> event_key ` set rows"
  by (auto simp: insert_event_def insert_row_Some)

text \<open>The deliveries of the targets: one pending row each, in order.\<close>

lemma enqueue_targets_Inr:
  assumes "enqueue_targets ids n recordID now targets rows = Inr rows'"
  shows "\<exists>new. rows' = rows @ new \<and> map dl_channel new = targets \<and>
     (\<forall>r\<in>set new. dl_event r = recordID \<and> dl_status r = Pending \<and> dl_attempts r = 0 \<and>
        dl_created r = unix_milli now \<and> dl_next r = unix_milli now)"
  using assms
proof (induction ids n recordID now targets rows rule: enqueue_targets.induct)
  case (1 ids n recordID now rows)
  then show ?case by simp
next
  case (2 ids n recordID now target targets rows)
  then obtain i where i: "ids n = Some i"
    and step: "enqueue_targets ids (Suc n) recordID now targets (rows @ [new_delivery i recordID target now])
                 = Inr rows'"
    by (auto simp: insert_delivery_Some split: option.splits)
  have ins: "insert_delivery (new_delivery i recordID target now) rows
      = Some (rows @ [new_delivery i recordID target now])"
    using 2(2) i by (auto simp: insert_delivery_Some split: option.splits)
  from 2(1) [OF i ins step] obtain new where
    "rows' = rows @ [new_delivery i recordID target now] @ new" "map dl_channel new = targets"
    "\<forall>r\<in>set new. dl_event r = recordID \<and> dl_status r = Pending \<and> dl_attempts r = 0 \<and>
       dl_created r = unix_milli now \<and> dl_next r = unix_milli now" by auto
  then show ?case by (intro exI [of _ "new_delivery i recordID target now # new"]) simp
qed

lemma enqueue_targets_keyed:
  assumes "enqueue_targets ids n recordID now targets rows = Inr rows'"
    and "keyed dl_id rows" and "keyed delivery_key rows"
  shows "keyed dl_id rows' \<and> keyed delivery_key rows'"
  using assms
  by (induction ids n recordID now targets rows rule: enqueue_targets.induct)
    (auto simp: insert_delivery_Some split: option.splits)

lemma persist_event_suppressed:
  assumes "persist_event ids p oc reason started d = Inr (result, d1)" and "oc \<noteq> OutcomeQueued"
  obtains recordID where "ids 0 = Some recordID" "recordID \<notin> ev_id ` set (events d)"
    "(ClientID p, EventID (Event p)) \<notin> event_key ` set (events d)"
    "d1 = d\<lparr>events := events d @ [event_row_of recordID p oc started]\<rparr>"
    "result = \<lparr>ar_event_id = recordID, ar_outcome = oc, ar_reason = reason, ar_deliveries = 0,
               ar_started = started\<rparr>"
  using assms
  by (cases "ids 0") (simp_all add: persist_event_def insert_event_Some Let_def split: option.splits)

lemma persist_event_queued:
  assumes "persist_event ids p OutcomeQueued reason started d = Inr (result, d1)"
  obtains recordID rows where "ids 0 = Some recordID" "recordID \<notin> ev_id ` set (events d)"
    "(ClientID p, EventID (Event p)) \<notin> event_key ` set (events d)"
    "enqueue_targets ids 1 recordID (Now p) (uniqueStrings (Targets p)) (deliveries d) = Inr rows"
    "enqueueEventSubscriptions recordID (Event p) (Now p)
       (d\<lparr>events := events d @ [event_row_of recordID p OutcomeQueued started], deliveries := rows\<rparr>) = Some d1"
    "result = \<lparr>ar_event_id = recordID, ar_outcome = OutcomeQueued, ar_reason = reason,
               ar_deliveries = length (uniqueStrings (Targets p)), ar_started = started\<rparr>"
  using assms
  by (cases "ids 0")
    (simp_all add: persist_event_def insert_event_Some Let_def split: option.splits sum.splits)

text \<open>A call ends in one of four ways.\<close>

lemma AcceptEvent_cases:
  assumes "AcceptEvent ids p d = (res, d')"
  obtains (duplicate) e n where
      "find_duplicate d p = Some (e, n)" "d' = d"
      "res = Inr \<lparr>ar_event_id = e, ar_outcome = OutcomeDuplicate, ar_reason = [],
                  ar_deliveries = n, ar_started = None\<rparr>"
  | (failed) err where "find_duplicate d p = None" "res = Inl err" "d' = d"
  | (suppressed) oc0 reason0 started act reason recordID where
      "find_duplicate d p = None" "lifecycle d p = (oc0, reason0, started, act)"
      "suppress p oc0 reason0 = (OutcomeSuppressed, reason)" "ids 0 = Some recordID"
      "recordID \<notin> ev_id ` set (events d)"
      "(ClientID p, EventID (Event p)) \<notin> event_key ` set (events d)"
      "d' = d\<lparr>incidents := apply_action act p (incidents d),
              events := events d @ [event_row_of recordID p OutcomeSuppressed started]\<rparr>"
      "res = Inr \<lparr>ar_event_id = recordID, ar_outcome = OutcomeSuppressed, ar_reason = reason,
                  ar_deliveries = 0, ar_started = started\<rparr>"
  | (queued) reason0 started act recordID rows where
      "find_duplicate d p = None" "lifecycle d p = (OutcomeQueued, reason0, started, act)"
      "SuppressReason p = []" "ids 0 = Some recordID"
      "recordID \<notin> ev_id ` set (events d)"
      "(ClientID p, EventID (Event p)) \<notin> event_key ` set (events d)"
      "enqueue_targets ids 1 recordID (Now p) (uniqueStrings (Targets p)) (deliveries d) = Inr rows"
      "enqueueEventSubscriptions recordID (Event p) (Now p)
         (d\<lparr>incidents := apply_action act p (incidents d),
            events := events d @ [event_row_of recordID p OutcomeQueued started],
            deliveries := rows\<rparr>) = Some d'"
      "res = Inr \<lparr>ar_event_id = recordID, ar_outcome = OutcomeQueued, ar_reason = reason0,
                  ar_deliveries = length (uniqueStrings (Targets p)), ar_started = started\<rparr>"
proof (cases "find_duplicate d p")
  case (Some x)
  obtain e n where x: "x = (e, n)" by (cases x)
  with Some assms have "d' = d" "res = Inr \<lparr>ar_event_id = e, ar_outcome = OutcomeDuplicate,
      ar_reason = [], ar_deliveries = n, ar_started = None\<rparr>"
    by (simp_all add: AcceptEvent_def)
  with Some x show thesis by (intro duplicate) simp_all
next
  case None
  obtain oc0 reason0 started act where lc: "lifecycle d p = (oc0, reason0, started, act)"
    by (cases "lifecycle d p")
  obtain oc reason where sup: "suppress p oc0 reason0 = (oc, reason)"
    by (cases "suppress p oc0 reason0")
  have oc: "oc \<noteq> OutcomeDuplicate"
    using lc sup by (auto simp: lifecycle_def suppress_def split: if_splits option.splits)
  show thesis
  proof (cases "persist_event ids p oc reason started (d\<lparr>incidents := apply_action act p (incidents d)\<rparr>)")
    case (Inl err)
    with assms None lc sup have "res = Inl err" "d' = d" by (simp_all add: AcceptEvent_def)
    with None show thesis by (intro failed)
  next
    case (Inr x)
    obtain result d1 where x: "x = (result, d1)" by (cases x)
    with assms None lc sup Inr have out: "res = Inr result" "d' = d1" by (simp_all add: AcceptEvent_def)
    show thesis
    proof (cases "oc = OutcomeQueued")
      case True
      then have q: "SuppressReason p = []" "oc0 = OutcomeQueued" "reason = reason0"
        using sup by (auto simp: suppress_def split: if_splits)
      from Inr x True have "persist_event ids p OutcomeQueued reason started
          (d\<lparr>incidents := apply_action act p (incidents d)\<rparr>) = Inr (result, d1)" by simp
      then show thesis
      proof (rule persist_event_queued)
        fix recordID rows
        assume "ids 0 = Some recordID"
          and "recordID \<notin> ev_id ` set (events (d\<lparr>incidents := apply_action act p (incidents d)\<rparr>))"
          and "(ClientID p, EventID (Event p)) \<notin>
            event_key ` set (events (d\<lparr>incidents := apply_action act p (incidents d)\<rparr>))"
          and "enqueue_targets ids 1 recordID (Now p) (uniqueStrings (Targets p))
            (deliveries (d\<lparr>incidents := apply_action act p (incidents d)\<rparr>)) = Inr rows"
          and "enqueueEventSubscriptions recordID (Event p) (Now p)
            (d\<lparr>incidents := apply_action act p (incidents d),
               events := events (d\<lparr>incidents := apply_action act p (incidents d)\<rparr>)
                 @ [event_row_of recordID p OutcomeQueued started],
               deliveries := rows\<rparr>) = Some d1"
          and "result = \<lparr>ar_event_id = recordID, ar_outcome = OutcomeQueued, ar_reason = reason,
            ar_deliveries = length (uniqueStrings (Targets p)), ar_started = started\<rparr>"
        with None lc q out show thesis by (intro queued) simp_all
      qed
    next
      case False
      then have oc: "oc = OutcomeSuppressed" using oc by (cases oc) auto
      from Inr x have "persist_event ids p oc reason started
          (d\<lparr>incidents := apply_action act p (incidents d)\<rparr>) = Inr (result, d1)" by simp
      then show thesis
      proof (rule persist_event_suppressed [OF _ False])
        fix recordID
        assume "ids 0 = Some recordID"
          and "recordID \<notin> ev_id ` set (events (d\<lparr>incidents := apply_action act p (incidents d)\<rparr>))"
          and "(ClientID p, EventID (Event p)) \<notin>
            event_key ` set (events (d\<lparr>incidents := apply_action act p (incidents d)\<rparr>))"
          and "d1 = d\<lparr>incidents := apply_action act p (incidents d),
            events := events (d\<lparr>incidents := apply_action act p (incidents d)\<rparr>)
              @ [event_row_of recordID p oc started]\<rparr>"
          and "result = \<lparr>ar_event_id = recordID, ar_outcome = oc, ar_reason = reason, ar_deliveries = 0,
            ar_started = started\<rparr>"
        with None lc sup oc out show thesis by (intro suppressed) simp_all
      qed
    qed
  qed
qed

lemma AcceptEvent_error_unchanged: "AcceptEvent ids p d = (Inl err, d') \<Longrightarrow> d' = d"
  by (elim AcceptEvent_cases) auto

section \<open>Integrity\<close>

lemma incident_key_update [simp]:
  "incident_key (r\<lparr>in_seen := a\<rparr>) = incident_key r"
  "incident_key (r\<lparr>in_notified := b\<rparr>) = incident_key r"
  "incident_key (r\<lparr>in_state := s\<rparr>) = incident_key r"
  "incident_key (r\<lparr>in_first := f\<rparr>) = incident_key r"
  "incident_key \<lparr>in_client = c, in_route = k, in_dedupe = u, in_state = s, in_first = f, in_seen = a,
     in_notified = b\<rparr> = (c, k, u)"
  by (simp_all add: incident_key_def)

lemma apply_action_keyed: "keyed incident_key rows \<Longrightarrow> keyed incident_key (apply_action act p rows)"
  by (cases act) (auto simp: apply_action_def Let_def intro!: keyed_update keyed_upsert)

lemma AcceptEvent_integrity:
  assumes "queue_integrity d" and "AcceptEvent ids p d = (res, d')"
  shows "queue_integrity d'"
  using assms(2)
proof (cases rule: AcceptEvent_cases)
  case (suppressed oc0 reason0 started act reason recordID)
  then show ?thesis using assms(1) by (auto simp: queue_integrity_def apply_action_keyed)
next
  case (queued reason0 started act recordID rows)
  have keys: "keyed dl_id rows \<and> keyed delivery_key rows"
    using enqueue_targets_keyed [OF queued(7)] assms(1) by (simp add: queue_integrity_def)
  obtain new where new: "rows = deliveries d @ new" "\<forall>r\<in>set new. dl_event r = recordID"
    using enqueue_targets_Inr [OF queued(7)] by blast
  show ?thesis
  proof (rule enqueueEventSubscriptions_integrity [OF queued(8)])
    show "queue_integrity (d\<lparr>incidents := apply_action act p (incidents d),
        events := events d @ [event_row_of recordID p OutcomeQueued started], deliveries := rows\<rparr>)"
      using assms(1) keys queued(5,6) new by (auto simp: queue_integrity_def apply_action_keyed image_Un)
  qed simp
qed (use assms(1) in auto)

end
