(* ===== verification/Delivery.thy ===== *)
theory Delivery
  imports Ingest
begin

text \<open>
  The delivery queue of \<open>internal/store\<close>: \<open>ClaimDelivery\<close>, \<open>CompleteSuccess\<close>, \<open>CompleteFailure\<close>,
  \<open>GetDeliveryStatus\<close>, \<open>Prune\<close> (\<open>store.go\<close>) and \<open>RetryDeadDelivery\<close> (\<open>admin_store.go\<close>), and the life
  of one delivery as a step relation that they refine.
\<close>

text \<open>What a claim hands to the worker (Go's \<open>store.Delivery\<close>).\<close>

record delivery =
  dv_record :: string
  dv_version :: string
  dv_id :: string
  dv_channel :: string
  dv_attempts :: int
  dv_event :: event

section \<open>Claiming\<close>

definition due :: "instant \<Rightarrow> delivery_row \<Rightarrow> bool" where
  "due now r \<longleftrightarrow>
     (dl_status r = Pending \<or> dl_status r = Retrying) \<and> dl_next r \<le> unix_milli now \<or>
     dl_status r = Processing \<and>
       (case dl_lease r of None \<Rightarrow> False | Some l \<Rightarrow> l \<le> unix_milli now)"

text \<open>\<open>ORDER BY next_attempt_at, created_at LIMIT 1\<close>; SQL leaves the order of ties open (\<open>choice\<close>).\<close>

definition not_after :: "delivery_row \<Rightarrow> delivery_row \<Rightarrow> bool" where
  "not_after r s \<longleftrightarrow> dl_next r < dl_next s \<or> (dl_next r = dl_next s \<and> dl_created r \<le> dl_created s)"

definition first_due :: "nat \<Rightarrow> delivery_row list \<Rightarrow> delivery_row option" where
  "first_due choice rows =
     (let firsts = filter (\<lambda>r. list_all (not_after r) rows) rows
      in if firsts = [] then None else Some (firsts ! (choice mod length firsts)))"

text \<open>The join with \<open>events\<close>, and the columns of the event the claim carries.\<close>

definition event_of :: "db \<Rightarrow> delivery_row \<Rightarrow> event_row option" where
  "event_of d r = query_row (\<lambda>e. ev_id e = dl_event r) (events d)"

definition event_from_row :: "event_row \<Rightarrow> event" where
  "event_from_row e =
     \<lparr>EventID = ev_event e, Source = ev_source e, RoutingKey = ev_route e, Status = ev_status e,
      Severity = ev_severity e, Title = ev_title e, Message = ev_message e,
      OccurredAt = of_unix_milli (ev_occurred e), DedupeKey = ev_dedupe e, Labels = ev_labels e,
      URL = ev_url e, IncidentStartedAt = map_option of_unix_milli (ev_incident e)\<rparr>"

definition ClaimDelivery :: "nat \<Rightarrow> instant \<Rightarrow> duration \<Rightarrow> delivery option store_op" where
  "ClaimDelivery choice now lease d =
     (case first_due choice (filter (\<lambda>r. due now r \<and> event_of d r \<noteq> None) (deliveries d)) of
        None \<Rightarrow> (Inr None, d)
      | Some r \<Rightarrow>
         (case event_of d r of
            None \<Rightarrow> (Inr None, d)
          | Some e \<Rightarrow>
             (let mine = (\<lambda>x. dl_id x = dl_id r \<and> due now x);
                  version = (case query_row (\<lambda>m. sd_delivery m = dl_id r) (event_deliveries d) of
                               None \<Rightarrow> [] | Some m \<Rightarrow> sd_generation m)
              in if count_rows mine (deliveries d) \<noteq> 1 then (Inr None, d)
                 else
                   (Inr (Some \<lparr>dv_record = dl_event r, dv_version = version, dv_id = dl_id r,
                           dv_channel = dl_channel r, dv_attempts = dl_attempts r + 1,
                           dv_event = event_from_row e\<rparr>),
                    d\<lparr>deliveries := update_rows mine
                        (\<lambda>x. x\<lparr>dl_status := Processing, dl_attempts := dl_attempts x + 1,
                              dl_lease := Some (unix_milli (now + lease))\<rparr>) (deliveries d)\<rparr>))))"

section \<open>Completing\<close>

text \<open>\<open>requireOne\<close>: the transition must have affected exactly one row.\<close>

definition requireOne :: "(delivery_row \<Rightarrow> bool) \<Rightarrow> (delivery_row \<Rightarrow> delivery_row) \<Rightarrow> unit store_op" where
  "requireOne P f d =
     (let n = count_rows P (deliveries d); d1 = d\<lparr>deliveries := update_rows P f (deliveries d)\<rparr>
      in if n \<noteq> 1 then (Inl (ErrTransition n), d1) else (Inr (), d1))"

definition CompleteSuccess :: "string \<Rightarrow> int \<Rightarrow> instant \<Rightarrow> unit store_op" where
  "CompleteSuccess deliveryID responseCode sentAt =
     requireOne (\<lambda>r. dl_id r = deliveryID \<and> dl_status r = Processing)
       (\<lambda>r. r\<lparr>dl_status := Sent, dl_lease := None, dl_code := responseCode, dl_error := [],
             dl_sent := Some (unix_milli sentAt)\<rparr>)"

definition truncate_message :: "string \<Rightarrow> string" where
  "truncate_message message = (if 500 < length message then take 500 message else message)"

definition CompleteFailure :: "string \<Rightarrow> int \<Rightarrow> instant \<Rightarrow> string \<Rightarrow> int \<Rightarrow> bool \<Rightarrow> unit store_op" where
  "CompleteFailure deliveryID attempts next_at message responseCode dead =
     (let status = (if dead then Dead else Retrying)
      in requireOne (\<lambda>r. dl_id r = deliveryID \<and> dl_status r = Processing \<and> dl_attempts r = attempts)
           (\<lambda>r. r\<lparr>dl_status := status, dl_lease := None, dl_next := unix_milli next_at,
                 dl_code := responseCode, dl_error := truncate_message message\<rparr>))"

text \<open>\<open>None\<close> is \<open>sql.ErrNoRows\<close>.\<close>

definition GetDeliveryStatus :: "string \<Rightarrow> string \<Rightarrow> db \<Rightarrow> (delivery_status \<times> int) option" where
  "GetDeliveryStatus eventRecordID channelID d =
     map_option (\<lambda>r. (dl_status r, dl_attempts r))
       (query_row (\<lambda>r. delivery_key r = (eventRecordID, channelID)) (deliveries d))"

section \<open>Retention and manual retries\<close>

definition live_status :: "delivery_status \<Rightarrow> bool" where
  "live_status s \<longleftrightarrow> s = Pending \<or> s = Processing \<or> s = Retrying"

definition prunable :: "instant \<Rightarrow> db \<Rightarrow> event_row \<Rightarrow> bool" where
  "prunable before d e \<longleftrightarrow> ev_created e < unix_milli before \<and>
     \<not> list_ex (\<lambda>r. dl_event r = ev_id e \<and> live_status (dl_status r)) (deliveries d)"

text \<open>The DELETE cascades to the deliveries of the events and to the generations they name.\<close>

definition Prune :: "instant \<Rightarrow> nat store_op" where
  "Prune before d =
     (let gone = filter (prunable before d) (events d);
          cascade = (\<lambda>r. dl_event r \<in> set (map ev_id gone))
      in (Inr (length gone),
          d\<lparr>events := delete_rows (prunable before d) (events d),
            deliveries := delete_rows cascade (deliveries d),
            event_deliveries := delete_rows
              (\<lambda>m. sd_delivery m \<in> set (map dl_id (filter cascade (deliveries d)))) (event_deliveries d)\<rparr>))"

definition RetryDeadDelivery :: "string \<Rightarrow> instant \<Rightarrow> unit store_op" where
  "RetryDeadDelivery i now d =
     (let mine = (\<lambda>r. dl_id r = i \<and> dl_status r = Dead)
      in if count_rows mine (deliveries d) = 1
         then (Inr (), d\<lparr>deliveries := update_rows mine
                 (\<lambda>r. r\<lparr>dl_status := Pending, dl_attempts := 0, dl_next := unix_milli now, dl_lease := None,
                       dl_code := 0, dl_error := [], dl_sent := None\<rparr>) (deliveries d)\<rparr>)
         else case query_row (\<lambda>r. dl_id r = i) (deliveries d) of
                None \<Rightarrow> (Inl ErrNotFound, d)
              | Some r \<Rightarrow> (Inl ErrInvalidState, d))"

section \<open>The life of one delivery\<close>

type_synonym life = "(delivery_status \<times> int) option"

definition delivery_state :: "string \<Rightarrow> db \<Rightarrow> life" where
  "delivery_state i d =
     map_option (\<lambda>r. (dl_status r, dl_attempts r)) (query_row (\<lambda>r. dl_id r = i) (deliveries d))"

inductive life_step :: "life \<Rightarrow> life \<Rightarrow> bool" where
  created: "life_step None (Some (Pending, 0))"
| claimed: "live_status s \<Longrightarrow> life_step (Some (s, n)) (Some (Processing, n + 1))"
| sent: "life_step (Some (Processing, n)) (Some (Sent, n))"
| failed: "life_step (Some (Processing, n)) (Some (Retrying, n))"
| died: "life_step (Some (Processing, n)) (Some (Dead, n))"
| revived: "life_step (Some (Dead, n)) (Some (Pending, 0))"
| pruned: "\<not> live_status s \<Longrightarrow> life_step (Some (s, n)) None"

inductive_cases life_step_sentE: "life_step (Some (Sent, n)) l"
inductive_cases life_step_deadE: "life_step (Some (Dead, n)) l"

definition lives :: "db \<Rightarrow> db \<Rightarrow> bool" where
  "lives d d' \<longleftrightarrow> (\<forall>i. life_step\<^sup>=\<^sup>= (delivery_state i d) (delivery_state i d'))"

lemma lives_frame: "deliveries d' = deliveries d \<Longrightarrow> lives d d'"
  by (simp add: lives_def delivery_state_def)

lemma live_status_simps [simp]:
  "live_status Pending" "live_status Processing" "live_status Retrying"
  "\<not> live_status Sent" "\<not> live_status Dead"
  by (simp_all add: live_status_def)

lemma due_live: "due now r \<Longrightarrow> live_status (dl_status r)"
  by (auto simp: due_def live_status_def)

section \<open>Transitions of single rows\<close>

lemma delivery_state_update:
  assumes "\<And>r. P r \<Longrightarrow> dl_id (f r) = dl_id r"
  shows "delivery_state i (d\<lparr>deliveries := update_rows P f (deliveries d)\<rparr>) =
    map_option (\<lambda>r. (dl_status r, dl_attempts r))
      (map_option (\<lambda>r. if P r then f r else r) (query_row (\<lambda>r. dl_id r = i) (deliveries d)))"
  using assms by (simp add: delivery_state_def query_row_update_key [where key = dl_id] del: option.map_comp)

lemma lives_update:
  assumes "\<And>r. P r \<Longrightarrow> dl_id (f r) = dl_id r"
    and "\<And>r. r \<in> set (deliveries d) \<Longrightarrow> P r \<Longrightarrow>
      life_step (Some (dl_status r, dl_attempts r)) (Some (dl_status (f r), dl_attempts (f r)))"
  shows "lives d (d\<lparr>deliveries := update_rows P f (deliveries d)\<rparr>)"
  unfolding lives_def
proof
  fix i
  have eq: "delivery_state i (d\<lparr>deliveries := update_rows P f (deliveries d)\<rparr>) =
    map_option (\<lambda>r. (dl_status r, dl_attempts r))
      (map_option (\<lambda>r. if P r then f r else r) (query_row (\<lambda>r. dl_id r = i) (deliveries d)))"
    using assms(1) by (rule delivery_state_update)
  show "life_step\<^sup>=\<^sup>= (delivery_state i d)
      (delivery_state i (d\<lparr>deliveries := update_rows P f (deliveries d)\<rparr>))"
    unfolding eq unfolding delivery_state_def
    using assms(2) by (cases "query_row (\<lambda>r. dl_id r = i) (deliveries d)") (auto dest: query_row_SomeD)
qed

lemma queue_integrity_update:
  assumes "queue_integrity d" and "\<And>r. P r \<Longrightarrow> dl_id (f r) = dl_id r \<and> dl_event (f r) = dl_event r \<and> dl_channel (f r) = dl_channel r"
  shows "queue_integrity (d\<lparr>deliveries := update_rows P f (deliveries d)\<rparr>)"
proof -
  have "keyed dl_id (update_rows P f (deliveries d))" "keyed delivery_key (update_rows P f (deliveries d))"
    using assms by (auto simp: queue_integrity_def delivery_key_def intro!: keyed_update)
  moreover have "dl_id ` set (update_rows P f (deliveries d)) = dl_id ` set (deliveries d)"
    "dl_event ` set (update_rows P f (deliveries d)) = dl_event ` set (deliveries d)"
    using assms(2) by (simp_all add: image_update_key)
  ultimately show ?thesis using assms(1) by (simp add: queue_integrity_def)
qed

lemma first_due_Some:
  assumes "first_due choice rows = Some r"
  shows "r \<in> set rows \<and> (\<forall>s\<in>set rows. not_after r s)"
proof -
  let ?fs = "filter (\<lambda>r. list_all (not_after r) rows) rows"
  have ne: "?fs \<noteq> []" and r: "r = ?fs ! (choice mod length ?fs)"
    using assms by (auto simp: first_due_def Let_def split: if_splits)
  then have "choice mod length ?fs < length ?fs" by simp
  from nth_mem [OF this] have "r \<in> set ?fs" using r by metis
  then show ?thesis by (auto simp: list_all_iff)
qed

lemma first_due_None: "first_due choice rows = None \<longleftrightarrow> rows = []"
proof -
  have "\<exists>r\<in>set rows. \<forall>s\<in>set rows. not_after r s" if "rows \<noteq> []"
    using that
  proof (induction rows rule: list_nonempty_induct)
    case (single x)
    then show ?case by (simp add: not_after_def)
  next
    case (cons x xs)
    then obtain r where r: "r \<in> set xs" "\<forall>s\<in>set xs. not_after r s" by blast
    show ?case
    proof (cases "not_after r x")
      case True
      with r show ?thesis by auto
    next
      case False
      then have "not_after x x" "\<forall>s\<in>set xs. not_after x s"
        using r(2) by (auto simp: not_after_def)
      then show ?thesis by auto
    qed
  qed
  then show ?thesis
    by (auto simp: first_due_def Let_def filter_empty_conv list_all_iff)
qed

lemma first_due_Nil [simp]: "first_due choice [] = None"
  by (simp add: first_due_None)

lemma due_once:
  assumes "keyed dl_id rows" and "r \<in> set rows" and "P r"
  shows "count_rows (\<lambda>x. dl_id x = dl_id r \<and> P x) rows = 1"
proof -
  have "count_rows (\<lambda>x. dl_id x = dl_id r \<and> P x) rows \<le> 1"
    using assms(1) by (rule count_rows_keyed_le) simp
  moreover have "count_rows (\<lambda>x. dl_id x = dl_id r \<and> P x) rows \<noteq> 0"
    using assms(2,3) by (auto simp: count_rows_zero)
  ultimately show ?thesis by linarith
qed

section \<open>The operations as life steps\<close>

lemma ClaimDelivery_cases:
  assumes "ClaimDelivery choice now lease d = (res, d')"
  obtains (none) "res = Inr None" "d' = d"
  | (some) r e where
      "first_due choice (filter (\<lambda>r. due now r \<and> event_of d r \<noteq> None) (deliveries d)) = Some r"
      "event_of d r = Some e" "due now r" "r \<in> set (deliveries d)"
      "res = Inr (Some \<lparr>dv_record = dl_event r,
          dv_version = (case query_row (\<lambda>m. sd_delivery m = dl_id r) (event_deliveries d) of
                          None \<Rightarrow> [] | Some m \<Rightarrow> sd_generation m),
          dv_id = dl_id r, dv_channel = dl_channel r, dv_attempts = dl_attempts r + 1,
          dv_event = event_from_row e\<rparr>)"
      "d' = d\<lparr>deliveries := update_rows (\<lambda>x. dl_id x = dl_id r \<and> due now x)
                (\<lambda>x. x\<lparr>dl_status := Processing, dl_attempts := dl_attempts x + 1,
                      dl_lease := Some (unix_milli (now + lease))\<rparr>) (deliveries d)\<rparr>"
proof (cases "first_due choice (filter (\<lambda>r. due now r \<and> event_of d r \<noteq> None) (deliveries d))")
  case None
  with assms show thesis by (intro none) (simp_all add: ClaimDelivery_def)
next
  case (Some r)
  from first_due_Some [OF this] have r: "r \<in> set (deliveries d)" "due now r" "event_of d r \<noteq> None" by auto
  then obtain e where e: "event_of d r = Some e" by blast
  show thesis
  proof (cases "count_rows (\<lambda>x. dl_id x = dl_id r \<and> due now x) (deliveries d) = 1")
    case False
    with assms Some e show thesis by (intro none) (simp_all add: ClaimDelivery_def Let_def)
  next
    case True
    with assms Some e r show thesis by (intro some [of r e]) (simp_all add: ClaimDelivery_def Let_def)
  qed
qed

lemma ClaimDelivery_lives: "lives d (snd (ClaimDelivery choice now lease d))"
proof (rule ClaimDelivery_cases [of choice now lease d, OF prod.collapse [symmetric]], goal_cases)
  case 1
  then show ?thesis by (simp add: lives_frame)
next
  case (2 r e)
  have "lives d (d\<lparr>deliveries := update_rows (\<lambda>x. dl_id x = dl_id r \<and> due now x)
                (\<lambda>x. x\<lparr>dl_status := Processing, dl_attempts := dl_attempts x + 1,
                      dl_lease := Some (unix_milli (now + lease))\<rparr>) (deliveries d)\<rparr>)"
    by (rule lives_update) (auto intro: life_step.claimed due_live)
  then show ?thesis using 2 by simp
qed

lemma ClaimDelivery_integrity:
  assumes "queue_integrity d"
  shows "queue_integrity (snd (ClaimDelivery choice now lease d))"
proof (rule ClaimDelivery_cases [of choice now lease d, OF prod.collapse [symmetric]], goal_cases)
  case (2 r e)
  then show ?thesis using assms by (auto intro!: queue_integrity_update)
qed (use assms in simp)

lemma requireOne_lives:
  assumes "\<And>r. P r \<Longrightarrow> dl_id (f r) = dl_id r"
    and "\<And>r. P r \<Longrightarrow> life_step (Some (dl_status r, dl_attempts r)) (Some (dl_status (f r), dl_attempts (f r)))"
  shows "lives d (snd (requireOne P f d))"
  using lives_update [of P f d] assms by (simp add: requireOne_def Let_def)

lemma Complete_lives:
  "lives d (snd (CompleteSuccess i code t d))"
  "lives d (snd (CompleteFailure i n t msg code dead d))"
  by (auto simp: CompleteSuccess_def CompleteFailure_def Let_def intro!: requireOne_lives life_step.intros)

lemma Complete_integrity:
  "queue_integrity d \<Longrightarrow> queue_integrity (snd (CompleteSuccess i code t d))"
  "queue_integrity d \<Longrightarrow> queue_integrity (snd (CompleteFailure i n t msg code dead d))"
  by (auto simp: CompleteSuccess_def CompleteFailure_def Let_def requireOne_def intro!: queue_integrity_update)

lemma RetryDeadDelivery_lives: "lives d (snd (RetryDeadDelivery i now d))"
  by (auto simp: RetryDeadDelivery_def Let_def lives_frame
      intro!: lives_update life_step.intros split: option.splits)

lemma RetryDeadDelivery_integrity:
  "queue_integrity d \<Longrightarrow> queue_integrity (snd (RetryDeadDelivery i now d))"
  by (auto simp: RetryDeadDelivery_def Let_def intro!: queue_integrity_update split: option.splits)

text \<open>A delete that takes only finished deliveries.\<close>

lemma lives_delete:
  assumes "keyed dl_id (deliveries d)" and "deliveries d' = delete_rows Q (deliveries d)"
    and "\<And>r. r \<in> set (deliveries d) \<Longrightarrow> Q r \<Longrightarrow> \<not> live_status (dl_status r)"
  shows "lives d d'"
  unfolding lives_def delivery_state_def assms(2) query_row_delete [OF assms(1)]
  using assms(3) by (auto split: option.splits dest!: query_row_SomeD intro: life_step.pruned)

lemma Prune_dead_only:
  assumes "r \<in> set (deliveries d)"
    and "dl_event r \<in> set (map ev_id (filter (prunable before d) (events d)))"
  shows "\<not> live_status (dl_status r)"
  using assms by (auto simp: prunable_def list_ex_iff)

lemma Prune_lives: "queue_integrity d \<Longrightarrow> lives d (snd (Prune before d))"
  by (rule lives_delete [where Q = "\<lambda>r. dl_event r \<in> set (map ev_id (filter (prunable before d) (events d)))"])
    (auto simp: Prune_def Let_def queue_integrity_def prunable_def list_ex_iff)

lemma Prune_integrity:
  assumes "queue_integrity d"
  shows "queue_integrity (snd (Prune before d))"
proof -
  let ?gone = "set (map ev_id (filter (prunable before d) (events d)))"
  let ?d = "snd (Prune before d)"
  have k: "keyed ev_id (events d)" and fk: "dl_event ` set (deliveries d) \<subseteq> ev_id ` set (events d)"
    and sk: "sd_delivery ` set (event_deliveries d) \<subseteq> dl_id ` set (deliveries d)"
    and dk: "keyed dl_id (deliveries d)"
    using assms by (simp_all add: queue_integrity_def)
  have "dl_event r \<in> ev_id ` set (events ?d)" if r: "r \<in> set (deliveries ?d)" for r
  proof -
    from r have "r \<in> set (deliveries d)" and "dl_event r \<notin> ?gone"
      by (simp_all add: Prune_def Let_def table_simps)
    from fk \<open>r \<in> set (deliveries d)\<close> have "dl_event r \<in> ev_id ` set (events d)" by blast
    then obtain e where e: "e \<in> set (events d)" "dl_event r = ev_id e" by (rule imageE)
    with \<open>dl_event r \<notin> ?gone\<close> have "\<not> prunable before d e" by auto
    with e have "e \<in> set (events ?d)" by (simp add: Prune_def Let_def table_simps)
    with e show ?thesis by simp
  qed
  moreover have "sd_delivery m \<in> dl_id ` set (deliveries ?d)" if m: "m \<in> set (event_deliveries ?d)" for m
  proof -
    from m have m: "m \<in> set (event_deliveries d)"
        "sd_delivery m \<notin> set (map dl_id (filter (\<lambda>r. dl_event r \<in> ?gone) (deliveries d)))"
      by (simp_all add: Prune_def Let_def table_simps)
    from m(1) sk have "sd_delivery m \<in> dl_id ` set (deliveries d)" by blast
    then obtain r where r: "r \<in> set (deliveries d)" "sd_delivery m = dl_id r" by (metis imageE)
    with m(2) have "dl_event r \<notin> ?gone" by auto
    with r have "r \<in> set (deliveries ?d)" by (simp add: Prune_def Let_def table_simps)
    with r show ?thesis by simp
  qed
  ultimately show ?thesis
    using assms by (auto simp: queue_integrity_def Prune_def Let_def)
qed

lemma AcceptEvent_lives:
  assumes "AcceptEvent ids p d = (res, d')"
  shows "lives d d'"
  using assms
proof (cases rule: AcceptEvent_cases)
  case (queued reason0 started act recordID rows)
  obtain new where "rows = deliveries d @ new"
      "\<forall>r\<in>set new. dl_event r = recordID \<and> dl_status r = Pending \<and> dl_attempts r = 0 \<and>
        dl_created r = unix_milli (Now p) \<and> dl_next r = unix_milli (Now p)"
    using enqueue_targets_Inr [OF queued(7)] by blast
  moreover have "\<forall>r\<in>set (subscription_deliveries recordID (Event p) (Now p) d1).
      dl_status r = Pending \<and> dl_attempts r = 0" for d1
    by (simp add: subscription_deliveries_def)
  ultimately obtain more where more: "deliveries d' = deliveries d @ more"
      "\<forall>r\<in>set more. dl_status r = Pending \<and> dl_attempts r = 0"
    using enqueueEventSubscriptions_Some(1) [OF queued(8)] by (intro that) (simp, auto)
  show ?thesis
    unfolding lives_def
  proof
    fix i
    show "life_step\<^sup>=\<^sup>= (delivery_state i d) (delivery_state i d')"
    proof (cases "query_row (\<lambda>r. dl_id r = i) (deliveries d)")
      case (Some r)
      then show ?thesis by (simp add: delivery_state_def more(1) query_row_append)
    next
      case None
      show ?thesis
      proof (cases "query_row (\<lambda>r. dl_id r = i) more")
        case None
        then show ?thesis
          using \<open>query_row _ (deliveries d) = None\<close> by (simp add: delivery_state_def more(1) query_row_append)
      next
        case (Some r)
        from query_row_SomeD [OF Some] more(2) have "dl_status r = Pending" "dl_attempts r = 0" by simp_all
        then show ?thesis
          using None Some by (simp add: delivery_state_def more(1) query_row_append life_step.created)
      qed
    qed
  qed
qed (simp_all add: lives_frame)

section \<open>What a claim guarantees\<close>

abbreviation delivery_at :: "string \<Rightarrow> db \<Rightarrow> delivery_row option" where
  "delivery_at i d \<equiv> query_row (\<lambda>r. dl_id r = i) (deliveries d)"

lemma event_of_exists: "queue_integrity d \<Longrightarrow> r \<in> set (deliveries d) \<Longrightarrow> event_of d r \<noteq> None"
  by (auto simp: event_of_def queue_integrity_def query_row_None_key)

lemma delivery_at_keyed: "queue_integrity d \<Longrightarrow> r \<in> set (deliveries d) \<Longrightarrow> delivery_at (dl_id r) d = Some r"
  by (simp add: queue_integrity_def query_row_keyed)

lemma ClaimDelivery_None:
  assumes "queue_integrity d" and "ClaimDelivery choice now lease d = (Inr None, d')"
  shows "d' = d \<and> (\<forall>r\<in>set (deliveries d). \<not> due now r)"
proof -
  let ?rows = "filter (\<lambda>r. due now r \<and> event_of d r \<noteq> None) (deliveries d)"
  have "first_due choice ?rows = None"
  proof (cases "first_due choice ?rows")
    case (Some r)
    from first_due_Some [OF this] have r: "r \<in> set (deliveries d)" "due now r" "event_of d r \<noteq> None" by auto
    then obtain e where "event_of d r = Some e" by blast
    moreover have "count_rows (\<lambda>x. dl_id x = dl_id r \<and> due now x) (deliveries d) = 1"
      using assms(1) r by (intro due_once) (simp_all add: queue_integrity_def)
    ultimately show ?thesis using assms(2) Some by (simp add: ClaimDelivery_def Let_def)
  qed simp
  then have "?rows = []" by (simp add: first_due_None)
  with assms show ?thesis
    using event_of_exists [OF assms(1)]
    by (auto simp: filter_empty_conv ClaimDelivery_def first_due_None)
qed

lemma ClaimDelivery_Some:
  assumes "queue_integrity d" and "ClaimDelivery choice now lease d = (Inr (Some dv), d')"
  obtains r where "delivery_at (dv_id dv) d = Some r" "due now r" "dv_attempts dv = dl_attempts r + 1"
    "dv_channel dv = dl_channel r" "map_option event_from_row (event_of d r) = Some (dv_event dv)"
    "\<forall>s\<in>set (deliveries d). due now s \<longrightarrow> not_after r s"
    "delivery_at (dv_id dv) d' = Some (r\<lparr>dl_status := Processing, dl_attempts := dv_attempts dv,
        dl_lease := Some (unix_milli (now + lease))\<rparr>)"
    "\<And>i. i \<noteq> dv_id dv \<Longrightarrow> delivery_at i d' = delivery_at i d" "events d' = events d"
  using assms(2)
proof (cases rule: ClaimDelivery_cases)
  case (some r e)
  let ?P = "\<lambda>x. dl_id x = dl_id r \<and> due now x"
  let ?f = "\<lambda>x. x\<lparr>dl_status := Processing, dl_attempts := dl_attempts x + 1,
      dl_lease := Some (unix_milli (now + lease))\<rparr> :: delivery_row"
  have dv: "dv_id dv = dl_id r" "dv_attempts dv = dl_attempts r + 1" "dv_channel dv = dl_channel r"
    "dv_event dv = event_from_row e" using some(5) by simp_all
  have at: "delivery_at (dl_id r) d = Some r" by (rule delivery_at_keyed [OF assms(1) some(4)])
  have at': "delivery_at i d' = map_option (\<lambda>x. if ?P x then ?f x else x) (delivery_at i d)" for i
    by (simp add: some(6) query_row_update_key [where key = dl_id])
  have first: "\<forall>s\<in>set (deliveries d). due now s \<longrightarrow> not_after r s"
    using first_due_Some [OF some(1)] event_of_exists [OF assms(1)] by auto
  have other: "delivery_at i d' = delivery_at i d" if "i \<noteq> dv_id dv" for i
    using that dv(1) unfolding at' by (cases "delivery_at i d") (auto dest: query_row_SomeD)
  show thesis
  proof (rule that [of r])
    show "delivery_at (dv_id dv) d' = Some (r\<lparr>dl_status := Processing, dl_attempts := dv_attempts dv,
        dl_lease := Some (unix_milli (now + lease))\<rparr>)"
      unfolding at' dv(1,2) at using some(3) by simp
  qed (use at dv first other some(2,3) in \<open>simp_all\<close>, simp add: some(6))
qed simp

text \<open>
  C16. A claim takes the most overdue delivery and nobody else's. A delivery is due when it waits and its next
  attempt has come, or when it is processing under a lease that ran out. When any is due, the claim returns
  one of the due deliveries with the earliest next attempt (and the earliest creation among those), with
  the event it belongs to and its attempt counter raised by one; it is then processing, cannot be claimed
  again before its lease ends, and every other delivery is untouched. When nothing is due the claim
  returns nothing and changes nothing.
\<close>

theorem claim_takes_most_overdue:
  assumes "queue_integrity d" and "ClaimDelivery choice now lease d = (Inr claim, d')"
  shows "case claim of
      None \<Rightarrow> d' = d \<and> (\<forall>r\<in>set (deliveries d).
        (dl_status r = Pending \<or> dl_status r = Retrying \<longrightarrow> unix_milli now < dl_next r) \<and>
        (\<forall>l. dl_status r = Processing \<and> dl_lease r = Some l \<longrightarrow> unix_milli now < l))
    | Some dv \<Rightarrow> (\<exists>r r'. delivery_at (dv_id dv) d = Some r \<and>
        (dl_status r = Processing \<and> (\<exists>l. dl_lease r = Some l \<and> l \<le> unix_milli now) \<or>
         dl_status r \<in> {Pending, Retrying} \<and> dl_next r \<le> unix_milli now) \<and>
        (\<forall>s\<in>set (deliveries d). due now s \<longrightarrow> not_after r s) \<and>
        dv_attempts dv = dl_attempts r + 1 \<and> dv_channel dv = dl_channel r \<and>
        map_option event_from_row (event_of d r) = Some (dv_event dv) \<and>
        delivery_at (dv_id dv) d' = Some r' \<and>
        dl_status r' = Processing \<and> dl_attempts r' = dv_attempts dv \<and>
        (\<forall>t. due t r' \<longleftrightarrow> unix_milli (now + lease) \<le> unix_milli t) \<and>
        (\<forall>i. i \<noteq> dv_id dv \<longrightarrow> delivery_at i d' = delivery_at i d))"
proof (cases claim)
  case None
  then have "d' = d" "\<forall>r\<in>set (deliveries d). \<not> due now r"
    using ClaimDelivery_None [OF assms(1)] assms(2) by simp_all
  then show ?thesis using None by (auto simp: due_def not_le)
next
  case (Some dv)
  with assms(2) have "ClaimDelivery choice now lease d = (Inr (Some dv), d')" by simp
  from ClaimDelivery_Some [OF assms(1) this] obtain r where "delivery_at (dv_id dv) d = Some r" "due now r"
    "dv_attempts dv = dl_attempts r + 1" "dv_channel dv = dl_channel r"
    "map_option event_from_row (event_of d r) = Some (dv_event dv)"
    "\<forall>s\<in>set (deliveries d). due now s \<longrightarrow> not_after r s"
    "delivery_at (dv_id dv) d' = Some (r\<lparr>dl_status := Processing, dl_attempts := dv_attempts dv,
        dl_lease := Some (unix_milli (now + lease))\<rparr>)"
    "\<And>i. i \<noteq> dv_id dv \<Longrightarrow> delivery_at i d' = delivery_at i d" by metis
  moreover from this(2) have "dl_status r = Processing \<and> (\<exists>l. dl_lease r = Some l \<and> l \<le> unix_milli now) \<or>
      dl_status r \<in> {Pending, Retrying} \<and> dl_next r \<le> unix_milli now"
    by (auto simp: due_def split: option.splits)
  ultimately show ?thesis unfolding Some by (auto simp: due_def)
qed

text \<open>One event with two deliveries, the second more overdue than the first.\<close>

definition queue_event :: event_row where
  "queue_event = \<lparr>ev_id = ''e'', ev_client = ''c'', ev_event = ''x'', ev_source = ''web'', ev_route = ''ops'',
     ev_status = ''info'', ev_severity = ''info'', ev_title = ''t'', ev_message = ''m'', ev_occurred = 0,
     ev_dedupe = [], ev_labels = [], ev_url = [], ev_payload = [], ev_outcome = OutcomeQueued,
     ev_incident = None, ev_created = 0\<rparr>"

definition queue_db :: db where
  "queue_db = empty_db\<lparr>events := [queue_event],
     deliveries := [new_delivery ''d1'' ''e'' ''a'' 9000000, new_delivery ''d2'' ''e'' ''b'' 5000000]\<rparr>"

lemma queue_db_integrity: "queue_integrity queue_db"
  by (simp add: queue_integrity_def queue_db_def empty_db_def queue_event_def keyed_def event_key_def)

theorem claim_takes_most_overdue_witness:
  "\<exists>dv d'. ClaimDelivery 0 10000000 1000000000 queue_db = (Inr (Some dv), d') \<and> dv_id dv = ''d2'' \<and>
     delivery_at ''d1'' d' = delivery_at ''d1'' queue_db"
proof -
  have ok: "case ClaimDelivery 0 10000000 1000000000 queue_db of
      (Inr (Some dv), _) \<Rightarrow> dv_id dv = ''d2'' | _ \<Rightarrow> False" by code_simp
  then obtain dv d' where run: "ClaimDelivery 0 10000000 1000000000 queue_db = (Inr (Some dv), d')"
    and i: "dv_id dv = ''d2''"
    by (auto split: prod.splits sum.splits option.splits)
  from claim_takes_most_overdue [OF queue_db_integrity run] i have
    "delivery_at ''d1'' d' = delivery_at ''d1'' queue_db" by auto
  with run i show ?thesis by blast
qed

end
