(* ===== verification/AdminStore.thy ===== *)
theory AdminStore
  imports Delivery
begin

text \<open>
  \<open>internal/store/admin_store.go\<close>: the tables the administration pages edit (clients, ingress tokens,
  channels, route rules, silences), administrator credentials and sessions, and the dashboard. The
  locale \<open>record_table\<close> is the contract of the three tables of named records.
\<close>

section \<open>Administrator credential\<close>

text \<open>\<open>singleton_id\<close> is 1 in every row: the table holds at most one.\<close>

definition InitializeAdminCredential :: "string \<Rightarrow> string \<Rightarrow> instant \<Rightarrow> bool store_op" where
  "InitializeAdminCredential username passwordHash now d =
     (if admin_credentials d \<noteq> [] then (Inr False, d)
      else (Inr True, d\<lparr>admin_credentials :=
             [\<lparr>cr_username = username, cr_password = passwordHash, cr_created = unix_milli now,
               cr_updated = unix_milli now\<rparr>]\<rparr>))"

definition GetAdminCredential :: "db \<Rightarrow> store_error + credential_row" where
  "GetAdminCredential d = (case admin_credentials d of [] \<Rightarrow> Inl ErrNotFound | r # _ \<Rightarrow> Inr r)"

section \<open>Named records\<close>

definition found :: "'r option \<Rightarrow> store_error + 'r" where
  "found r = (case r of None \<Rightarrow> Inl ErrNotFound | Some x \<Rightarrow> Inr x)"

definition UpsertClient :: "client_row \<Rightarrow> instant \<Rightarrow> unit store_op" where
  "UpsertClient record now d =
     (Inr (), d\<lparr>gateway_clients :=
        upsert_row cl_id
          (\<lambda>old new. old\<lparr>cl_enabled := cl_enabled new, cl_secret := cl_secret new, cl_routes := cl_routes new,
                         cl_limit := cl_limit new, cl_updated := cl_updated new\<rparr>)
          (record\<lparr>cl_created := unix_milli now, cl_updated := unix_milli now\<rparr>) (gateway_clients d)\<rparr>)"

definition GetClient :: "string \<Rightarrow> db \<Rightarrow> store_error + client_row" where
  "GetClient i d = found (query_row (\<lambda>r. cl_id r = i) (gateway_clients d))"

definition ListClients :: "db \<Rightarrow> client_row list" where
  "ListClients d = sort_key cl_id (gateway_clients d)"

text \<open>DELETE with \<open>requireAffected\<close>.\<close>

definition DeleteClient :: "string \<Rightarrow> unit store_op" where
  "DeleteClient i d =
     (if count_rows (\<lambda>r. cl_id r = i) (gateway_clients d) = 0 then (Inl ErrNotFound, d)
      else (Inr (), d\<lparr>gateway_clients := delete_rows (\<lambda>r. cl_id r = i) (gateway_clients d)\<rparr>))"

text \<open>The CHECK constraints of \<open>ingress_tokens\<close>; \<open>length(id)\<close> counts characters.\<close>

definition token_checks :: "token_row \<Rightarrow> bool" where
  "token_checks r \<longleftrightarrow> 1 \<le> rune_count (tk_id r) \<and> rune_count (tk_id r) \<le> 64 \<and> rune_count (tk_public r) = 16 \<and>
     length (tk_hash r) = 32 \<and> known_severity (tk_severity r) \<and> 1 \<le> tk_limit r \<and> tk_limit r \<le> 60"

definition UpsertIngressToken :: "token_row \<Rightarrow> instant \<Rightarrow> unit store_op" where
  "UpsertIngressToken record now d =
     (if \<not> token_checks record \<or>
         list_ex (\<lambda>r. tk_public r = tk_public record \<and> tk_id r \<noteq> tk_id record) (ingress_tokens d)
      then (Inl ErrConstraint, d)
      else (Inr (), d\<lparr>ingress_tokens :=
        upsert_row tk_id
          (\<lambda>old new. old\<lparr>tk_public := tk_public new, tk_hash := tk_hash new, tk_enabled := tk_enabled new,
                         tk_route := tk_route new, tk_severity := tk_severity new, tk_limit := tk_limit new,
                         tk_updated := tk_updated new\<rparr>)
          (record\<lparr>tk_created := unix_milli now, tk_updated := unix_milli now\<rparr>) (ingress_tokens d)\<rparr>))"

definition GetIngressToken :: "string \<Rightarrow> db \<Rightarrow> store_error + token_row" where
  "GetIngressToken i d = found (query_row (\<lambda>r. tk_id r = i) (ingress_tokens d))"

definition ListIngressTokens :: "db \<Rightarrow> token_row list" where
  "ListIngressTokens d = sort_key tk_id (ingress_tokens d)"

definition DeleteIngressToken :: "string \<Rightarrow> unit store_op" where
  "DeleteIngressToken i d =
     (if count_rows (\<lambda>r. tk_id r = i) (ingress_tokens d) = 0 then (Inl ErrNotFound, d)
      else (Inr (), d\<lparr>ingress_tokens := delete_rows (\<lambda>r. tk_id r = i) (ingress_tokens d)\<rparr>))"

definition UpsertChannel :: "channel_row \<Rightarrow> instant \<Rightarrow> unit store_op" where
  "UpsertChannel record now d =
     (Inr (), d\<lparr>notification_channels :=
        upsert_row ch_id
          (\<lambda>old new. old\<lparr>ch_type := ch_type new, ch_enabled := ch_enabled new, ch_config := ch_config new,
                         ch_updated := ch_updated new\<rparr>)
          (record\<lparr>ch_created := unix_milli now, ch_updated := unix_milli now\<rparr>) (notification_channels d)\<rparr>)"

definition GetChannel :: "string \<Rightarrow> db \<Rightarrow> store_error + channel_row" where
  "GetChannel i d = found (query_row (\<lambda>r. ch_id r = i) (notification_channels d))"

definition ListChannels :: "db \<Rightarrow> channel_row list" where
  "ListChannels d = sort_key ch_id (notification_channels d)"

text \<open>The DELETE cascades to the rules that name the channel.\<close>

definition DeleteChannel :: "string \<Rightarrow> unit store_op" where
  "DeleteChannel i d =
     (if count_rows (\<lambda>r. ch_id r = i) (notification_channels d) = 0 then (Inl ErrNotFound, d)
      else (Inr (), d\<lparr>notification_channels := delete_rows (\<lambda>r. ch_id r = i) (notification_channels d),
                     route_rules := delete_rows (\<lambda>r. ro_channel r = i) (route_rules d)\<rparr>))"

section \<open>Routes\<close>

text \<open>The INSERT of one rule: primary key, and the foreign key on the channel.\<close>

definition insert_rule :: "route_row \<Rightarrow> db \<Rightarrow> route_row list \<Rightarrow> route_row list option" where
  "insert_rule r d rows =
     (if list_ex (\<lambda>c. ch_id c = ro_channel r) (notification_channels d) then insert_row route_key r rows
      else None)"

fun insert_rules :: "string \<Rightarrow> string \<Rightarrow> instant \<Rightarrow> db \<Rightarrow> string list \<Rightarrow> route_row list \<Rightarrow> route_row list option" where
  "insert_rules routingKey severity now d [] rows = Some rows"
| "insert_rules routingKey severity now d (c # cs) rows =
     (case insert_rule \<lparr>ro_route = routingKey, ro_severity = severity, ro_channel = c,
                        ro_created = unix_milli now\<rparr> d rows of
        None \<Rightarrow> None
      | Some rows' \<Rightarrow> insert_rules routingKey severity now d cs rows')"

definition ReplaceRoute :: "string \<Rightarrow> string \<Rightarrow> string list \<Rightarrow> instant \<Rightarrow> unit store_op" where
  "ReplaceRoute routingKey severity channels now d =
     (case insert_rules routingKey severity now d channels
             (delete_rows (\<lambda>r. ro_route r = routingKey \<and> ro_severity r = severity) (route_rules d)) of
        None \<Rightarrow> (Inl ErrConstraint, d)
      | Some rows \<Rightarrow> (Inr (), d\<lparr>route_rules := rows\<rparr>))"

definition DeleteRoute :: "string \<Rightarrow> string \<Rightarrow> unit store_op" where
  "DeleteRoute routingKey severity d =
     (let mine = (\<lambda>r. ro_route r = routingKey \<and> ro_severity r = severity)
      in if count_rows mine (route_rules d) = 0 then (Inl ErrNotFound, d)
         else (Inr (), d\<lparr>route_rules := delete_rows mine (route_rules d)\<rparr>))"

text \<open>\<open>ORDER BY routing_key, severity, channel_id\<close>: a stable sort by each, the last first.\<close>

definition ListRoutes :: "db \<Rightarrow> route_row list" where
  "ListRoutes d = sort_key ro_route (sort_key ro_severity (sort_key ro_channel (route_rules d)))"

section \<open>Silences\<close>

definition CreateSilence :: "string option \<Rightarrow> silence_row \<Rightarrow> instant \<Rightarrow> string store_op" where
  "CreateSilence newID record now d =
     (case newID of
        None \<Rightarrow> (Inl ErrStorage, d)
      | Some i \<Rightarrow>
         (case insert_row si_id (record\<lparr>si_id := i, si_created := unix_milli now\<rparr>) (silences d) of
            None \<Rightarrow> (Inl ErrConstraint, d)
          | Some rows \<Rightarrow> (Inr i, d\<lparr>silences := rows\<rparr>)))"

definition DeleteSilence :: "string \<Rightarrow> unit store_op" where
  "DeleteSilence i d =
     (if count_rows (\<lambda>r. si_id r = i) (silences d) = 0 then (Inl ErrNotFound, d)
      else (Inr (), d\<lparr>silences := delete_rows (\<lambda>r. si_id r = i) (silences d)\<rparr>))"

definition ListSilences :: "db \<Rightarrow> silence_row list" where
  "ListSilences d = sort_key (\<lambda>r. - si_ends r) (silences d)"

section \<open>Sessions\<close>

definition CreateAdminSession :: "string \<Rightarrow> string \<Rightarrow> instant \<Rightarrow> instant \<Rightarrow> unit store_op" where
  "CreateAdminSession tokenHash csrfToken expiresAt now d =
     (case insert_row se_hash
             \<lparr>se_hash = tokenHash, se_csrf = csrfToken, se_expires = unix_milli expiresAt,
              se_created = unix_milli now\<rparr>
             (delete_rows (\<lambda>r. se_expires r < unix_milli now) (admin_sessions d)) of
        None \<Rightarrow> (Inl ErrConstraint, d)
      | Some rows \<Rightarrow> (Inr (), d\<lparr>admin_sessions := rows\<rparr>))"

definition GetAdminSession :: "string \<Rightarrow> instant \<Rightarrow> db \<Rightarrow> store_error + string \<times> instant" where
  "GetAdminSession tokenHash now d =
     (case query_row (\<lambda>r. se_hash r = tokenHash \<and> unix_milli now \<le> se_expires r) (admin_sessions d) of
        None \<Rightarrow> Inl ErrNotFound
      | Some r \<Rightarrow> Inr (se_csrf r, of_unix_milli (se_expires r)))"

definition DeleteAdminSession :: "string \<Rightarrow> unit store_op" where
  "DeleteAdminSession tokenHash d =
     (Inr (), d\<lparr>admin_sessions := delete_rows (\<lambda>r. se_hash r = tokenHash) (admin_sessions d)\<rparr>)"

section \<open>Dashboard and delivery list\<close>

record dashboard_stats =
  ds_clients :: nat
  ds_tokens :: nat
  ds_channels :: nat
  ds_incidents :: nat
  ds_events_today :: nat
  ds_pending :: nat
  ds_retrying :: nat
  ds_dead :: nat
  ds_sent :: nat

text \<open>\<open>now.Truncate(24 * time.Hour)\<close>: multiples of a day since the zero time.\<close>

definition truncate_day :: "instant \<Rightarrow> instant" where
  "truncate_day now = now - (now - zero_time) mod (24 * hour)"

definition Dashboard :: "instant \<Rightarrow> db \<Rightarrow> dashboard_stats" where
  "Dashboard now d =
     (let by_status = (\<lambda>s. count_rows (\<lambda>r. dl_status r = s) (deliveries d)) in
      \<lparr>ds_clients = length (gateway_clients d), ds_tokens = length (ingress_tokens d),
       ds_channels = length (notification_channels d),
       ds_incidents = count_rows (\<lambda>r. in_state r = StatusFiring) (incidents d),
       ds_events_today = count_rows (\<lambda>e. unix_milli (truncate_day now) \<le> ev_created e) (events d),
       ds_pending = by_status Pending, ds_retrying = by_status Retrying, ds_dead = by_status Dead,
       ds_sent = by_status Sent\<rparr>)"

record delivery_view =
  vw_ID :: string
  vw_EventID :: string
  vw_Source :: string
  vw_Title :: string
  vw_Severity :: string
  vw_Status :: string
  vw_ChannelID :: string
  vw_Attempts :: int
  vw_Code :: int
  vw_Error :: string
  vw_Created :: instant
  vw_Sent :: "instant option"

fun status_text :: "delivery_status \<Rightarrow> string" where
  "status_text Pending = ''pending''"
| "status_text Processing = ''processing''"
| "status_text Retrying = ''retrying''"
| "status_text Sent = ''sent''"
| "status_text Dead = ''dead''"

definition view_of :: "db \<Rightarrow> delivery_row \<Rightarrow> delivery_view option" where
  "view_of d r =
     map_option (\<lambda>e. \<lparr>vw_ID = dl_id r, vw_EventID = ev_event e, vw_Source = ev_source e, vw_Title = ev_title e,
         vw_Severity = ev_severity e, vw_Status = status_text (dl_status r), vw_ChannelID = dl_channel r,
         vw_Attempts = dl_attempts r, vw_Code = dl_code r, vw_Error = dl_error r,
         vw_Created = of_unix_milli (dl_created r), vw_Sent = map_option of_unix_milli (dl_sent r)\<rparr>)
       (event_of d r)"

text \<open>SQL orders deliveries of one instant as it likes: here, as they were inserted.\<close>

definition ListDeliveries :: "string \<Rightarrow> int \<Rightarrow> int \<Rightarrow> db \<Rightarrow> delivery_view list \<times> nat" where
  "ListDeliveries status limit0 offset0 d =
     (let limit = (if limit0 < 1 \<or> 100 < limit0 then 50 else limit0);
          offset = (if offset0 < 0 then 0 else offset0);
          matching = filter (\<lambda>r. status = [] \<or> status_text (dl_status r) = status) (deliveries d);
          joined = filter (\<lambda>r. event_of d r \<noteq> None) matching
      in (map (the \<circ> view_of d)
            (take (nat limit) (drop (nat offset) (sort_key (\<lambda>r. - dl_created r) joined))),
          length matching))"

definition ValidateDeliveryStatus :: "string \<Rightarrow> bool" where
  "ValidateDeliveryStatus status \<longleftrightarrow>
     map ascii_lower status \<in> {[], ''pending'', ''processing'', ''retrying'', ''sent'', ''dead''}"

section \<open>Tables of named records\<close>

text \<open>The contract: what a lookup returns after a write, whatever was there before.\<close>

locale record_table =
  fixes key :: "'r \<Rightarrow> string" and same :: "'r \<Rightarrow> 'r \<Rightarrow> bool"
    and put :: "'r \<Rightarrow> instant \<Rightarrow> 'd \<Rightarrow> (store_error + unit) \<times> 'd"
    and get :: "string \<Rightarrow> 'd \<Rightarrow> store_error + 'r"
    and remove :: "string \<Rightarrow> 'd \<Rightarrow> (store_error + unit) \<times> 'd"
  assumes put_get: "put r t d = (Inr u, d') \<Longrightarrow> \<exists>r'. get (key r) d' = Inr r' \<and> same r r'"
    and put_other: "put r t d = (Inr u, d') \<Longrightarrow> i \<noteq> key r \<Longrightarrow> get i d' = get i d"
    and put_error: "put r t d = (Inl e, d') \<Longrightarrow> d' = d"
    and remove_get: "remove i d = (Inr u, d') \<Longrightarrow> get i d' = Inl ErrNotFound"
    and remove_other: "remove i d = (Inr u, d') \<Longrightarrow> j \<noteq> i \<Longrightarrow> get j d' = get j d"
    and remove_error: "remove i d = (Inl e, d') \<Longrightarrow> d' = d"

text \<open>A history of writes; failed ones leave no trace.\<close>

datatype 'r table_write = Put 'r instant | Remove string

fun write_key :: "('r \<Rightarrow> string) \<Rightarrow> 'r table_write \<Rightarrow> string" where
  "write_key key (Put r t) = key r"
| "write_key key (Remove i) = i"

fun perform ::
  "('r \<Rightarrow> instant \<Rightarrow> 'd \<Rightarrow> (store_error + unit) \<times> 'd) \<Rightarrow> (string \<Rightarrow> 'd \<Rightarrow> (store_error + unit) \<times> 'd)
     \<Rightarrow> 'r table_write \<Rightarrow> 'd \<Rightarrow> (store_error + unit) \<times> 'd" where
  "perform put remove (Put r t) d = put r t d"
| "perform put remove (Remove i) d = remove i d"

text \<open>The writes that succeeded, in order, and the database they leave.\<close>

fun history ::
  "('r \<Rightarrow> instant \<Rightarrow> 'd \<Rightarrow> (store_error + unit) \<times> 'd) \<Rightarrow> (string \<Rightarrow> 'd \<Rightarrow> (store_error + unit) \<times> 'd)
     \<Rightarrow> 'r table_write list \<Rightarrow> 'd \<Rightarrow> 'r table_write list \<times> 'd" where
  "history put remove [] d = ([], d)"
| "history put remove (w # ws) d =
     (case perform put remove w d of
        (Inl e, d1) \<Rightarrow> history put remove ws d1
      | (Inr u, d1) \<Rightarrow> (case history put remove ws d1 of (done, d2) \<Rightarrow> (w # done, d2)))"

definition last_write :: "('r \<Rightarrow> string) \<Rightarrow> string \<Rightarrow> 'r table_write list \<Rightarrow> 'r table_write option" where
  "last_write key i ws = find (\<lambda>w. write_key key w = i) (rev ws)"

lemma last_write_Cons:
  "last_write key i (w # ws) =
     (case last_write key i ws of Some x \<Rightarrow> Some x | None \<Rightarrow> if write_key key w = i then Some w else None)"
  by (simp add: last_write_def query_row_append split: option.splits)

context record_table
begin

lemma history_lookup:
  assumes "history put remove ws d = (ok, d')"
  shows "case last_write key i ok of
      None \<Rightarrow> get i d' = get i d
    | Some (Put r t) \<Rightarrow> \<exists>r'. get i d' = Inr r' \<and> same r r'
    | Some (Remove j) \<Rightarrow> get i d' = Inl ErrNotFound"
  using assms
proof (induction ws arbitrary: d ok)
  case Nil
  then show ?case by (simp add: last_write_def)
next
  case (Cons w ws)
  obtain res d1 where w: "perform put remove w d = (res, d1)" by (cases "perform put remove w d")
  show ?case
  proof (cases res)
    case (Inl e)
    then have "d1 = d" using w put_error remove_error by (cases w) auto
    with Cons Inl w show ?thesis by simp
  next
    case (Inr u)
    obtain tail where tail: "history put remove ws d1 = (tail, d')" "ok = w # tail"
      using Cons.prems w Inr by (auto split: prod.splits)
    note ih = Cons.IH [OF tail(1)]
    show ?thesis
    proof (cases "last_write key i tail")
      case (Some x)
      with ih tail(2) show ?thesis by (simp add: last_write_Cons)
    next
      case None
      then have same: "get i d' = get i d1" using ih by simp
      show ?thesis
      proof (cases "write_key key w = i")
        case True
        then show ?thesis
          using None same tail(2) w Inr put_get remove_get by (cases w) (auto simp: last_write_Cons)
      next
        case False
        then show ?thesis
          using None same tail(2) w Inr put_other remove_other by (cases w) (auto simp: last_write_Cons)
      qed
    qed
  qed
qed

end

text \<open>Records are the same up to the times the table keeps.\<close>

definition same_client :: "client_row \<Rightarrow> client_row \<Rightarrow> bool" where
  "same_client r s \<longleftrightarrow> cl_id s = cl_id r \<and> cl_enabled s = cl_enabled r \<and> cl_secret s = cl_secret r \<and>
     cl_routes s = cl_routes r \<and> cl_limit s = cl_limit r"

definition same_token :: "token_row \<Rightarrow> token_row \<Rightarrow> bool" where
  "same_token r s \<longleftrightarrow> tk_id s = tk_id r \<and> tk_public s = tk_public r \<and> tk_hash s = tk_hash r \<and>
     tk_enabled s = tk_enabled r \<and> tk_route s = tk_route r \<and> tk_severity s = tk_severity r \<and> tk_limit s = tk_limit r"

definition same_channel :: "channel_row \<Rightarrow> channel_row \<Rightarrow> bool" where
  "same_channel r s \<longleftrightarrow> ch_id s = ch_id r \<and> ch_type s = ch_type r \<and> ch_enabled s = ch_enabled r \<and>
     ch_config s = ch_config r"

lemma found_simps [simp]: "found None = Inl ErrNotFound" "found (Some r) = Inr r"
  by (simp_all add: found_def)

lemma found_delete_same: "found (query_row P (delete_rows P rows)) = Inl ErrNotFound"
  by (simp add: query_row_delete_same)

lemma found_delete_other:
  "j \<noteq> i \<Longrightarrow> found (query_row (\<lambda>r. key r = j) (delete_rows (\<lambda>r. key r = i) rows)) = found (query_row (\<lambda>r. key r = j) rows)"
  by (subst query_row_delete_other) auto

lemmas table_lookups = found_delete_same found_delete_other

interpretation clients: record_table cl_id same_client UpsertClient GetClient DeleteClient
proof (unfold_locales, goal_cases)
  case (1 r t d u d')
  let ?r = "r\<lparr>cl_created := unix_milli t, cl_updated := unix_milli t\<rparr>"
  have "cl_id ?r = cl_id r" by simp
  with 1 show ?case
    using query_row_upsert_same [of cl_id "\<lambda>old new. old\<lparr>cl_enabled := cl_enabled new, cl_secret := cl_secret new,
        cl_routes := cl_routes new, cl_limit := cl_limit new, cl_updated := cl_updated new\<rparr>" ?r "gateway_clients d"]
    by (auto simp: UpsertClient_def GetClient_def same_client_def split: option.splits dest: query_row_SomeD)
next
  case (2 r t d u d' i)
  then show ?case by (auto simp: UpsertClient_def GetClient_def query_row_upsert_other)
next
  case (3 r t d e d')
  then show ?case by (simp add: UpsertClient_def)
next
  case (4 i d u d')
  then show ?case by (auto simp: DeleteClient_def GetClient_def table_lookups split: if_splits)
next
  case (5 i d u d' j)
  then show ?case by (auto simp: DeleteClient_def GetClient_def table_lookups split: if_splits)
next
  case (6 i d e d')
  then show ?case by (auto simp: DeleteClient_def split: if_splits)
qed

interpretation tokens: record_table tk_id same_token UpsertIngressToken GetIngressToken DeleteIngressToken
proof (unfold_locales, goal_cases)
  case (1 r t d u d')
  let ?r = "r\<lparr>tk_created := unix_milli t, tk_updated := unix_milli t\<rparr>"
  have "tk_id ?r = tk_id r" by simp
  with 1 show ?case
    using query_row_upsert_same [of tk_id "\<lambda>old new. old\<lparr>tk_public := tk_public new, tk_hash := tk_hash new,
        tk_enabled := tk_enabled new, tk_route := tk_route new, tk_severity := tk_severity new,
        tk_limit := tk_limit new, tk_updated := tk_updated new\<rparr>" ?r "ingress_tokens d"]
    by (auto simp: UpsertIngressToken_def GetIngressToken_def same_token_def split: option.splits if_splits
        dest: query_row_SomeD)
next
  case (2 r t d u d' i)
  then show ?case by (auto simp: UpsertIngressToken_def GetIngressToken_def query_row_upsert_other split: if_splits)
next
  case (3 r t d e d')
  then show ?case by (auto simp: UpsertIngressToken_def split: if_splits)
next
  case (4 i d u d')
  then show ?case by (auto simp: DeleteIngressToken_def GetIngressToken_def table_lookups split: if_splits)
next
  case (5 i d u d' j)
  then show ?case by (auto simp: DeleteIngressToken_def GetIngressToken_def table_lookups split: if_splits)
next
  case (6 i d e d')
  then show ?case by (auto simp: DeleteIngressToken_def split: if_splits)
qed

interpretation channels: record_table ch_id same_channel UpsertChannel GetChannel DeleteChannel
proof (unfold_locales, goal_cases)
  case (1 r t d u d')
  let ?r = "r\<lparr>ch_created := unix_milli t, ch_updated := unix_milli t\<rparr>"
  have "ch_id ?r = ch_id r" by simp
  with 1 show ?case
    using query_row_upsert_same [of ch_id "\<lambda>old new. old\<lparr>ch_type := ch_type new, ch_enabled := ch_enabled new,
        ch_config := ch_config new, ch_updated := ch_updated new\<rparr>" ?r "notification_channels d"]
    by (auto simp: UpsertChannel_def GetChannel_def same_channel_def split: option.splits dest: query_row_SomeD)
next
  case (2 r t d u d' i)
  then show ?case by (auto simp: UpsertChannel_def GetChannel_def query_row_upsert_other)
next
  case (3 r t d e d')
  then show ?case by (simp add: UpsertChannel_def)
next
  case (4 i d u d')
  then show ?case by (auto simp: DeleteChannel_def GetChannel_def table_lookups split: if_splits)
next
  case (5 i d u d' j)
  then show ?case by (auto simp: DeleteChannel_def GetChannel_def table_lookups split: if_splits)
next
  case (6 i d e d')
  then show ?case by (auto simp: DeleteChannel_def split: if_splits)
qed

section \<open>Properties\<close>

text \<open>
  The configuration tables are registers: after any sequence of upserts and deletes of clients, of
  ingress tokens, or of channels, looking up an id returns what the last successful write to that id
  left (the record, with the times the table keeps, or nothing after a delete), and what was there before
  when no write succeeded. Failed writes leave no trace.
\<close>

theorem last_write_wins:
  "(case last_write cl_id i (fst (history UpsertClient DeleteClient cs d)) of
      None \<Rightarrow> GetClient i (snd (history UpsertClient DeleteClient cs d)) = GetClient i d
    | Some (Put r t) \<Rightarrow> \<exists>r'. GetClient i (snd (history UpsertClient DeleteClient cs d)) = Inr r' \<and> same_client r r'
    | Some (Remove j) \<Rightarrow> GetClient i (snd (history UpsertClient DeleteClient cs d)) = Inl ErrNotFound) \<and>
   (case last_write tk_id i (fst (history UpsertIngressToken DeleteIngressToken ts d)) of
      None \<Rightarrow> GetIngressToken i (snd (history UpsertIngressToken DeleteIngressToken ts d)) = GetIngressToken i d
    | Some (Put r t) \<Rightarrow>
        \<exists>r'. GetIngressToken i (snd (history UpsertIngressToken DeleteIngressToken ts d)) = Inr r' \<and> same_token r r'
    | Some (Remove j) \<Rightarrow> GetIngressToken i (snd (history UpsertIngressToken DeleteIngressToken ts d)) = Inl ErrNotFound) \<and>
   (case last_write ch_id i (fst (history UpsertChannel DeleteChannel hs d)) of
      None \<Rightarrow> GetChannel i (snd (history UpsertChannel DeleteChannel hs d)) = GetChannel i d
    | Some (Put r t) \<Rightarrow> \<exists>r'. GetChannel i (snd (history UpsertChannel DeleteChannel hs d)) = Inr r' \<and> same_channel r r'
    | Some (Remove j) \<Rightarrow> GetChannel i (snd (history UpsertChannel DeleteChannel hs d)) = Inl ErrNotFound)"
  by (intro conjI clients.history_lookup [of cs, OF prod.collapse [symmetric]]
      tokens.history_lookup [of ts, OF prod.collapse [symmetric]]
      channels.history_lookup [of hs, OF prod.collapse [symmetric]])

text \<open>Rules name existing channels, each once per route and severity.\<close>

definition routes_integrity :: "db \<Rightarrow> bool" where
  "routes_integrity d \<longleftrightarrow> keyed route_key (route_rules d) \<and>
     ro_channel ` set (route_rules d) \<subseteq> ch_id ` set (notification_channels d)"

definition channels_of :: "string \<Rightarrow> string \<Rightarrow> route_row list \<Rightarrow> string list" where
  "channels_of routingKey severity rows =
     map ro_channel (filter (\<lambda>r. ro_route r = routingKey \<and> ro_severity r = severity) rows)"

lemma insert_rules_Some:
  assumes "insert_rules k s now d cs rows = Some rows'"
  shows "\<exists>new. rows' = rows @ new \<and> map ro_channel new = cs \<and>
    (\<forall>r\<in>set new. ro_route r = k \<and> ro_severity r = s) \<and> set cs \<subseteq> ch_id ` set (notification_channels d) \<and>
    (keyed route_key rows \<longrightarrow> keyed route_key rows')"
  using assms
proof (induction cs arbitrary: rows)
  case (Cons c cs)
  let ?r = "\<lparr>ro_route = k, ro_severity = s, ro_channel = c, ro_created = unix_milli now\<rparr>"
  obtain rows1 where one: "insert_rule ?r d rows = Some rows1" and rest: "insert_rules k s now d cs rows1 = Some rows'"
    using Cons.prems by (auto split: option.splits)
  from one have r1: "rows1 = rows @ [?r]" "route_key ?r \<notin> route_key ` set rows"
    and c: "c \<in> ch_id ` set (notification_channels d)"
    by (auto simp: insert_rule_def insert_row_Some split: if_splits)
  from Cons.IH [OF rest] obtain new where new: "rows' = rows1 @ new" "map ro_channel new = cs"
    "\<forall>r\<in>set new. ro_route r = k \<and> ro_severity r = s" "set cs \<subseteq> ch_id ` set (notification_channels d)"
    "keyed route_key rows1 \<longrightarrow> keyed route_key rows'" by blast
  have "keyed route_key rows \<longrightarrow> keyed route_key rows'" using new(5) r1 by simp
  then show ?case using new r1 c by (intro exI [of _ "?r # new"]) auto
qed simp

lemma ReplaceRoute_effect:
  assumes "routes_integrity d"
  shows "case ReplaceRoute routingKey severity cs now d of
      (Inl e, d') \<Rightarrow> d' = d
    | (Inr u, d') \<Rightarrow> routes_integrity d' \<and> channels_of routingKey severity (route_rules d') = cs \<and> distinct cs \<and>
        (\<forall>k s. (k, s) \<noteq> (routingKey, severity) \<longrightarrow>
           channels_of k s (route_rules d') = channels_of k s (route_rules d))"
proof -
  let ?mine = "\<lambda>r. ro_route r = routingKey \<and> ro_severity r = severity"
  have keep: "channels_of k s (delete_rows ?mine (route_rules d)) =
      (if (k, s) = (routingKey, severity) then [] else channels_of k s (route_rules d))" for k s
    by (induction "route_rules d" rule: list.induct) (auto simp: channels_of_def delete_rows_def intro!: arg_cong [of _ _ "map ro_channel"] filter_cong)
  show ?thesis
  proof (cases "insert_rules routingKey severity now d cs (delete_rows ?mine (route_rules d))")
    case None
    then show ?thesis by (simp add: ReplaceRoute_def)
  next
    case (Some rows)
    from insert_rules_Some [OF Some] obtain new where new: "rows = delete_rows ?mine (route_rules d) @ new"
      "map ro_channel new = cs" "\<forall>r\<in>set new. ro_route r = routingKey \<and> ro_severity r = severity"
      "set cs \<subseteq> ch_id ` set (notification_channels d)"
      "keyed route_key (delete_rows ?mine (route_rules d)) \<longrightarrow> keyed route_key rows" by blast
    have keyed: "keyed route_key rows" using new(5) assms by (simp add: routes_integrity_def)
    then have "keyed route_key new" by (simp add: new(1) keyed_def)
    moreover have "map route_key new = map (\<lambda>c. (routingKey, severity, c)) cs"
      using new(2,3) by (auto simp: route_key_def)
    ultimately have "distinct cs" by (simp add: keyed_def distinct_map)
    moreover have "channels_of k s new = (if (k, s) = (routingKey, severity) then cs else [])" for k s
      using new(2,3) by (auto simp: channels_of_def filter_empty_conv cong: filter_cong)
    then have "channels_of k s rows = (if (k, s) = (routingKey, severity) then cs else channels_of k s (route_rules d))"
      for k s using keep [of k s] by (simp add: new(1) channels_of_def)
    moreover have "ro_channel ` set rows \<subseteq> ch_id ` set (notification_channels d)"
      using assms new(4) unfolding new(1) new(2) [symmetric]
      by (auto simp: routes_integrity_def table_simps)
    ultimately show ?thesis using Some keyed by (simp add: ReplaceRoute_def routes_integrity_def)
  qed
qed

lemma DeleteChannel_routes:
  assumes "routes_integrity d"
  shows "routes_integrity (snd (DeleteChannel i d))"
proof -
  have "ro_channel r \<in> ch_id ` set (delete_rows (\<lambda>c. ch_id c = i) (notification_channels d))"
    if "r \<in> set (route_rules d)" "ro_channel r \<noteq> i" for r
  proof -
    from that(1) assms have "ro_channel r \<in> ch_id ` set (notification_channels d)"
      by (auto simp: routes_integrity_def)
    then obtain c where "c \<in> set (notification_channels d)" "ro_channel r = ch_id c" by (rule imageE)
    with that(2) show ?thesis by (simp add: table_simps)
  qed
  then show ?thesis
    using assms by (auto simp: DeleteChannel_def routes_integrity_def table_simps)
qed

text \<open>
  Replacing a route is exact and atomic. On success the route and severity have exactly the given
  channels, in that order, all of them existing; every other route keeps its channels; on failure (an
  unknown or repeated channel) nothing changes. Rules never name a missing channel: this holds after the
  replacement and after deleting a channel, which takes its rules with it.
\<close>

theorem replace_route_exact:
  assumes "routes_integrity d"
  shows "(case ReplaceRoute routingKey severity cs now d of
      (Inl e, d') \<Rightarrow> d' = d
    | (Inr u, d') \<Rightarrow> routes_integrity d' \<and> channels_of routingKey severity (route_rules d') = cs \<and> distinct cs \<and>
        (\<forall>k s. (k, s) \<noteq> (routingKey, severity) \<longrightarrow>
           channels_of k s (route_rules d') = channels_of k s (route_rules d))) \<and>
    routes_integrity (snd (DeleteChannel i d))"
  using ReplaceRoute_effect [OF assms] DeleteChannel_routes [OF assms] by (rule conjI)

text \<open>
  An administrator session ends when it should. A session just created is found, with its CSRF token, at
  every moment up to its expiry and at none after it; once deleted it is not found at all; and creating it
  changes nothing for the sessions of other tokens.
\<close>

theorem session_lifetime:
  assumes "CreateAdminSession tok csrf expiry now d = (Inr u, d')"
  shows "GetAdminSession tok t d' =
      (if unix_milli t \<le> unix_milli expiry then Inr (csrf, of_unix_milli (unix_milli expiry)) else Inl ErrNotFound) \<and>
    GetAdminSession tok t (snd (DeleteAdminSession tok d')) = Inl ErrNotFound \<and>
    (tok' \<noteq> tok \<and> unix_milli now \<le> unix_milli t \<longrightarrow> GetAdminSession tok' t d' = GetAdminSession tok' t d)"
proof (intro conjI impI)
  let ?live = "delete_rows (\<lambda>r. se_expires r < unix_milli now) (admin_sessions d)"
  let ?row = "\<lparr>se_hash = tok, se_csrf = csrf, se_expires = unix_milli expiry, se_created = unix_milli now\<rparr>"
  have d': "d' = d\<lparr>admin_sessions := ?live @ [?row]\<rparr>" and fresh: "tok \<notin> se_hash ` set ?live"
    using assms by (auto simp: CreateAdminSession_def insert_row_Some split: option.splits)
  have "query_row (\<lambda>r. se_hash r = tok \<and> unix_milli t \<le> se_expires r) ?live = None"
    using fresh by (auto simp: find_None_iff)
  then show "GetAdminSession tok t d' =
      (if unix_milli t \<le> unix_milli expiry then Inr (csrf, of_unix_milli (unix_milli expiry)) else Inl ErrNotFound)"
    by (simp add: GetAdminSession_def d' query_row_append)
  show "GetAdminSession tok t (snd (DeleteAdminSession tok d')) = Inl ErrNotFound"
    by (auto simp: GetAdminSession_def DeleteAdminSession_def find_None_iff table_simps split: option.splits)
  assume "tok' \<noteq> tok \<and> unix_milli now \<le> unix_milli t"
  then have "query_row (\<lambda>r. se_hash r = tok' \<and> unix_milli t \<le> se_expires r) (?live @ [?row]) =
      query_row (\<lambda>r. se_hash r = tok' \<and> unix_milli t \<le> se_expires r) (admin_sessions d)"
    by (subst query_row_append, subst query_row_delete_other) (auto split: option.splits)
  then show "GetAdminSession tok' t d' = GetAdminSession tok' t d" by (simp add: GetAdminSession_def d')
qed

theorem session_lifetime_witness:
  "\<exists>d'. CreateAdminSession ''tok'' ''csrf'' 5000000 0 empty_db = (Inr (), d') \<and>
     GetAdminSession ''tok'' 4000000 d' = Inr (''csrf'', 5000000) \<and>
     GetAdminSession ''tok'' 6000000 d' = Inl ErrNotFound"
proof -
  let ?out = "CreateAdminSession ''tok'' ''csrf'' 5000000 0 empty_db"
  have "fst ?out = Inr ()" by code_simp
  then have run: "?out = (Inr (), snd ?out)" by (metis prod.collapse)
  show ?thesis
    using session_lifetime [OF run, of 4000000] session_lifetime [OF run, of 6000000] run
    by (intro exI [of _ "snd ?out"]) (simp add: unix_milli_def of_unix_milli_def)
qed

definition demo_routes :: db where
  "demo_routes = empty_db\<lparr>notification_channels :=
     [\<lparr>ch_id = ''a'', ch_type = ''ntfy'', ch_enabled = True, ch_config = [], ch_created = 0, ch_updated = 0\<rparr>,
      \<lparr>ch_id = ''b'', ch_type = ''ntfy'', ch_enabled = True, ch_config = [], ch_created = 0, ch_updated = 0\<rparr>]\<rparr>"

theorem replace_route_exact_witness:
  "channels_of ''ops'' ''info'' (route_rules (snd (ReplaceRoute ''ops'' ''info'' [''b'', ''a''] 0 demo_routes))) = [''b'', ''a'']"
proof -
  let ?out = "ReplaceRoute ''ops'' ''info'' [''b'', ''a''] 0 demo_routes"
  have ok: "routes_integrity demo_routes" by (simp add: routes_integrity_def demo_routes_def empty_db_def)
  have "fst ?out = Inr ()" by code_simp
  then have run: "?out = (Inr (), snd ?out)" by (metis prod.collapse)
  from replace_route_exact [OF ok, of "''ops''" "''info''" "[''b'', ''a'']" 0] show ?thesis
    by (subst (asm) run) simp
qed

text \<open>
  A page of the list whose status is spelled in capitals passes the check of the page but selects nothing:
  the check ignores case and the query does not.
\<close>

lemma capital_status_lists_nothing:
  "ValidateDeliveryStatus ''SENT'' \<and> ListDeliveries ''SENT'' limit offset d = ([], 0)"
proof -
  have "status_text s \<noteq> ''SENT''" for s by (cases s) simp_all
  then have "filter (\<lambda>r. ''SENT'' = [] \<or> status_text (dl_status r) = ''SENT'') (deliveries d) = []"
    by (simp add: filter_empty_conv)
  moreover have "ValidateDeliveryStatus ''SENT''" by code_simp
  ultimately show ?thesis by (simp add: ListDeliveries_def Let_def)
qed

text \<open>
  The pages of the delivery list are a partition of it: reading the first \<open>n\<close> pages of a valid size one
  after the other gives the first \<open>n * size\<close> deliveries with their events, newest first, each once; and
  the total counts the deliveries of the status.
\<close>

theorem delivery_pages_partition:
  assumes "1 \<le> sz" and "sz \<le> 100"
  shows "concat (map (\<lambda>k. fst (ListDeliveries status sz (int k * sz) d)) [0..<n]) =
      map (the \<circ> view_of d) (take (n * nat sz) (sort_key (\<lambda>r. - dl_created r)
        (filter (\<lambda>r. event_of d r \<noteq> None) (filter (\<lambda>r. status = [] \<or> status_text (dl_status r) = status) (deliveries d))))) \<and>
    snd (ListDeliveries status sz offset d) =
      count_rows (\<lambda>r. status = [] \<or> status_text (dl_status r) = status) (deliveries d)"
proof (rule conjI)
  let ?all = "sort_key (\<lambda>r. - dl_created r)
        (filter (\<lambda>r. event_of d r \<noteq> None) (filter (\<lambda>r. status = [] \<or> status_text (dl_status r) = status) (deliveries d)))"
  have page: "fst (ListDeliveries status sz (int k * sz) d) =
      map (the \<circ> view_of d) (take (nat sz) (drop (k * nat sz) ?all))" for k
  proof -
    have "nat (int k * sz) = k * nat sz" and "\<not> int k * sz < 0"
      using assms(1) by (simp_all add: nat_mult_distrib not_less)
    then show ?thesis using assms by (simp add: ListDeliveries_def Let_def)
  qed
  show "concat (map (\<lambda>k. fst (ListDeliveries status sz (int k * sz) d)) [0..<n]) =
      map (the \<circ> view_of d) (take (n * nat sz) ?all)"
  proof (induction n)
    case (Suc n)
    then show ?case by (simp add: page add.commute [of "nat sz"] take_add)
  qed simp
qed (simp add: ListDeliveries_def Let_def count_rows_def)

theorem delivery_pages_partition_witness:
  "length (concat (map (\<lambda>k. fst (ListDeliveries [] 1 (int k * 1) queue_db)) [0..<2])) = 2"
proof -
  have "length (filter (\<lambda>r. event_of queue_db r \<noteq> None) (filter (\<lambda>r. [] = ([] :: string) \<or> status_text (dl_status r) = []) (deliveries queue_db))) = 2"
    by code_simp
  then show ?thesis
    using delivery_pages_partition [of 1 "[]" queue_db 2 0] by simp
qed

end
