(* ===== verification/ConfigTables.thy ===== *)
theory ConfigTables
  imports AdminStore
begin

text \<open>
  The constraints of the configuration tables (\<open>gateway_clients\<close>, \<open>ingress_tokens\<close>,
  \<open>notification_channels\<close>, \<open>route_rules\<close>, \<open>silences\<close>), which every operation of \<open>admin_store.go\<close> keeps.
\<close>

section \<open>The constraints\<close>

definition config_integrity :: "db \<Rightarrow> bool" where
  "config_integrity d \<longleftrightarrow>
     keyed cl_id (gateway_clients d) \<and>
     keyed tk_id (ingress_tokens d) \<and> keyed tk_public (ingress_tokens d) \<and>
     (\<forall>r\<in>set (ingress_tokens d). token_checks r) \<and>
     keyed ch_id (notification_channels d) \<and> routes_integrity d \<and>
     keyed si_id (silences d)"

lemma config_integrity_empty [simp]: "config_integrity empty_db"
  by (simp add: config_integrity_def routes_integrity_def empty_db_def)

lemma config_integrity_frame:
  assumes "config_integrity d"
    and "gateway_clients d' = gateway_clients d" "ingress_tokens d' = ingress_tokens d"
    and "notification_channels d' = notification_channels d" "route_rules d' = route_rules d"
    and "silences d' = silences d"
  shows "config_integrity d'"
  using assms by (simp add: config_integrity_def routes_integrity_def)

section \<open>Every write keeps them\<close>

text \<open>A second key: the row whose first key is \<open>i\<close> takes a value that no other row has.\<close>

lemma keyed_update_second:
  assumes "keyed k1 rows" and "keyed k2 rows"
    and "\<forall>r\<in>set rows. k1 r \<noteq> i \<longrightarrow> k2 r \<noteq> p" and "\<And>r. k2 (f r) = p"
  shows "keyed k2 (update_rows (\<lambda>r. k1 r = i) f rows)"
  using assms
proof (induction rows)
  case (Cons a rows)
  show ?case
  proof (cases "k1 a = i")
    case True
    with Cons.prems(1) have "i \<notin> k1 ` set rows" by (simp add: keyed_def)
    then have "\<forall>r\<in>set rows. k1 r \<noteq> i" by blast
    then have "update_rows (\<lambda>r. k1 r = i) f rows = rows" and "p \<notin> k2 ` set rows"
      using Cons.prems(3) by (auto simp: update_rows_none)
    with True Cons.prems(2,4) show ?thesis by (simp add: update_rows_def keyed_def)
  next
    case False
    from Cons have "keyed k2 (update_rows (\<lambda>r. k1 r = i) f rows)" by (simp add: keyed_def)
    moreover have "k2 a \<notin> k2 ` set (update_rows (\<lambda>r. k1 r = i) f rows)"
      using Cons.prems(2-4) False by (auto simp: update_rows_def keyed_def)
    moreover have "update_rows (\<lambda>r. k1 r = i) f (a # rows) = a # update_rows (\<lambda>r. k1 r = i) f rows"
      using False by (simp add: update_rows_def)
    ultimately show ?thesis by (simp add: keyed_def)
  qed
qed (simp add: update_rows_def)

lemma UpsertClient_config: "config_integrity d \<Longrightarrow> config_integrity (snd (UpsertClient r now d))"
  by (auto simp: UpsertClient_def config_integrity_def routes_integrity_def intro!: keyed_upsert)

lemma DeleteClient_config: "config_integrity d \<Longrightarrow> config_integrity (snd (DeleteClient i d))"
  by (auto simp: DeleteClient_def config_integrity_def routes_integrity_def)

lemma UpsertChannel_config:
  assumes "config_integrity d"
  shows "config_integrity (snd (UpsertChannel r now d))"
proof -
  let ?m = "\<lambda>old new. old\<lparr>ch_type := ch_type new, ch_enabled := ch_enabled new, ch_config := ch_config new,
                         ch_updated := ch_updated new\<rparr>"
  let ?r = "r\<lparr>ch_created := unix_milli now, ch_updated := unix_milli now\<rparr>"
  have "ro_channel ` set (route_rules d) \<subseteq> ch_id ` set (notification_channels d)"
    using assms by (simp add: config_integrity_def routes_integrity_def)
  also have "\<dots> \<subseteq> ch_id ` set (upsert_row ch_id ?m ?r (notification_channels d))"
    by (auto simp: upsert_row_def image_update_key)
  finally have "ro_channel ` set (route_rules d) \<subseteq> ch_id ` set (upsert_row ch_id ?m ?r (notification_channels d))" .
  moreover have "keyed ch_id (upsert_row ch_id ?m ?r (notification_channels d))"
    by (rule keyed_upsert) (use assms in \<open>simp_all add: config_integrity_def\<close>)
  ultimately show ?thesis
    using assms unfolding UpsertChannel_def config_integrity_def routes_integrity_def
    by simp
qed

lemma DeleteChannel_config: "config_integrity d \<Longrightarrow> config_integrity (snd (DeleteChannel i d))"
  using DeleteChannel_routes [of d i] by (auto simp: DeleteChannel_def config_integrity_def)

lemma UpsertIngressToken_config:
  assumes "config_integrity d"
  shows "config_integrity (snd (UpsertIngressToken r now d))"
proof (cases "fst (UpsertIngressToken r now d)")
  case (Inl e)
  then show ?thesis using assms by (auto simp: UpsertIngressToken_def split: if_splits)
next
  case (Inr u)
  let ?m = "\<lambda>old new. old\<lparr>tk_public := tk_public new, tk_hash := tk_hash new, tk_enabled := tk_enabled new,
                         tk_route := tk_route new, tk_severity := tk_severity new, tk_limit := tk_limit new,
                         tk_updated := tk_updated new\<rparr>"
  let ?r = "r\<lparr>tk_created := unix_milli now, tk_updated := unix_milli now\<rparr>"
  let ?rows = "upsert_row tk_id ?m ?r (ingress_tokens d)"
  have ok: "token_checks r" and fresh: "\<forall>x\<in>set (ingress_tokens d). tk_id x \<noteq> tk_id r \<longrightarrow> tk_public x \<noteq> tk_public r"
    using Inr by (auto simp: UpsertIngressToken_def list_ex_iff split: if_splits)
  have "token_checks (?m x ?r)" if "token_checks x" for x
    using ok that by (simp add: token_checks_def)
  then have checks: "\<forall>x\<in>set ?rows. token_checks x"
    using ok assms by (auto simp: upsert_row_def update_rows_def config_integrity_def token_checks_def)
  have keys: "keyed tk_id (ingress_tokens d)" "keyed tk_public (ingress_tokens d)"
    using assms by (simp_all add: config_integrity_def)
  have "keyed tk_public ?rows"
  proof (cases "list_ex (\<lambda>x. tk_id x = tk_id ?r) (ingress_tokens d)")
    case True
    with keyed_update_second [OF keys, of "tk_id r" "tk_public r" "\<lambda>old. ?m old ?r"] fresh
    show ?thesis unfolding upsert_row_def by simp
  next
    case False
    then have "\<forall>x\<in>set (ingress_tokens d). tk_public x \<noteq> tk_public r"
      using fresh by (auto simp: image_iff)
    then have "tk_public ?r \<notin> tk_public ` set (ingress_tokens d)" by auto
    with False keys show ?thesis unfolding upsert_row_def by simp
  qed
  moreover have "keyed tk_id ?rows" by (rule keyed_upsert) (simp_all add: keys)
  moreover have "snd (UpsertIngressToken r now d) = d\<lparr>ingress_tokens := ?rows\<rparr>"
    using Inr by (auto simp: UpsertIngressToken_def split: if_splits)
  ultimately show ?thesis
    using checks assms by (simp add: config_integrity_def routes_integrity_def)
qed

lemma DeleteIngressToken_config: "config_integrity d \<Longrightarrow> config_integrity (snd (DeleteIngressToken i d))"
  by (auto simp: DeleteIngressToken_def config_integrity_def routes_integrity_def table_simps)

lemma ReplaceRoute_config:
  assumes "config_integrity d"
  shows "config_integrity (snd (ReplaceRoute k s cs now d))"
proof -
  have "routes_integrity (snd (ReplaceRoute k s cs now d))"
    using ReplaceRoute_effect [of d k s cs now] assms
    by (auto simp: config_integrity_def split: prod.splits sum.splits)
  then show ?thesis
    using assms by (auto simp: config_integrity_def ReplaceRoute_def split: option.splits)
qed

lemma DeleteRoute_config: "config_integrity d \<Longrightarrow> config_integrity (snd (DeleteRoute k s d))"
  by (auto simp: DeleteRoute_def config_integrity_def routes_integrity_def Let_def table_simps)

lemma CreateSilence_config: "config_integrity d \<Longrightarrow> config_integrity (snd (CreateSilence newID r now d))"
  by (auto simp: CreateSilence_def config_integrity_def routes_integrity_def
      dest: keyed_insert split: option.splits)

lemma DeleteSilence_config: "config_integrity d \<Longrightarrow> config_integrity (snd (DeleteSilence i d))"
  by (auto simp: DeleteSilence_def config_integrity_def routes_integrity_def)

lemmas config_writes =
  UpsertClient_config DeleteClient_config UpsertIngressToken_config DeleteIngressToken_config
  UpsertChannel_config DeleteChannel_config ReplaceRoute_config DeleteRoute_config
  CreateSilence_config DeleteSilence_config

end
