(* ===== verification/Gateway.thy ===== *)
theory Gateway
  imports ChannelConfig ConfigTables "HOL-Library.AList"
begin

text \<open>
  \<open>internal/runtimecfg/manager.go\<close>: the configuration manager. It keeps the administration tables in the
  database and, in memory, a snapshot of them that request handling and the worker read. Every change
  writes the database first and then rebuilds and publishes the snapshot (\<open>Reload\<close>). The cipher, JSON, the
  URL and mail parsers and the senders are the fields of \<open>environment\<close>, one per call, so that the cipher's
  nonces may differ from call to call; random buffers and the clock are arguments. \<open>fault k\<close> says that the
  \<open>k\<close>-th database call of an operation fails outside the program. Go maps are association lists.
\<close>

section \<open>State\<close>

record snapshot =
  sn_clients :: "(string \<times> client) list"
  sn_tokens :: "(string \<times> ingress_token) list"
  sn_routes :: "(string \<times> (string \<times> string list) list) list"
  sn_senders :: "(string \<times> sender) list"
  sn_channels :: "(string \<times> channel_view) list"
  sn_silences :: "silence_row list"

text \<open>\<open>mg_state\<close> is the atomic pointer: \<open>None\<close> is nil.\<close>

record manager =
  mg_state :: "snapshot option"
  mg_db :: db

datatype gateway_error =
    Invalid string
  | ErrConflict
  | StoreError store_error
  | ErrCipher
  | ErrRandom
  | ErrPanic

type_synonym 'a gateway_result = "(gateway_error + 'a) \<times> manager"

section \<open>Building a snapshot\<close>

text \<open>A Go loop over records that returns the first error.\<close>

fun for_each :: "('r \<Rightarrow> 's \<Rightarrow> 'e + 's) \<Rightarrow> 'r list \<Rightarrow> 's \<Rightarrow> 'e + 's" where
  "for_each f [] s = Inr s"
| "for_each f (r # rs) s = (case f r s of Inl e \<Rightarrow> Inl e | Inr s' \<Rightarrow> for_each f rs s')"

definition add_client :: "environment \<Rightarrow> client_row \<Rightarrow> (string \<times> client) list \<Rightarrow> gateway_error + (string \<times> client) list" where
  "add_client env r m =
     (case en_decrypt env (cl_secret r) of
        None \<Rightarrow> Inl ErrCipher
      | Some secret \<Rightarrow> Inr (AList.update (cl_id r)
          \<lparr>ac_ID = cl_id r, ac_Secret = secret, ac_Enabled = cl_enabled r, ac_AllowedRoutes = cl_routes r,
           ac_RateLimit = cl_limit r\<rparr> m))"

definition add_token :: "token_row \<Rightarrow> (string \<times> ingress_token) list \<Rightarrow> gateway_error + (string \<times> ingress_token) list" where
  "add_token r m =
     (if length (tk_hash r) \<noteq> 32 then Inl (Invalid ''ingress token has an invalid hash'')
      else Inr (AList.update (tk_public r)
        \<lparr>bt_ID = tk_id r, bt_PublicID = tk_public r, bt_SecretHash = tk_hash r, bt_Enabled = tk_enabled r,
         bt_RoutingKey = tk_route r, bt_Severity = tk_severity r, bt_RateLimit = tk_limit r\<rparr> m))"

definition add_channel ::
  "environment \<Rightarrow> channel_row \<Rightarrow> (string \<times> sender) list \<times> (string \<times> channel_view) list \<Rightarrow>
   gateway_error + (string \<times> sender) list \<times> (string \<times> channel_view) list" where
  "add_channel env r = (\<lambda>(senders, views).
     case decryptConfig env (ch_config r) of
       None \<Rightarrow> Inl ErrCipher
     | Some stored \<Rightarrow>
        (case buildChannel env (ch_id r) (ch_type r) (ch_enabled r) (ch_updated r) stored of
           Inl e \<Rightarrow> Inl (Invalid e)
         | Inr (s, view) \<Rightarrow>
            Inr (if ch_enabled r then AList.update (ch_id r) s senders else senders,
                 AList.update (ch_id r) view views)))"

definition entry :: "'v \<Rightarrow> ('k \<times> 'v) list \<Rightarrow> 'k \<Rightarrow> 'v" where
  "entry zero m k = (case map_of m k of None \<Rightarrow> zero | Some v \<Rightarrow> v)"

definition add_rule :: "route_row \<Rightarrow> (string \<times> (string \<times> string list) list) list \<Rightarrow> (string \<times> (string \<times> string list) list) list" where
  "add_rule r routes =
     (let severities = entry [] routes (ro_route r);
          chans = entry [] severities (ro_severity r)
      in AList.update (ro_route r) (AList.update (ro_severity r) (chans @ [ro_channel r]) severities) routes)"

definition build_snapshot :: "environment \<Rightarrow> db \<Rightarrow> gateway_error + snapshot" where
  "build_snapshot env d =
     (case for_each (add_client env) (ListClients d) [] of
        Inl e \<Rightarrow> Inl e
      | Inr clients \<Rightarrow>
     (case for_each add_token (ListIngressTokens d) [] of
        Inl e \<Rightarrow> Inl e
      | Inr tokens \<Rightarrow>
     (case for_each (add_channel env) (ListChannels d) ([], []) of
        Inl e \<Rightarrow> Inl e
      | Inr (senders, views) \<Rightarrow>
          Inr \<lparr>sn_clients = clients, sn_tokens = tokens, sn_routes = fold add_rule (ListRoutes d) [],
               sn_senders = senders, sn_channels = views, sn_silences = ListSilences d\<rparr>)))"

text \<open>The five reads, then the build; the pointer is stored only at the end.\<close>

definition Reload :: "environment \<Rightarrow> (nat \<Rightarrow> bool) \<Rightarrow> manager \<Rightarrow> unit gateway_result" where
  "Reload env fault m =
     (if list_ex fault [0..<5] then (Inl (StoreError ErrStorage), m)
      else case build_snapshot env (mg_db m) of
             Inl e \<Rightarrow> (Inl e, m)
           | Inr next \<Rightarrow> (Inr (), m\<lparr>mg_state := Some next\<rparr>))"

definition NewManager :: "environment \<Rightarrow> (nat \<Rightarrow> bool) \<Rightarrow> db \<Rightarrow> gateway_error + manager" where
  "NewManager env fault d =
     (case Reload env fault \<lparr>mg_state = None, mg_db = d\<rparr> of (Inl e, _) \<Rightarrow> Inl e | (Inr _, m) \<Rightarrow> Inr m)"

section \<open>What request handling reads\<close>

definition LookupClient :: "manager \<Rightarrow> string \<Rightarrow> client option" where
  "LookupClient m i = (case mg_state m of None \<Rightarrow> None | Some st \<Rightarrow> map_of (sn_clients st) i)"

definition LookupIngressToken :: "manager \<Rightarrow> string \<Rightarrow> ingress_token option" where
  "LookupIngressToken m publicID = (case mg_state m of None \<Rightarrow> None | Some st \<Rightarrow> map_of (sn_tokens st) publicID)"

definition route_channels :: "(string \<times> (string \<times> string list) list) list \<Rightarrow> string \<Rightarrow> string \<Rightarrow> string list" where
  "route_channels routes route severity = entry [] (entry [] routes route) severity"

definition ResolveTargets :: "manager \<Rightarrow> string \<Rightarrow> string \<Rightarrow> string list" where
  "ResolveTargets m route severity =
     (case mg_state m of
        None \<Rightarrow> []
      | Some st \<Rightarrow> filter (\<lambda>i. \<not> Option.is_none (map_of (sn_senders st) i))
                    (route_channels (sn_routes st) route severity))"

definition Sender :: "manager \<Rightarrow> string \<Rightarrow> sender option" where
  "Sender m channelID = (case mg_state m of None \<Rightarrow> None | Some st \<Rightarrow> map_of (sn_senders st) channelID)"

definition silence_applies :: "string \<Rightarrow> string \<Rightarrow> instant \<Rightarrow> silence_row \<Rightarrow> bool" where
  "silence_applies route severity now s \<longleftrightarrow>
     \<not> (now < of_unix_milli (si_starts s) \<or> \<not> now < of_unix_milli (si_ends s)) \<and>
     \<not> (si_route s \<noteq> ''*'' \<and> si_route s \<noteq> route) \<and>
     \<not> (si_severity s \<noteq> ''*'' \<and> si_severity s \<noteq> severity)"

definition IsSilenced :: "manager \<Rightarrow> string \<Rightarrow> string \<Rightarrow> instant \<Rightarrow> bool" where
  "IsSilenced m route severity now =
     (case mg_state m of None \<Rightarrow> False | Some st \<Rightarrow> list_ex (silence_applies route severity now) (sn_silences st))"

section \<open>What the pages show\<close>

record client_view =
  wc_ID :: string
  wc_Enabled :: bool
  wc_AllowedRoutes :: "string list"
  wc_RateLimit :: int
  wc_UpdatedAt :: millis

record token_view =
  wt_ID :: string
  wt_Enabled :: bool
  wt_RoutingKey :: string
  wt_Severity :: string
  wt_RateLimit :: int
  wt_UpdatedAt :: millis

record route_view =
  wr_RoutingKey :: string
  wr_Severity :: string
  wr_Channels :: "string list"

definition Clients :: "bool \<Rightarrow> manager \<Rightarrow> client_view list" where
  "Clients fault m =
     (if Option.is_none (mg_state m) \<or> fault then []
      else map (\<lambda>r. \<lparr>wc_ID = cl_id r, wc_Enabled = cl_enabled r, wc_AllowedRoutes = cl_routes r,
                     wc_RateLimit = cl_limit r, wc_UpdatedAt = cl_updated r\<rparr>) (ListClients (mg_db m)))"

definition IngressTokens :: "bool \<Rightarrow> manager \<Rightarrow> token_view list" where
  "IngressTokens fault m =
     (if fault then []
      else map (\<lambda>r. \<lparr>wt_ID = tk_id r, wt_Enabled = tk_enabled r, wt_RoutingKey = tk_route r,
                     wt_Severity = tk_severity r, wt_RateLimit = tk_limit r, wt_UpdatedAt = tk_updated r\<rparr>)
             (ListIngressTokens (mg_db m)))"

definition Channels :: "manager \<Rightarrow> channel_view list" where
  "Channels m = (case mg_state m of None \<Rightarrow> [] | Some st \<Rightarrow> sort_key cv_ID (map snd (sn_channels st)))"

definition Routes :: "manager \<Rightarrow> route_view list" where
  "Routes m =
     (case mg_state m of
        None \<Rightarrow> []
      | Some st \<Rightarrow> sort_key wr_RoutingKey (sort_key wr_Severity
          (concat (map (\<lambda>(route, severities).
             map (\<lambda>(severity, chans). \<lparr>wr_RoutingKey = route, wr_Severity = severity, wr_Channels = chans\<rparr>)
               severities) (sn_routes st)))))"

section \<open>Checks\<close>

definition validateClient :: "string \<Rightarrow> string list \<Rightarrow> int \<Rightarrow> string option" where
  "validateClient i routes limit =
     (if \<not> matches_config_identifier i then Some ''invalid client id''
      else if routes = [] \<or> 20 < length routes then Some ''client needs 1 to 20 routes''
      else if \<not> list_all matches_config_identifier routes then Some ''invalid route''
      else if limit < 1 \<or> 600 < limit then Some ''rate limit must be between 1 and 600''
      else None)"

definition validateIngressToken :: "manager \<Rightarrow> string \<Rightarrow> string \<Rightarrow> string \<Rightarrow> int \<Rightarrow> string option" where
  "validateIngressToken m i route severity limit =
     (if \<not> matches_config_identifier i \<or> 64 < length i then Some ''invalid ingress token id''
      else if \<not> matches_config_identifier route \<or> \<not> validSeverity severity
      then Some ''invalid ingress token route or severity''
      else if limit < 1 \<or> 60 < limit then Some ''ingress token rate limit must be between 1 and 60''
      else case mg_state m of
             None \<Rightarrow> Some ''ingress token needs an existing route rule''
           | Some st \<Rightarrow> if route_channels (sn_routes st) route severity = []
                        then Some ''ingress token needs an existing route rule'' else None)"

definition newSecret :: "string option \<Rightarrow> string option" where
  "newSecret value = map_option hex_encode value"

section \<open>Changes\<close>

text \<open>A read of one record that may fail, and the end of every change: its write, then \<open>Reload\<close>.\<close>

definition get_record :: "bool \<Rightarrow> store_error + 'r \<Rightarrow> store_error + 'r" where
  "get_record fault r = (if fault then Inl ErrStorage else r)"

definition write_reload ::
  "environment \<Rightarrow> (nat \<Rightarrow> bool) \<Rightarrow> 'a \<Rightarrow> 'b store_op \<Rightarrow> manager \<Rightarrow> 'a gateway_result" where
  "write_reload env fault result write_op m =
     (case store_call (fault 0) write_op (mg_db m) of
        (Inl e, d) \<Rightarrow> (Inl (StoreError e), m\<lparr>mg_db := d\<rparr>)
      | (Inr _, d) \<Rightarrow>
         (case Reload env (\<lambda>k. fault (k + 1)) (m\<lparr>mg_db := d\<rparr>) of
            (Inl e, m') \<Rightarrow> (Inl e, m')
          | (Inr _, m') \<Rightarrow> (Inr result, m')))"

definition CreateClient ::
  "environment \<Rightarrow> (nat \<Rightarrow> bool) \<Rightarrow> string option \<Rightarrow> instant \<Rightarrow> string \<Rightarrow> bool \<Rightarrow> string list \<Rightarrow> int \<Rightarrow>
   manager \<Rightarrow> string gateway_result" where
  "CreateClient env fault random now i enabled routes limit m =
     (case validateClient i routes limit of
        Some e \<Rightarrow> (Inl (Invalid e), m)
      | None \<Rightarrow>
         (case get_record (fault 0) (GetClient i (mg_db m)) of
            Inr _ \<Rightarrow> (Inl ErrConflict, m)
          | Inl e \<Rightarrow>
              if e \<noteq> ErrNotFound then (Inl (StoreError e), m)
              else case newSecret random of
                None \<Rightarrow> (Inl ErrRandom, m)
              | Some secret \<Rightarrow>
                 (case en_encrypt env secret of
                    None \<Rightarrow> (Inl ErrCipher, m)
                  | Some ciphertext \<Rightarrow>
                      write_reload env (\<lambda>k. fault (k + 1)) secret
                        (UpsertClient \<lparr>cl_id = i, cl_enabled = enabled, cl_secret = ciphertext, cl_routes = routes,
                           cl_limit = limit, cl_created = 0, cl_updated = 0\<rparr> now) m)))"

definition UpdateClient ::
  "environment \<Rightarrow> (nat \<Rightarrow> bool) \<Rightarrow> instant \<Rightarrow> string \<Rightarrow> bool \<Rightarrow> string list \<Rightarrow> int \<Rightarrow> manager \<Rightarrow> unit gateway_result" where
  "UpdateClient env fault now i enabled routes limit m =
     (case validateClient i routes limit of
        Some e \<Rightarrow> (Inl (Invalid e), m)
      | None \<Rightarrow>
         (case get_record (fault 0) (GetClient i (mg_db m)) of
            Inl e \<Rightarrow> (Inl (StoreError e), m)
          | Inr record \<Rightarrow>
              write_reload env (\<lambda>k. fault (k + 1)) ()
                (UpsertClient (record\<lparr>cl_enabled := enabled, cl_routes := routes, cl_limit := limit\<rparr>) now) m))"

definition RotateClientSecret ::
  "environment \<Rightarrow> (nat \<Rightarrow> bool) \<Rightarrow> string option \<Rightarrow> instant \<Rightarrow> string \<Rightarrow> manager \<Rightarrow> string gateway_result" where
  "RotateClientSecret env fault random now i m =
     (case get_record (fault 0) (GetClient i (mg_db m)) of
        Inl e \<Rightarrow> (Inl (StoreError e), m)
      | Inr record \<Rightarrow>
         (case newSecret random of
            None \<Rightarrow> (Inl ErrRandom, m)
          | Some secret \<Rightarrow>
             (case en_encrypt env secret of
                None \<Rightarrow> (Inl ErrCipher, m)
              | Some ciphertext \<Rightarrow>
                  write_reload env (\<lambda>k. fault (k + 1)) secret (UpsertClient (record\<lparr>cl_secret := ciphertext\<rparr>) now) m)))"

definition RemoveClient :: "environment \<Rightarrow> (nat \<Rightarrow> bool) \<Rightarrow> string \<Rightarrow> manager \<Rightarrow> unit gateway_result" where
  "RemoveClient env fault i = write_reload env fault () (DeleteClient i)"

text \<open>The two random buffers of \<open>GenerateBearerToken\<close>.\<close>

definition CreateIngressToken ::
  "environment \<Rightarrow> (nat \<Rightarrow> bool) \<Rightarrow> string option \<times> string option \<Rightarrow> instant \<Rightarrow> string \<Rightarrow> bool \<Rightarrow> string \<Rightarrow> string \<Rightarrow>
   int \<Rightarrow> manager \<Rightarrow> string gateway_result" where
  "CreateIngressToken env fault random now i enabled route severity limit m =
     (case validateIngressToken m i route severity limit of
        Some e \<Rightarrow> (Inl (Invalid e), m)
      | None \<Rightarrow>
         (case get_record (fault 0) (GetIngressToken i (mg_db m)) of
            Inr _ \<Rightarrow> (Inl ErrConflict, m)
          | Inl e \<Rightarrow>
              if e \<noteq> ErrNotFound then (Inl (StoreError e), m)
              else case GenerateBearerToken (fst random) (snd random) of
                None \<Rightarrow> (Inl ErrRandom, m)
              | Some (plain, publicID, tokenHash) \<Rightarrow>
                  write_reload env (\<lambda>k. fault (k + 1)) plain
                    (UpsertIngressToken \<lparr>tk_id = i, tk_public = publicID, tk_hash = tokenHash, tk_enabled = enabled,
                       tk_route = route, tk_severity = severity, tk_limit = limit, tk_created = 0, tk_updated = 0\<rparr> now) m))"

definition UpdateIngressToken ::
  "environment \<Rightarrow> (nat \<Rightarrow> bool) \<Rightarrow> instant \<Rightarrow> string \<Rightarrow> bool \<Rightarrow> string \<Rightarrow> string \<Rightarrow> int \<Rightarrow> manager \<Rightarrow> unit gateway_result" where
  "UpdateIngressToken env fault now i enabled route severity limit m =
     (case validateIngressToken m i route severity limit of
        Some e \<Rightarrow> (Inl (Invalid e), m)
      | None \<Rightarrow>
         (case get_record (fault 0) (GetIngressToken i (mg_db m)) of
            Inl e \<Rightarrow> (Inl (StoreError e), m)
          | Inr record \<Rightarrow>
              write_reload env (\<lambda>k. fault (k + 1)) ()
                (UpsertIngressToken (record\<lparr>tk_enabled := enabled, tk_route := route, tk_severity := severity,
                   tk_limit := limit\<rparr>) now) m))"

definition RotateIngressToken ::
  "environment \<Rightarrow> (nat \<Rightarrow> bool) \<Rightarrow> string option \<times> string option \<Rightarrow> instant \<Rightarrow> string \<Rightarrow> manager \<Rightarrow> string gateway_result" where
  "RotateIngressToken env fault random now i m =
     (case get_record (fault 0) (GetIngressToken i (mg_db m)) of
        Inl e \<Rightarrow> (Inl (StoreError e), m)
      | Inr record \<Rightarrow>
         (case GenerateBearerToken (fst random) (snd random) of
            None \<Rightarrow> (Inl ErrRandom, m)
          | Some (plain, publicID, tokenHash) \<Rightarrow>
              write_reload env (\<lambda>k. fault (k + 1)) plain
                (UpsertIngressToken (record\<lparr>tk_public := publicID, tk_hash := tokenHash\<rparr>) now) m))"

definition RemoveIngressToken :: "environment \<Rightarrow> (nat \<Rightarrow> bool) \<Rightarrow> string \<Rightarrow> manager \<Rightarrow> unit gateway_result" where
  "RemoveIngressToken env fault i = write_reload env fault () (DeleteIngressToken i)"

definition ChannelForEdit :: "environment \<Rightarrow> bool \<Rightarrow> string \<Rightarrow> manager \<Rightarrow> gateway_error + channel_input" where
  "ChannelForEdit env fault i m =
     (case get_record fault (GetChannel i (mg_db m)) of
        Inl e \<Rightarrow> Inl (StoreError e)
      | Inr record \<Rightarrow>
         (case decryptConfig env (ch_config record) of
            None \<Rightarrow> Inl ErrCipher
          | Some cfg \<Rightarrow> Inr
              \<lparr>ci_ID = ch_id record, ci_Type = ch_type record, ci_Enabled = ch_enabled record, ci_Endpoint = [],
               ci_Secret = [], ci_ChatID = cg_ChatID cfg, ci_SMTPHost = cg_SMTPHost cfg, ci_SMTPPort = cg_SMTPPort cfg,
               ci_SMTPUsername = cg_SMTPUsername cfg, ci_SMTPFrom = cg_SMTPFrom cfg,
               ci_SMTPRecipients = cg_SMTPRecipients cfg, ci_SMTPMode = cg_SMTPMode cfg,
               ci_MessageType = cg_MessageType cfg, ci_Keyword = Some (cg_Keyword cfg)\<rparr>))"

definition SaveChannel ::
  "environment \<Rightarrow> (nat \<Rightarrow> bool) \<Rightarrow> instant \<Rightarrow> channel_input \<Rightarrow> manager \<Rightarrow> unit gateway_result" where
  "SaveChannel env fault now input m =
     (if \<not> matches_config_identifier (ci_ID input) then (Inl (Invalid ''invalid channel id''), m)
      else case (case get_record (fault 0) (GetChannel (ci_ID input) (mg_db m)) of
                   Inr existing \<Rightarrow> (case decryptConfig env (ch_config existing) of None \<Rightarrow> Inl ErrCipher | Some c \<Rightarrow> Inr c)
                 | Inl e \<Rightarrow> if e \<noteq> ErrNotFound then Inl (StoreError e) else Inr empty_config) of
        Inl e \<Rightarrow> (Inl e, m)
      | Inr stored \<Rightarrow>
         (case mergeChannelInput env stored input of
            Inl e \<Rightarrow> (Inl (Invalid e), m)
          | Inr merged \<Rightarrow>
             (case encryptConfig env merged of
                None \<Rightarrow> (Inl ErrCipher, m)
              | Some ciphertext \<Rightarrow>
                  write_reload env (\<lambda>k. fault (k + 1)) ()
                    (UpsertChannel \<lparr>ch_id = ci_ID input, ch_type = ci_Type input, ch_enabled = ci_Enabled input,
                       ch_config = ciphertext, ch_created = 0, ch_updated = 0\<rparr> now) m)))"

definition RemoveChannel :: "environment \<Rightarrow> (nat \<Rightarrow> bool) \<Rightarrow> string \<Rightarrow> manager \<Rightarrow> unit gateway_result" where
  "RemoveChannel env fault i = write_reload env fault () (DeleteChannel i)"

text \<open>A nil snapshot is dereferenced only when some channel is named.\<close>

definition SetRoute ::
  "environment \<Rightarrow> (nat \<Rightarrow> bool) \<Rightarrow> instant \<Rightarrow> string \<Rightarrow> string \<Rightarrow> string list \<Rightarrow> manager \<Rightarrow> unit gateway_result" where
  "SetRoute env fault now route severity chans m =
     (if \<not> matches_config_identifier route \<or> \<not> validSeverity severity then (Inl (Invalid ''invalid route or severity''), m)
      else if chans = [] then (Inl (Invalid ''at least one channel is required''), m)
      else if Option.is_none (mg_state m) \<and> unique chans \<noteq> [] then (Inl ErrPanic, m)
      else if \<not> list_all (\<lambda>i. case mg_state m of None \<Rightarrow> False
                              | Some st \<Rightarrow> \<not> Option.is_none (map_of (sn_channels st) i)) (unique chans)
      then (Inl (Invalid ''unknown channel''), m)
      else write_reload env fault () (ReplaceRoute route severity (unique chans) now) m)"

definition RemoveRoute :: "environment \<Rightarrow> (nat \<Rightarrow> bool) \<Rightarrow> string \<Rightarrow> string \<Rightarrow> manager \<Rightarrow> unit gateway_result" where
  "RemoveRoute env fault route severity = write_reload env fault () (DeleteRoute route severity)"

definition AddSilence ::
  "environment \<Rightarrow> (nat \<Rightarrow> bool) \<Rightarrow> string option \<Rightarrow> instant \<Rightarrow> string \<Rightarrow> string \<Rightarrow> instant \<Rightarrow> instant \<Rightarrow> string \<Rightarrow>
   manager \<Rightarrow> unit gateway_result" where
  "AddSilence env fault newID now route severity starts ends reason m =
     (let reason' = trim_space reason in
      if route \<noteq> ''*'' \<and> \<not> matches_config_identifier route then (Inl (Invalid ''invalid silence route''), m)
      else if severity \<noteq> ''*'' \<and> \<not> validSeverity severity then (Inl (Invalid ''invalid silence severity''), m)
      else if \<not> starts < ends \<or> 30 * 24 * hour < time_sub ends starts
      then (Inl (Invalid ''silence must end after start and last at most 30 days''), m)
      else if reason' = [] \<or> 200 < rune_count reason'
      then (Inl (Invalid ''silence reason must contain 1 to 200 characters''), m)
      else write_reload env fault ()
             (CreateSilence newID \<lparr>si_id = [], si_route = route, si_severity = severity, si_starts = unix_milli starts,
                si_ends = unix_milli ends, si_reason = reason', si_created = 0\<rparr> now) m)"

definition RemoveSilence :: "environment \<Rightarrow> (nat \<Rightarrow> bool) \<Rightarrow> string \<Rightarrow> manager \<Rightarrow> unit gateway_result" where
  "RemoveSilence env fault i = write_reload env fault () (DeleteSilence i)"

section \<open>Channel tests\<close>

text \<open>The two Chinese texts, as the bytes of their UTF-8 encoding.\<close>

definition test_title :: string where
  "test_title = ''AlertBridge '' @ map char_of [230, 184, 160, 233, 129, 147, 230, 181, 139, 232, 175, 149 :: nat]"

definition test_message :: string where
  "test_message = map char_of
     [232, 191, 153, 230, 152, 175, 228, 184, 128, 230, 157, 161, 231, 148, 177, 231, 174, 161, 231, 144, 134,
      229, 144, 142, 229, 143, 176, 229, 143, 145, 232, 181, 183, 231, 154, 132, 230, 181, 139, 232, 175, 149,
      233, 128, 154, 231, 159, 165, 227, 128, 130 :: nat]"

definition test_event :: "instant \<Rightarrow> event" where
  "test_event now =
     \<lparr>EventID = ''admin-test-'' @ show_int now, Source = ''admin'', RoutingKey = ''admin-test'', Status = StatusTest,
      Severity = SeverityInfo, Title = test_title, Message = test_message, OccurredAt = now, DedupeKey = [],
      Labels = [], URL = [], IncidentStartedAt = None\<rparr>"

definition QueueChannelTest ::
  "bool \<Rightarrow> (nat \<Rightarrow> string option) \<Rightarrow> instant \<Rightarrow> string \<Rightarrow> manager \<Rightarrow> unit gateway_result" where
  "QueueChannelTest fault ids now channelID m =
     (if Option.is_none (Sender m channelID) then (Inl (Invalid ''channel is not enabled''), m)
      else case store_call fault (AcceptEvent ids
                  \<lparr>ClientID = ''admin'', Event = test_event now, Targets = [channelID], Now = now,
                   DedupeWindow = minute, SuppressReason = [], RawPayload = ''{\"source\":\"admin-test\"}''\<rparr>) (mg_db m) of
             (Inl e, d) \<Rightarrow> (Inl (StoreError e), m\<lparr>mg_db := d\<rparr>)
           | (Inr _, d) \<Rightarrow> (Inr (), m\<lparr>mg_db := d\<rparr>))"

end
