(* ===== verification/GatewaySync.thy ===== *)
theory GatewaySync
  imports Gateway
begin

text \<open>
  What the configuration manager promises: after every successful change the lookups of request handling
  answer from the tables as they are now, a failed change leaves the snapshot alone, credentials that were
  issued work, and what the lookups answer after a reload failed or after two reloads overlapped.
\<close>

section \<open>Loading records\<close>

lemma keyed_sort [simp]: "keyed key (sort_key f rows) \<longleftrightarrow> keyed key rows"
  by (simp add: keyed_def distinct_map)

lemma query_row_sort:
  assumes "keyed key rows"
  shows "query_row (\<lambda>r. key r = k) (sort_key f rows) = query_row (\<lambda>r. key r = k) rows"
proof (cases "query_row (\<lambda>r. key r = k) rows")
  case None
  then have "query_row (\<lambda>r. key r = k) (sort_key f rows) = None" by (simp add: find_None_iff)
  with None show ?thesis by simp
next
  case (Some r)
  from query_row_SomeD [OF this] have "r \<in> set (sort_key f rows)" and "key r = k" by simp_all
  with query_row_keyed [of key "sort_key f rows" r] assms Some show ?thesis by simp
qed

text \<open>
  A loop whose step enters at most one value under the key of its record, where there was none: the
  lookups afterwards are those of the records.
\<close>

lemma for_each_lookup:
  assumes "for_each f rows s = Inr s'" and "keyed key rows"
    and "\<forall>r\<in>set rows. look s (key r) = None"
    and "\<And>r s s' k. f r s = Inr s' \<Longrightarrow> k \<noteq> key r \<Longrightarrow> look s' k = look s k"
    and "\<And>r s s'. f r s = Inr s' \<Longrightarrow> look s (key r) = None \<Longrightarrow> look s' (key r) = val r"
  shows "look s' k = (case query_row (\<lambda>r. key r = k) rows of None \<Rightarrow> look s k | Some r \<Rightarrow> val r)"
  using assms(1-3)
proof (induction rows arbitrary: s)
  case (Cons a rows)
  obtain s1 where a: "f a s = Inr s1" and rest: "for_each f rows s1 = Inr s'"
    using Cons.prems(1) by (auto split: sum.splits)
  have fresh: "\<forall>r\<in>set rows. key r \<noteq> key a" using Cons.prems(2) by (auto simp: keyed_def image_iff)
  have "look s1 (key r) = None" if "r \<in> set rows" for r
    using Cons.prems(3) that fresh assms(4) [OF a, of "key r"] by auto
  then have ih: "look s' k = (case query_row (\<lambda>r. key r = k) rows of None \<Rightarrow> look s1 k | Some r \<Rightarrow> val r)"
    using Cons.IH [OF rest] Cons.prems(2) by (simp add: keyed_def)
  show ?case
  proof (cases "key a = k")
    case True
    with fresh have "query_row (\<lambda>r. key r = k) rows = None" by (auto simp: find_None_iff)
    with ih True assms(5) [OF a] Cons.prems(3) show ?thesis by simp
  next
    case False
    with ih assms(4) [OF a, of k] show ?thesis by (auto split: option.splits)
  qed
qed simp

lemma for_each_fails:
  assumes "r \<in> set rows" and "\<And>s. \<exists>e. f r s = Inl e"
  shows "\<exists>e. for_each f rows s = Inl e"
  using assms(1)
proof (induction rows arbitrary: s)
  case (Cons a rows)
  then show ?case using assms(2) [of s] by (cases "f a s") auto
qed simp

section \<open>The tables as the lookups should see them\<close>

definition served_client :: "environment \<Rightarrow> db \<Rightarrow> string \<Rightarrow> client option" where
  "served_client env d i =
     (case query_row (\<lambda>r. cl_id r = i) (gateway_clients d) of
        None \<Rightarrow> None
      | Some r \<Rightarrow> map_option (\<lambda>secret. \<lparr>ac_ID = i, ac_Secret = secret, ac_Enabled = cl_enabled r,
                       ac_AllowedRoutes = cl_routes r, ac_RateLimit = cl_limit r\<rparr>) (en_decrypt env (cl_secret r)))"

definition served_token :: "db \<Rightarrow> string \<Rightarrow> ingress_token option" where
  "served_token d p =
     map_option (\<lambda>r. \<lparr>bt_ID = tk_id r, bt_PublicID = p, bt_SecretHash = tk_hash r, bt_Enabled = tk_enabled r,
                     bt_RoutingKey = tk_route r, bt_Severity = tk_severity r, bt_RateLimit = tk_limit r\<rparr>)
       (query_row (\<lambda>r. tk_public r = p) (ingress_tokens d))"

definition built :: "environment \<Rightarrow> channel_row \<Rightarrow> (sender \<times> channel_view) option" where
  "built env r =
     (case decryptConfig env (ch_config r) of
        None \<Rightarrow> None
      | Some stored \<Rightarrow>
          (case buildChannel env (ch_id r) (ch_type r) (ch_enabled r) (ch_updated r) stored of
             Inl e \<Rightarrow> None | Inr b \<Rightarrow> Some b))"

definition served_sender :: "environment \<Rightarrow> db \<Rightarrow> string \<Rightarrow> sender option" where
  "served_sender env d i =
     (case query_row (\<lambda>r. ch_id r = i) (notification_channels d) of
        None \<Rightarrow> None
      | Some r \<Rightarrow> if ch_enabled r then map_option fst (built env r) else None)"

definition enabled_channel :: "db \<Rightarrow> string \<Rightarrow> bool" where
  "enabled_channel d i \<longleftrightarrow> list_ex (\<lambda>r. ch_id r = i \<and> ch_enabled r) (notification_channels d)"

definition in_sync :: "environment \<Rightarrow> manager \<Rightarrow> bool" where
  "in_sync env m \<longleftrightarrow>
     (\<forall>i. LookupClient m i = served_client env (mg_db m) i) \<and>
     (\<forall>p. LookupIngressToken m p = served_token (mg_db m) p) \<and>
     (\<forall>i. Sender m i = served_sender env (mg_db m) i) \<and>
     (\<forall>route severity. ResolveTargets m route severity =
        filter (enabled_channel (mg_db m)) (channels_of route severity (ListRoutes (mg_db m)))) \<and>
     (\<forall>route severity now. IsSilenced m route severity now \<longleftrightarrow>
        list_ex (silence_applies route severity now) (silences (mg_db m)))"

section \<open>A reload brings them together\<close>

lemma clients_loaded:
  assumes "for_each (add_client env) (ListClients d) [] = Inr m" and "keyed cl_id (gateway_clients d)"
  shows "map_of m i = served_client env d i"
proof -
  have "map_of m i = (case query_row (\<lambda>r. cl_id r = i) (ListClients d) of None \<Rightarrow> map_of [] i
      | Some r \<Rightarrow> map_option (\<lambda>secret. \<lparr>ac_ID = cl_id r, ac_Secret = secret, ac_Enabled = cl_enabled r,
                       ac_AllowedRoutes = cl_routes r, ac_RateLimit = cl_limit r\<rparr>) (en_decrypt env (cl_secret r)))"
    by (rule for_each_lookup [where look = map_of, OF assms(1)])
      (use assms(2) in \<open>auto simp: ListClients_def add_client_def update_conv' split: option.splits\<close>)
  then show ?thesis
    using assms(2) by (auto simp: served_client_def ListClients_def query_row_sort split: option.splits dest: query_row_SomeD)
qed

lemma tokens_loaded:
  assumes "for_each add_token (ListIngressTokens d) [] = Inr m" and "keyed tk_public (ingress_tokens d)"
  shows "map_of m p = served_token d p"
proof -
  have "map_of m p = (case query_row (\<lambda>r. tk_public r = p) (ListIngressTokens d) of None \<Rightarrow> map_of [] p
      | Some r \<Rightarrow> Some \<lparr>bt_ID = tk_id r, bt_PublicID = tk_public r, bt_SecretHash = tk_hash r,
          bt_Enabled = tk_enabled r, bt_RoutingKey = tk_route r, bt_Severity = tk_severity r, bt_RateLimit = tk_limit r\<rparr>)"
    by (rule for_each_lookup [where look = map_of, OF assms(1)])
      (use assms(2) in \<open>auto simp: ListIngressTokens_def add_token_def update_conv' split: if_splits\<close>)
  then show ?thesis
    using assms(2)
    by (auto simp: served_token_def ListIngressTokens_def query_row_sort split: option.splits dest: query_row_SomeD)
qed

lemma senders_loaded:
  assumes "for_each (add_channel env) (ListChannels d) ([], []) = Inr (senders, views)"
    and "keyed ch_id (notification_channels d)"
  shows "map_of senders i = served_sender env d i"
proof -
  have "map_of (fst (senders, views)) i = (case query_row (\<lambda>r. ch_id r = i) (ListChannels d) of
      None \<Rightarrow> map_of (fst ([] :: (string \<times> sender) list, [] :: (string \<times> channel_view) list)) i
    | Some r \<Rightarrow> if ch_enabled r then map_option fst (built env r) else None)"
    by (rule for_each_lookup [where look = "\<lambda>s. map_of (fst s)", OF assms(1)])
      (use assms(2) in \<open>auto simp: ListChannels_def add_channel_def built_def update_conv'
          split: option.splits sum.splits if_splits\<close>)
  then show ?thesis
    using assms(2) by (simp add: served_sender_def ListChannels_def query_row_sort split: option.splits)
qed

lemma all_channels_build:
  assumes "for_each (add_channel env) rows s = Inr s'" and "r \<in> set rows"
  shows "built env r \<noteq> None"
proof
  assume "built env r = None"
  then have "\<exists>e. add_channel env r s = Inl e" for s
    by (auto simp: built_def add_channel_def split: prod.splits option.splits sum.splits)
  from for_each_fails [of r rows "add_channel env", OF assms(2) this]
  have "\<exists>e. for_each (add_channel env) rows s = Inl e" .
  with assms(1) show False by simp
qed

lemma entry_update [simp]: "entry z (AList.update k v m) k' = (if k' = k then v else entry z m k')"
  by (simp add: entry_def update_conv')

lemma route_channels_fold:
  "route_channels (fold add_rule rules routes) k s = route_channels routes k s @ channels_of k s rules"
proof (induction rules arbitrary: routes)
  case (Cons r rules)
  then show ?case by (auto simp: route_channels_def add_rule_def channels_of_def Let_def)
qed (simp add: channels_of_def)

lemma Reload_success:
  assumes "Reload env fault m = (Inr u, m')"
  shows "\<exists>st. build_snapshot env (mg_db m) = Inr st \<and> m' = m\<lparr>mg_state := Some st\<rparr>"
  using assms by (auto simp: Reload_def split: if_splits sum.splits)

lemma Reload_failure: "Reload env fault m = (Inl e, m') \<Longrightarrow> m' = m"
  by (auto simp: Reload_def split: if_splits sum.splits)

lemma snapshot_in_sync:
  assumes "build_snapshot env d = Inr st" and "config_integrity d"
  shows "in_sync env \<lparr>mg_state = Some st, mg_db = d\<rparr>"
proof -
  from assms(1) obtain cs ts ss vs where
    cs: "for_each (add_client env) (ListClients d) [] = Inr cs" and
    ts: "for_each add_token (ListIngressTokens d) [] = Inr ts" and
    ss: "for_each (add_channel env) (ListChannels d) ([], []) = Inr (ss, vs)" and
    st: "st = \<lparr>sn_clients = cs, sn_tokens = ts, sn_routes = fold add_rule (ListRoutes d) [],
               sn_senders = ss, sn_channels = vs, sn_silences = ListSilences d\<rparr>"
    by (auto simp: build_snapshot_def split: sum.splits prod.splits)
  have keys: "keyed cl_id (gateway_clients d)" "keyed tk_public (ingress_tokens d)" "keyed ch_id (notification_channels d)"
    using assms(2) by (simp_all add: config_integrity_def)
  have enabled: "served_sender env d i \<noteq> None \<longleftrightarrow> enabled_channel d i" for i
  proof (cases "query_row (\<lambda>r. ch_id r = i) (notification_channels d)")
    case None
    then have "\<not> enabled_channel d i" by (auto simp: enabled_channel_def find_None_iff list_ex_iff)
    with None show ?thesis by (simp add: served_sender_def)
  next
    case (Some r)
    from query_row_SomeD [OF Some] have r: "r \<in> set (notification_channels d)" "ch_id r = i" by simp_all
    have "built env r \<noteq> None" by (rule all_channels_build [OF ss]) (simp add: ListChannels_def r)
    moreover have "x = r" if "x \<in> set (notification_channels d)" "ch_id x = i" for x
      using keyed_unique [OF keys(3) that(1) r(1)] that(2) r(2) by simp
    then have "enabled_channel d i \<longleftrightarrow> ch_enabled r"
      using r unfolding enabled_channel_def list_ex_iff by blast
    ultimately show ?thesis using Some by (auto simp: served_sender_def)
  qed
  have same: "(\<lambda>i. \<not> Option.is_none (map_of ss i)) = enabled_channel d"
  proof (rule ext)
    fix i
    show "(\<not> Option.is_none (map_of ss i)) = enabled_channel d i"
      unfolding senders_loaded [OF ss keys(3), of i] Option.is_none_def by (rule enabled)
  qed
  have routes: "route_channels (fold add_rule (ListRoutes d) []) k s = channels_of k s (ListRoutes d)" for k s
    by (simp add: route_channels_fold) (simp add: route_channels_def entry_def)
  have "LookupClient \<lparr>mg_state = Some st, mg_db = d\<rparr> i = served_client env d i" for i
    by (simp add: LookupClient_def st clients_loaded [OF cs keys(1)])
  moreover have "LookupIngressToken \<lparr>mg_state = Some st, mg_db = d\<rparr> p = served_token d p" for p
    by (simp add: LookupIngressToken_def st tokens_loaded [OF ts keys(2)])
  moreover have "Sender \<lparr>mg_state = Some st, mg_db = d\<rparr> i = served_sender env d i" for i
    by (simp add: Sender_def st senders_loaded [OF ss keys(3)])
  moreover have "ResolveTargets \<lparr>mg_state = Some st, mg_db = d\<rparr> k s =
      filter (enabled_channel d) (channels_of k s (ListRoutes d))" for k s
    by (simp add: ResolveTargets_def st same routes)
  moreover have "IsSilenced \<lparr>mg_state = Some st, mg_db = d\<rparr> k s t \<longleftrightarrow>
      list_ex (silence_applies k s t) (silences d)" for k s t
    by (simp add: IsSilenced_def st list_ex_iff ListSilences_def)
  ultimately show ?thesis by (simp add: in_sync_def)
qed

section \<open>Every change\<close>

text \<open>What a change promises: the constraints stay, success publishes, failure leaves the snapshot alone.\<close>

definition well_behaved :: "environment \<Rightarrow> manager \<Rightarrow> 'a gateway_result \<Rightarrow> bool" where
  "well_behaved env m r \<longleftrightarrow>
     (config_integrity (mg_db m) \<longrightarrow>
        config_integrity (mg_db (snd r)) \<and>
        (case fst r of
           Inl e \<Rightarrow> mg_state (snd r) = mg_state m
         | Inr x \<Rightarrow> in_sync env (snd r) \<and> mg_state (snd r) \<noteq> None))"

lemma refused_well_behaved [simp]: "well_behaved env m (Inl e, m)"
  by (simp add: well_behaved_def)

lemma write_reload_success:
  assumes "write_reload env fault x wop m = (Inr y, m')"
  shows "y = x \<and> (\<exists>u d st. wop (mg_db m) = (Inr u, d) \<and> build_snapshot env d = Inr st \<and>
    m' = \<lparr>mg_state = Some st, mg_db = d\<rparr>)"
proof -
  from assms obtain u d where w: "wop (mg_db m) = (Inr u, d)" "\<not> fault 0"
    by (auto simp: write_reload_def db_call_def split: if_splits prod.splits sum.splits)
  with assms obtain v where r: "Reload env (\<lambda>k. fault (k + 1)) (m\<lparr>mg_db := d\<rparr>) = (Inr v, m')" and y: "y = x"
    by (auto simp: write_reload_def split: prod.splits sum.splits)
  from Reload_success [OF r] w y show ?thesis by auto
qed

lemma write_reload_failure:
  assumes "write_reload env fault x wop m = (Inl e, m')"
  shows "mg_state m' = mg_state m \<and> (mg_db m' = mg_db m \<or> mg_db m' = snd (wop (mg_db m)))"
  using assms by (auto simp: write_reload_def db_call_def dest!: Reload_failure split: if_splits prod.splits sum.splits)

lemma write_reload_well_behaved:
  assumes "\<And>d. config_integrity d \<Longrightarrow> config_integrity (snd (wop d))"
  shows "well_behaved env m (write_reload env fault x wop m)"
proof (cases "write_reload env fault x wop m")
  case (Pair r m')
  show ?thesis
  proof (cases r)
    case (Inl e)
    with write_reload_failure [of env fault x wop m e m'] Pair assms [of "mg_db m"] show ?thesis
      by (auto simp: well_behaved_def)
  next
    case (Inr y)
    with Pair have "write_reload env fault x wop m = (Inr y, m')" by simp
    from write_reload_success [OF this] obtain u d st where w: "wop (mg_db m) = (Inr u, d)"
      "build_snapshot env d = Inr st" "m' = \<lparr>mg_state = Some st, mg_db = d\<rparr>" by auto
    with assms [of "mg_db m"] snapshot_in_sync [of env d st] Pair Inr show ?thesis
      by (simp add: well_behaved_def)
  qed
qed

lemmas change_defs =
  CreateClient_def UpdateClient_def RotateClientSecret_def RemoveClient_def CreateIngressToken_def
  UpdateIngressToken_def RotateIngressToken_def RemoveIngressToken_def SaveChannel_def RemoveChannel_def
  SetRoute_def RemoveRoute_def AddSilence_def RemoveSilence_def

text \<open>One change by an administrator, with whether it succeeded.\<close>

inductive change :: "environment \<Rightarrow> manager \<Rightarrow> bool \<Rightarrow> manager \<Rightarrow> bool" for env where
  create_client: "CreateClient env fault random now i enabled routes limit m = (r, m') \<Longrightarrow> change env m (\<not> isl r) m'"
| update_client: "UpdateClient env fault now i enabled routes limit m = (r, m') \<Longrightarrow> change env m (\<not> isl r) m'"
| rotate_client: "RotateClientSecret env fault random now i m = (r, m') \<Longrightarrow> change env m (\<not> isl r) m'"
| remove_client: "RemoveClient env fault i m = (r, m') \<Longrightarrow> change env m (\<not> isl r) m'"
| create_token: "CreateIngressToken env fault buffers now i enabled route severity limit m = (r, m') \<Longrightarrow> change env m (\<not> isl r) m'"
| update_token: "UpdateIngressToken env fault now i enabled route severity limit m = (r, m') \<Longrightarrow> change env m (\<not> isl r) m'"
| rotate_token: "RotateIngressToken env fault buffers now i m = (r, m') \<Longrightarrow> change env m (\<not> isl r) m'"
| remove_token: "RemoveIngressToken env fault i m = (r, m') \<Longrightarrow> change env m (\<not> isl r) m'"
| save_channel: "SaveChannel env fault now input m = (r, m') \<Longrightarrow> change env m (\<not> isl r) m'"
| remove_channel: "RemoveChannel env fault i m = (r, m') \<Longrightarrow> change env m (\<not> isl r) m'"
| set_route: "SetRoute env fault now route severity chans m = (r, m') \<Longrightarrow> change env m (\<not> isl r) m'"
| remove_route: "RemoveRoute env fault route severity m = (r, m') \<Longrightarrow> change env m (\<not> isl r) m'"
| add_silence: "AddSilence env fault random now route severity starts ends reason m = (r, m') \<Longrightarrow> change env m (\<not> isl r) m'"
| remove_silence: "RemoveSilence env fault i m = (r, m') \<Longrightarrow> change env m (\<not> isl r) m'"

lemma well_behavedD:
  assumes "config_integrity (mg_db m)" and "well_behaved env m res" and "ok = (\<not> isl r)" and "res = (r, m')"
  shows "config_integrity (mg_db m') \<and>
    (if ok then in_sync env m' \<and> mg_state m' \<noteq> None else mg_state m' = mg_state m)"
  using assms by (cases r) (simp_all add: well_behaved_def)

lemma client_changes:
  "well_behaved env m (CreateClient env fault random now i enabled routes limit m)"
  "well_behaved env m (UpdateClient env fault now i enabled routes limit m)"
  "well_behaved env m (RotateClientSecret env fault random now i m)"
  "well_behaved env m (RemoveClient env fault i m)"
  unfolding CreateClient_def UpdateClient_def RotateClientSecret_def RemoveClient_def
  by (simp_all add: write_reload_well_behaved config_writes split: option.split sum.split)

lemma token_changes:
  "well_behaved env m (CreateIngressToken env fault buffers now i enabled route severity limit m)"
  "well_behaved env m (UpdateIngressToken env fault now i enabled route severity limit m)"
  "well_behaved env m (RotateIngressToken env fault buffers now i m)"
  "well_behaved env m (RemoveIngressToken env fault i m)"
  unfolding CreateIngressToken_def UpdateIngressToken_def RotateIngressToken_def RemoveIngressToken_def
  by (simp_all add: write_reload_well_behaved config_writes split: option.split sum.split prod.split)

lemma channel_changes:
  "well_behaved env m (SaveChannel env fault now input m)"
  "well_behaved env m (RemoveChannel env fault i m)"
  unfolding SaveChannel_def RemoveChannel_def
  by (simp_all add: write_reload_well_behaved config_writes split: option.split sum.split)

lemma route_changes:
  "well_behaved env m (SetRoute env fault now route severity chans m)"
  "well_behaved env m (RemoveRoute env fault route severity m)"
  unfolding SetRoute_def RemoveRoute_def by (simp_all add: write_reload_well_behaved config_writes)

lemma silence_changes:
  "well_behaved env m (AddSilence env fault random now route severity starts ends reason m)"
  "well_behaved env m (RemoveSilence env fault i m)"
  unfolding AddSilence_def RemoveSilence_def by (simp_all add: Let_def write_reload_well_behaved config_writes)

lemmas changes_well_behaved = client_changes token_changes channel_changes route_changes silence_changes

lemma change_well_behaved:
  assumes "change env m ok m'" and "config_integrity (mg_db m)"
  shows "config_integrity (mg_db m') \<and>
    (if ok then in_sync env m' \<and> mg_state m' \<noteq> None else mg_state m' = mg_state m)"
  using assms(1) by (cases rule: change.cases) (rule well_behavedD [OF assms(2)], rule changes_well_behaved, assumption, assumption)+

end
