(* ===== verification/GatewayProps.thy ===== *)
theory GatewayProps
  imports GatewaySync
begin

text \<open>
  The properties of the configuration manager: changes take effect at once, issued credentials work, and
  two ways in which the snapshot can disagree with the tables.
\<close>

section \<open>Reachable managers\<close>

text \<open>
  A manager starts on a database that meets its constraints, changes by the administrator's operations, and
  shares the database with the traffic, which leaves the configuration tables alone.
\<close>

definition same_config :: "db \<Rightarrow> db \<Rightarrow> bool" where
  "same_config d d' \<longleftrightarrow> gateway_clients d' = gateway_clients d \<and> ingress_tokens d' = ingress_tokens d \<and>
     notification_channels d' = notification_channels d \<and> route_rules d' = route_rules d \<and> silences d' = silences d"

inductive configured :: "manager \<Rightarrow> bool" where
  start: "config_integrity d \<Longrightarrow> NewManager env fault d = Inr m \<Longrightarrow> configured m"
| changed: "configured m \<Longrightarrow> change env m ok m' \<Longrightarrow> configured m'"
| traffic: "configured m \<Longrightarrow> same_config (mg_db m) d \<Longrightarrow> configured (m\<lparr>mg_db := d\<rparr>)"

lemma NewManager_success:
  assumes "NewManager env fault d = Inr m"
  shows "\<exists>st. build_snapshot env d = Inr st \<and> m = \<lparr>mg_state = Some st, mg_db = d\<rparr>"
  using assms by (auto simp: NewManager_def dest!: Reload_success split: prod.splits sum.splits)

lemma configured_invariant: "configured m \<Longrightarrow> config_integrity (mg_db m) \<and> mg_state m \<noteq> None"
proof (induction rule: configured.induct)
  case (start d env fault m)
  then show ?case by (auto dest: NewManager_success)
next
  case (changed m env ok m')
  with change_well_behaved [OF changed.hyps(2)] show ?case by (auto split: if_splits)
next
  case (traffic m d)
  then show ?case by (auto simp: same_config_def elim: config_integrity_frame)
qed

lemma SetRoute_no_panic:
  assumes "mg_state m \<noteq> None"
  shows "fst (SetRoute env fault now route severity chans m) \<noteq> Inl ErrPanic"
proof -
  have "e \<noteq> ErrPanic" if "Reload env f m1 = (Inl e, m2)" for e f m1 m2
  proof -
    have "e' \<noteq> ErrPanic" if "for_each (add_client env) rows s = Inl e'" for rows s e'
      using that by (induction rows arbitrary: s) (auto simp: add_client_def split: sum.splits option.splits)
    moreover have "e' \<noteq> ErrPanic" if "for_each add_token rows s = Inl e'" for rows s e'
      using that by (induction rows arbitrary: s) (auto simp: add_token_def split: sum.splits if_splits)
    moreover have "e' \<noteq> ErrPanic" if "for_each (add_channel env) rows s = Inl e'" for rows s e'
      using that by (induction rows arbitrary: s)
        (auto simp: add_channel_def split: sum.splits option.splits prod.splits)
    ultimately show ?thesis
      using that by (auto simp: Reload_def build_snapshot_def split: if_splits sum.splits prod.splits)
  qed
  then show ?thesis
    using assms by (auto simp: SetRoute_def Option.is_none_def write_reload_def split: prod.splits sum.splits)
qed

text \<open>
  C8. The snapshot follows the tables. In every reachable manager, a successful change of clients, tokens,
  channels, routes or silences leaves lookups that answer exactly from the tables as they then are (each
  client with its decrypted secret, each token by its public id, the senders of the enabled channels, the
  enabled channels of each route in order, the silences); a failed change leaves every lookup as it was;
  the constraints of the tables hold throughout and the nil snapshot is never dereferenced.
\<close>

theorem change_takes_effect:
  assumes "configured m" and "change env m ok m'"
  shows "config_integrity (mg_db m') \<and>
    (if ok then in_sync env m' else mg_state m' = mg_state m) \<and>
    fst (SetRoute env' fault now route severity chans m') \<noteq> Inl ErrPanic"
proof -
  from assms have "configured m'" by (rule configured.changed)
  then have "mg_state m' \<noteq> None" by (simp add: configured_invariant)
  from SetRoute_no_panic [OF this] change_well_behaved [OF assms(2)] configured_invariant [OF assms(1)]
  show ?thesis by (simp split: if_splits)
qed

definition no_fault :: "nat \<Rightarrow> bool" where
  "no_fault k = False"

definition start_state :: snapshot where
  "start_state = \<lparr>sn_clients = [], sn_tokens = [], sn_routes = [], sn_senders = [], sn_channels = [], sn_silences = []\<rparr>"

definition start_manager :: manager where
  "start_manager = \<lparr>mg_state = Some start_state, mg_db = empty_db\<rparr>"

lemma no_fault_simps [simp]: "no_fault = (\<lambda>k. False)"
  by (simp add: fun_eq_iff no_fault_def)

lemma configured_start: "configured start_manager"
proof (rule configured.start)
  show "NewManager demo_env no_fault empty_db = Inr start_manager"
    by (simp add: NewManager_def Reload_def build_snapshot_def ListClients_def ListIngressTokens_def
        ListChannels_def ListRoutes_def ListSilences_def empty_db_def start_manager_def start_state_def list_ex_iff)
qed simp

text \<open>A client created on it, with the secret that a random buffer gives.\<close>

definition demo_random :: string where
  "demo_random = ''0123456789abcdef0123456789abcdef''"

definition demo_secret :: string where
  "demo_secret = hex_encode demo_random"

definition created_row :: client_row where
  "created_row = \<lparr>cl_id = ''c1'', cl_enabled = True, cl_secret = CHR ''!'' # demo_secret, cl_routes = [''ops''],
     cl_limit = 60, cl_created = 1700000000000, cl_updated = 1700000000000\<rparr>"

definition created_manager :: manager where
  "created_manager =
     \<lparr>mg_state = Some (start_state\<lparr>sn_clients := [(''c1'', \<lparr>ac_ID = ''c1'', ac_Secret = demo_secret, ac_Enabled = True,
        ac_AllowedRoutes = [''ops''], ac_RateLimit = 60\<rparr>)]\<rparr>), mg_db = empty_db\<lparr>gateway_clients := [created_row]\<rparr>\<rparr>"

lemmas empty_loads = build_snapshot_def ListClients_def ListIngressTokens_def ListChannels_def ListRoutes_def
  ListSilences_def empty_db_def start_state_def Reload_def list_ex_iff

lemma demo_client_created:
  "CreateClient demo_env no_fault (Some demo_random) (1700000000 * second) ''c1'' True [''ops''] 60 start_manager
     = (Inr demo_secret, created_manager)"
proof -
  have ids: "matches_config_identifier ''c1''" "matches_config_identifier ''ops''" by code_simp+
  show ?thesis
    by (simp add: CreateClient_def validateClient_def ids get_record_def GetClient_def start_manager_def newSecret_def
        demo_env_def write_reload_def UpsertClient_def upsert_row_def add_client_def empty_loads unix_milli_def
        created_manager_def created_row_def demo_secret_def)
qed

theorem change_takes_effect_witness:
  "\<exists>m'. change demo_env start_manager True m' \<and> in_sync demo_env m'"
proof -
  from change.create_client [OF demo_client_created] have "change demo_env start_manager True created_manager" by simp
  with change_takes_effect [OF configured_start this] show ?thesis by auto
qed

section \<open>Clients\<close>

definition issued_client :: "string \<Rightarrow> string \<Rightarrow> bool \<Rightarrow> string list \<Rightarrow> int \<Rightarrow> client" where
  "issued_client i secret enabled routes limit =
     \<lparr>ac_ID = i, ac_Secret = secret, ac_Enabled = enabled, ac_AllowedRoutes = routes, ac_RateLimit = limit\<rparr>"

lemma served_client_get:
  "GetClient i d = Inr r \<Longrightarrow> served_client env d i =
     map_option (\<lambda>secret. issued_client i secret (cl_enabled r) (cl_routes r) (cl_limit r)) (en_decrypt env (cl_secret r))"
  by (auto simp: GetClient_def served_client_def issued_client_def found_def split: option.splits)

lemma GetClient_ID: "GetClient i d = Inr r \<Longrightarrow> cl_id r = i"
  by (auto simp: GetClient_def found_def split: option.splits dest: query_row_SomeD)

text \<open>What the lookup answers after a client was written and the snapshot reloaded.\<close>

lemma written_client_served:
  assumes "write_reload env fault x (UpsertClient r now) m = (Inr y, m')" and "config_integrity (mg_db m)"
    and "en_decrypt env (cl_secret r) = Some secret"
  shows "LookupClient m' (cl_id r) = Some (issued_client (cl_id r) secret (cl_enabled r) (cl_routes r) (cl_limit r))"
proof -
  from write_reload_success [OF assms(1)] obtain u d st where w: "UpsertClient r now (mg_db m) = (Inr u, d)"
    "build_snapshot env d = Inr st" "m' = \<lparr>mg_state = Some st, mg_db = d\<rparr>" by auto
  have "config_integrity d" using UpsertClient_config [OF assms(2), of r now] w(1) by simp
  then have sync: "in_sync env m'" using snapshot_in_sync [OF w(2)] w(3) by simp
  from clients.put_get [OF w(1)] obtain r' where r': "GetClient (cl_id r) d = Inr r'" "same_client r r'" by blast
  have "LookupClient m' (cl_id r) = served_client env d (cl_id r)" using sync w(3) by (simp add: in_sync_def)
  with served_client_get [OF r'(1)] r'(2) assms(3) show ?thesis by (simp add: same_client_def)
qed

text \<open>
  C9. A client that was just created can send. When creating an enabled client succeeds, a request signed
  with the secret it returned, for a well-formed nonce and a current timestamp, passes the signature check
  against the manager's lookup at once, as that client, with its rate limit, and for exactly the routes
  it was given. (The cipher must give back what it encrypted.)
\<close>

theorem issued_client_can_send:
  assumes "CreateClient env fault random now i True routes limit m = (Inr secret, m')"
    and "configured m"
    and "\<And>c. en_encrypt env secret = Some c \<Longrightarrow> en_decrypt env c = Some secret"
    and "matches_nonce nonce" and "0 < ts" and "ts < 2 ^ 62" and "\<bar>t - ts * second\<bar> \<le> tol" and "tol < 2 ^ 63 - 1"
    and "c = issued_client i secret True routes limit"
  shows "Verify \<lparr>vf_Clients = [], vf_Lookup = Some (LookupClient m'), vf_Tolerance = tol\<rparr> t
      (signed_headers i c nonce ts body) body = Inr c \<and> (\<forall>route. CanUseRoute c route \<longleftrightarrow> route \<in> set routes)"
proof -
  from assms(1) obtain ciphertext where enc: "en_encrypt env secret = Some ciphertext"
    and w: "write_reload env (\<lambda>k. fault (k + 1)) secret
      (UpsertClient \<lparr>cl_id = i, cl_enabled = True, cl_secret = ciphertext, cl_routes = routes,
         cl_limit = limit, cl_created = 0, cl_updated = 0\<rparr> now) m = (Inr secret, m')"
    by (auto simp: CreateClient_def split: option.splits sum.splits if_splits dest: write_reload_success)
  have "LookupClient m' i = Some c"
    using written_client_served [OF w, of secret] assms(3) [OF enc] configured_invariant [OF assms(2)] assms(9)
    by simp
  then show ?thesis
    using signed_request_accepted [of "\<lparr>vf_Clients = [], vf_Lookup = Some (LookupClient m'), vf_Tolerance = tol\<rparr>"
        i c nonce ts t body] assms(4-9)
    by (simp add: find_client_def issued_client_def CanUseRoute_def)
qed

lemma demo_cipher: "en_encrypt demo_env s = Some c \<Longrightarrow> en_decrypt demo_env c = Some s"
  by (auto simp: demo_env_def)

theorem issued_client_can_send_witness:
  "Verify \<lparr>vf_Clients = [], vf_Lookup = Some (LookupClient created_manager), vf_Tolerance = 5 * minute\<rparr> (1700000000 * second)
     (signed_headers ''c1'' (issued_client ''c1'' demo_secret True [''ops''] 60) ''nonce-0001'' 1700000100 ''{}'') ''{}''
   = Inr (issued_client ''c1'' demo_secret True [''ops''] 60)"
  using issued_client_can_send [OF demo_client_created configured_start demo_cipher demo_nonce, of 1700000100
      "1700000000 * second" "5 * minute" "issued_client ''c1'' demo_secret True [''ops''] 60" "''{}''"]
  by simp

lemma result_cases [case_names error success]:
  obtains e m' where "x = (Inl e, m')" | y m' where "x = (Inr y, m')"
  by (cases x; cases "fst x") auto

text \<open>Any other client is served as the tables had it before the write.\<close>

lemma other_clients_served:
  assumes "write_reload env fault x wop m = (Inr y, m')"
    and "\<And>u d. wop (mg_db m) = (Inr u, d) \<Longrightarrow> config_integrity d \<and> GetClient j d = GetClient j (mg_db m)"
  shows "LookupClient m' j = served_client env (mg_db m) j"
proof -
  from write_reload_success [OF assms(1)] obtain u d st where d: "wop (mg_db m) = (Inr u, d)"
    "build_snapshot env d = Inr st" "m' = \<lparr>mg_state = Some st, mg_db = d\<rparr>" by auto
  have "served_client env d j = served_client env (mg_db m) j"
    using assms(2) [OF d(1)] by (auto simp: served_client_def GetClient_def found_def split: option.splits)
  with snapshot_in_sync [OF d(2)] assms(2) [OF d(1)] d(3) show ?thesis by (simp add: in_sync_def)
qed

lemma written_client_exact:
  assumes "write_reload env fault x (UpsertClient r now) m = (Inr y, m')" and "config_integrity (mg_db m)"
    and "en_decrypt env (cl_secret r) = Some secret" and "cl_id r = i"
  shows "LookupClient m' i = Some (issued_client i secret (cl_enabled r) (cl_routes r) (cl_limit r)) \<and>
    (\<forall>j. j \<noteq> i \<longrightarrow> LookupClient m' j = served_client env (mg_db m) j)"
proof (intro conjI allI impI)
  show "LookupClient m' i = Some (issued_client i secret (cl_enabled r) (cl_routes r) (cl_limit r))"
    using written_client_served [OF assms(1-3)] assms(4) by simp
  fix j assume "j \<noteq> i"
  show "LookupClient m' j = served_client env (mg_db m) j"
  proof (rule other_clients_served [OF assms(1)])
    fix u d assume "UpsertClient r now (mg_db m) = (Inr u, d)"
    with UpsertClient_config [OF assms(2), of r now] clients.put_other [OF this, of j] \<open>j \<noteq> i\<close> assms(4)
    show "config_integrity d \<and> GetClient j d = GetClient j (mg_db m)" by simp
  qed
qed

lemma removed_client_exact:
  assumes "write_reload env fault x (DeleteClient i) m = (Inr y, m')" and "config_integrity (mg_db m)"
  shows "LookupClient m' i = None \<and> (\<forall>j. j \<noteq> i \<longrightarrow> LookupClient m' j = served_client env (mg_db m) j)"
proof (intro conjI allI impI)
  from write_reload_success [OF assms(1)] obtain v d st where d: "DeleteClient i (mg_db m) = (Inr v, d)"
    "build_snapshot env d = Inr st" "m' = \<lparr>mg_state = Some st, mg_db = d\<rparr>" by auto
  have dok: "config_integrity d" using DeleteClient_config [OF assms(2), of i] d(1) by simp
  have "served_client env d i = None"
    using clients.remove_get [OF d(1)] by (auto simp: GetClient_def served_client_def found_def split: option.splits)
  then show "LookupClient m' i = None" using snapshot_in_sync [OF d(2) dok] d(3) by (simp add: in_sync_def)
  fix j assume "j \<noteq> i"
  show "LookupClient m' j = served_client env (mg_db m) j"
  proof (rule other_clients_served [OF assms(1)])
    fix u d assume "DeleteClient i (mg_db m) = (Inr u, d)"
    with DeleteClient_config [OF assms(2), of i] clients.remove_other [OF this \<open>j \<noteq> i\<close>]
    show "config_integrity d \<and> GetClient j d = GetClient j (mg_db m)" by simp
  qed
qed

lemma failed_keeps_clients:
  "well_behaved env m (Inl e :: gateway_error + 'x, m') \<Longrightarrow> config_integrity (mg_db m) \<Longrightarrow> LookupClient m' = LookupClient m"
  by (simp add: well_behaved_def LookupClient_def fun_eq_iff)

text \<open>
  Later changes of a client are exact. Rotating its secret changes the secret and nothing else;
  updating it changes its flag, routes and limit and keeps the secret; removing it ends it at once. In each
  case no other client is affected. (The client's stored secret must be decryptable, and the cipher give
  back what it encrypted.)
\<close>

theorem client_changes_exact:
  assumes "configured m" and "GetClient i (mg_db m) = Inr r" and "en_decrypt env (cl_secret r) = Some old"
    and "\<And>s c. en_encrypt env s = Some c \<Longrightarrow> en_decrypt env c = Some s"
  shows "(case RotateClientSecret env fault random now i m of
      (Inl e, m') \<Rightarrow> LookupClient m' = LookupClient m
    | (Inr secret, m') \<Rightarrow> LookupClient m' i = Some (issued_client i secret (cl_enabled r) (cl_routes r) (cl_limit r)) \<and>
        (\<forall>j. j \<noteq> i \<longrightarrow> LookupClient m' j = served_client env (mg_db m) j)) \<and>
    (case UpdateClient env fault now i enabled routes limit m of
      (Inl e, m') \<Rightarrow> LookupClient m' = LookupClient m
    | (Inr u, m') \<Rightarrow> LookupClient m' i = Some (issued_client i old enabled routes limit) \<and>
        (\<forall>j. j \<noteq> i \<longrightarrow> LookupClient m' j = served_client env (mg_db m) j)) \<and>
    (case RemoveClient env fault i m of
      (Inl e, m') \<Rightarrow> LookupClient m' = LookupClient m
    | (Inr u, m') \<Rightarrow> LookupClient m' i = None \<and>
        (\<forall>j. j \<noteq> i \<longrightarrow> LookupClient m' j = served_client env (mg_db m) j))"
proof (intro conjI)
  have ok: "config_integrity (mg_db m)" and i: "cl_id r = i"
    using configured_invariant [OF assms(1)] GetClient_ID [OF assms(2)] by simp_all
  show "case RotateClientSecret env fault random now i m of
      (Inl e, m') \<Rightarrow> LookupClient m' = LookupClient m
    | (Inr secret, m') \<Rightarrow> LookupClient m' i = Some (issued_client i secret (cl_enabled r) (cl_routes r) (cl_limit r)) \<and>
        (\<forall>j. j \<noteq> i \<longrightarrow> LookupClient m' j = served_client env (mg_db m) j)"
  proof (cases "RotateClientSecret env fault random now i m" rule: result_cases)
    case (error e m')
    with client_changes(3) [of env m fault random now i] ok show ?thesis by (simp add: failed_keeps_clients)
  next
    case (success secret m')
    with assms(2) obtain c where enc: "en_encrypt env secret = Some c"
      and w: "write_reload env (\<lambda>k. fault (k + 1)) secret (UpsertClient (r\<lparr>cl_secret := c\<rparr>) now) m = (Inr secret, m')"
      by (auto simp: RotateClientSecret_def get_record_def split: option.splits sum.splits if_splits
          dest: write_reload_success)
    with written_client_exact [OF w ok, of secret i] assms(4) [OF enc] i success show ?thesis by simp
  qed
  show "case UpdateClient env fault now i enabled routes limit m of
      (Inl e, m') \<Rightarrow> LookupClient m' = LookupClient m
    | (Inr u, m') \<Rightarrow> LookupClient m' i = Some (issued_client i old enabled routes limit) \<and>
        (\<forall>j. j \<noteq> i \<longrightarrow> LookupClient m' j = served_client env (mg_db m) j)"
  proof (cases "UpdateClient env fault now i enabled routes limit m" rule: result_cases)
    case (error e m')
    with client_changes(2) [of env m fault now i enabled routes limit] ok show ?thesis
      by (simp add: failed_keeps_clients)
  next
    case (success u m')
    with assms(2) have w: "write_reload env (\<lambda>k. fault (k + 1)) ()
        (UpsertClient (r\<lparr>cl_enabled := enabled, cl_routes := routes, cl_limit := limit\<rparr>) now) m = (Inr (), m')"
      by (auto simp: UpdateClient_def get_record_def split: option.splits sum.splits if_splits)
    with written_client_exact [OF w ok, of old i] assms(3) i success show ?thesis by simp
  qed
  show "case RemoveClient env fault i m of
      (Inl e, m') \<Rightarrow> LookupClient m' = LookupClient m
    | (Inr u, m') \<Rightarrow> LookupClient m' i = None \<and>
        (\<forall>j. j \<noteq> i \<longrightarrow> LookupClient m' j = served_client env (mg_db m) j)"
  proof (cases "RemoveClient env fault i m" rule: result_cases)
    case (error e m')
    with client_changes(4) [of env m fault i] ok show ?thesis by (simp add: failed_keeps_clients)
  next
    case (success u m')
    then have "write_reload env fault () (DeleteClient i) m = (Inr (), m')" by (simp add: RemoveClient_def)
    with removed_client_exact [OF this ok] success show ?thesis by simp
  qed
qed

lemma configured_created: "configured created_manager"
  by (rule configured.changed [OF configured_start change.create_client [OF demo_client_created]])

theorem client_changes_exact_witness:
  "\<exists>m' secret. RotateClientSecret demo_env no_fault (Some ''ABCDEFGHIJKLMNOPABCDEFGHIJKLMNOP'') (1700000060 * second) ''c1''
       created_manager = (Inr secret, m') \<and>
     LookupClient m' ''c1'' = Some (issued_client ''c1'' secret True [''ops''] 60)"
proof -
  have get: "GetClient ''c1'' (mg_db created_manager) = Inr created_row"
    and old: "en_decrypt demo_env (cl_secret created_row) = Some demo_secret"
    by (simp_all add: GetClient_def created_manager_def created_row_def demo_env_def)
  have "\<exists>y m'. RotateClientSecret demo_env no_fault (Some ''ABCDEFGHIJKLMNOPABCDEFGHIJKLMNOP'') (1700000060 * second) ''c1''
      created_manager = (Inr y, m')"
    by (simp add: RotateClientSecret_def get_record_def GetClient_def created_manager_def created_row_def newSecret_def
        demo_env_def write_reload_def UpsertClient_def upsert_row_def update_rows_def add_client_def empty_loads
        del: hex_encode.simps)
  then obtain y m' where rot: "RotateClientSecret demo_env no_fault (Some ''ABCDEFGHIJKLMNOPABCDEFGHIJKLMNOP'')
      (1700000060 * second) ''c1'' created_manager = (Inr y, m')" by blast
  from client_changes_exact [OF configured_created get old demo_cipher, of no_fault
      "Some ''ABCDEFGHIJKLMNOPABCDEFGHIJKLMNOP''" "1700000060 * second"] rot
  have "LookupClient m' ''c1'' = Some (issued_client ''c1'' y True [''ops''] 60)"
    by (simp add: created_row_def)
  with rot show ?thesis by blast
qed

section \<open>Ingress tokens\<close>

definition issued_token :: "string \<Rightarrow> string \<Rightarrow> string \<Rightarrow> bool \<Rightarrow> string \<Rightarrow> string \<Rightarrow> int \<Rightarrow> ingress_token" where
  "issued_token i publicID hash enabled route severity limit =
     \<lparr>bt_ID = i, bt_PublicID = publicID, bt_SecretHash = hash, bt_Enabled = enabled, bt_RoutingKey = route,
      bt_Severity = severity, bt_RateLimit = limit\<rparr>"

text \<open>What the lookup by public id answers after a token was written and the snapshot reloaded.\<close>

lemma written_token_served:
  assumes "write_reload env fault x (UpsertIngressToken r now) m = (Inr y, m')" and "config_integrity (mg_db m)"
  shows "LookupIngressToken m' (tk_public r) =
      Some (issued_token (tk_id r) (tk_public r) (tk_hash r) (tk_enabled r) (tk_route r) (tk_severity r) (tk_limit r)) \<and>
    (\<forall>old. GetIngressToken (tk_id r) (mg_db m) = Inr old \<and> tk_public old \<noteq> tk_public r \<longrightarrow>
       LookupIngressToken m' (tk_public old) = None)"
proof -
  from write_reload_success [OF assms(1)] obtain u d st where w: "UpsertIngressToken r now (mg_db m) = (Inr u, d)"
    "build_snapshot env d = Inr st" "m' = \<lparr>mg_state = Some st, mg_db = d\<rparr>" by auto
  have dok: "config_integrity d" using UpsertIngressToken_config [OF assms(2), of r now] w(1) by simp
  then have served: "LookupIngressToken m' p = served_token d p" for p
    using snapshot_in_sync [OF w(2)] w(3) by (simp add: in_sync_def)
  from tokens.put_get [OF w(1)] obtain r' where r': "GetIngressToken (tk_id r) d = Inr r'" "same_token r r'" by blast
  then have in_d: "r' \<in> set (ingress_tokens d)"
    by (auto simp: GetIngressToken_def found_def split: option.splits dest: query_row_SomeD)
  have keys: "keyed tk_public (ingress_tokens d)" "keyed tk_public (ingress_tokens (mg_db m))"
    using dok assms(2) by (simp_all add: config_integrity_def)
  have "query_row (\<lambda>x. tk_public x = tk_public r) (ingress_tokens d) = Some r'"
    using query_row_keyed [OF keys(1) in_d] r'(2) by (simp add: same_token_def)
  then have "LookupIngressToken m' (tk_public r) =
      Some (issued_token (tk_id r) (tk_public r) (tk_hash r) (tk_enabled r) (tk_route r) (tk_severity r) (tk_limit r))"
    using r'(2) by (simp add: served served_token_def issued_token_def same_token_def)
  moreover have "LookupIngressToken m' (tk_public old) = None"
    if old: "GetIngressToken (tk_id r) (mg_db m) = Inr old" "tk_public old \<noteq> tk_public r" for old
  proof -
    have o: "old \<in> set (ingress_tokens (mg_db m))" "tk_id old = tk_id r"
      using old(1) by (auto simp: GetIngressToken_def found_def split: option.splits dest: query_row_SomeD)
    have known: "tk_id r \<in> tk_id ` set (ingress_tokens (mg_db m))" using imageI [OF o(1), of tk_id] o(2) by simp
    have "tk_public x \<noteq> tk_public old" if x: "x \<in> set (ingress_tokens d)" for x
    proof -
      have "x \<in> set (ingress_tokens (mg_db m)) \<and> tk_id x \<noteq> tk_id r \<or> tk_public x = tk_public r"
        using x w(1) known by (auto simp: UpsertIngressToken_def upsert_row_def update_rows_def split: if_splits)
      then show ?thesis
        using old(2) o(2) keyed_unique [OF keys(2) _ o(1), of x] by auto
    qed
    then have "query_row (\<lambda>x. tk_public x = tk_public old) (ingress_tokens d) = None" by (simp add: find_None_iff)
    then show ?thesis by (simp add: served served_token_def)
  qed
  ultimately show ?thesis by blast
qed

lemma bearer_accepts_issued:
  assumes "GenerateBearerToken (Some pub) (Some sec) = Some (plain, publicID, hash)"
    and "length pub = 8" and "length sec = 32" and "lookup publicID = Some t" and "bt_Enabled t" and "bt_SecretHash t = hash"
  shows "BearerVerify (Some lookup) (''Bearer '' @ plain) = Some t"
proof -
  have "equal_fold ''Bearer'' ''Bearer'' \<and> (\<forall>c\<in>set ''Bearer''. is_graphic c)" by code_simp
  with generated_token_accepted [of pub sec plain publicID hash lookup t "''Bearer''"] assms show ?thesis by simp
qed

lemma failed_keeps_tokens:
  "well_behaved env m (Inl e :: gateway_error + 'x, m') \<Longrightarrow> config_integrity (mg_db m) \<Longrightarrow>
     LookupIngressToken m' = LookupIngressToken m"
  by (simp add: well_behaved_def LookupIngressToken_def fun_eq_iff)

lemma generated_text:
  obtains plain where "GenerateBearerToken (Some pub) (Some sec) = Some (plain, hex_encode pub, sha256 sec)"
  by (simp add: GenerateBearerToken_def Let_def)

lemma created_token_works:
  assumes "config_integrity (mg_db m)" and "length pub = 8" and "length sec = 32"
  shows "case CreateIngressToken env fault (Some pub, Some sec) now i True route severity limit m of
      (Inl e, m') \<Rightarrow> LookupIngressToken m' = LookupIngressToken m
    | (Inr plain, m') \<Rightarrow> BearerVerify (Some (LookupIngressToken m')) (''Bearer '' @ plain) =
        Some (issued_token i (hex_encode pub) (sha256 sec) True route severity limit)"
proof -
  obtain plain0 where gen: "GenerateBearerToken (Some pub) (Some sec) = Some (plain0, hex_encode pub, sha256 sec)"
    by (rule generated_text)
  show ?thesis
  proof (cases "CreateIngressToken env fault (Some pub, Some sec) now i True route severity limit m" rule: result_cases)
    case (error e m')
    have "LookupIngressToken m' = LookupIngressToken m"
      by (rule failed_keeps_tokens [OF token_changes(1) [of env m fault "(Some pub, Some sec)" now i True route severity limit,
            unfolded error] assms(1)])
    with error show ?thesis by simp
  next
    case (success plain m')
    let ?r = "\<lparr>tk_id = i, tk_public = hex_encode pub, tk_hash = sha256 sec, tk_enabled = True, tk_route = route,
        tk_severity = severity, tk_limit = limit, tk_created = 0, tk_updated = 0\<rparr>"
    from success gen have w: "write_reload env (\<lambda>k. fault (k + 1)) plain0 (UpsertIngressToken ?r now) m = (Inr plain, m')"
      by (auto simp: CreateIngressToken_def split: option.splits sum.splits if_splits)
    from write_reload_success [OF w] have "plain = plain0" by simp
    with bearer_accepts_issued [OF gen assms(2,3), of "LookupIngressToken m'"] written_token_served [OF w assms(1)] success
    show ?thesis by (simp add: issued_token_def)
  qed
qed

lemma rotated_token_works:
  assumes "config_integrity (mg_db m)" and "length pub = 8" and "length sec = 32"
  shows "case RotateIngressToken env fault (Some pub, Some sec) now i m of
      (Inl e, m') \<Rightarrow> LookupIngressToken m' = LookupIngressToken m
    | (Inr plain, m') \<Rightarrow> (\<exists>old. GetIngressToken i (mg_db m) = Inr old \<and>
        (tk_enabled old \<longrightarrow> BearerVerify (Some (LookupIngressToken m')) (''Bearer '' @ plain) =
           Some (issued_token i (hex_encode pub) (sha256 sec) True (tk_route old) (tk_severity old) (tk_limit old))) \<and>
        (tk_public old \<noteq> hex_encode pub \<longrightarrow> LookupIngressToken m' (tk_public old) = None))"
proof -
  obtain plain0 where gen: "GenerateBearerToken (Some pub) (Some sec) = Some (plain0, hex_encode pub, sha256 sec)"
    by (rule generated_text)
  show ?thesis
  proof (cases "RotateIngressToken env fault (Some pub, Some sec) now i m" rule: result_cases)
    case (error e m')
    have "LookupIngressToken m' = LookupIngressToken m"
      by (rule failed_keeps_tokens [OF token_changes(3) [of env m fault "(Some pub, Some sec)" now i, unfolded error] assms(1)])
    with error show ?thesis by simp
  next
    case (success plain m')
    then obtain old where old: "GetIngressToken i (mg_db m) = Inr old"
      and w: "write_reload env (\<lambda>k. fault (k + 1)) plain0
        (UpsertIngressToken (old\<lparr>tk_public := hex_encode pub, tk_hash := sha256 sec\<rparr>) now) m = (Inr plain, m')"
      using gen by (auto simp: RotateIngressToken_def get_record_def split: option.splits sum.splits if_splits)
    have i: "tk_id old = i"
      using old by (auto simp: GetIngressToken_def found_def split: option.splits dest: query_row_SomeD)
    from write_reload_success [OF w] have "plain = plain0" by simp
    with bearer_accepts_issued [OF gen assms(2,3), of "LookupIngressToken m'"] written_token_served [OF w assms(1)] success old i
    show ?thesis by (simp add: issued_token_def)
  qed
qed

text \<open>
  C10. Tokens work from creation to rotation. When creating an enabled ingress token succeeds, the text it
  returned is accepted as \<open>Bearer\<close> at once, with the token's route, severity and rate limit. When rotating
  it succeeds, the new text is accepted with the same settings and the old public id is gone, so the old
  text is refused (unless the random public id repeats).
\<close>

theorem issued_tokens_work:
  assumes "configured m" and "length pub = 8" and "length sec = 32"
  shows "(case CreateIngressToken env fault (Some pub, Some sec) now i True route severity limit m of
      (Inl e, m') \<Rightarrow> LookupIngressToken m' = LookupIngressToken m
    | (Inr plain, m') \<Rightarrow> BearerVerify (Some (LookupIngressToken m')) (''Bearer '' @ plain) =
        Some (issued_token i (hex_encode pub) (sha256 sec) True route severity limit)) \<and>
    (case RotateIngressToken env fault (Some pub, Some sec) now i m of
      (Inl e, m') \<Rightarrow> LookupIngressToken m' = LookupIngressToken m
    | (Inr plain, m') \<Rightarrow> (\<exists>old. GetIngressToken i (mg_db m) = Inr old \<and>
        (tk_enabled old \<longrightarrow> BearerVerify (Some (LookupIngressToken m')) (''Bearer '' @ plain) =
           Some (issued_token i (hex_encode pub) (sha256 sec) True (tk_route old) (tk_severity old) (tk_limit old))) \<and>
        (tk_public old \<noteq> hex_encode pub \<longrightarrow> LookupIngressToken m' (tk_public old) = None)))"
proof -
  have "config_integrity (mg_db m)" using configured_invariant [OF assms(1)] by simp
  from created_token_works [OF this assms(2,3)] rotated_token_works [OF this assms(2,3)]
  show ?thesis by (rule conjI)
qed

definition token_db :: db where
  "token_db = empty_db\<lparr>ingress_tokens :=
     [\<lparr>tk_id = ''t1'', tk_public = ''0011223344556677'', tk_hash = sha256 ''old'', tk_enabled = True, tk_route = ''ops'',
       tk_severity = ''info'', tk_limit = 10, tk_created = 0, tk_updated = 0\<rparr>]\<rparr>"

definition token_manager :: manager where
  "token_manager = \<lparr>mg_state = Some (start_state\<lparr>sn_tokens := [(''0011223344556677'',
      issued_token ''t1'' ''0011223344556677'' (sha256 ''old'') True ''ops'' ''info'' 10)]\<rparr>), mg_db = token_db\<rparr>"

lemma configured_token: "configured token_manager"
proof (rule configured.start)
  have "rune_count ''t1'' = 2" "rune_count ''0011223344556677'' = 16" by code_simp+
  then show "config_integrity token_db"
    by (simp add: config_integrity_def token_db_def token_checks_def routes_integrity_def empty_db_def known_severity_def
        keyed_def length_sha256)
  show "NewManager demo_env no_fault token_db = Inr token_manager"
    by (simp add: NewManager_def empty_loads add_token_def token_manager_def token_db_def issued_token_def length_sha256)
qed

definition token_secret :: string where
  "token_secret = replicate 32 CHR ''s''"

theorem issued_tokens_work_witness:
  "\<exists>plain m'. RotateIngressToken demo_env no_fault (Some ''ABCDEFGH'', Some token_secret) 0 ''t1'' token_manager
       = (Inr plain, m') \<and>
     BearerVerify (Some (LookupIngressToken m')) (''Bearer '' @ plain) \<noteq> None \<and>
     LookupIngressToken m' ''0011223344556677'' = None"
proof -
  have checks: "rune_count ''t1'' = 2" "rune_count ''4142434445464748'' = 16" "hex_encode ''ABCDEFGH'' = ''4142434445464748''"
    by code_simp+
  have get: "GetIngressToken ''t1'' (mg_db token_manager) = Inr
      \<lparr>tk_id = ''t1'', tk_public = ''0011223344556677'', tk_hash = sha256 ''old'', tk_enabled = True, tk_route = ''ops'',
       tk_severity = ''info'', tk_limit = 10, tk_created = 0, tk_updated = 0\<rparr>"
    by (simp add: GetIngressToken_def token_manager_def token_db_def)
  obtain plain0 where gen: "GenerateBearerToken (Some ''ABCDEFGH'') (Some token_secret)
      = Some (plain0, ''4142434445464748'', sha256 token_secret)"
    using generated_text [of "''ABCDEFGH''" "token_secret"] checks(3) by metis
  have "\<exists>m'. RotateIngressToken demo_env no_fault (Some ''ABCDEFGH'', Some token_secret) 0 ''t1'' token_manager
       = (Inr plain0, m')"
    unfolding RotateIngressToken_def get get_record_def
    by (simp add: gen)
      (simp add: write_reload_def UpsertIngressToken_def token_checks_def checks length_sha256 known_severity_def
        token_manager_def token_db_def upsert_row_def update_rows_def empty_loads add_token_def)
  then obtain m' where rot: "RotateIngressToken demo_env no_fault (Some ''ABCDEFGH'', Some token_secret) 0 ''t1''
      token_manager = (Inr plain0, m')" by blast
  have len: "length ''ABCDEFGH'' = 8" "length token_secret = 32" by (simp_all add: token_secret_def)
  from issued_tokens_work [OF configured_token len, where env = demo_env and fault = no_fault and now = 0 and i = "''t1''"] rot get checks(3)
  show ?thesis by auto
qed

section \<open>When the snapshot and the tables disagree\<close>

lemma build_snapshot_fails:
  assumes "ch \<in> set (notification_channels d)" and "built env ch = None"
  shows "\<exists>e. build_snapshot env d = Inl e"
proof (cases "build_snapshot env d")
  case (Inr st)
  then obtain s where "for_each (add_channel env) (ListChannels d) ([], []) = Inr s"
    by (auto simp: build_snapshot_def split: sum.splits prod.splits)
  from all_channels_build [OF this, of ch] assms show ?thesis by (simp add: ListChannels_def)
qed simp

text \<open>
  C33. A broken channel row makes revocation ineffective. While some stored channel cannot be built (and
  saving a channel can store such a row), removing a client deletes its row but reports an error, because
  the reload fails; the old snapshot stays in force, so the removed client keeps passing the lookup, and
  every further attempt to remove it fails with "not found".
\<close>

theorem failed_reload_keeps_serving:
  assumes "GetClient i (mg_db m) = Inr r" and "ch \<in> set (notification_channels (mg_db m))" and "built env ch = None"
  shows "\<exists>e m'. RemoveClient env no_fault i m = (Inl e, m') \<and>
    GetClient i (mg_db m') = Inl ErrNotFound \<and>
    (\<forall>j. LookupClient m' j = LookupClient m j) \<and>
    RemoveClient env no_fault i m' = (Inl (StoreError ErrNotFound), m')"
proof -
  have "query_row (\<lambda>x. cl_id x = i) (gateway_clients (mg_db m)) = Some r"
    using assms(1) by (auto simp: GetClient_def found_def split: option.splits)
  from query_row_SomeD [OF this] have "\<exists>x\<in>set (gateway_clients (mg_db m)). cl_id x = i" by blast
  then obtain u d where d: "DeleteClient i (mg_db m) = (Inr u, d)" by (auto simp: DeleteClient_def count_rows_zero)
  then have gone: "GetClient i d = Inl ErrNotFound" by (rule clients.remove_get)
  have "notification_channels d = notification_channels (mg_db m)"
    using d by (auto simp: DeleteClient_def split: if_splits)
  with build_snapshot_fails [of ch d env] assms(2,3) obtain e where e: "build_snapshot env d = Inl e" by auto
  have "RemoveClient env no_fault i m = (Inl e, m\<lparr>mg_db := d\<rparr>)"
    by (simp add: RemoveClient_def write_reload_def d Reload_def e list_ex_iff)
  moreover have "DeleteClient i d = (Inl ErrNotFound, d)"
    using gone by (auto simp: DeleteClient_def GetClient_def found_def count_rows_zero find_None_iff split: option.splits)
  then have "RemoveClient env no_fault i (m\<lparr>mg_db := d\<rparr>) = (Inl (StoreError ErrNotFound), m\<lparr>mg_db := d\<rparr>)"
    by (simp add: RemoveClient_def write_reload_def)
  ultimately show ?thesis using gone by (auto simp: LookupClient_def)
qed

definition broken_row :: channel_row where
  "broken_row = \<lparr>ch_id = ''mail'', ch_type = ''SMTP'', ch_enabled = True, ch_config = ''!'', ch_created = 0, ch_updated = 0\<rparr>"

definition broken_manager :: manager where
  "broken_manager = created_manager\<lparr>mg_db := empty_db\<lparr>gateway_clients := [created_row], notification_channels := [broken_row]\<rparr>\<rparr>"

theorem failed_reload_keeps_serving_witness:
  "\<exists>e m'. RemoveClient demo_env no_fault ''c1'' broken_manager = (Inl e, m') \<and>
     GetClient ''c1'' (mg_db m') = Inl ErrNotFound \<and>
     LookupClient m' ''c1'' = Some (issued_client ''c1'' demo_secret True [''ops''] 60)"
proof -
  have get: "GetClient ''c1'' (mg_db broken_manager) = Inr created_row"
    and ch: "broken_row \<in> set (notification_channels (mg_db broken_manager))"
    and bad: "built demo_env broken_row = None"
    and old: "LookupClient broken_manager ''c1'' = Some (issued_client ''c1'' demo_secret True [''ops''] 60)"
    by (simp_all add: GetClient_def broken_manager_def created_row_def built_def broken_row_def
        decryptConfig_def demo_env_def LookupClient_def created_manager_def issued_client_def)
  from failed_reload_keeps_serving [OF get ch bad] old show ?thesis by auto
qed

text \<open>
  \<open>Reload\<close> is not atomic: it reads the tables and later stores the pointer, and the manager has no lock.
  The two halves, for reloads that overlap:
\<close>

definition reload_read :: "environment \<Rightarrow> manager \<Rightarrow> gateway_error + snapshot" where
  "reload_read env m = build_snapshot env (mg_db m)"

definition reload_publish :: "snapshot \<Rightarrow> manager \<Rightarrow> manager" where
  "reload_publish next m = m\<lparr>mg_state := Some next\<rparr>"

lemma Reload_halves:
  "Reload env no_fault m = (case reload_read env m of Inl e \<Rightarrow> (Inl e, m) | Inr next \<Rightarrow> (Inr (), reload_publish next m))"
  by (simp add: Reload_def reload_read_def reload_publish_def list_ex_iff split: sum.split)

text \<open>
  C34. Overlapping changes can revive a removed client. If one change has read the tables for its reload
  while a client existed, another request then removes that client and its own reload succeeds, and only
  then the first stores its snapshot, both requests report success, the client's row is gone, and the
  client still passes the lookup, with its secret, until the next reload.
\<close>

theorem overlapping_reload_revives_client:
  assumes "configured m" and "reload_read env m = Inr stale" and "served_client env (mg_db m) i = Some c"
    and "RemoveClient env fault i m = (Inr u, m1)"
  shows "LookupClient m1 i = None \<and>
    GetClient i (mg_db (reload_publish stale m1)) = Inl ErrNotFound \<and>
    LookupClient (reload_publish stale m1) i = Some c \<and>
    (\<forall>st. reload_read env (reload_publish stale m1) = Inr st \<longrightarrow>
       LookupClient (reload_publish st (reload_publish stale m1)) i = None)"
proof -
  have ok: "config_integrity (mg_db m)" using configured_invariant [OF assms(1)] by simp
  from assms(4) have w: "write_reload env fault () (DeleteClient i) m = (Inr u, m1)" by (simp add: RemoveClient_def)
  from write_reload_success [OF w] obtain v where d: "DeleteClient i (mg_db m) = (Inr v, mg_db m1)" by auto
  have gone: "GetClient i (mg_db m1) = Inl ErrNotFound" using d by (rule clients.remove_get)
  have ok1: "config_integrity (mg_db m1)" using DeleteClient_config [OF ok, of i] d by simp
  have "in_sync env \<lparr>mg_state = Some stale, mg_db = mg_db m\<rparr>"
    using snapshot_in_sync [of env "mg_db m" stale] assms(2) ok by (simp add: reload_read_def)
  then have "LookupClient (reload_publish stale m1) i = Some c"
    using assms(3) by (simp add: in_sync_def LookupClient_def reload_publish_def)
  moreover have "LookupClient (reload_publish st (reload_publish stale m1)) i = None"
    if "reload_read env (reload_publish stale m1) = Inr st" for st
  proof -
    have "build_snapshot env (mg_db m1) = Inr st" using that by (simp add: reload_read_def reload_publish_def)
    from snapshot_in_sync [OF this ok1] gone show ?thesis
      by (auto simp: in_sync_def LookupClient_def reload_publish_def served_client_def GetClient_def found_def
          split: option.splits)
  qed
  ultimately show ?thesis
    using removed_client_exact [OF w ok] gone by (simp add: reload_publish_def)
qed

theorem overlapping_reload_revives_client_witness:
  "\<exists>stale m1. reload_read demo_env created_manager = Inr stale \<and>
     RemoveClient demo_env no_fault ''c1'' created_manager = (Inr (), m1) \<and>
     LookupClient (reload_publish stale m1) ''c1'' = Some (issued_client ''c1'' demo_secret True [''ops''] 60)"
proof -
  have c: "served_client demo_env (mg_db created_manager) ''c1'' = Some (issued_client ''c1'' demo_secret True [''ops''] 60)"
    by (simp add: served_client_def created_manager_def created_row_def demo_env_def issued_client_def)
  have "\<exists>stale. reload_read demo_env created_manager = Inr stale"
    by (simp add: reload_read_def created_manager_def created_row_def empty_loads add_client_def demo_env_def)
  then obtain stale where stale: "reload_read demo_env created_manager = Inr stale" by blast
  have "\<exists>m1. RemoveClient demo_env no_fault ''c1'' created_manager = (Inr (), m1)"
    by (simp add: RemoveClient_def write_reload_def DeleteClient_def count_rows_def delete_rows_def created_manager_def
        created_row_def empty_loads)
  then obtain m1 where m1: "RemoveClient demo_env no_fault ''c1'' created_manager = (Inr (), m1)" by blast
  from overlapping_reload_revives_client [OF configured_created stale c m1] stale m1 show ?thesis by blast
qed

section \<open>Silences and routes\<close>

text \<open>
  A silence covers exactly its window. When adding a silence succeeds, the alerts silenced from then on
  are those that were silenced by the stored silences before, and those of its route and severity (or of
  any, for a star) from its start up to, but not including, its end, both rounded down to the millisecond;
  the window is at most thirty days long and the reason stored is 1 to 200 characters.
\<close>

theorem silence_covers_window:
  assumes "configured m"
    and "AddSilence env fault newID now route severity starts ends reason m = (Inr u, m')"
  shows "(\<forall>k s t. IsSilenced m' k s t \<longleftrightarrow>
      list_ex (silence_applies k s t) (silences (mg_db m)) \<or>
      of_unix_milli (unix_milli starts) \<le> t \<and> t < of_unix_milli (unix_milli ends) \<and>
      (route = ''*'' \<or> route = k) \<and> (severity = ''*'' \<or> severity = s)) \<and>
    0 < ends - starts \<and> ends - starts \<le> 30 * 24 * hour \<and>
    trim_space reason \<noteq> [] \<and> rune_count (trim_space reason) \<le> 200"
proof -
  have ok: "config_integrity (mg_db m)" using configured_invariant [OF assms(1)] by simp
  let ?row = "\<lparr>si_id = [], si_route = route, si_severity = severity, si_starts = unix_milli starts,
      si_ends = unix_milli ends, si_reason = trim_space reason, si_created = 0\<rparr>"
  from assms(2) have w: "write_reload env fault () (CreateSilence newID ?row now) m = (Inr u, m')"
    and bounds: "starts < ends" "time_sub ends starts \<le> 30 * 24 * hour" "trim_space reason \<noteq> []"
      "rune_count (trim_space reason) \<le> 200"
    by (auto simp: AddSilence_def Let_def split: if_splits)
  from write_reload_success [OF w] obtain i d st where d: "CreateSilence newID ?row now (mg_db m) = (Inr i, d)"
    "build_snapshot env d = Inr st" "m' = \<lparr>mg_state = Some st, mg_db = d\<rparr>" by auto
  have rows: "silences d = silences (mg_db m) @ [?row\<lparr>si_id := i, si_created := unix_milli now\<rparr>]"
    using d(1) by (auto simp: CreateSilence_def insert_row_Some split: option.splits)
  have "config_integrity d" using CreateSilence_config [OF ok, of newID ?row now] d(1) by simp
  from snapshot_in_sync [OF d(2) this] d(3)
  have "IsSilenced m' k s t \<longleftrightarrow> list_ex (silence_applies k s t) (silences d)" for k s t by (simp add: in_sync_def)
  moreover have "silence_applies k s t (?row\<lparr>si_id := i, si_created := unix_milli now\<rparr>) \<longleftrightarrow>
      of_unix_milli (unix_milli starts) \<le> t \<and> t < of_unix_milli (unix_milli ends) \<and>
      (route = ''*'' \<or> route = k) \<and> (severity = ''*'' \<or> severity = s)" for k s t
    by (auto simp: silence_applies_def)
  moreover have "ends - starts \<le> 30 * 24 * hour"
    using bounds(2) time_sub_less [of ends starts "30 * 24 * hour + 1"] by simp
  ultimately show ?thesis using bounds by (simp add: rows)
qed

theorem silence_covers_window_witness:
  "\<exists>m'. AddSilence demo_env no_fault (Some ''s1'') 0 ''ops'' ''*'' 0 hour '' maintenance '' start_manager = (Inr (), m') \<and>
     IsSilenced m' ''ops'' ''critical'' minute \<and> \<not> IsSilenced m' ''ops'' ''critical'' hour \<and>
     \<not> IsSilenced m' ''web'' ''critical'' minute"
proof -
  have checks: "matches_config_identifier ''ops''" "trim_space '' maintenance '' = ''maintenance''"
    "rune_count ''maintenance'' = 11" by code_simp+
  have "\<exists>m'. AddSilence demo_env no_fault (Some ''s1'') 0 ''ops'' ''*'' 0 hour '' maintenance '' start_manager = (Inr (), m')"
    by (simp add: AddSilence_def Let_def checks time_sub_def write_reload_def CreateSilence_def insert_row_def
        start_manager_def empty_loads)
  then obtain m' where m': "AddSilence demo_env no_fault (Some ''s1'') 0 ''ops'' ''*'' 0 hour '' maintenance ''
      start_manager = (Inr (), m')" by blast
  from silence_covers_window [OF configured_start m'] m' show ?thesis
    by (simp add: start_manager_def empty_db_def unix_milli_def of_unix_milli_def)
qed

lemma sort_key_same: "(\<And>x. x \<in> set xs \<Longrightarrow> f x = c) \<Longrightarrow> sort_key f xs = xs"
  by (induction xs) (auto simp: insort_is_Cons)

lemma map_insort_key_self: "map f (insort_key f x xs) = insort (f x) (map f xs)"
  by (induction xs) auto

lemma map_sort_key_self: "map f (sort_key f xs) = sort (map f xs)"
  by (induction xs) (simp_all add: map_insort_key_self)

lemma channels_of_ListRoutes: "channels_of k s (ListRoutes d) = sort (channels_of k s (route_rules d))"
proof -
  let ?rows = "sort_key ro_channel (filter (\<lambda>r. ro_route r = k \<and> ro_severity r = s) (route_rules d))"
  have "sort_key ro_severity ?rows = ?rows" by (rule sort_key_same [where c = s]) simp
  moreover have "sort_key ro_route ?rows = ?rows" by (rule sort_key_same [where c = k]) simp
  ultimately have "filter (\<lambda>r. ro_route r = k \<and> ro_severity r = s) (ListRoutes d) = ?rows"
    by (simp add: ListRoutes_def filter_sort)
  then show ?thesis by (simp add: channels_of_def map_sort_key_self)
qed

lemma unique_blank: "(\<forall>c\<in>set cs. trim_space c = []) \<Longrightarrow> unique cs = []"
  by (simp add: unique_def filter_empty_conv)

text \<open>
  C32. Setting a route is exact, and blank names slip through. When setting a route succeeds, alerts of its
  key and severity go to exactly the enabled ones among the distinct trimmed names, in alphabetical order,
  and all other routes go where the tables had them; but a list of blank names, which the check for
  "at least one channel" accepts, leaves the route with no target at all.
\<close>

theorem set_route_targets:
  assumes "configured m" and "SetRoute env fault now route severity chans m = (Inr u, m')"
  shows "chans \<noteq> [] \<and>
    ResolveTargets m' route severity = filter (enabled_channel (mg_db m)) (sort (unique chans)) \<and>
    (\<forall>k s. (k, s) \<noteq> (route, severity) \<longrightarrow> ResolveTargets m' k s =
       filter (enabled_channel (mg_db m)) (channels_of k s (ListRoutes (mg_db m)))) \<and>
    ((\<forall>c\<in>set chans. trim_space c = []) \<longrightarrow> ResolveTargets m' route severity = [])"
proof -
  have ok: "config_integrity (mg_db m)" using configured_invariant [OF assms(1)] by simp
  from assms(2) have w: "write_reload env fault () (ReplaceRoute route severity (unique chans) now) m = (Inr u, m')"
    and chans: "chans \<noteq> []" by (auto simp: SetRoute_def split: if_splits)
  from write_reload_success [OF w] obtain v d st where d: "ReplaceRoute route severity (unique chans) now (mg_db m) = (Inr v, d)"
    "build_snapshot env d = Inr st" "m' = \<lparr>mg_state = Some st, mg_db = d\<rparr>" by auto
  have dok: "config_integrity d" using ReplaceRoute_config [OF ok, of route severity "unique chans" now] d(1) by simp
  have enabled: "enabled_channel d = enabled_channel (mg_db m)"
    using d(1) by (auto simp: ReplaceRoute_def enabled_channel_def fun_eq_iff split: option.splits)
  have "routes_integrity (mg_db m)" using ok by (simp add: config_integrity_def)
  from ReplaceRoute_effect [OF this, of route severity "unique chans" now] d(1)
  have rules: "channels_of route severity (route_rules d) = unique chans"
    "(k, s) \<noteq> (route, severity) \<Longrightarrow> channels_of k s (route_rules d) = channels_of k s (route_rules (mg_db m))" for k s
    by simp_all
  have "ResolveTargets m' k s = filter (enabled_channel (mg_db m)) (sort (channels_of k s (route_rules d)))" for k s
    using snapshot_in_sync [OF d(2) dok] d(3) by (simp add: in_sync_def enabled channels_of_ListRoutes)
  then show ?thesis using rules chans by (auto simp: channels_of_ListRoutes unique_blank)
qed

theorem set_route_targets_witness:
  "\<exists>m'. SetRoute demo_env no_fault 0 ''ops'' ''critical'' ['' ''] start_manager = (Inr (), m') \<and>
     ResolveTargets m' ''ops'' ''critical'' = []"
proof -
  have checks: "matches_config_identifier ''ops''" "validSeverity ''critical''" "unique ['' ''] = []" "trim_space '' '' = []"
    by code_simp+
  have "\<exists>m'. SetRoute demo_env no_fault 0 ''ops'' ''critical'' ['' ''] start_manager = (Inr (), m')"
    by (simp add: SetRoute_def checks write_reload_def ReplaceRoute_def delete_rows_def start_manager_def empty_loads)
  then obtain m' where m': "SetRoute demo_env no_fault 0 ''ops'' ''critical'' ['' ''] start_manager = (Inr (), m')" by blast
  have "\<forall>c\<in>set ['' '']. trim_space c = []" by (simp add: checks)
  with set_route_targets [OF configured_start m'] have "ResolveTargets m' ''ops'' ''critical'' = []" by blast
  with m' show ?thesis by blast
qed

end
