(* ===== verification/Base64.thy ===== *)
theory Base64
  imports GoText
begin

text \<open>
  The parts of \<open>encoding/base64\<close> the program uses: the standard and the URL alphabet, with and without
  padding, and \<open>Strict\<close> decoding (the unused bits of the last digit must be zero). Decoding skips line
  breaks, as Go does. Decoding inverts encoding, in every variant.
\<close>

section \<open>Digits\<close>

definition b64_digit :: "bool \<Rightarrow> nat \<Rightarrow> char" where
  "b64_digit url n =
     (if n < 26 then char_of (65 + n)
      else if n < 52 then char_of (71 + n)
      else if n < 62 then char_of (n - 4)
      else if n = 62 then (if url then CHR ''-'' else CHR ''+'')
      else (if url then CHR ''_'' else CHR ''/''))"

definition b64_value :: "bool \<Rightarrow> char \<Rightarrow> nat option" where
  "b64_value url c =
     (if is_upper c then Some (byte c - 65)
      else if is_lower c then Some (byte c - 71)
      else if is_digit c then Some (byte c + 4)
      else if c = (if url then CHR ''-'' else CHR ''+'') then Some 62
      else if c = (if url then CHR ''_'' else CHR ''/'') then Some 63
      else None)"

abbreviation b64_pad :: char where "b64_pad \<equiv> CHR ''=''"

lemma b64_value_digit: "n < 64 \<Longrightarrow> b64_value url (b64_digit url n) = Some n"
  by (auto simp: b64_value_def b64_digit_def byte_class_defs of_char_of)

lemma b64_value_range: "b64_value url c = Some n \<Longrightarrow> n < 64"
  by (auto simp: b64_value_def byte_class_defs split: if_splits)

lemma b64_value_pad [simp]: "b64_value url b64_pad = None"
  by (simp add: b64_value_def byte_class_defs)

lemma b64_digit_not_pad: "n < 64 \<Longrightarrow> b64_digit url n \<noteq> b64_pad"
  using b64_value_digit [of n url] by auto

lemma b64_digit_no_break: "n < 64 \<Longrightarrow> byte (b64_digit url n) \<noteq> 10 \<and> byte (b64_digit url n) \<noteq> 13"
  by (auto simp: b64_digit_def of_char_of)

lemma b64_digit_url: "n < 64 \<Longrightarrow> is_alnum (b64_digit True n) \<or> b64_digit True n \<in> {CHR ''-'', CHR ''_''}"
  by (auto simp: b64_digit_def byte_class_defs of_char_of)

section \<open>Encoding\<close>

fun b64_encode :: "bool \<Rightarrow> bool \<Rightarrow> string \<Rightarrow> string" where
  "b64_encode url pad [] = []"
| "b64_encode url pad [a] =
     [b64_digit url (byte a div 4), b64_digit url (byte a mod 4 * 16)] @ (if pad then [b64_pad, b64_pad] else [])"
| "b64_encode url pad [a, b] =
     [b64_digit url (byte a div 4), b64_digit url (byte a mod 4 * 16 + byte b div 16), b64_digit url (byte b mod 16 * 4)]
       @ (if pad then [b64_pad] else [])"
| "b64_encode url pad (a # b # c # cs) =
     b64_digit url (byte a div 4) # b64_digit url (byte a mod 4 * 16 + byte b div 16) #
     b64_digit url (byte b mod 16 * 4 + byte c div 64) # b64_digit url (byte c mod 64) # b64_encode url pad cs"

section \<open>Decoding\<close>

text \<open>The last two or three digits; \<open>strict\<close> refuses stray bits.\<close>

definition b64_two :: "bool \<Rightarrow> bool \<Rightarrow> char \<Rightarrow> char \<Rightarrow> string option" where
  "b64_two url strict w x =
     (case (b64_value url w, b64_value url x) of
        (Some m, Some n) \<Rightarrow> if strict \<and> n mod 16 \<noteq> 0 then None else Some [char_of (m * 4 + n div 16)]
      | _ \<Rightarrow> None)"

definition b64_three :: "bool \<Rightarrow> bool \<Rightarrow> char \<Rightarrow> char \<Rightarrow> char \<Rightarrow> string option" where
  "b64_three url strict w x y =
     (case (b64_value url w, b64_value url x, b64_value url y) of
        (Some m, Some n, Some k) \<Rightarrow>
          if strict \<and> k mod 4 \<noteq> 0 then None
          else Some [char_of (m * 4 + n div 16), char_of (n mod 16 * 16 + k div 4)]
      | _ \<Rightarrow> None)"

fun b64_groups :: "bool \<Rightarrow> bool \<Rightarrow> bool \<Rightarrow> string \<Rightarrow> string option" where
  "b64_groups url pad strict [] = Some []"
| "b64_groups url pad strict [w] = None"
| "b64_groups url pad strict [w, x] = (if pad then None else b64_two url strict w x)"
| "b64_groups url pad strict [w, x, y] = (if pad then None else b64_three url strict w x y)"
| "b64_groups url pad strict (w # x # y # z # cs) =
     (if pad \<and> cs = [] \<and> z = b64_pad
      then (if y = b64_pad then b64_two url strict w x else b64_three url strict w x y)
      else (case (b64_value url w, b64_value url x, b64_value url y, b64_value url z) of
         (Some m, Some n, Some k, Some l) \<Rightarrow>
           map_option (\<lambda>r. char_of (m * 4 + n div 16) # char_of (n mod 16 * 16 + k div 4) # char_of (k mod 4 * 64 + l) # r)
             (b64_groups url pad strict cs)
       | _ \<Rightarrow> None))"

definition b64_decode :: "bool \<Rightarrow> bool \<Rightarrow> bool \<Rightarrow> string \<Rightarrow> string option" where
  "b64_decode url pad strict s = b64_groups url pad strict (filter (\<lambda>c. byte c \<noteq> 10 \<and> byte c \<noteq> 13) s)"

abbreviation rawURLEncode :: "string \<Rightarrow> string" where "rawURLEncode \<equiv> b64_encode True False"
abbreviation rawStdEncode :: "string \<Rightarrow> string" where "rawStdEncode \<equiv> b64_encode False False"
abbreviation stdEncode :: "string \<Rightarrow> string" where "stdEncode \<equiv> b64_encode False True"
abbreviation rawStdDecodeStrict :: "string \<Rightarrow> string option" where "rawStdDecodeStrict \<equiv> b64_decode False False True"
abbreviation stdDecode :: "string \<Rightarrow> string option" where "stdDecode \<equiv> b64_decode False True False"

section \<open>Round trip\<close>

lemma byte_high: "byte a div 4 < 64" "byte b div 16 < 16" "byte c div 64 < 4"
  by (simp_all add: less_mult_imp_div_less)

lemma byte_parts:
  "byte a div 4 < 64" "byte a mod 4 * 16 < 64" "byte a mod 4 * 16 + byte b div 16 < 64" "byte b mod 16 * 4 < 64"
  "byte b mod 16 * 4 + byte c div 64 < 64" "byte c mod 64 < 64"
proof -
  have "byte a mod 4 < 4" "byte b mod 16 < 16" by simp_all
  with byte_high(2) [of b] byte_high(3) [of c]
  show "byte a mod 4 * 16 < 64" "byte a mod 4 * 16 + byte b div 16 < 64" "byte b mod 16 * 4 < 64"
    "byte b mod 16 * 4 + byte c div 64 < 64" by linarith+
qed (simp_all add: byte_high)

lemma byte_recombine:
  "byte a div 4 * 4 + (byte a mod 4 * 16 + k) div 16 = byte a" if "k < 16" for k
proof -
  have "(byte a mod 4 * 16 + k) div 16 = byte a mod 4" using that by simp
  then show ?thesis by simp
qed

lemma byte_recombine2:
  "(m * 16 + byte b div 16) mod 16 * 16 + (byte b mod 16 * 4 + k) div 4 = byte b" if "k < 4" for k
proof -
  have "(m * 16 + byte b div 16) mod 16 = byte b div 16" using byte_high(2) [of b] by simp
  moreover have "(byte b mod 16 * 4 + k) div 4 = byte b mod 16" using that by simp
  ultimately show ?thesis by simp
qed

lemma byte_recombine3: "(m * 4 + byte c div 64) mod 4 * 64 + byte c mod 64 = byte c"
proof -
  have "(m * 4 + byte c div 64) mod 4 = byte c div 64" using byte_high(3) [of c] by simp
  then show ?thesis by simp
qed

definition b64_digits :: "bool \<Rightarrow> char set" where
  "b64_digits url = b64_digit url ` {..<64}"

lemma b64_encode_chars: "set (b64_encode url pad bs) \<subseteq> b64_digits url \<union> (if pad then {b64_pad} else {})"
proof -
  have digit: "n < 64 \<Longrightarrow> b64_digit url n \<in> b64_digits url" for n by (simp add: b64_digits_def)
  show ?thesis by (induction url pad bs rule: b64_encode.induct) (simp_all add: b64_digits_def byte_parts)
qed

lemma b64_encode_no_break:
  assumes "c \<in> set (b64_encode url pad bs)"
  shows "byte c \<noteq> 10 \<and> byte c \<noteq> 13"
proof -
  consider n where "n < 64" "c = b64_digit url n" | "c = b64_pad"
    using b64_encode_chars [of url pad bs] assms by (auto simp: b64_digits_def split: if_splits)
  then show ?thesis by cases (simp_all add: b64_digit_no_break)
qed

lemma b64_groups_encode: "b64_groups url pad strict (b64_encode url pad bs) = Some bs"
proof (induction url pad bs rule: b64_encode.induct)
  case (1 url pad)
  then show ?case by simp
next
  case (2 url pad a)
  have "b64_two url strict (b64_digit url (byte a div 4)) (b64_digit url (byte a mod 4 * 16)) = Some [a]"
    using byte_recombine [of 0 a] by (simp add: b64_two_def b64_value_digit byte_parts)
  then show ?case by simp
next
  case (3 url pad a b)
  have "b64_three url strict (b64_digit url (byte a div 4)) (b64_digit url (byte a mod 4 * 16 + byte b div 16))
      (b64_digit url (byte b mod 16 * 4)) = Some [a, b]"
    using byte_recombine [OF byte_high(2), of a b] byte_recombine2 [of 0 "byte a mod 4" b]
    by (simp add: b64_three_def b64_value_digit byte_parts)
  moreover have "b64_digit url (byte b mod 16 * 4) \<noteq> b64_pad" by (rule b64_digit_not_pad [OF byte_parts(4)])
  ultimately show ?case by simp
next
  case (4 url pad a b c cs)
  have "b64_digit url (byte c mod 64) \<noteq> b64_pad" by (rule b64_digit_not_pad [OF byte_parts(6)])
  then show ?case
    using 4 byte_recombine [OF byte_high(2), of a b] byte_recombine2 [OF byte_high(3), of "byte a mod 4" b c]
      byte_recombine3 [of "byte b mod 16" c]
    by (simp add: b64_value_digit byte_parts)
qed

theorem b64_decode_encode [simp]: "b64_decode url pad strict (b64_encode url pad bs) = Some bs"
proof -
  have "filter (\<lambda>c. byte c \<noteq> 10 \<and> byte c \<noteq> 13) (b64_encode url pad bs) = b64_encode url pad bs"
    using b64_encode_no_break [of _ url pad bs] by (auto simp: filter_id_conv)
  then show ?thesis by (simp add: b64_decode_def b64_groups_encode)
qed

lemma b64_encode_inject: "b64_encode url pad a = b64_encode url pad b \<longleftrightarrow> a = b"
  by (metis b64_decode_encode option.inject)

text \<open>The tokens of the program: unpadded URL text of fixed length, free of anything a form or a header treats specially.\<close>

lemma length_raw: "length (b64_encode url False bs) = (4 * length bs + 2) div 3"
  by (induction url "False" bs rule: b64_encode.induct) simp_all

lemma rawURL_chars: "c \<in> set (rawURLEncode bs) \<Longrightarrow> is_alnum c \<or> c \<in> {CHR ''-'', CHR ''_''}"
  using b64_encode_chars [of True False bs] b64_digit_url by (auto simp: b64_digits_def)

end
