(* ===== verification/PasswordHash.thy ===== *)
theory PasswordHash
  imports Base64
begin

text \<open>
  \<open>internal/passwordhash/passwordhash.go\<close>: Argon2id hashes in PHC format. \<open>idkey\<close> is \<open>argon2.IDKey\<close>
  (password, salt, time, memory, parallelism, length); \<open>Sscanf\<close> is modelled for the two formats used.
\<close>

section \<open>Scanning\<close>

text \<open>
  \<open>%d\<close>: white space other than line breaks is skipped, the longest run of digits is read, and it must fit.
  Signs are for \<open>int\<close> only.
\<close>

fun skip_space :: "string list \<Rightarrow> string option" where
  "skip_space [] = Some []"
| "skip_space (r # rs) =
     (if r = [CHR 0x0A] then None
      else if r = [CHR 0x0D] \<and> rs \<noteq> [] \<and> hd rs = [CHR 0x0A] then skip_space rs
      else if space_rune r then skip_space rs
      else Some (concat (r # rs)))"

definition scan_digits :: "string \<Rightarrow> (nat \<times> string) option" where
  "scan_digits s =
     (case parse_nat (takeWhile is_digit s) of None \<Rightarrow> None | Some n \<Rightarrow> Some (n, dropWhile is_digit s))"

definition scan_uint32 :: "string \<Rightarrow> (nat \<times> string) option" where
  "scan_uint32 s =
     (case skip_space (runes s) of None \<Rightarrow> None
      | Some t \<Rightarrow> (case scan_digits t of None \<Rightarrow> None
          | Some (n, rest) \<Rightarrow> if n < 2 ^ 32 then Some (n, rest) else None))"

definition scan_int :: "string \<Rightarrow> (int \<times> string) option" where
  "scan_int s =
     (case skip_space (runes s) of None \<Rightarrow> None
      | Some t \<Rightarrow>
         (let neg = has_prefix ''-'' t; digits = (if has_prefix ''-'' t \<or> has_prefix ''+'' t then drop 1 t else t)
          in case scan_digits digits of None \<Rightarrow> None
          | Some (n, rest) \<Rightarrow>
              (let v = (if neg then - int n else int n)
               in if - (2 ^ 63) \<le> v \<and> v < 2 ^ 63 then Some (v, rest) else None)))"

text \<open>A literal part of the format.\<close>

definition scan_lit :: "string \<Rightarrow> string \<Rightarrow> string option" where
  "scan_lit lit s = (if has_prefix lit s then Some (drop (length lit) s) else None)"

definition scan_version :: "string \<Rightarrow> int option" where
  "scan_version s = (case scan_lit ''v='' s of None \<Rightarrow> None | Some t \<Rightarrow> map_option fst (scan_int t))"

definition scan_costs :: "string \<Rightarrow> (nat \<times> nat \<times> nat) option" where
  "scan_costs s =
     (case scan_lit ''m='' s of None \<Rightarrow> None | Some s1 \<Rightarrow>
      (case scan_uint32 s1 of None \<Rightarrow> None | Some (m, s2) \<Rightarrow>
       (case scan_lit '',t='' s2 of None \<Rightarrow> None | Some s3 \<Rightarrow>
        (case scan_uint32 s3 of None \<Rightarrow> None | Some (t, s4) \<Rightarrow>
         (case scan_lit '',p='' s4 of None \<Rightarrow> None | Some s5 \<Rightarrow>
          (case scan_uint32 s5 of None \<Rightarrow> None | Some (p, _) \<Rightarrow> Some (m, t, p)))))))"

definition show_costs :: "nat \<Rightarrow> nat \<Rightarrow> nat \<Rightarrow> string" where
  "show_costs m t p = ''m='' @ show_nat m @ '',t='' @ show_nat t @ '',p='' @ show_nat p"

section \<open>Hashes\<close>

abbreviation argon2_version :: nat where "argon2_version \<equiv> 19"
abbreviation timeCost :: nat where "timeCost \<equiv> 3"
abbreviation memoryCost :: nat where "memoryCost \<equiv> 64 * 1024"
abbreviation parallelism :: nat where "parallelism \<equiv> 1"

record parameters =
  pm_time :: nat
  pm_memory :: nat
  pm_parallelism :: nat
  pm_salt :: string
  pm_hash :: string

type_synonym idkey = "string \<Rightarrow> string \<Rightarrow> nat \<Rightarrow> nat \<Rightarrow> nat \<Rightarrow> nat \<Rightarrow> string"

definition encode_hash :: "string \<Rightarrow> string \<Rightarrow> string" where
  "encode_hash salt hash =
     ''$argon2id$v='' @ show_nat argon2_version @ ''$'' @ show_costs memoryCost timeCost parallelism @ ''$'' @
     rawStdEncode salt @ ''$'' @ rawStdEncode hash"

text \<open>\<open>Hash\<close>; \<open>random\<close> is the salt of 16 bytes the random source gives.\<close>

definition HashPassword :: "idkey \<Rightarrow> string option \<Rightarrow> string \<Rightarrow> string option" where
  "HashPassword idkey random password =
     (if password = [] then None
      else case random of None \<Rightarrow> None
      | Some salt \<Rightarrow> Some (encode_hash salt (idkey password salt timeCost memoryCost parallelism 32)))"

definition length_between :: "nat \<Rightarrow> nat \<Rightarrow> string \<Rightarrow> bool" where
  "length_between lo hi s \<longleftrightarrow> lo \<le> length s \<and> length s \<le> hi"

definition parse_hash :: "string \<Rightarrow> parameters option" where
  "parse_hash encoded =
     (case split_on CHR ''$'' encoded of
        [p0, p1, p2, p3, p4, p5] \<Rightarrow>
          (if p0 \<noteq> [] \<or> p1 \<noteq> ''argon2id'' then None
           else if scan_version p2 \<noteq> Some (int argon2_version) then None
           else case scan_costs p3 of None \<Rightarrow> None
           | Some (m, t, p) \<Rightarrow>
              if p3 \<noteq> show_costs m t p then None
              else if m < 8 * 1024 \<or> 256 * 1024 < m \<or> t < 1 \<or> 10 < t \<or> p < 1 \<or> 8 < p then None
              else case rawStdDecodeStrict p4 of None \<Rightarrow> None
              | Some salt \<Rightarrow> if \<not> length_between 16 64 salt then None
                  else case rawStdDecodeStrict p5 of None \<Rightarrow> None
                  | Some hash \<Rightarrow> if \<not> length_between 16 64 hash then None
                      else Some \<lparr>pm_time = t, pm_memory = m, pm_parallelism = p mod 256, pm_salt = salt, pm_hash = hash\<rparr>)
      | _ \<Rightarrow> None)"

definition ValidateHash :: "string \<Rightarrow> bool" where
  "ValidateHash encoded \<longleftrightarrow> parse_hash encoded \<noteq> None"

definition VerifyPassword :: "idkey \<Rightarrow> string \<Rightarrow> string \<Rightarrow> bool" where
  "VerifyPassword idkey password encoded =
     (case parse_hash encoded of None \<Rightarrow> False
      | Some p \<Rightarrow> idkey password (pm_salt p) (pm_time p) (pm_memory p) (pm_parallelism p) (length (pm_hash p)) = pm_hash p)"

section \<open>What a hash verifies\<close>

text \<open>The costs handed to Argon2 stay inside the bounds whatever the text, so \<open>IDKey\<close> is never called with values it rejects.\<close>

lemma parse_hash_bounds:
  assumes "parse_hash encoded = Some p"
  shows "8 * 1024 \<le> pm_memory p \<and> pm_memory p \<le> 256 * 1024 \<and> 1 \<le> pm_time p \<and> pm_time p \<le> 10 \<and>
    1 \<le> pm_parallelism p \<and> pm_parallelism p \<le> 8 \<and> length_between 16 64 (pm_salt p) \<and> length_between 16 64 (pm_hash p)"
  using assms by (auto simp: parse_hash_def split: list.splits option.splits if_splits)

lemma rawStd_no_dollar: "CHR ''$'' \<notin> set (rawStdEncode bs)"
proof -
  have "b64_digit False n \<noteq> CHR ''$''" if "n < 64" for n
    using b64_value_digit [OF that, of False] by (auto simp: b64_value_def byte_class_defs)
  then have "CHR ''$'' \<notin> b64_digits False" by (force simp: b64_digits_def)
  then show ?thesis using b64_encode_chars [of False False bs] by auto
qed

lemma split_on_append: "d \<notin> set a \<Longrightarrow> split_on d (a @ d # s) = a # split_on d s"
  by (induction a) auto

lemma split_on_none: "d \<notin> set a \<Longrightarrow> split_on d a = [a]"
  by (induction a) auto

lemma show_small: "show_nat 19 = ''19''" "show_nat 65536 = ''65536''" "show_nat 3 = ''3''" "show_nat (Suc 0) = ''1''"
  by (simp_all add: show_nat.simps char_of_def bit_iff_odd)

lemma costs_text: "show_costs 65536 3 (Suc 0) = ''m=65536,t=3,p=1''"
  by (simp add: show_costs_def show_small)

lemma skip_space_ascii:
  assumes "\<forall>c\<in>set s. is_graphic c"
  shows "skip_space (runes s) = Some s"
proof (cases s)
  case (Cons c cs)
  have "runes s = [c] # map (\<lambda>c. [c]) cs" 
  proof -
    have "\<forall>c\<in>set s. byte c < 128" using assms by (force simp: is_graphic_def)
    then show ?thesis by (simp add: runes_ascii Cons del: runes.simps)
  qed
  moreover have "\<not> space_rune [c]" "c \<noteq> CHR 0x0A" "c \<noteq> CHR 0x0D"
    using assms graphic_no_space [of c] by (auto simp: is_graphic_def Cons)
  ultimately show ?thesis by (simp add: comp_def Cons del: runes.simps)
qed simp

lemma scan_int_ascii:
  "\<forall>c\<in>set s. is_digit c \<Longrightarrow> parse_nat s = Some n \<Longrightarrow> n < 2 ^ 63 \<Longrightarrow> scan_int s = Some (int n, [])"
proof -
  assume s: "\<forall>c\<in>set s. is_digit c" "parse_nat s = Some n" "n < 2 ^ 63"
  have "skip_space (runes s) = Some s" using s(1) by (intro skip_space_ascii) (auto simp: is_digit_def is_graphic_def)
  moreover have "\<not> has_prefix ''-'' s" "\<not> has_prefix ''+'' s"
    using s(1) by (cases s; auto simp: has_prefix_def is_digit_def)+
  moreover have all: "takeWhile is_digit s = s" "dropWhile is_digit s = []" using s(1) by simp_all
  moreover have "int n < 2 ^ 63" using s(3) by (metis of_nat_less_iff of_nat_numeral of_nat_power)
  ultimately show ?thesis using s(2) by (simp add: scan_int_def scan_digits_def all Let_def)
qed

lemma scan_uint32_ascii:
  assumes "\<forall>c\<in>set s. is_digit c" and "parse_nat s = Some n" and "n < 2 ^ 32"
    and "\<forall>c\<in>set rest. is_graphic c" and "rest = [] \<or> \<not> is_digit (hd rest)"
  shows "scan_uint32 (s @ rest) = Some (n, rest)"
proof -
  have "skip_space (runes (s @ rest)) = Some (s @ rest)"
    using assms(1,4) by (intro skip_space_ascii) (auto simp: is_digit_def is_graphic_def)
  moreover have all: "takeWhile is_digit (s @ rest) = s" "dropWhile is_digit (s @ rest) = rest"
    using assms(1,5) by (cases rest; simp add: takeWhile_append dropWhile_append)+
  ultimately show ?thesis using assms(2,3) by (simp add: scan_uint32_def scan_digits_def all)
qed

lemma costs_scanned:
  "scan_version ''v=19'' = Some 19" "scan_costs ''m=65536,t=3,p=1'' = Some (65536, 3, Suc 0)"
proof -
  have "scan_int ''19'' = Some (int 19, [])" by (rule scan_int_ascii) (simp_all add: is_digit_def parse_nat_def)
  then show "scan_version ''v=19'' = Some 19" by (simp add: scan_version_def scan_lit_def has_prefix_def)
  have "scan_uint32 (''65536'' @ '',t=3,p=1'') = Some (65536, '',t=3,p=1'')"
    "scan_uint32 (''3'' @ '',p=1'') = Some (3, '',p=1'')" "scan_uint32 (''1'' @ []) = Some (1, [])"
    by (rule scan_uint32_ascii; simp add: is_digit_def parse_nat_def is_graphic_def)+
  then show "scan_costs ''m=65536,t=3,p=1'' = Some (65536, 3, Suc 0)"
    by (simp add: scan_costs_def scan_lit_def has_prefix_def)
qed

lemma parse_encode:
  assumes "length salt = 16" and "length hash = 32"
  shows "parse_hash (encode_hash salt hash) = Some \<lparr>pm_time = 3, pm_memory = 65536, pm_parallelism = 1, pm_salt = salt, pm_hash = hash\<rparr>"
proof -
  have "encode_hash salt hash = [] @ CHR ''$'' # ''argon2id'' @ CHR ''$'' # ''v=19'' @ CHR ''$'' # ''m=65536,t=3,p=1'' @
      CHR ''$'' # rawStdEncode salt @ CHR ''$'' # rawStdEncode hash"
    by (simp add: encode_hash_def costs_text show_small)
  then have "split_on CHR ''$'' (encode_hash salt hash) =
      [[], ''argon2id'', ''v=19'', ''m=65536,t=3,p=1'', rawStdEncode salt, rawStdEncode hash]"
    using rawStd_no_dollar by (simp add: split_on_append split_on_none)
  then show ?thesis
    using assms by (simp add: parse_hash_def length_between_def costs_scanned costs_text)
qed

text \<open>
  A stored hash verifies exactly the passwords with the same Argon2 key under its salt, and so the
  password it was made from.
\<close>

lemma hashed_password_verifies:
  assumes "HashPassword idkey (Some salt) password = Some encoded" and "length salt = 16"
    and "\<And>p s t m l n. length (idkey p s t m l n) = n"
  shows "VerifyPassword idkey candidate encoded \<longleftrightarrow> idkey candidate salt 3 65536 1 32 = idkey password salt 3 65536 1 32"
proof -
  have "encoded = encode_hash salt (idkey password salt 3 65536 1 32)"
    using assms(1) by (auto simp: HashPassword_def split: if_splits)
  then show ?thesis
    using parse_encode [OF assms(2), of "idkey password salt 3 65536 1 32"] assms(3) by (simp add: VerifyPassword_def)
qed

end
