(* ===== verification/Config.thy ===== *)
theory Config
  imports GoText
begin

text \<open>
  \<open>internal/config/config.go\<close>: the process configuration. \<open>getenv\<close> is the environment (an unset variable
  is empty), \<open>load_location\<close> the time zone database.
\<close>

record server_section =
  sc_Listen :: string
  sc_BodyLimit :: int

record database_section =
  ds_Path :: string
  ds_Retention :: duration

record auth_section =
  as_Tolerance :: duration
  as_NonceRetention :: duration

record worker_section =
  ws_PollInterval :: duration
  ws_RequestTimeout :: duration
  ws_LeaseDuration :: duration
  ws_RetryDelays :: "duration list"
  ws_MaxAttempts :: int

record admin_section =
  am_Username :: string
  am_PasswordFile :: string
  am_MasterKeyPath :: string
  am_SessionLifetime :: duration
  am_SecureCookie :: bool

record 'l display_section =
  dp_TimeZone :: string
  dp_Location :: 'l

record 'l config =
  cf_Server :: server_section
  cf_Database :: database_section
  cf_Auth :: auth_section
  cf_DedupeWindow :: duration
  cf_Worker :: worker_section
  cf_Admin :: admin_section
  cf_Display :: "'l display_section"

definition envOr :: "(string \<Rightarrow> string) \<Rightarrow> string \<Rightarrow> string \<Rightarrow> string" where
  "envOr getenv name fallback = (if getenv name \<noteq> [] then getenv name else fallback)"

text \<open>\<open>filepath.IsAbs\<close> on Unix.\<close>

definition is_abs :: "string \<Rightarrow> bool" where "is_abs path \<longleftrightarrow> has_prefix ''/'' path"

text \<open>\<open>^[A-Za-z0-9][A-Za-z0-9._:-]{0,63}$\<close>\<close>

definition valid_username :: "string \<Rightarrow> bool" where
  "valid_username s \<longleftrightarrow> matches_identifier s \<and> length s \<le> 64"

definition Load :: "(string \<Rightarrow> string) \<Rightarrow> (string \<Rightarrow> 'l option) \<Rightarrow> string + 'l config" where
  "Load getenv load_location =
     (let zone = envOr getenv ''ALERTBRIDGE_DISPLAY_TIMEZONE'' ''Asia/Shanghai'' in
      case load_location zone of
        None \<Rightarrow> Inl ''load display timezone''
      | Some location \<Rightarrow>
         (let cfg =
            \<lparr>cf_Server = \<lparr>sc_Listen = envOr getenv ''ALERTBRIDGE_LISTEN'' '':8080'', sc_BodyLimit = 32 * 1024\<rparr>,
             cf_Database = \<lparr>ds_Path = envOr getenv ''ALERTBRIDGE_DATABASE_PATH'' ''/var/lib/alertbridge/alertbridge.db'',
                            ds_Retention = 30 * 24 * hour\<rparr>,
             cf_Auth = \<lparr>as_Tolerance = 5 * minute, as_NonceRetention = 10 * minute\<rparr>,
             cf_DedupeWindow = 30 * minute,
             cf_Worker = \<lparr>ws_PollInterval = 500 * millisecond, ws_RequestTimeout = 8 * second, ws_LeaseDuration = 30 * second,
                          ws_RetryDelays = [second, 5 * second, 30 * second, 2 * minute, 10 * minute], ws_MaxAttempts = 6\<rparr>,
             cf_Admin = \<lparr>am_Username = envOr getenv ''ALERTBRIDGE_ADMIN_USERNAME'' ''admin'',
                         am_PasswordFile = envOr getenv ''ALERTBRIDGE_ADMIN_PASSWORD_FILE'' ''/run/secrets/admin_password'',
                         am_MasterKeyPath = envOr getenv ''ALERTBRIDGE_MASTER_KEY_PATH'' ''/var/lib/alertbridge-secrets/master.key'',
                         am_SessionLifetime = 12 * hour,
                         am_SecureCookie = (getenv ''ALERTBRIDGE_ALLOW_INSECURE_ADMIN_COOKIE'' \<noteq> ''1'')\<rparr>,
             cf_Display = \<lparr>dp_TimeZone = zone, dp_Location = location\<rparr>\<rparr>
          in if \<not> valid_username (am_Username (cf_Admin cfg))
             then Inl ''admin username must be a valid identifier with at most 64 bytes''
             else if \<not> is_abs (ds_Path (cf_Database cfg)) then Inl ''database path must be absolute''
             else if \<not> is_abs (am_MasterKeyPath (cf_Admin cfg)) then Inl ''master key path must be absolute''
             else if \<not> is_abs (am_PasswordFile (cf_Admin cfg)) then Inl ''admin password file path must be absolute''
             else Inr cfg))"

text \<open>What every configuration that loads guarantees to the other components.\<close>

lemma Load_constants:
  assumes "Load getenv load_location = Inr cfg"
  shows "as_Tolerance (cf_Auth cfg) = 5 * minute" and "as_NonceRetention (cf_Auth cfg) = 10 * minute"
    and "cf_DedupeWindow cfg = 30 * minute" and "sc_BodyLimit (cf_Server cfg) = 32 * 1024"
    and "ws_RetryDelays (cf_Worker cfg) = [second, 5 * second, 30 * second, 2 * minute, 10 * minute]"
    and "ws_MaxAttempts (cf_Worker cfg) = 6" and "ws_LeaseDuration (cf_Worker cfg) = 30 * second"
    and "ws_RequestTimeout (cf_Worker cfg) = 8 * second" and "ws_PollInterval (cf_Worker cfg) = 500 * millisecond"
    and "ds_Retention (cf_Database cfg) = 30 * 24 * hour" and "am_SessionLifetime (cf_Admin cfg) = 12 * hour"
  using assms by (auto simp: Load_def Let_def split: option.splits if_splits)

lemma Load_checked:
  assumes "Load getenv load_location = Inr cfg"
  shows "valid_username (am_Username (cf_Admin cfg)) \<and> is_abs (ds_Path (cf_Database cfg)) \<and>
    is_abs (am_MasterKeyPath (cf_Admin cfg)) \<and> is_abs (am_PasswordFile (cf_Admin cfg)) \<and>
    load_location (dp_TimeZone (cf_Display cfg)) = Some (dp_Location (cf_Display cfg))"
  using assms by (auto simp: Load_def Let_def split: option.splits if_splits)

text \<open>An empty environment loads, given its time zone.\<close>

lemma Load_defaults:
  "load_location ''Asia/Shanghai'' = Some l \<Longrightarrow> \<exists>cfg. Load (\<lambda>_. []) load_location = Inr cfg"
  by (simp add: Load_def envOr_def Let_def valid_username_def matches_identifier_def is_abs_def has_prefix_def
      is_ident_char_def byte_class_defs)

end
