(* ===== verification/Bootstrap.thy ===== *)
theory Bootstrap
  imports PasswordHash Config AdminStore
begin

text \<open>
  \<open>internal/bootstrap/bootstrap.go\<close>: the first start. It creates the master key file and the administrator's
  credential once, and afterwards only reads them. The file system is the map of its files; \<open>host\<close> says
  which of the other calls succeed, what the random source gives, and what other processes do between the
  check for the key and its creation.
\<close>

section \<open>Files\<close>

record os_file =
  fl_regular :: bool
  fl_mode :: nat
  fl_data :: string

type_synonym files = "string \<Rightarrow> os_file option"

record host =
  ho_dir_ok :: bool
  ho_random :: "string option"
  ho_temp_ok :: bool
  ho_link_ok :: bool
  ho_others :: "files \<Rightarrow> files"

text \<open>Some bit of \<open>0o077\<close> is set.\<close>

definition not_private :: "os_file \<Rightarrow> bool" where
  "not_private f \<longleftrightarrow> fl_mode f mod 64 \<noteq> 0"

text \<open>\<open>filepath.Clean\<close> on Unix.\<close>

fun clean_parts :: "bool \<Rightarrow> string list \<Rightarrow> string list \<Rightarrow> string list" where
  "clean_parts rooted acc [] = rev acc"
| "clean_parts rooted acc (p # ps) =
     (if p = [] \<or> p = ''.'' then clean_parts rooted acc ps
      else if p = ''..'' then
        (if acc \<noteq> [] \<and> hd acc \<noteq> ''..'' then clean_parts rooted (tl acc) ps
         else if rooted then clean_parts rooted acc ps
         else clean_parts rooted (p # acc) ps)
      else clean_parts rooted (p # acc) ps)"

definition clean_path :: "string \<Rightarrow> string" where
  "clean_path path =
     (let rooted = has_prefix ''/'' path; parts = join_with ''/'' (clean_parts rooted [] (split_on CHR ''/'' path))
      in if rooted then CHR ''/'' # parts else if parts = [] then ''.'' else parts)"

definition isDockerSecretPath :: "string \<Rightarrow> bool" where
  "isDockerSecretPath path \<longleftrightarrow>
     (let clean = clean_path path in clean = ''/run/secrets'' \<or> has_prefix ''/run/secrets/'' clean)"

section \<open>The master key\<close>

datatype key_error = NotExist | BadKey

definition readMasterKey :: "files \<Rightarrow> string \<Rightarrow> key_error + string" where
  "readMasterKey fs path =
     (case fs path of None \<Rightarrow> Inl NotExist
      | Some f \<Rightarrow>
          if \<not> fl_regular f \<or> not_private f then Inl BadKey
          else case hex_decode (trim_space (fl_data f)) of None \<Rightarrow> Inl BadKey
          | Some key \<Rightarrow> if length key \<noteq> 32 then Inl BadKey else Inr key)"

definition key_file :: "string \<Rightarrow> os_file" where
  "key_file key = \<lparr>fl_regular = True, fl_mode = 6 * 64, fl_data = hex_encode key @ [CHR 0x0A]\<rparr>"

text \<open>
  The key and whether it was created. The temporary file is gone when the function returns; the link fails
  when the path has come into being, and then that key is used.
\<close>

definition loadOrCreateMasterKey :: "host \<Rightarrow> string \<Rightarrow> bool \<Rightarrow> files \<Rightarrow> (string + string \<times> bool) \<times> files" where
  "loadOrCreateMasterKey h path allowCreate fs =
     (if path = [] \<or> \<not> is_abs path then (Inl ''master key path must be absolute'', fs)
      else case readMasterKey fs path of
        Inr key \<Rightarrow> (Inr (key, False), fs)
      | Inl BadKey \<Rightarrow> (Inl ''bad master key'', fs)
      | Inl NotExist \<Rightarrow>
          if \<not> allowCreate then (Inl ''master key is missing for an initialized database'', fs)
          else if \<not> ho_dir_ok h then (Inl ''directory'', fs)
          else case ho_random h of None \<Rightarrow> (Inl ''random'', fs)
          | Some key \<Rightarrow>
              if \<not> ho_temp_ok h then (Inl ''temporary file'', fs)
              else let fs1 = ho_others h fs in
                if fs1 path \<noteq> None then
                  (case readMasterKey fs1 path of Inr existing \<Rightarrow> (Inr (existing, False), fs1)
                   | Inl _ \<Rightarrow> (Inl ''bad master key'', fs1))
                else if \<not> ho_link_ok h then (Inl ''link'', fs1)
                else (Inr (key, True), fs1(path \<mapsto> key_file key)))"

section \<open>The administrator\<close>

definition readBootstrapPassword :: "files \<Rightarrow> string \<Rightarrow> string option" where
  "readBootstrapPassword fs path =
     (if path = [] then None
      else case fs path of None \<Rightarrow> None
      | Some f \<Rightarrow>
          if \<not> fl_regular f then None
          else if not_private f \<and> \<not> isDockerSecretPath path then None
          else Some (trim_suffix [CHR 0x0A] (trim_suffix [CHR 0x0D, CHR 0x0A] (fl_data f))))"

record boot_options =
  bo_Username :: string
  bo_PasswordFile :: string
  bo_MasterKeyPath :: string

record boot_result =
  br_Username :: string
  br_PasswordHash :: string
  br_MasterKey :: string
  br_AdminCreated :: bool
  br_MasterKeyCreated :: bool

definition usable_password :: "string \<Rightarrow> bool" where
  "usable_password p \<longleftrightarrow> 16 \<le> length p \<and> length p \<le> 1024 \<and> list_all (\<lambda>c. byte c \<notin> {0, 10, 13}) p"

text \<open>\<open>fault k\<close>: the \<open>k\<close>-th database call fails outside the program; \<open>salt\<close> is what \<open>Hash\<close> draws.\<close>

definition Initialize ::
  "idkey \<Rightarrow> host \<Rightarrow> (nat \<Rightarrow> bool) \<Rightarrow> string option \<Rightarrow> instant \<Rightarrow> boot_options \<Rightarrow> files \<Rightarrow> db \<Rightarrow> (string + boot_result) \<times> files \<times> db" where
  "Initialize idkey h fault salt now opts fs d =
     (let stored = (if fault 0 then Inl ErrStorage else GetAdminCredential d) in
      case (if stored = Inl ErrNotFound \<or> \<not> isl stored then None else Some ''read admin credential'') of
        Some e \<Rightarrow> (Inl e, fs, d)
      | None \<Rightarrow>
         (case loadOrCreateMasterKey h (bo_MasterKeyPath opts) (isl stored) fs of
            (Inl e, fs1) \<Rightarrow> (Inl e, fs1, d)
          | (Inr (key, keyCreated), fs1) \<Rightarrow>
             (case stored of
                Inr c \<Rightarrow> (Inr \<lparr>br_Username = cr_username c, br_PasswordHash = cr_password c, br_MasterKey = key,
                               br_AdminCreated = False, br_MasterKeyCreated = keyCreated\<rparr>, fs1, d)
              | Inl _ \<Rightarrow>
                  if \<not> valid_username (bo_Username opts) then (Inl ''admin username'', fs1, d)
                  else case readBootstrapPassword fs1 (bo_PasswordFile opts) of
                    None \<Rightarrow> (Inl ''read bootstrap admin password'', fs1, d)
                  | Some password \<Rightarrow>
                      if \<not> usable_password password then (Inl ''bootstrap admin password'', fs1, d)
                      else case HashPassword idkey salt password of
                        None \<Rightarrow> (Inl ''hash bootstrap admin password'', fs1, d)
                      | Some encoded \<Rightarrow>
                         (case store_call (fault 1) (InitializeAdminCredential (bo_Username opts) encoded now) d of
                            (Inl _, d1) \<Rightarrow> (Inl ''initialize admin credential'', fs1, d1)
                          | (Inr created, d1) \<Rightarrow>
                             (case (if fault 2 then Inl ErrStorage else GetAdminCredential d1) of
                                Inl _ \<Rightarrow> (Inl ''reload admin credential'', fs1, d1)
                              | Inr c \<Rightarrow> (Inr \<lparr>br_Username = cr_username c, br_PasswordHash = cr_password c,
                                    br_MasterKey = key, br_AdminCreated = created, br_MasterKeyCreated = keyCreated\<rparr>, fs1, d1))))))"

section \<open>The key file\<close>

lemma trim_line: 
  assumes "\<forall>c\<in>set s. is_graphic c"
  shows "trim_space (s @ [CHR 0x0A]) = s"
proof -
  have "\<forall>c\<in>set (s @ [CHR 0x0A]). byte c < 128" using assms by (force simp: is_graphic_def)
  then have "runes (s @ [CHR 0x0A]) = map (\<lambda>c. [c]) s @ [[CHR 0x0A]]" by (simp add: runes_ascii)
  moreover have none: "dropWhile space_rune (map (\<lambda>c. [c]) t) = map (\<lambda>c. [c]) t" if "set t \<subseteq> set s" for t
    using that assms graphic_no_space by (cases t) auto
  moreover have "dropWhile space_rune (map (\<lambda>c. [c]) s @ [[CHR 0x0A]]) = (if s = [] then [] else map (\<lambda>c. [c]) s @ [[CHR 0x0A]])"
    using assms graphic_no_space by (cases s) (auto simp: space_rune_def)
  moreover have "dropWhile space_rune ([CHR 0x0A] # map (\<lambda>c. [c]) (rev s)) = map (\<lambda>c. [c]) (rev s)"
    using none [of "rev s"] by (simp add: space_rune_def)
  ultimately show ?thesis by (simp add: trim_space_def rev_map del: runes.simps)
qed

lemma hex_graphic: "is_alnum c \<Longrightarrow> is_graphic c"
  by (auto simp: byte_class_defs is_graphic_def)

lemma readMasterKey_key_file:
  assumes "fs path = Some (key_file key)" and "length key = 32"
  shows "readMasterKey fs path = Inr key"
  using assms trim_line [of "hex_encode key"] hex_encode_alnum hex_graphic
  by (simp add: readMasterKey_def key_file_def not_private_def)

text \<open>Whatever a successful call returns, the same path gives the same key from then on, and nothing is created again.\<close>

lemma master_key_stable:
  assumes "loadOrCreateMasterKey h path create fs = (Inr (key, created), fs1)"
    and "\<forall>k. ho_random h = Some k \<longrightarrow> length k = 32" and "fs2 path = fs1 path"
  shows "loadOrCreateMasterKey h' path create' fs2 = (Inr (key, False), fs2)"
proof -
  have "readMasterKey fs1 path = Inr key"
    using assms(1,2) readMasterKey_key_file [of "fs1" path key]
    by (auto simp: loadOrCreateMasterKey_def Let_def split: if_splits sum.splits key_error.splits option.splits)
  then have "readMasterKey fs2 path = Inr key" using assms(3) by (simp add: readMasterKey_def)
  moreover have "path \<noteq> []" "is_abs path" using assms(1) by (auto simp: loadOrCreateMasterKey_def split: if_splits)
  ultimately show ?thesis by (simp add: loadOrCreateMasterKey_def)
qed

text \<open>An existing key file is never replaced, and an initialised database never gets a new key.\<close>

lemma master_key_never_replaced:
  assumes "fs path = Some f" and "loadOrCreateMasterKey h path create fs = (res, fs1)"
  shows "fs1 = fs"
  using assms by (auto simp: loadOrCreateMasterKey_def readMasterKey_def split: if_splits sum.splits key_error.splits option.splits)

lemma initialized_needs_key:
  assumes "GetAdminCredential d = Inr c" and "fs (bo_MasterKeyPath opts) = None"
  shows "\<exists>e. Initialize idkey h fault salt now opts fs d = (Inl e, fs, d)"
  using assms by (auto simp: Initialize_def loadOrCreateMasterKey_def readMasterKey_def split: if_splits)

section \<open>Restarts\<close>

lemma Initialize_result:
  assumes "Initialize idkey h fault salt now opts fs d = (Inr r, fs1, d1)"
  obtains created c where "loadOrCreateMasterKey h (bo_MasterKeyPath opts) (isl (GetAdminCredential d)) fs = (Inr (br_MasterKey r, created), fs1)"
    "GetAdminCredential d1 = Inr c" "cr_username c = br_Username r" "cr_password c = br_PasswordHash r"
  using assms
  by (auto simp: Initialize_def Let_def split: if_splits sum.splits prod.splits option.splits)

text \<open>
  A restart changes nothing. Once a start succeeded, every later start on the same key file and the same
  credential returns the same credential and the same master key and creates nothing, whatever the
  administrator name and password file are set to by then; so data encrypted before a restart stays readable.
\<close>

theorem bootstrap_repeatable:
  assumes "Initialize idkey h fault salt now opts fs d = (Inr r, fs1, d1)"
    and "\<forall>k. ho_random h = Some k \<longrightarrow> length k = 32"
    and "fs2 (bo_MasterKeyPath opts) = fs1 (bo_MasterKeyPath opts)" and "admin_credentials d2 = admin_credentials d1"
    and "bo_MasterKeyPath opts' = bo_MasterKeyPath opts" and "\<not> fault' 0"
  shows "Initialize idkey h' fault' salt' now' opts' fs2 d2 =
    (Inr (r\<lparr>br_AdminCreated := False, br_MasterKeyCreated := False\<rparr>), fs2, d2)"
proof -
  obtain created c where load: "loadOrCreateMasterKey h (bo_MasterKeyPath opts) (isl (GetAdminCredential d)) fs
      = (Inr (br_MasterKey r, created), fs1)"
    and c: "GetAdminCredential d1 = Inr c" "cr_username c = br_Username r" "cr_password c = br_PasswordHash r"
    by (rule Initialize_result [OF assms(1)])
  have "GetAdminCredential d2 = Inr c" using c(1) assms(4) by (simp add: GetAdminCredential_def)
  moreover have "loadOrCreateMasterKey h' (bo_MasterKeyPath opts') create fs2 = (Inr (br_MasterKey r, False), fs2)" for create
    using master_key_stable load assms(2,3,5) by metis
  ultimately show ?thesis using assms(6) c(2,3) by (simp add: Initialize_def)
qed

section \<open>The first password\<close>

text \<open>
  C37. The first start sets the password of the file. When a start creates the administrator, the stored hash
  verifies exactly the passwords that have the Argon2 key of the file's content (less one final line break)
  under the new salt, the name is the configured one, and the content has 16 to 1024 bytes without line
  breaks or NUL.
\<close>

theorem bootstrap_password_works:
  assumes "Initialize idkey h fault (Some salt) now opts fs d = (Inr r, fs1, d1)" and "br_AdminCreated r"
    and "length salt = 16" and "\<And>p s t m l n. length (idkey p s t m l n) = n"
  shows "\<exists>password. readBootstrapPassword fs1 (bo_PasswordFile opts) = Some password \<and> usable_password password \<and>
    br_Username r = bo_Username opts \<and>
    (\<forall>candidate. VerifyPassword idkey candidate (br_PasswordHash r) \<longleftrightarrow>
       idkey candidate salt 3 65536 1 32 = idkey password salt 3 65536 1 32)"
proof -
  have "\<exists>password encoded c. readBootstrapPassword fs1 (bo_PasswordFile opts) = Some password \<and> usable_password password \<and>
      HashPassword idkey (Some salt) password = Some encoded \<and>
      InitializeAdminCredential (bo_Username opts) encoded now d = (Inr True, d1) \<and>
      GetAdminCredential d1 = Inr c \<and> br_Username r = cr_username c \<and> br_PasswordHash r = cr_password c"
    using assms(1,2) by (auto simp: Initialize_def Let_def db_call_def split: if_splits sum.splits prod.splits option.splits)
  then obtain password encoded c where stored:
    "readBootstrapPassword fs1 (bo_PasswordFile opts) = Some password" "usable_password password"
    "HashPassword idkey (Some salt) password = Some encoded"
    "InitializeAdminCredential (bo_Username opts) encoded now d = (Inr True, d1)"
    "GetAdminCredential d1 = Inr c" "br_Username r = cr_username c" "br_PasswordHash r = cr_password c"
    by blast
  have "cr_username c = bo_Username opts" "cr_password c = encoded"
    using stored(4,5) by (auto simp: InitializeAdminCredential_def GetAdminCredential_def split: if_splits)
  moreover have "VerifyPassword idkey candidate encoded \<longleftrightarrow> idkey candidate salt 3 65536 1 32 = idkey password salt 3 65536 1 32" for candidate
    by (rule hashed_password_verifies [OF stored(3) assms(3,4)])
  ultimately show ?thesis using stored(1,2,6,7) by auto
qed

section \<open>A concrete start\<close>

definition boot_idkey :: idkey where
  "boot_idkey password salt t m p n = take n (password @ replicate n CHR ''.'')"

definition boot_host :: host where
  "boot_host = \<lparr>ho_dir_ok = True, ho_random = Some (replicate 32 CHR ''k''), ho_temp_ok = True, ho_link_ok = True, ho_others = (\<lambda>fs. fs)\<rparr>"

definition boot_files :: files where
  "boot_files = [''/run/secrets/admin_password'' \<mapsto> \<lparr>fl_regular = True, fl_mode = 4 * 64 + 4 * 8 + 4, fl_data = replicate 16 CHR ''p'' @ [CHR 0x0A]\<rparr>]"

definition boot_opts :: boot_options where
  "boot_opts = \<lparr>bo_Username = ''admin'', bo_PasswordFile = ''/run/secrets/admin_password'', bo_MasterKeyPath = ''/key''\<rparr>"

definition boot_hash :: string where
  "boot_hash = encode_hash (replicate 16 CHR ''s'') (boot_idkey (replicate 16 CHR ''p'') (replicate 16 CHR ''s'') 3 65536 1 32)"

definition boot_db :: db where
  "boot_db = snd (InitializeAdminCredential ''admin'' boot_hash 0 empty_db)"

definition booted :: boot_result where
  "booted = \<lparr>br_Username = ''admin'', br_PasswordHash = boot_hash, br_MasterKey = replicate 32 CHR ''k'',
     br_AdminCreated = True, br_MasterKeyCreated = True\<rparr>"

lemma boot_first:
  "Initialize boot_idkey boot_host (\<lambda>_. False) (Some (replicate 16 CHR ''s'')) 0 boot_opts boot_files empty_db =
    (Inr booted, boot_files(''/key'' \<mapsto> key_file (replicate 32 CHR ''k'')), boot_db)"
proof -
  have user: "valid_username ''admin''" by (simp add: valid_username_def matches_identifier_def is_ident_char_def byte_class_defs)
  have docker: "isDockerSecretPath ''/run/secrets/admin_password''" by code_simp
  have password: "usable_password (replicate 16 CHR ''p'')"
    by (simp add: usable_password_def list_all_iff)
  have trimmed: "trim_suffix [CHR 0x0A] (trim_suffix [CHR 0x0D, CHR 0x0A] (replicate 16 CHR ''p'' @ [CHR 0x0A])) = replicate 16 CHR ''p''"
    by (simp add: trim_suffix_def has_prefix_def numeral_eq_Suc)
  have "readBootstrapPassword (boot_files(''/key'' \<mapsto> key_file (replicate 32 CHR ''k''))) ''/run/secrets/admin_password'' = Some (replicate 16 CHR ''p'')"
    using docker trimmed by (simp add: readBootstrapPassword_def boot_files_def)
  moreover have "HashPassword boot_idkey (Some (replicate 16 CHR ''s'')) (replicate 16 CHR ''p'') = Some boot_hash"
    by (simp add: HashPassword_def boot_hash_def)
  moreover have "GetAdminCredential empty_db = Inl ErrNotFound" by (simp add: GetAdminCredential_def empty_db_def)
  moreover have "loadOrCreateMasterKey boot_host ''/key'' True boot_files =
      (Inr (replicate 32 CHR ''k'', True), boot_files(''/key'' \<mapsto> key_file (replicate 32 CHR ''k'')))"
    by (simp add: loadOrCreateMasterKey_def is_abs_def has_prefix_def readMasterKey_def boot_files_def boot_host_def)
  ultimately show ?thesis
    using user password
    by (simp add: Initialize_def boot_opts_def booted_def boot_db_def InitializeAdminCredential_def GetAdminCredential_def empty_db_def)
qed

lemma boot_random: "\<forall>k. ho_random boot_host = Some k \<longrightarrow> length k = 32"
  by (simp add: boot_host_def)

theorem bootstrap_repeatable_witness:
  "Initialize boot_idkey boot_host (\<lambda>_. False) None 5 (boot_opts\<lparr>bo_Username := []\<rparr>)
     (boot_files(''/key'' \<mapsto> key_file (replicate 32 CHR ''k''))) boot_db
   = (Inr (booted\<lparr>br_AdminCreated := False, br_MasterKeyCreated := False\<rparr>),
      boot_files(''/key'' \<mapsto> key_file (replicate 32 CHR ''k'')), boot_db)"
  by (rule bootstrap_repeatable [OF boot_first boot_random, of _ boot_db]) simp_all

theorem bootstrap_password_works_witness:
  "VerifyPassword boot_idkey (replicate 16 CHR ''p'') (br_PasswordHash booted)"
proof -
  have created: "br_AdminCreated booted" by (simp add: booted_def)
  have idkey: "length (boot_idkey p s t m l n) = n" for p s t m l n by (simp add: boot_idkey_def)
  obtain password where "readBootstrapPassword (boot_files(''/key'' \<mapsto> key_file (replicate 32 CHR ''k''))) (bo_PasswordFile boot_opts) = Some password"
    "\<forall>candidate. VerifyPassword boot_idkey candidate (br_PasswordHash booted) \<longleftrightarrow>
       boot_idkey candidate (replicate 16 CHR ''s'') 3 65536 1 32 = boot_idkey password (replicate 16 CHR ''s'') 3 65536 1 32"
    using bootstrap_password_works [OF boot_first created _ idkey] by auto
  moreover from this(1) have "password = replicate 16 CHR ''p''"
    by (auto simp: readBootstrapPassword_def boot_files_def boot_opts_def trim_suffix_def has_prefix_def numeral_eq_Suc split: if_splits)
  ultimately show ?thesis by simp
qed

end
