(* ===== verification/Senders.thy ===== *)
theory Senders
  imports Channel Base64 Sha256 ChannelConfig
begin

text \<open>
  \<open>internal/channel\<close>: the senders of the four channel types. What they post, how they read the answer, and
  what they report to the worker. The network and the encoders of the standard library are the fields of
  \<open>wire\<close>: JSON, the time formats, mail addresses, the quoted-printable words of a subject, the HTTP client
  and an SMTP server. A non-ASCII literal is the list of its UTF-8 bytes.
\<close>

section \<open>The outside\<close>

datatype json = JNull | JStr string | JBool bool | JArr "json list" | JObj "(string \<times> json) list"

record http_request =
  hr_url :: string
  hr_headers :: "(string \<times> string) list"
  hr_body :: string

text \<open>No answer; an answer whose body cannot be read; an answer.\<close>

datatype http_outcome = Unreachable | Unreadable int | Answer int string

datatype smtp_step =
    Connect bool string int
  | Greet
  | OfferStartTLS
  | StartTLS
  | Authenticate string string
  | MailFrom string
  | RcptTo string
  | DataCmd
  | WriteMessage string
  | EndOfData
  | Quit

text \<open>A reply of the server is a success, a protocol error with its code, or a connection error.\<close>

datatype smtp_reply = SmtpOk | SmtpCode int | SmtpIO

record wire =
  wr_marshal :: "json \<Rightarrow> string option"
  wr_rfc3339 :: "instant \<Rightarrow> string"
  wr_rfc1123z :: "instant \<Rightarrow> string"
  wr_request_ok :: "string \<Rightarrow> bool"
  wr_http :: "http_request \<Rightarrow> http_outcome"
  wr_feishu_result :: "string \<Rightarrow> (int option \<times> int option) option"
  wr_telegram_ok :: "string \<Rightarrow> bool option"
  wr_address :: "string \<Rightarrow> (string \<times> string) option"
  wr_qencode :: "string \<Rightarrow> string"
  wr_smtp :: "nat \<Rightarrow> smtp_step \<Rightarrow> smtp_reply"

abbreviation utf8 :: "nat list \<Rightarrow> string" where "utf8 bytes \<equiv> map char_of bytes"

abbreviation icon_info :: string where "icon_info \<equiv> utf8 [0xE2, 0x84, 0xB9, 0xEF, 0xB8, 0x8F]"
abbreviation icon_resolved :: string where "icon_resolved \<equiv> utf8 [0xE2, 0x9C, 0x85]"
abbreviation icon_critical :: string where "icon_critical \<equiv> utf8 [0xF0, 0x9F, 0x9A, 0xA8]"
abbreviation icon_warning :: string where "icon_warning \<equiv> utf8 [0xE2, 0x9A, 0xA0, 0xEF, 0xB8, 0x8F]"
abbreviation label_status :: string where "label_status \<equiv> utf8 [0x2A, 0x2A, 0xE7, 0x8A, 0xB6, 0xE6, 0x80, 0x81, 0xEF, 0xBC, 0x9A, 0x2A, 0x2A, 0x20]"
abbreviation label_severity :: string where "label_severity \<equiv> utf8 [0x2A, 0x2A, 0xE7, 0xBA, 0xA7, 0xE5, 0x88, 0xAB, 0xEF, 0xBC, 0x9A, 0x2A, 0x2A, 0x20]"
abbreviation label_source :: string where "label_source \<equiv> utf8 [0x2A, 0x2A, 0xE6, 0x9D, 0xA5, 0xE6, 0xBA, 0x90, 0xEF, 0xBC, 0x9A, 0x2A, 0x2A, 0x20]"
abbreviation label_time :: string where "label_time \<equiv> utf8 [0x2A, 0x2A, 0xE6, 0x97, 0xB6, 0xE9, 0x97, 0xB4, 0xEF, 0xBC, 0x9A, 0x2A, 0x2A, 0x20]"
abbreviation label_duration :: string where "label_duration \<equiv> utf8 [0x2A, 0x2A, 0xE6, 0x95, 0x85, 0xE9, 0x9A, 0x9C, 0xE6, 0x8C, 0x81, 0xE7, 0xBB, 0xAD, 0xEF, 0xBC, 0x9A, 0x2A, 0x2A, 0x20]"
abbreviation label_labels :: string where "label_labels \<equiv> utf8 [0x2A, 0x2A, 0xE6, 0xA0, 0x87, 0xE7, 0xAD, 0xBE, 0xEF, 0xBC, 0x9A, 0x2A, 0x2A]"
abbreviation button_text :: string where "button_text \<equiv> utf8 [0xE6, 0x9F, 0xA5, 0xE7, 0x9C, 0x8B, 0xE8, 0xAF, 0xA6, 0xE6, 0x83, 0x85]"
abbreviation open_bracket :: string where "open_bracket \<equiv> utf8 [0xE3, 0x80, 0x90]"
abbreviation close_bracket :: string where "close_bracket \<equiv> utf8 [0xE3, 0x80, 0x91]"

abbreviation newline :: string where "newline \<equiv> [CHR 0x0A]"
abbreviation crlf :: string where "crlf \<equiv> [CHR 0x0D, CHR 0x0A]"

section \<open>Text\<close>

definition safeHeader :: "string \<Rightarrow> string" where
  "safeHeader s = take 200 (map (\<lambda>c. if c = CHR 0x0D \<or> c = CHR 0x0A then CHR '' '' else c) s)"

definition label_value :: "event \<Rightarrow> string \<Rightarrow> string" where
  "label_value e key = (case map_of (Labels e) key of None \<Rightarrow> [] | Some v \<Rightarrow> v)"

definition renderPlainText :: "wire \<Rightarrow> event \<Rightarrow> string" where
  "renderPlainText w e = join_with newline
     ([''['' @ Status e @ ''/'' @ Severity e @ ''] '' @ Title e, Message e, ''Source: '' @ Source e,
       ''Occurred: '' @ wr_rfc3339 w (OccurredAt e)]
      @ map (\<lambda>key. key @ ''='' @ label_value e key) (SortedLabelKeys e)
      @ (if URL e \<noteq> [] then [URL e] else []))"

text \<open>\<open>strings.NewReplacer\<close> on single bytes.\<close>

definition escape_char :: "char \<Rightarrow> string" where
  "escape_char c = (if c \<in> {CHR 0x5C, CHR ''*'', CHR ''_'', CHR ''~'', CHR ''['', CHR '']'', CHR ''<'', CHR ''>'', CHR ''#''}
                    then [CHR 0x5C, c] else [c])"

definition escapeLarkMarkdown :: "string \<Rightarrow> string" where
  "escapeLarkMarkdown s = concat (map escape_char s)"

definition keyword_mark :: "string \<Rightarrow> string" where
  "keyword_mark keyword = open_bracket @ keyword @ close_bracket"

definition withFeishuKeyword :: "string \<Rightarrow> string \<Rightarrow> string" where
  "withFeishuKeyword content keyword0 =
     (let keyword = trim_space keyword0; mark = keyword_mark keyword in
      if keyword = [] then content
      else if has_prefix mark content then content
      else mark @ content)"

text \<open>\<open>d.Round(time.Second)\<close> and its text, for \<open>d\<close> that is not negative; rounding stops at the largest duration.\<close>

definition max_duration :: duration where "max_duration = 2 ^ 63 - 1"

definition round_second :: "duration \<Rightarrow> duration" where
  "round_second d =
     (let r = d mod second in
      if 2 * r < second then d - r else min (d + (second - r)) max_duration)"

definition duration_text :: "duration \<Rightarrow> string" where
  "duration_text d =
     (if d = max_duration then ''2562047h47m16.854775807s''
      else let s = d div second; h = s div 3600; m = s div 60 mod 60 in
        (if 0 < h then show_int h @ ''h'' else []) @ (if 60 \<le> s then show_int m @ ''m'' else []) @ show_int (s mod 60) @ ''s'')"

section \<open>Feishu\<close>

abbreviation maxFeishuPayload :: nat where "maxFeishuPayload \<equiv> 19 * 1024"

record feishu_config =
  fs_Webhook :: string
  fs_Secret :: string
  fs_MessageType :: string
  fs_Keyword :: string

definition NewFeishuSender :: "feishu_config \<Rightarrow> feishu_config" where
  "NewFeishuSender cfg =
     (let cfg1 = cfg\<lparr>fs_Keyword := trim_space (fs_Keyword cfg)\<rparr>
      in if fs_MessageType cfg1 = [] then cfg1\<lparr>fs_MessageType := ''card''\<rparr> else cfg1)"

definition buildTextPayload :: "wire \<Rightarrow> event \<Rightarrow> string \<Rightarrow> (string \<times> json) list" where
  "buildTextPayload w e keyword =
     [(''msg_type'', JStr ''text''),
      (''content'', JObj [(''text'', JStr (withFeishuKeyword (renderPlainText w e) keyword))])]"

definition card_style :: "event \<Rightarrow> string \<times> string" where
  "card_style e =
     (if Status e = StatusResolved then (''green'', icon_resolved)
      else if Severity e = SeverityCritical then (''red'', icon_critical)
      else if Severity e = SeverityWarning then (''orange'', icon_warning)
      else (''blue'', icon_info))"

definition card_lines :: "wire \<Rightarrow> event \<Rightarrow> instant \<Rightarrow> string list" where
  "card_lines w e now =
     [label_status @ escapeLarkMarkdown (Status e), label_severity @ escapeLarkMarkdown (Severity e),
      label_source @ escapeLarkMarkdown (Source e), label_time @ wr_rfc3339 w (OccurredAt e), [],
      escapeLarkMarkdown (Message e)]
     @ (case IncidentStartedAt e of
          Some started \<Rightarrow>
            if Status e = StatusResolved
            then [[], label_duration @ duration_text (round_second (max 0 (time_sub now started)))] else []
        | None \<Rightarrow> [])
     @ (let keys = SortedLabelKeys e in
        if keys = [] then []
        else [[], label_labels] @
          map (\<lambda>key. ''- '' @ escapeLarkMarkdown key @ '': '' @ escapeLarkMarkdown (label_value e key)) keys)"

definition buildCardPayload :: "wire \<Rightarrow> event \<Rightarrow> instant \<Rightarrow> string \<Rightarrow> (string \<times> json) list" where
  "buildCardPayload w e now keyword =
     (let (template, icon) = card_style e;
          body = JObj [(''tag'', JStr ''div''), (''text'', JObj [(''tag'', JStr ''lark_md''),
                   (''content'', JStr (join_with newline (card_lines w e now)))])];
          button = JObj [(''tag'', JStr ''action''), (''actions'', JArr [JObj
                     [(''tag'', JStr ''button''),
                      (''text'', JObj [(''tag'', JStr ''plain_text''), (''content'', JStr button_text)]),
                      (''url'', JStr (URL e)), (''type'', JStr ''primary'')]])]
      in [(''msg_type'', JStr ''interactive''),
          (''card'', JObj
            [(''header'', JObj [(''template'', JStr template), (''title'', JObj [(''tag'', JStr ''plain_text''),
               (''content'', JStr (withFeishuKeyword (icon @ '' '' @ Title e) keyword))])]),
             (''elements'', JArr (body # (if URL e \<noteq> [] then [button] else [])))])])"

definition feishuSign :: "string \<Rightarrow> string \<Rightarrow> string" where
  "feishuSign timestamp secret = stdEncode (hmac_sha256 (timestamp @ newline @ secret) [])"

abbreviation send_fail :: "int \<Rightarrow> string \<Rightarrow> int \<Rightarrow> bool \<Rightarrow> int \<times> send_failure option" where
  "send_fail code message status retry \<equiv>
     (code, Some (Typed \<lparr>se_message = message, se_status = status, se_retryable = retry\<rparr>))"

definition is_2xx :: "int \<Rightarrow> bool" where "is_2xx status \<longleftrightarrow> 200 \<le> status \<and> status < 300"

text \<open>How an answer of Feishu is read: the body is cut at 32 KiB.\<close>

definition feishu_verdict :: "wire \<Rightarrow> int \<Rightarrow> string \<Rightarrow> int \<times> send_failure option" where
  "feishu_verdict w status body =
     (if \<not> is_2xx status
      then send_fail status ''Feishu returned an HTTP error'' status (status = 408 \<or> status = 425 \<or> status = 429 \<or> 500 \<le> status)
      else case wr_feishu_result w (take (32 * 1024) body) of
        None \<Rightarrow> send_fail status ''Feishu returned an invalid response'' status True
      | Some (code, statusCode) \<Rightarrow>
          if code = None \<and> statusCode = None
          then send_fail status ''Feishu returned an ambiguous response'' status True
          else if (code \<noteq> None \<and> code \<noteq> Some 0) \<or> (statusCode \<noteq> None \<and> statusCode \<noteq> Some 0)
          then (if code = Some 19024 \<or> statusCode = Some 19024
                then send_fail status ''Feishu keyword check failed'' status False
                else send_fail status ''Feishu rejected the message'' status True)
          else (status, None))"

definition feishu_payload :: "wire \<Rightarrow> feishu_config \<Rightarrow> instant \<Rightarrow> event \<Rightarrow> (string \<times> json) list" where
  "feishu_payload w cfg now e =
     (let payload = (if fs_MessageType cfg = ''text'' then buildTextPayload w e (fs_Keyword cfg)
                     else buildCardPayload w e now (fs_Keyword cfg));
          timestamp = show_int (unix_seconds now)
      in if fs_Secret cfg \<noteq> []
         then payload @ [(''timestamp'', JStr timestamp), (''sign'', JStr (feishuSign timestamp (fs_Secret cfg)))]
         else payload)"

definition feishu_send :: "wire \<Rightarrow> feishu_config \<Rightarrow> instant \<Rightarrow> sender" where
  "feishu_send w cfg now e =
     (case wr_marshal w (JObj (feishu_payload w cfg now e)) of
        None \<Rightarrow> send_fail 0 ''encode Feishu payload'' 0 False
      | Some body \<Rightarrow>
          if maxFeishuPayload < length body then send_fail 0 ''Feishu payload exceeds safe size limit'' 0 False
          else if \<not> wr_request_ok w (fs_Webhook cfg) then send_fail 0 ''create Feishu request'' 0 False
          else case wr_http w \<lparr>hr_url = fs_Webhook cfg,
                   hr_headers = [(''Content-Type'', ''application/json''), (''User-Agent'', ''AlertBridge/1'')], hr_body = body\<rparr> of
            Unreachable \<Rightarrow> send_fail 0 ''Feishu request failed'' 0 True
          | Unreadable status \<Rightarrow> send_fail status ''read Feishu response'' status True
          | Answer status answer \<Rightarrow> feishu_verdict w status answer)"

section \<open>Telegram\<close>

record telegram_config =
  tg_BotToken :: string
  tg_ChatID :: string
  tg_BaseURL :: string

definition NewTelegramSender :: "telegram_config \<Rightarrow> telegram_config" where
  "NewTelegramSender cfg = (if tg_BaseURL cfg = [] then cfg\<lparr>tg_BaseURL := telegramAPI\<rparr> else cfg)"

definition telegram_verdict :: "wire \<Rightarrow> int \<Rightarrow> string \<Rightarrow> int \<times> send_failure option" where
  "telegram_verdict w status body =
     (if \<not> is_2xx status then send_fail status ''Telegram returned an HTTP error'' status (retryableHTTP status)
      else if wr_telegram_ok w (take (32 * 1024) body) \<noteq> Some True
      then send_fail status ''Telegram rejected the message'' status True
      else (status, None))"

definition telegram_send :: "wire \<Rightarrow> telegram_config \<Rightarrow> sender" where
  "telegram_send w cfg e =
     (case wr_marshal w (JObj [(''chat_id'', JStr (tg_ChatID cfg)), (''text'', JStr (renderPlainText w e)),
                               (''disable_web_page_preview'', JBool True)]) of
        None \<Rightarrow> send_fail 0 ''encode Telegram payload'' 0 False
      | Some body \<Rightarrow>
          (let endpoint = trim_right_slash (tg_BaseURL cfg) @ ''/bot'' @ tg_BotToken cfg @ ''/sendMessage'' in
           if \<not> wr_request_ok w endpoint then send_fail 0 ''create Telegram request'' 0 False
           else case wr_http w \<lparr>hr_url = endpoint,
                    hr_headers = [(''Content-Type'', ''application/json''), (''User-Agent'', ''AlertBridge/2'')], hr_body = body\<rparr> of
             Unreachable \<Rightarrow> send_fail 0 ''Telegram request failed'' 0 True
           | Unreadable status \<Rightarrow> send_fail status ''read Telegram response'' status True
           | Answer status answer \<Rightarrow> telegram_verdict w status answer))"

section \<open>ntfy\<close>

record ntfy_config =
  nt_Endpoint :: string
  nt_Token :: string

definition ntfyPriority :: "string \<Rightarrow> string" where
  "ntfyPriority severity =
     (if severity = SeverityCritical then ''urgent'' else if severity = SeverityWarning then ''high'' else ''default'')"

definition ntfy_request :: "wire \<Rightarrow> ntfy_config \<Rightarrow> event \<Rightarrow> http_request" where
  "ntfy_request w cfg e =
     \<lparr>hr_url = nt_Endpoint cfg,
      hr_headers = [(''Content-Type'', ''text/plain; charset=utf-8''), (''Title'', safeHeader (Title e)),
                    (''Priority'', ntfyPriority (Severity e)), (''User-Agent'', ''AlertBridge/2'')]
        @ (if nt_Token cfg \<noteq> [] then [(''Authorization'', ''Bearer '' @ nt_Token cfg)] else []),
      hr_body = renderPlainText w e\<rparr>"

definition ntfy_verdict :: "int \<Rightarrow> int \<times> send_failure option" where
  "ntfy_verdict status =
     (if \<not> is_2xx status then send_fail status ''ntfy returned an HTTP error'' status (retryableHTTP status) else (status, None))"

definition ntfy_send :: "wire \<Rightarrow> ntfy_config \<Rightarrow> sender" where
  "ntfy_send w cfg e =
     (if \<not> wr_request_ok w (nt_Endpoint cfg) then send_fail 0 ''create ntfy request'' 0 False
      else case wr_http w (ntfy_request w cfg e) of
        Unreachable \<Rightarrow> send_fail 0 ''ntfy request failed'' 0 True
      | Unreadable status \<Rightarrow> ntfy_verdict status
      | Answer status _ \<Rightarrow> ntfy_verdict status)"

section \<open>SMTP\<close>

record smtp_config =
  ml_Host :: string
  ml_Port :: int
  ml_Username :: string
  ml_Password :: string
  ml_From :: string
  ml_Recipients :: "string list"
  ml_Mode :: string

text \<open>\<open>buildEmail\<close>: the message, the envelope sender and the recipients.\<close>

definition buildEmail :: "wire \<Rightarrow> smtp_config \<Rightarrow> instant \<Rightarrow> event \<Rightarrow> (string \<times> string \<times> string list) option" where
  "buildEmail w cfg now e =
     (if ml_Host cfg = [] \<or> ml_Port cfg < 1 \<or> 65535 < ml_Port cfg \<or> (ml_Mode cfg \<noteq> ''tls'' \<and> ml_Mode cfg \<noteq> ''starttls'') then None
      else case wr_address w (ml_From cfg) of None \<Rightarrow> None
      | Some (from, from_text) \<Rightarrow>
          if ml_Recipients cfg = [] then None
          else case those (map (\<lambda>v. wr_address w (trim_space v)) (ml_Recipients cfg)) of None \<Rightarrow> None
          | Some addresses \<Rightarrow>
             (let subject = wr_qencode w (safeHeader (''['' @ Severity e @ ''] '' @ Title e));
                  message = ''From: '' @ from_text @ crlf @ ''To: '' @ join_with '', '' (map snd addresses) @ crlf @
                    ''Subject: '' @ subject @ crlf @ ''Date: '' @ wr_rfc1123z w now @ crlf @ ''MIME-Version: 1.0'' @ crlf @
                    ''Content-Type: text/plain; charset=utf-8'' @ crlf @ ''Content-Transfer-Encoding: 8bit'' @ crlf @ crlf @
                    renderPlainText w e @ crlf
              in Some (message, from, map fst addresses)))"

text \<open>The commands of one delivery in order, each with the message of its failure.\<close>

definition smtp_script :: "smtp_config \<Rightarrow> string \<Rightarrow> string \<Rightarrow> string list \<Rightarrow> (smtp_step \<times> string) list" where
  "smtp_script cfg message from recipients =
     [(Connect (ml_Mode cfg = ''tls'') (ml_Host cfg) (ml_Port cfg), ''SMTP connection failed''), (Greet, ''initialize SMTP'')]
     @ (if ml_Mode cfg = ''starttls''
        then [(OfferStartTLS, ''SMTP server does not support STARTTLS''), (StartTLS, ''SMTP STARTTLS failed'')] else [])
     @ (if ml_Username cfg \<noteq> [] then [(Authenticate (ml_Username cfg) (ml_Password cfg), ''SMTP authentication failed'')] else [])
     @ [(MailFrom from, ''SMTP sender rejected'')]
     @ map (\<lambda>r. (RcptTo r, ''SMTP recipient rejected'')) recipients
     @ [(DataCmd, ''SMTP data rejected''), (WriteMessage message, ''SMTP write failed''),
        (EndOfData, ''SMTP delivery failed''), (Quit, ''SMTP quit failed'')]"

text \<open>\<open>classifySMTP\<close>, and the fixed verdicts of the connection, of a missing STARTTLS and of a failed write.\<close>

definition classifySMTP :: "smtp_reply \<Rightarrow> bool" where
  "classifySMTP reply = (case reply of SmtpCode code \<Rightarrow> code < 500 | _ \<Rightarrow> True)"

definition step_retryable :: "smtp_step \<Rightarrow> smtp_reply \<Rightarrow> bool" where
  "step_retryable step reply =
     (case step of Connect _ _ _ \<Rightarrow> True | OfferStartTLS \<Rightarrow> False | WriteMessage _ \<Rightarrow> True | _ \<Rightarrow> classifySMTP reply)"

fun run_smtp :: "(nat \<Rightarrow> smtp_step \<Rightarrow> smtp_reply) \<Rightarrow> nat \<Rightarrow> (smtp_step \<times> string) list \<Rightarrow> int \<times> send_failure option" where
  "run_smtp srv k [] = (250, None)"
| "run_smtp srv k ((step, message) # rest) =
     (if srv k step = SmtpOk then run_smtp srv (Suc k) rest
      else send_fail 0 message 0 (step_retryable step (srv k step)))"

definition smtp_send :: "wire \<Rightarrow> smtp_config \<Rightarrow> instant \<Rightarrow> sender" where
  "smtp_send w cfg now e =
     (case buildEmail w cfg now e of
        None \<Rightarrow> send_fail 0 ''invalid email configuration'' 0 False
      | Some (message, from, recipients) \<Rightarrow> run_smtp (wr_smtp w) 0 (smtp_script cfg message from recipients))"

section \<open>The senders of the configuration manager\<close>

text \<open>The constructor calls of \<open>buildChannel\<close>.\<close>

definition channel_sender :: "wire \<Rightarrow> instant \<Rightarrow> string \<Rightarrow> channel_config \<Rightarrow> sender" where
  "channel_sender w now ctype cfg =
     (if ctype = ''feishu''
      then feishu_send w (NewFeishuSender \<lparr>fs_Webhook = cg_Webhook cfg, fs_Secret = cg_SigningSecret cfg,
             fs_MessageType = cg_MessageType cfg, fs_Keyword = cg_Keyword cfg\<rparr>) now
      else if ctype = ''telegram''
      then telegram_send w (NewTelegramSender \<lparr>tg_BotToken = cg_BotToken cfg, tg_ChatID = cg_ChatID cfg, tg_BaseURL = cg_BaseURL cfg\<rparr>)
      else if ctype = ''ntfy'' then ntfy_send w \<lparr>nt_Endpoint = cg_Endpoint cfg, nt_Token = cg_Token cfg\<rparr>
      else smtp_send w \<lparr>ml_Host = cg_SMTPHost cfg, ml_Port = cg_SMTPPort cfg, ml_Username = cg_SMTPUsername cfg,
             ml_Password = cg_SMTPPassword cfg, ml_From = cg_SMTPFrom cfg, ml_Recipients = cg_SMTPRecipients cfg,
             ml_Mode = cg_SMTPMode cfg\<rparr> now)"

end
