(* ===== verification/SenderProps.thy ===== *)
theory SenderProps
  imports Senders
begin

text \<open>
  What the senders promise: success means the provider confirmed, alert text cannot break out of its place
  in a message, and one way in which a message that was delivered is reported as failed.
\<close>

section \<open>Success is confirmed\<close>

lemma send_fail_not_ok: "send_fail c m s r = (code, None) \<longleftrightarrow> False"
  by simp

text \<open>The codes of the answer are zero, and there is one.\<close>

definition feishu_confirms :: "wire \<Rightarrow> string \<Rightarrow> bool" where
  "feishu_confirms w answer \<longleftrightarrow>
     (case wr_feishu_result w (take (32 * 1024) answer) of None \<Rightarrow> False
      | Some (c, s) \<Rightarrow> (c = Some 0 \<or> s = Some 0) \<and> c \<in> {None, Some 0} \<and> s \<in> {None, Some 0})"

lemma feishu_success:
  assumes "feishu_send w cfg now e = (code, None)"
  shows "\<exists>rq answer. wr_http w rq = Answer code answer \<and> hr_url rq = fs_Webhook cfg \<and> feishu_confirms w answer \<and> is_2xx code"
proof -
  from assms obtain body answer where post: "wr_http w \<lparr>hr_url = fs_Webhook cfg,
      hr_headers = [(''Content-Type'', ''application/json''), (''User-Agent'', ''AlertBridge/1'')], hr_body = body\<rparr> = Answer code answer"
    and verdict: "feishu_verdict w code answer = (code, None)"
    by (auto simp: feishu_send_def feishu_verdict_def split: option.splits if_splits http_outcome.splits)
  from verdict have "is_2xx code" "feishu_confirms w answer"
    by (auto simp: feishu_verdict_def feishu_confirms_def split: option.splits if_splits)
  with post show ?thesis by (metis http_request.select_convs(1))
qed

lemma telegram_success:
  assumes "telegram_send w cfg e = (code, None)"
  shows "\<exists>rq answer. wr_http w rq = Answer code answer \<and> wr_telegram_ok w (take (32 * 1024) answer) = Some True \<and> is_2xx code"
  using assms
  by (auto simp: telegram_send_def telegram_verdict_def Let_def split: option.splits if_splits http_outcome.splits)

lemma ntfy_success:
  assumes "ntfy_send w cfg e = (code, None)"
  shows "is_2xx code \<and> (wr_http w (ntfy_request w cfg e) = Unreadable code \<or> (\<exists>answer. wr_http w (ntfy_request w cfg e) = Answer code answer))"
  using assms by (auto simp: ntfy_send_def ntfy_verdict_def split: if_splits http_outcome.splits)

lemma run_smtp_success:
  "run_smtp srv k script = (code, None) \<longleftrightarrow> code = 250 \<and> (\<forall>j<length script. srv (k + j) (fst (script ! j)) = SmtpOk)"
proof (induction srv k script rule: run_smtp.induct)
  case (2 srv k step message rest)
  then show ?case by (auto simp: nth_Cons split: nat.splits)
qed auto


text \<open>A Feishu provider that answers code 0 to everything.\<close>

definition kind_wire :: wire where
  "kind_wire = \<lparr>wr_marshal = (\<lambda>_. Some ''{}''), wr_rfc3339 = (\<lambda>_. []), wr_rfc1123z = (\<lambda>_. []), wr_request_ok = (\<lambda>_. True),
     wr_http = (\<lambda>_. Answer 200 ''ok''), wr_feishu_result = (\<lambda>_. Some (Some 0, None)), wr_telegram_ok = (\<lambda>_. Some True),
     wr_address = (\<lambda>a. Some (a, a)), wr_qencode = (\<lambda>s. s), wr_smtp = (\<lambda>k step. SmtpOk)\<rparr>"

definition sample_alert :: event where
  "sample_alert = \<lparr>EventID = ''e'', Source = ''web'', RoutingKey = ''ops'', Status = ''info'', Severity = ''info'', Title = ''t'',
     Message = ''m'', OccurredAt = 0, DedupeKey = [], Labels = [], URL = [], IncidentStartedAt = None\<rparr>"


section \<open>Alert text stays in its place\<close>

text \<open>What Lark's Markdown makes of an escaped text: a backslash and the byte after it are that byte.\<close>

fun unescape :: "string \<Rightarrow> string" where
  "unescape [] = []"
| "unescape [c] = [c]"
| "unescape (c # d # s) = (if c = CHR 0x5C then d # unescape s else c # unescape (d # s))"

lemma unescape_escape_char: "unescape (escape_char c @ s) = c # unescape s"
  by (cases s) (auto simp: escape_char_def)

text \<open>
  The special bytes of Lark's Markdown, and the reading of an escaped text that meets none of them outside
  an escape.
\<close>

definition lark_special :: "char \<Rightarrow> bool" where
  "lark_special c \<longleftrightarrow> c \<in> {CHR ''*'', CHR ''_'', CHR ''~'', CHR ''['', CHR '']'', CHR ''<'', CHR ''>'', CHR ''#''}"

fun plain_text :: "string \<Rightarrow> bool" where
  "plain_text [] = True"
| "plain_text (c # s) = (if c = CHR 0x5C then s \<noteq> [] \<and> plain_text (tl s) else \<not> lark_special c \<and> plain_text s)"

lemma plain_escape_char: "plain_text (escape_char c @ s) = plain_text s"
  by (auto simp: escape_char_def lark_special_def)

lemma escape_plain: "plain_text (escapeLarkMarkdown s)" and escape_inverse: "unescape (escapeLarkMarkdown s) = s"
  by (induction s) (auto simp: escapeLarkMarkdown_def plain_escape_char unescape_escape_char)

lemma safeHeader_text: "c \<in> set (safeHeader s) \<Longrightarrow> c \<noteq> CHR 0x0D \<and> c \<noteq> CHR 0x0A" "length (safeHeader s) \<le> 200"
  by (auto simp: safeHeader_def dest!: in_set_takeD split: if_splits)

lemma withFeishuKeyword_mark:
  assumes "trim_space k \<noteq> []"
  shows "has_prefix (keyword_mark (trim_space k)) (withFeishuKeyword content k)"
  using assms by (simp add: withFeishuKeyword_def Let_def)


section \<open>A delivered message reported as failed\<close>

lemma run_smtp_append:
  "(\<forall>j<length before. srv (k + j) (fst (before ! j)) = SmtpOk) \<Longrightarrow>
   run_smtp srv k (before @ rest) = run_smtp srv (k + length before) rest"
proof (induction before arbitrary: k)
  case (Cons a before)
  have "srv k (fst a) = SmtpOk" using Cons.prems by (metis add_0_right length_greater_0_conv list.discI nth_Cons_0)
  moreover have "\<forall>j<length before. srv (Suc k + j) (fst (before ! j)) = SmtpOk"
    using Cons.prems by (auto dest: spec [of _ "Suc _"])
  ultimately show ?case using Cons.IH [of "Suc k"] by (cases a) simp
qed simp

text \<open>
  A message can be delivered and reported as failed. When the server accepts everything up to the end of
  the message and then the farewell gets no good answer, the message is with the server, yet the sender
  reports a failure, retryable unless the answer was a code of at least 500, so the worker sends it again.
\<close>

theorem quit_failure_reported:
  assumes "buildEmail w cfg now e = Some (message, envelope, recipients)"
    and "\<forall>k<length (smtp_script cfg message envelope recipients) - 1. wr_smtp w k (fst (smtp_script cfg message envelope recipients ! k)) = SmtpOk"
    and "wr_smtp w (length (smtp_script cfg message envelope recipients) - 1) Quit = reply" and "reply \<noteq> SmtpOk"
  shows "smtp_send w cfg now e = (0, Some (Typed \<lparr>se_message = ''SMTP quit failed'', se_status = 0, se_retryable = classifySMTP reply\<rparr>))"
proof -
  let ?script = "smtp_script cfg message envelope recipients"
  let ?before = "butlast ?script"
  have split: "?script = ?before @ [(Quit, ''SMTP quit failed'')]" by (simp add: smtp_script_def butlast_append)
  have "\<forall>j<length ?before. wr_smtp w (0 + j) (fst (?before ! j)) = SmtpOk" using assms(2) by (simp add: nth_butlast)
  then have "run_smtp (wr_smtp w) 0 (?before @ [(Quit, ''SMTP quit failed'')]) =
      run_smtp (wr_smtp w) (0 + length ?before) [(Quit, ''SMTP quit failed'')]"
    by (rule run_smtp_append)
  then have "run_smtp (wr_smtp w) 0 ?script = run_smtp (wr_smtp w) (0 + length ?before) [(Quit, ''SMTP quit failed'')]"
    using split by simp
  then show ?thesis using assms(1,3,4) by (simp add: smtp_send_def step_retryable_def)
qed

definition flaky_wire :: wire where
  "flaky_wire = kind_wire\<lparr>wr_smtp := (\<lambda>k step. if step = Quit then SmtpIO else SmtpOk)\<rparr>"

definition mail_config :: smtp_config where
  "mail_config = \<lparr>ml_Host = ''mx'', ml_Port = 465, ml_Username = [], ml_Password = [], ml_From = ''a@b'',
     ml_Recipients = [''c@d''], ml_Mode = ''tls''\<rparr>"

theorem quit_failure_reported_witness:
  "smtp_send flaky_wire mail_config 0 sample_alert =
    (0, Some (Typed \<lparr>se_message = ''SMTP quit failed'', se_status = 0, se_retryable = True\<rparr>))"
proof -
  have "trim_space ''c@d'' = ''c@d''" by code_simp
  then have "buildEmail flaky_wire mail_config 0 sample_alert \<noteq> None"
    by (simp add: buildEmail_def flaky_wire_def kind_wire_def mail_config_def Let_def)
  then obtain message envelope recipients where mail: "buildEmail flaky_wire mail_config 0 sample_alert = Some (message, envelope, recipients)"
    by auto
  let ?script = "smtp_script mail_config message envelope recipients"
  have "Quit \<notin> fst ` set (butlast ?script)" by (auto simp: smtp_script_def butlast_append)
  then have "fst (?script ! k) \<noteq> Quit" if "k < length ?script - 1" for k
  proof -
    have "?script ! k \<in> set (butlast ?script)" using that by (metis length_butlast nth_butlast nth_mem)
    with \<open>Quit \<notin> fst ` set (butlast ?script)\<close> show ?thesis by force
  qed
  then have "\<forall>k<length ?script - 1. wr_smtp flaky_wire k (fst (?script ! k)) = SmtpOk" by (simp add: flaky_wire_def)
  from quit_failure_reported [OF mail this, of SmtpIO] show ?thesis
    by (simp add: flaky_wire_def classifySMTP_def)
qed

end
