(* ===== verification/RateLimit.thy ===== *)
theory RateLimit
  imports Schema
begin

text \<open>
  Replay protection and rate limits of \<open>internal/store/store.go\<close> (\<open>RecordRequest\<close>,
  \<open>RecordRateLimit\<close>, \<open>recordRateWindow\<close>) and the login window of \<open>admin_store.go\<close>
  (\<open>RecordAdminLoginAttempt\<close>). The locale \<open>rate_limiter\<close> is the contract the three share; the bound
  on accepted requests per minute is proved once in it.
\<close>

section \<open>Operations\<close>

definition minute_bucket :: "instant \<Rightarrow> int" where
  "minute_bucket now = go_quot (unix_seconds now) 60"

text \<open>\<open>recordRateWindow\<close>: the result is whether the limit is exceeded.\<close>

definition recordRateWindow :: "string \<Rightarrow> instant \<Rightarrow> int \<Rightarrow> db \<Rightarrow> bool \<times> db" where
  "recordRateWindow key now limit d =
     (let bucket = minute_bucket now;
          windows = delete_rows (\<lambda>r. rr_bucket r < bucket - 2) (rate_windows d);
          d1 = d\<lparr>rate_windows := windows\<rparr>
      in case query_row (\<lambda>r. rate_key r = (key, bucket)) windows of
           None \<Rightarrow>
             if limit < 1 then (True, d1)
             else (False, d1\<lparr>rate_windows := windows @ [\<lparr>rr_key = key, rr_bucket = bucket, rr_count = 1\<rparr>]\<rparr>)
         | Some r \<Rightarrow>
             if limit \<le> rr_count r then (True, d1)
             else (False, d1\<lparr>rate_windows :=
                    update_rows (\<lambda>r. rate_key r = (key, bucket)) (\<lambda>r. r\<lparr>rr_count := rr_count r + 1\<rparr>) windows\<rparr>))"

definition RecordRateLimit :: "string \<Rightarrow> instant \<Rightarrow> int \<Rightarrow> unit store_op" where
  "RecordRateLimit key now limit d =
     (let (exceeded, d1) = recordRateWindow key now limit d
      in if exceeded then (Inl ErrRateLimit, d1) else (Inr (), d1))"

text \<open>
  \<open>RecordRequest\<close>: a replay rolls the transaction back; a request over the limit commits, so its
  nonce is spent.
\<close>

definition RecordRequest ::
  "string \<Rightarrow> string \<Rightarrow> instant \<Rightarrow> instant \<Rightarrow> int \<Rightarrow> unit store_op" where
  "RecordRequest clientID nonce expiresAt now limit d =
     (let live = delete_rows (\<lambda>r. nr_expires r < unix_milli now) (nonces d)
      in case insert_row nonce_key
                \<lparr>nr_client = clientID, nr_nonce = nonce, nr_expires = unix_milli expiresAt\<rparr> live of
           None \<Rightarrow> (Inl ErrReplay, d)
         | Some stored \<Rightarrow>
             (let (exceeded, d1) = recordRateWindow (''hmac:'' @ clientID) now limit (d\<lparr>nonces := stored\<rparr>)
              in if exceeded then (Inl ErrRateLimit, d1) else (Inr (), d1)))"

definition RecordAdminLoginAttempt :: "instant \<Rightarrow> int \<Rightarrow> unit store_op" where
  "RecordAdminLoginAttempt now limit d =
     (let bucket = minute_bucket now;
          kept = delete_rows (\<lambda>r. lw_bucket r < bucket - 2) (admin_login_windows d);
          counted = upsert_row lw_bucket (\<lambda>old _. old\<lparr>lw_count := lw_count old + 1\<rparr>)
                      \<lparr>lw_bucket = bucket, lw_count = 1\<rparr> kept;
          d1 = d\<lparr>admin_login_windows := counted\<rparr>
      in case query_row (\<lambda>r. lw_bucket r = bucket) counted of
           None \<Rightarrow> (Inl ErrStorage, d)
         | Some r \<Rightarrow> if limit < lw_count r then (Inl ErrRateLimit, d1) else (Inr (), d1))"

section \<open>The contract of a rate limiter\<close>

text \<open>
  \<open>grant k q t l d\<close> handles one request of the principal \<open>k\<close> (with further data \<open>q\<close>) at time \<open>t\<close>
  under the limit \<open>l\<close>; \<open>used k b d\<close> is what the principal has used of minute \<open>b\<close>. The run of a list of
  requests counts the accepted ones of one principal in one minute.
\<close>

fun granted_run ::
  "('k \<Rightarrow> 'q \<Rightarrow> instant \<Rightarrow> int \<Rightarrow> db \<Rightarrow> bool \<times> db) \<Rightarrow> ('k \<times> 'q \<times> instant \<times> int) list \<Rightarrow> 'k \<Rightarrow> int \<Rightarrow> db \<Rightarrow> nat"
where
  "granted_run grant [] k b d = 0"
| "granted_run grant ((k', q, t, l) # rs) k b d =
     (let (ok, d1) = grant k' q t l d
      in (if ok \<and> k' = k \<and> minute_bucket t = b then 1 else 0) + granted_run grant rs k b d1)"

locale rate_limiter =
  fixes grant :: "'k \<Rightarrow> 'q \<Rightarrow> instant \<Rightarrow> int \<Rightarrow> db \<Rightarrow> bool \<times> db"
    and used :: "'k \<Rightarrow> int \<Rightarrow> db \<Rightarrow> int"
  assumes granted: "grant k q t l d = (True, d1) \<Longrightarrow>
      used k (minute_bucket t) d < l \<and> used k (minute_bucket t) d1 = used k (minute_bucket t) d + 1"
    and refused: "grant k q t l d = (False, d1) \<Longrightarrow>
      used k (minute_bucket t) d \<le> used k (minute_bucket t) d1"
    and others: "grant k q t l d = (ok, d1) \<Longrightarrow> k' \<noteq> k \<or> b \<noteq> minute_bucket t \<Longrightarrow>
      minute_bucket t - 2 \<le> b \<Longrightarrow> used k' b d1 = used k' b d"
begin

lemma granted_bound:
  assumes "sorted (map (\<lambda>(k', q, t, l'). minute_bucket t) rs)"
    and "\<forall>(k', q, t, l')\<in>set rs. k' = k \<longrightarrow> l' \<le> l"
  shows "int (granted_run grant rs k b d) \<le> max 0 (l - used k b d)"
  using assms
proof (induction rs arbitrary: d)
  case Nil
  then show ?case by simp
next
  case (Cons r rs)
  obtain k' q t l' where r: "r = (k', q, t, l')" by (cases r)
  obtain ok d1 where step: "grant k' q t l' d = (ok, d1)" by (cases "grant k' q t l' d")
  have IH: "int (granted_run grant rs k b d1) \<le> max 0 (l - used k b d1)"
    using Cons by simp
  show ?case
  proof (cases "minute_bucket t \<le> b")
    case before: True
    show ?thesis
    proof (cases "k' = k \<and> minute_bucket t = b")
      case hit: True
      then have "l' \<le> l" using Cons.prems(2) r by simp
      then show ?thesis
        using hit step IH granted [of k q t l' d d1] refused [of k q t l' d d1]
        by (cases ok) (auto simp: r max_def split: if_splits)
    next
      case False
      then have "used k b d1 = used k b d"
        using others [OF step, of k b] before by force
      then show ?thesis using False IH by (auto simp: r step)
    qed
  next
    case past: False
    have late: "\<forall>(k', q, t, l')\<in>set rs. minute_bucket t \<noteq> b"
      using Cons.prems(1) past r by fastforce
    have "granted_run grant xs k b d2 = 0"
      if "\<forall>(k', q, t, l')\<in>set xs. minute_bucket t \<noteq> b" for xs d2
      using that by (induction xs arbitrary: d2) (auto split: prod.splits)
    with late past show ?thesis by (simp add: r step)
  qed
qed

end

section \<open>The three limiters\<close>

definition rate_used :: "string \<Rightarrow> int \<Rightarrow> db \<Rightarrow> int" where
  "rate_used key bucket d =
     (case query_row (\<lambda>r. rate_key r = (key, bucket)) (rate_windows d) of
        None \<Rightarrow> 0 | Some r \<Rightarrow> rr_count r)"

definition login_used :: "unit \<Rightarrow> int \<Rightarrow> db \<Rightarrow> int" where
  "login_used u bucket d =
     (case query_row (\<lambda>r. lw_bucket r = bucket) (admin_login_windows d) of
        None \<Rightarrow> 0 | Some r \<Rightarrow> lw_count r)"

definition rate_grant :: "string \<Rightarrow> unit \<Rightarrow> instant \<Rightarrow> int \<Rightarrow> db \<Rightarrow> bool \<times> db" where
  "rate_grant key u now limit d =
     (let (res, d1) = RecordRateLimit key now limit d in (res = Inr (), d1))"

definition request_grant ::
  "string \<Rightarrow> string \<times> instant \<Rightarrow> instant \<Rightarrow> int \<Rightarrow> db \<Rightarrow> bool \<times> db" where
  "request_grant clientID q now limit d =
     (let (res, d1) = RecordRequest clientID (fst q) (snd q) now limit d in (res = Inr (), d1))"

definition login_grant :: "unit \<Rightarrow> unit \<Rightarrow> instant \<Rightarrow> int \<Rightarrow> db \<Rightarrow> bool \<times> db" where
  "login_grant u v now limit d =
     (let (res, d1) = RecordAdminLoginAttempt now limit d in (res = Inr (), d1))"

lemma rate_key_simps [simp]:
  "rate_key \<lparr>rr_key = k, rr_bucket = b, rr_count = n\<rparr> = (k, b)"
  "rate_key (r\<lparr>rr_count := m\<rparr>) = rate_key r"
  by (simp_all add: rate_key_def)

lemma nonce_key_simps [simp]: "nonce_key \<lparr>nr_client = c, nr_nonce = n, nr_expires = x\<rparr> = (c, n)"
  by (simp add: nonce_key_def)

lemma rate_used_delete:
  assumes "c - 2 \<le> b"
  shows "query_row (\<lambda>r. rate_key r = (k, b)) (delete_rows (\<lambda>r. rr_bucket r < c - 2) rows)
       = query_row (\<lambda>r. rate_key r = (k, b)) rows"
  using assms by (intro query_row_delete_other) (auto simp: rate_key_def)

text \<open>The effect of \<open>recordRateWindow\<close> on every counter that is not being discarded.\<close>

lemma recordRateWindow_used:
  assumes "recordRateWindow k t l d = (ex, d1)" and "minute_bucket t - 2 \<le> b"
  shows "rate_used k' b d1 =
      rate_used k' b d + (if \<not> ex \<and> k' = k \<and> b = minute_bucket t then 1 else 0)"
proof (cases "query_row (\<lambda>r. rate_key r = (k, minute_bucket t)) (rate_windows d)")
  case None
  then show ?thesis
    using assms
    by (auto simp: recordRateWindow_def Let_def rate_used_def rate_used_delete query_row_append
        split: if_splits option.splits)
next
  case (Some r)
  then show ?thesis
    using assms query_row_SomeD [of "\<lambda>r. rate_key r = (k', b)" "rate_windows d"]
    by (auto simp: recordRateWindow_def Let_def rate_used_def rate_used_delete
        query_row_update_key [where key = rate_key] split: if_splits option.splits)
qed

lemma recordRateWindow_limit:
  assumes "recordRateWindow k t l d = (False, d1)"
  shows "rate_used k (minute_bucket t) d < l"
  using assms
  by (auto simp: recordRateWindow_def Let_def rate_used_def rate_used_delete
      split: if_splits option.splits)

text \<open>The window touches no other table.\<close>

lemma recordRateWindow_frame:
  "recordRateWindow k t l d = (ex, d1) \<Longrightarrow> d1 = d\<lparr>rate_windows := rate_windows d1\<rparr>"
  by (auto simp: recordRateWindow_def Let_def split: if_splits option.splits)

lemma rate_used_nonces [simp]: "rate_used k b (d\<lparr>nonces := ns\<rparr>) = rate_used k b d"
  by (simp add: rate_used_def)

interpretation api: rate_limiter rate_grant rate_used
proof (unfold_locales, goal_cases)
  case (1 k q t l d d1)
  then show ?case
    using recordRateWindow_used [of k t l d False d1 "minute_bucket t" k] recordRateWindow_limit [of k t l d d1]
    by (auto simp: rate_grant_def RecordRateLimit_def Let_def split: prod.splits if_splits)
next
  case (2 k q t l d d1)
  then show ?case
    using recordRateWindow_used [of k t l d True d1 "minute_bucket t" k]
    by (auto simp: rate_grant_def RecordRateLimit_def Let_def split: prod.splits if_splits)
next
  case (3 k q t l d ok d1 k' b)
  then show ?case
    using recordRateWindow_used [of k t l d "\<not> ok" d1 b k']
    by (auto simp: rate_grant_def RecordRateLimit_def Let_def split: prod.splits if_splits)
qed

lemma request_grant_cases:
  assumes "request_grant k q t l d = (ok, d1)"
  obtains (replay) "\<not> ok" "d1 = d"
  | (recorded) ns where "recordRateWindow (''hmac:'' @ k) t l (d\<lparr>nonces := ns\<rparr>) = (\<not> ok, d1)"
  using assms
  by (auto simp: request_grant_def RecordRequest_def Let_def split: prod.splits if_splits option.splits)

interpretation hmac: rate_limiter request_grant "\<lambda>k. rate_used (''hmac:'' @ k)"
proof (unfold_locales, goal_cases)
  case (1 k q t l d d1)
  then show ?case
    by (elim request_grant_cases)
      (auto dest: recordRateWindow_limit recordRateWindow_used [where b = "minute_bucket t" and k' = "''hmac:'' @ k"])
next
  case (2 k q t l d d1)
  then show ?case
    by (elim request_grant_cases)
      (auto dest: recordRateWindow_used [where b = "minute_bucket t" and k' = "''hmac:'' @ k"])
next
  case (3 k q t l d ok d1 k' b)
  then show ?case
    by (elim request_grant_cases) (auto dest: recordRateWindow_used [where b = b and k' = "''hmac:'' @ k'"])
qed

lemma login_used_attempt:
  assumes "RecordAdminLoginAttempt t l d = (res, d1)" and "minute_bucket t - 2 \<le> b"
  shows "login_used u b d1 = login_used u b d + (if b = minute_bucket t then 1 else 0)
       \<and> (res = Inr () \<longleftrightarrow> login_used u (minute_bucket t) d < l)"
proof -
  let ?kept = "delete_rows (\<lambda>r. lw_bucket r < minute_bucket t - 2) (admin_login_windows d)"
  have kept: "query_row (\<lambda>r. lw_bucket r = c) ?kept = query_row (\<lambda>r. lw_bucket r = c) (admin_login_windows d)"
    if "minute_bucket t - 2 \<le> c" for c
    using that by (intro query_row_delete_other) auto
  have same: "query_row (\<lambda>r. lw_bucket r = lw_bucket n)
      (upsert_row lw_bucket (\<lambda>old _. old\<lparr>lw_count := lw_count old + 1\<rparr>) n rows)
    = Some (case query_row (\<lambda>r. lw_bucket r = lw_bucket n) rows of
        None \<Rightarrow> n | Some old \<Rightarrow> old\<lparr>lw_count := lw_count old + 1\<rparr>)" for n rows
    by (rule query_row_upsert_same) simp
  have other: "query_row (\<lambda>r. lw_bucket r = c)
      (upsert_row lw_bucket (\<lambda>old _. old\<lparr>lw_count := lw_count old + 1\<rparr>) n rows)
    = query_row (\<lambda>r. lw_bucket r = c) rows" if "c \<noteq> lw_bucket n" for n rows c
    using that by (intro query_row_upsert_other) simp_all
  show ?thesis
    using assms same [of "\<lparr>lw_bucket = minute_bucket t, lw_count = 1\<rparr>" ?kept]
    by (cases "b = minute_bucket t")
      (auto simp: RecordAdminLoginAttempt_def Let_def login_used_def kept other split: if_splits option.splits)
qed

interpretation login: rate_limiter login_grant login_used
proof (unfold_locales, goal_cases)
  case (1 k q t l d d1)
  then show ?case
    using login_used_attempt [of t l d "Inr ()" d1 "minute_bucket t" k]
    by (auto simp: login_grant_def Let_def split: prod.splits)
next
  case (2 k q t l d d1)
  then show ?case
    using login_used_attempt [of t l d _ d1 "minute_bucket t" k]
    by (fastforce simp: login_grant_def Let_def split: prod.splits)
next
  case (3 k q t l d ok d1 k' b)
  then show ?case
    using login_used_attempt [of t l d _ d1 b k']
    by (fastforce simp: login_grant_def Let_def split: prod.splits)
qed

section \<open>Nonces\<close>

definition nonce_live :: "string \<Rightarrow> string \<Rightarrow> instant \<Rightarrow> db \<Rightarrow> bool" where
  "nonce_live c n t d \<longleftrightarrow>
     (\<exists>r\<in>set (nonces d). nonce_key r = (c, n) \<and> unix_milli t \<le> nr_expires r)"

lemma nonce_live_mono: "nonce_live c n t d \<Longrightarrow> s \<le> t \<Longrightarrow> nonce_live c n s d"
  using unix_milli_mono [of s t] by (fastforce simp: nonce_live_def)

lemma RecordRequest_replay:
  assumes "nonce_live c n t d"
  shows "RecordRequest c n x t l d = (Inl ErrReplay, d)"
proof -
  have "(c, n) \<in> nonce_key ` set (delete_rows (\<lambda>r. nr_expires r < unix_milli t) (nonces d))"
    using assms by (force simp: nonce_live_def table_simps)
  then have "insert_row nonce_key \<lparr>nr_client = c, nr_nonce = n, nr_expires = unix_milli x\<rparr>
      (delete_rows (\<lambda>r. nr_expires r < unix_milli t) (nonces d)) = None"
    by (simp add: insert_row_None nonce_key_def)
  then show ?thesis by (simp add: RecordRequest_def Let_def)
qed

lemma RecordRequest_cases:
  assumes "RecordRequest c n x t l d = (res, d1)"
  obtains (replay) "res = Inl ErrReplay" "d1 = d"
  | (recorded) "res = Inr () \<or> res = Inl ErrRateLimit"
      "nonces d1 = delete_rows (\<lambda>r. nr_expires r < unix_milli t) (nonces d) @
         [\<lparr>nr_client = c, nr_nonce = n, nr_expires = unix_milli x\<rparr>]"
      "d1 = d\<lparr>nonces := nonces d1, rate_windows := rate_windows d1\<rparr>"
      "(c, n) \<notin> nonce_key ` set (delete_rows (\<lambda>r. nr_expires r < unix_milli t) (nonces d))"
proof (cases "insert_row nonce_key \<lparr>nr_client = c, nr_nonce = n, nr_expires = unix_milli x\<rparr>
    (delete_rows (\<lambda>r. nr_expires r < unix_milli t) (nonces d))")
  case None
  with assms replay show thesis by (simp add: RecordRequest_def Let_def)
next
  case (Some stored)
  obtain ex d2 where w: "recordRateWindow (''hmac:'' @ c) t l (d\<lparr>nonces := stored\<rparr>) = (ex, d2)"
    by (cases "recordRateWindow (''hmac:'' @ c) t l (d\<lparr>nonces := stored\<rparr>)")
  have d2: "d2 = d\<lparr>nonces := stored, rate_windows := rate_windows d2\<rparr>"
    using recordRateWindow_frame [OF w] by simp
  have "d1 = d2" and "res = Inr () \<or> res = Inl ErrRateLimit"
    using assms Some w by (auto simp: RecordRequest_def Let_def split: if_splits)
  moreover have "nonces d2 = stored" by (subst d2) simp
  ultimately show thesis using recorded Some d2 by (simp add: insert_row_Some)
qed

lemma RecordRequest_frame:
  assumes "RecordRequest c n x t l d = (res, d1)"
  shows "events d1 = events d" and "deliveries d1 = deliveries d" and "incidents d1 = incidents d"
    and "event_deliveries d1 = event_deliveries d" and "event_subscriptions d1 = event_subscriptions d"
proof -
  obtain ns ws where "d1 = d\<lparr>nonces := ns, rate_windows := ws\<rparr>"
    using assms by (cases rule: RecordRequest_cases) (metis db.surjective db.update_convs(1,2))+
  then show "events d1 = events d" and "deliveries d1 = deliveries d" and "incidents d1 = incidents d"
    and "event_deliveries d1 = event_deliveries d" and "event_subscriptions d1 = event_subscriptions d"
    by simp_all
qed

lemma RecordRequest_records:
  assumes "RecordRequest c n x t l d = (res, d1)" and "res \<noteq> Inl ErrReplay"
  shows "nonce_live c n x d1"
  using assms by (elim RecordRequest_cases) (auto simp: nonce_live_def)

lemma RecordRequest_keeps_live:
  assumes "RecordRequest c n x t l d = (res, d1)" and "nonce_live c' n' u d" and "t \<le> u"
  shows "nonce_live c' n' u d1"
  using assms unix_milli_mono [of t u]
  by (elim RecordRequest_cases) (fastforce simp: nonce_live_def table_simps)+

lemma RecordRequest_keyed:
  assumes "RecordRequest c n x t l d = (res, d1)" and "keyed nonce_key (nonces d)"
  shows "keyed nonce_key (nonces d1)"
  using assms by (elim RecordRequest_cases) auto

lemma recordRateWindow_keyed:
  assumes "recordRateWindow k t l d = (ex, d1)" and "keyed rate_key (rate_windows d)"
  shows "keyed rate_key (rate_windows d1)"
proof -
  let ?w = "delete_rows (\<lambda>r. rr_bucket r < minute_bucket t - 2) (rate_windows d)"
  have "keyed rate_key (update_rows P (\<lambda>r. r\<lparr>rr_count := rr_count r + 1\<rparr>) ?w)" for P
    using assms(2) by (intro keyed_update) auto
  then show ?thesis
    using assms
    by (auto simp: recordRateWindow_def Let_def query_row_None_key split: if_splits option.splits)
qed

section \<open>Properties\<close>

lemma recordRateWindow_exact:
  "fst (recordRateWindow key now limit d) \<longleftrightarrow> limit \<le> rate_used key (minute_bucket now) d"
proof -
  have same: "query_row (\<lambda>r. rate_key r = (key, minute_bucket now))
      (delete_rows (\<lambda>r. rr_bucket r < minute_bucket now - 2) (rate_windows d)) =
    query_row (\<lambda>r. rate_key r = (key, minute_bucket now)) (rate_windows d)"
    by (rule query_row_delete_other) (auto simp: rate_key_def)
  show ?thesis
    by (auto simp: recordRateWindow_def Let_def rate_used_def same split: option.splits)
qed

text \<open>
  C23. The limits hold, minute by minute. For signed requests, for bearer tokens (any rate key), and for
  administrator logins: in any sequence of calls whose minutes do not go backwards, the calls of one
  principal granted in one minute number at most the limit, less what it had used before; and a bearer or
  rate-keyed call is granted exactly when the principal is below the limit.
\<close>

theorem rate_limits_hold:
  assumes "sorted (map (\<lambda>(k', q, t, l'). minute_bucket t) requests)"
    and "\<forall>(k', q, t, l')\<in>set requests. k' = k \<longrightarrow> l' \<le> limit"
    and "sorted (map (\<lambda>(k', q, t, l'). minute_bucket t) calls)"
    and "\<forall>(k', q, t, l')\<in>set calls. k' = key \<longrightarrow> l' \<le> limit"
    and "sorted (map (\<lambda>(k', q, t, l'). minute_bucket t) logins)"
    and "\<forall>(k', q, t, l')\<in>set logins. l' \<le> limit"
  shows "int (granted_run request_grant requests k b d) \<le> max 0 (limit - rate_used (''hmac:'' @ k) b d) \<and>
    int (granted_run rate_grant calls key b d) \<le> max 0 (limit - rate_used key b d) \<and>
    int (granted_run login_grant logins () b d) \<le> max 0 (limit - login_used () b d) \<and>
    (fst (rate_grant key () now l d) \<longleftrightarrow> rate_used key (minute_bucket now) d < l)"
proof (intro conjI)
  show "int (granted_run request_grant requests k b d) \<le> max 0 (limit - rate_used (''hmac:'' @ k) b d)"
    by (rule hmac.granted_bound [OF assms(1,2)])
  show "int (granted_run rate_grant calls key b d) \<le> max 0 (limit - rate_used key b d)"
    by (rule api.granted_bound [OF assms(3,4)])
  have "\<forall>(k', q, t, l')\<in>set logins. k' = () \<longrightarrow> l' \<le> limit" using assms(6) by auto
  then show "int (granted_run login_grant logins () b d) \<le> max 0 (limit - login_used () b d)"
    by (rule login.granted_bound [OF assms(5)])
  show "fst (rate_grant key () now l d) \<longleftrightarrow> rate_used key (minute_bucket now) d < l"
    using recordRateWindow_exact [of key now l d]
    by (auto simp: rate_grant_def RecordRateLimit_def Let_def split: prod.splits)
qed

theorem rate_limits_hold_witness:
  "int (granted_run rate_grant (map (\<lambda>i. (''bearer:t'', (), int i * second, 2)) [0..<5]) ''bearer:t'' 0 empty_db) \<le> 2"
proof -
  let ?calls = "map (\<lambda>i. (''bearer:t'', (), int i * second, 2 :: int)) [0..<5]"
  have "sorted (map (\<lambda>(k', q, t, l'). minute_bucket t) ?calls)" by code_simp
  moreover have "\<forall>(k', q, t, l')\<in>set ?calls. k' = ''bearer:t'' \<longrightarrow> l' \<le> 2" by simp
  ultimately have "int (granted_run rate_grant ?calls ''bearer:t'' 0 empty_db) \<le> max 0 (2 - rate_used ''bearer:t'' 0 empty_db)"
    using rate_limits_hold [of "[]" _ 2 ?calls "''bearer:t''" "[]"] by simp
  then show ?thesis by (simp add: rate_used_def empty_db_def)
qed

text \<open>A sequence of signed requests: client, nonce, expiry of the nonce, time, limit.\<close>

definition requests_db :: "(string \<times> string \<times> instant \<times> instant \<times> int) list \<Rightarrow> db \<Rightarrow> db" where
  "requests_db rs d = fold (\<lambda>(c, n, x, t, l) d. snd (RecordRequest c n x t l d)) rs d"

lemma requests_db_keeps_live:
  "nonce_live c n u d \<Longrightarrow> \<forall>(c', n', x, t, l)\<in>set rs. t \<le> u \<Longrightarrow> nonce_live c n u (requests_db rs d)"
proof (induction rs arbitrary: d)
  case (Cons r rs)
  obtain c' n' x t l where r: "r = (c', n', x, t, l)" by (cases r)
  obtain res d1 where step: "RecordRequest c' n' x t l d = (res, d1)" by (cases "RecordRequest c' n' x t l d")
  have "nonce_live c n u d1" using RecordRequest_keeps_live [OF step Cons.prems(1)] Cons.prems(2) r by simp
  then show ?case using Cons r step by (simp add: requests_db_def)
qed (simp add: requests_db_def)

text \<open>
  A nonce is spent once. After a call with some nonce has been recorded, granted or refused for its
  rate, every call of the same client with the same nonce up to the expiry is a replay, however many other
  requests come in between at times up to the expiry, and it changes nothing: a rate limit cannot be used to try
  the same nonce again.
\<close>

theorem nonce_single_use:
  assumes "RecordRequest c n expiry t l d = (res, d1)" and "res \<noteq> Inl ErrReplay"
    and "\<forall>(c', n', x', t', l')\<in>set between. t' \<le> expiry" and "later \<le> expiry"
  shows "RecordRequest c n expiry' later l' (requests_db between d1) = (Inl ErrReplay, requests_db between d1)"
proof (rule RecordRequest_replay)
  have "nonce_live c n expiry d1" by (rule RecordRequest_records [OF assms(1,2)])
  then have "nonce_live c n expiry (requests_db between d1)" by (rule requests_db_keeps_live [OF _ assms(3)])
  then show "nonce_live c n later (requests_db between d1)" using assms(4) by (rule nonce_live_mono)
qed

theorem nonce_single_use_witness:
  "fst (RecordRequest ''c'' ''nonce-01'' (700 * second) (599 * second) 9
     (requests_db [(''c'', ''nonce-02'', 900 * second, 300 * second, 9)]
       (snd (RecordRequest ''c'' ''nonce-01'' (600 * second) 0 0 empty_db)))) = Inl ErrReplay"
proof -
  let ?out = "RecordRequest ''c'' ''nonce-01'' (600 * second) 0 0 empty_db"
  have "fst ?out = Inl ErrRateLimit" by code_simp
  then have run: "?out = (Inl ErrRateLimit, snd ?out)" by (metis prod.collapse)
  show ?thesis
    using nonce_single_use [OF run, of "[(''c'', ''nonce-02'', 900 * second, 300 * second, 9)]" "599 * second" "700 * second" 9]
    by simp
qed

end
