(* ===== verification/StoreSystem.thy ===== *)
theory StoreSystem
  imports RateLimit ConfigTables Delivery
begin

text \<open>
  The database as a transition system: one rule per writing operation of \<open>internal/store\<close>. The invariants of the
  tables, proved operation by operation elsewhere, hold in every reachable database, and every delivery moves only
  along the edges of its life.
\<close>

section \<open>Steps\<close>

text \<open>What every stored alert keeps of the event contract.\<close>

definition typed_alert :: "event \<Rightarrow> bool" where
  "typed_alert e \<longleftrightarrow> well_formed_identifier 64 (Source e) \<and> well_formed_identifier 64 (RoutingKey e) \<and>
     known_status (Status e) \<and> known_severity (Severity e)"

inductive store_step :: "db \<Rightarrow> db \<Rightarrow> bool" where
  rate: "store_step d (snd (RecordRateLimit key now limit d))"
| request: "store_step d (snd (RecordRequest client nonce expires now limit d))"
| attempt: "store_step d (snd (RecordAdminLoginAttempt now limit d))"
| accept: "typed_alert (Event p) \<Longrightarrow> store_step d (snd (AcceptEvent ids p d))"
| claim: "store_step d (snd (ClaimDelivery choice now lease d))"
| success: "store_step d (snd (CompleteSuccess i code t d))"
| failure: "store_step d (snd (CompleteFailure i n t msg code dead d))"
| retry: "store_step d (snd (RetryDeadDelivery i now d))"
| prune: "store_step d (snd (Prune before d))"
| authorization: "store_step d (snd (SaveOAuthCode hash challenge redirect resource policy now d))"
| exchange: "store_step d (snd (ExchangeOAuthCode hash challenge redirect resource policy i access refresh now d))"
| rotate: "store_step d (snd (RotateOAuthRefresh old policy access refresh now d))"
| revoke: "store_step d (snd (RevokeOAuthToken hash d))"
| revoke_all: "store_step d (snd (RevokeAllOAuth d))"
| subscription: "store_step d (snd (SaveEventSubscription s now d))"
| unsubscription: "store_step d (snd (RemoveEventSubscription i owner d))"
| prune_subscriptions: "store_step d (snd (PruneEventSubscriptions now d))"
| credential: "store_step d (snd (InitializeAdminCredential name hash now d))"
| client: "store_step d (snd (UpsertClient cl now d))"
| no_client: "store_step d (snd (DeleteClient i d))"
| token: "store_step d (snd (UpsertIngressToken tk now d))"
| no_token: "store_step d (snd (DeleteIngressToken i d))"
| channel: "store_step d (snd (UpsertChannel ch now d))"
| no_channel: "store_step d (snd (DeleteChannel i d))"
| route: "store_step d (snd (ReplaceRoute key severity channels now d))"
| no_route: "store_step d (snd (DeleteRoute key severity d))"
| silence: "store_step d (snd (CreateSilence newID si now d))"
| no_silence: "store_step d (snd (DeleteSilence i d))"
| session: "store_step d (snd (CreateAdminSession h csrf e now d))"
| no_session: "store_step d (snd (DeleteAdminSession h d))"

inductive_cases store_stepE: "store_step d d'"

abbreviation store_runs :: "db \<Rightarrow> db \<Rightarrow> bool" where "store_runs \<equiv> store_step\<^sup>*\<^sup>*"

section \<open>Tables\<close>

lemmas op_defs = RecordRateLimit_def RecordRequest_def recordRateWindow_def RecordAdminLoginAttempt_def
  ClaimDelivery_def CompleteSuccess_def CompleteFailure_def requireOne_def RetryDeadDelivery_def Prune_def
  SaveOAuthCode_def ExchangeOAuthCode_def RotateOAuthRefresh_def RevokeOAuthToken_def RevokeAllOAuth_def delete_grants_def
  SaveEventSubscription_def RemoveEventSubscription_def PruneEventSubscriptions_def InitializeAdminCredential_def
  UpsertClient_def DeleteClient_def UpsertIngressToken_def DeleteIngressToken_def UpsertChannel_def DeleteChannel_def
  ReplaceRoute_def DeleteRoute_def CreateSilence_def DeleteSilence_def CreateAdminSession_def DeleteAdminSession_def

definition queue_tables where "queue_tables d = (events d, deliveries d, incidents d, event_deliveries d)"

definition oauth_tables where "oauth_tables d = (oauth_codes d, oauth_grants d, oauth_used_refresh d)"

definition config_tables where
  "config_tables d = (gateway_clients d, ingress_tokens d, notification_channels d, route_rules d, silences d)"

text \<open>Accepting an alert writes the queue's tables only.\<close>

lemma accept_frame:
  "\<exists>i ev dl ed. snd (AcceptEvent ids p d) = d\<lparr>incidents := i, events := ev, deliveries := dl, event_deliveries := ed\<rparr>"
proof -
  obtain res d' where run: "AcceptEvent ids p d = (res, d')" by fastforce
  then have "\<exists>i ev dl ed. d' = d\<lparr>incidents := i, events := ev, deliveries := dl, event_deliveries := ed\<rparr>"
  proof (cases rule: AcceptEvent_cases)
    case (queued reason0 started act recordID rows)
    then obtain rows' gens where "d' = d\<lparr>incidents := apply_action act p (incidents d),
        events := events d @ [event_row_of recordID p OutcomeQueued started], deliveries := rows', event_deliveries := gens\<rparr>"
      by (auto simp: enqueueEventSubscriptions_def split: option.splits)
    then show ?thesis by blast
  qed (metis db.surjective db.update_convs(3,4,5,18))+
  with run show ?thesis by simp
qed

lemma queue_same [simp]:
  "queue_tables (snd (RecordRateLimit key now limit d)) = queue_tables d"
  "queue_tables (snd (RecordRequest client nonce expires now limit d)) = queue_tables d"
  "queue_tables (snd (RecordAdminLoginAttempt now limit d)) = queue_tables d"
  "queue_tables (snd (SaveOAuthCode hash challenge redirect resource policy now d)) = queue_tables d"
  "queue_tables (snd (ExchangeOAuthCode hash challenge redirect resource policy i access refresh now d)) = queue_tables d"
  "queue_tables (snd (RotateOAuthRefresh old policy access refresh now d)) = queue_tables d"
  "queue_tables (snd (RevokeOAuthToken hash d)) = queue_tables d"
  "queue_tables (snd (RevokeAllOAuth d)) = queue_tables d"
  "queue_tables (snd (SaveEventSubscription s now d)) = queue_tables d"
  "queue_tables (snd (RemoveEventSubscription i owner d)) = queue_tables d"
  "queue_tables (snd (PruneEventSubscriptions now d)) = queue_tables d"
  "queue_tables (snd (InitializeAdminCredential name hash now d)) = queue_tables d"
  "queue_tables (snd (UpsertClient cl now d)) = queue_tables d"
  "queue_tables (snd (DeleteClient i d)) = queue_tables d"
  "queue_tables (snd (UpsertIngressToken tk now d)) = queue_tables d"
  "queue_tables (snd (DeleteIngressToken i d)) = queue_tables d"
  "queue_tables (snd (UpsertChannel ch now d)) = queue_tables d"
  "queue_tables (snd (DeleteChannel i d)) = queue_tables d"
  "queue_tables (snd (ReplaceRoute key severity channels now d)) = queue_tables d"
  "queue_tables (snd (DeleteRoute key severity d)) = queue_tables d"
  "queue_tables (snd (CreateSilence newID si now d)) = queue_tables d"
  "queue_tables (snd (DeleteSilence i d)) = queue_tables d"
  "queue_tables (snd (CreateAdminSession h csrf e now d)) = queue_tables d"
  "queue_tables (snd (DeleteAdminSession h d)) = queue_tables d"
  by (auto simp: queue_tables_def op_defs Let_def split: option.split prod.split)

lemma oauth_same [simp]:
  "oauth_tables (snd (RecordRateLimit key now limit d)) = oauth_tables d"
  "oauth_tables (snd (RecordRequest client nonce expires now limit d)) = oauth_tables d"
  "oauth_tables (snd (RecordAdminLoginAttempt now limit d)) = oauth_tables d"
  "oauth_tables (snd (ClaimDelivery choice now lease d)) = oauth_tables d"
  "oauth_tables (snd (CompleteSuccess i code t d)) = oauth_tables d"
  "oauth_tables (snd (CompleteFailure i n t msg code dead d)) = oauth_tables d"
  "oauth_tables (snd (RetryDeadDelivery i now d)) = oauth_tables d"
  "oauth_tables (snd (Prune before d)) = oauth_tables d"
  "oauth_tables (snd (SaveEventSubscription s now d)) = oauth_tables d"
  "oauth_tables (snd (RemoveEventSubscription i owner d)) = oauth_tables d"
  "oauth_tables (snd (PruneEventSubscriptions now d)) = oauth_tables d"
  "oauth_tables (snd (InitializeAdminCredential name hash now d)) = oauth_tables d"
  "oauth_tables (snd (UpsertClient cl now d)) = oauth_tables d"
  "oauth_tables (snd (DeleteClient i d)) = oauth_tables d"
  "oauth_tables (snd (UpsertIngressToken tk now d)) = oauth_tables d"
  "oauth_tables (snd (DeleteIngressToken i d)) = oauth_tables d"
  "oauth_tables (snd (UpsertChannel ch now d)) = oauth_tables d"
  "oauth_tables (snd (DeleteChannel i d)) = oauth_tables d"
  "oauth_tables (snd (ReplaceRoute key severity channels now d)) = oauth_tables d"
  "oauth_tables (snd (DeleteRoute key severity d)) = oauth_tables d"
  "oauth_tables (snd (CreateSilence newID si now d)) = oauth_tables d"
  "oauth_tables (snd (DeleteSilence i d)) = oauth_tables d"
  "oauth_tables (snd (CreateAdminSession h csrf e now d)) = oauth_tables d"
  "oauth_tables (snd (DeleteAdminSession h d)) = oauth_tables d"
  by (auto simp: oauth_tables_def op_defs Let_def split: option.split prod.split)

lemma oauth_same_accept [simp]: "oauth_tables (snd (AcceptEvent ids p d)) = oauth_tables d"
  using accept_frame [of ids p d] by (auto simp: oauth_tables_def)

lemma config_same [simp]:
  "config_tables (snd (RecordRateLimit key now limit d)) = config_tables d"
  "config_tables (snd (RecordRequest client nonce expires now limit d)) = config_tables d"
  "config_tables (snd (RecordAdminLoginAttempt now limit d)) = config_tables d"
  "config_tables (snd (ClaimDelivery choice now lease d)) = config_tables d"
  "config_tables (snd (CompleteSuccess i code t d)) = config_tables d"
  "config_tables (snd (CompleteFailure i n t msg code dead d)) = config_tables d"
  "config_tables (snd (RetryDeadDelivery i now d)) = config_tables d"
  "config_tables (snd (Prune before d)) = config_tables d"
  "config_tables (snd (SaveOAuthCode hash challenge redirect resource policy now d)) = config_tables d"
  "config_tables (snd (ExchangeOAuthCode hash challenge redirect resource policy i access refresh now d)) = config_tables d"
  "config_tables (snd (RotateOAuthRefresh old policy access refresh now d)) = config_tables d"
  "config_tables (snd (RevokeOAuthToken hash d)) = config_tables d"
  "config_tables (snd (RevokeAllOAuth d)) = config_tables d"
  "config_tables (snd (SaveEventSubscription s now d)) = config_tables d"
  "config_tables (snd (RemoveEventSubscription i owner d)) = config_tables d"
  "config_tables (snd (PruneEventSubscriptions now d)) = config_tables d"
  "config_tables (snd (InitializeAdminCredential name hash now d)) = config_tables d"
  "config_tables (snd (CreateAdminSession h csrf e now d)) = config_tables d"
  "config_tables (snd (DeleteAdminSession h d)) = config_tables d"
  by (auto simp: config_tables_def op_defs Let_def split: option.split prod.split)

lemma config_same_accept [simp]: "config_tables (snd (AcceptEvent ids p d)) = config_tables d"
  using accept_frame [of ids p d] by (auto simp: config_tables_def)

lemma subs_same [simp]:
  "event_subscriptions (snd (RecordRateLimit key now limit d)) = event_subscriptions d"
  "event_subscriptions (snd (RecordRequest client nonce expires now limit d)) = event_subscriptions d"
  "event_subscriptions (snd (RecordAdminLoginAttempt now limit d)) = event_subscriptions d"
  "event_subscriptions (snd (ClaimDelivery choice now lease d)) = event_subscriptions d"
  "event_subscriptions (snd (CompleteSuccess i code t d)) = event_subscriptions d"
  "event_subscriptions (snd (CompleteFailure i n t msg code dead d)) = event_subscriptions d"
  "event_subscriptions (snd (RetryDeadDelivery i now d)) = event_subscriptions d"
  "event_subscriptions (snd (Prune before d)) = event_subscriptions d"
  "event_subscriptions (snd (SaveOAuthCode hash challenge redirect resource policy now d)) = event_subscriptions d"
  "event_subscriptions (snd (ExchangeOAuthCode hash challenge redirect resource policy i access refresh now d)) = event_subscriptions d"
  "event_subscriptions (snd (RotateOAuthRefresh old policy access refresh now d)) = event_subscriptions d"
  "event_subscriptions (snd (RevokeOAuthToken hash d)) = event_subscriptions d"
  "event_subscriptions (snd (RevokeAllOAuth d)) = event_subscriptions d"
  "event_subscriptions (snd (InitializeAdminCredential name hash now d)) = event_subscriptions d"
  "event_subscriptions (snd (UpsertClient cl now d)) = event_subscriptions d"
  "event_subscriptions (snd (DeleteClient i d)) = event_subscriptions d"
  "event_subscriptions (snd (UpsertIngressToken tk now d)) = event_subscriptions d"
  "event_subscriptions (snd (DeleteIngressToken i d)) = event_subscriptions d"
  "event_subscriptions (snd (UpsertChannel ch now d)) = event_subscriptions d"
  "event_subscriptions (snd (DeleteChannel i d)) = event_subscriptions d"
  "event_subscriptions (snd (ReplaceRoute key severity channels now d)) = event_subscriptions d"
  "event_subscriptions (snd (DeleteRoute key severity d)) = event_subscriptions d"
  "event_subscriptions (snd (CreateSilence newID si now d)) = event_subscriptions d"
  "event_subscriptions (snd (DeleteSilence i d)) = event_subscriptions d"
  "event_subscriptions (snd (CreateAdminSession h csrf e now d)) = event_subscriptions d"
  "event_subscriptions (snd (DeleteAdminSession h d)) = event_subscriptions d"
  by (auto simp: op_defs Let_def split: option.split prod.split)

lemma subs_same_accept [simp]: "event_subscriptions (snd (AcceptEvent ids p d)) = event_subscriptions d"
  using accept_frame [of ids p d] by auto

section \<open>Invariants\<close>

definition typed_row :: "event_row \<Rightarrow> bool" where
  "typed_row e \<longleftrightarrow> well_formed_identifier 64 (ev_source e) \<and> well_formed_identifier 64 (ev_route e) \<and>
     known_status (ev_status e) \<and> known_severity (ev_severity e)"

definition store_ok :: "db \<Rightarrow> bool" where
  "store_ok d \<longleftrightarrow> queue_integrity d \<and> oauth_integrity d \<and> config_integrity d \<and> subscription_limits d \<and>
     (\<forall>e\<in>set (events d). typed_row e)"

lemma queue_integrity_tables: "queue_tables d' = queue_tables d \<Longrightarrow> queue_integrity d' = queue_integrity d"
  by (simp add: queue_tables_def queue_integrity_def)

lemma oauth_integrity_tables: "oauth_tables d' = oauth_tables d \<Longrightarrow> oauth_integrity d' = oauth_integrity d"
  by (simp add: oauth_tables_def oauth_integrity_def)

lemma config_integrity_tables: "config_tables d' = config_tables d \<Longrightarrow> config_integrity d' = config_integrity d"
  by (simp add: config_tables_def config_integrity_def routes_integrity_def)

lemma subscription_limits_tables: "event_subscriptions d' = event_subscriptions d \<Longrightarrow> subscription_limits d' = subscription_limits d"
  by (simp add: subscription_limits_def)

lemmas kept = queue_same [THEN queue_integrity_tables] oauth_same [THEN oauth_integrity_tables]
  oauth_same_accept [THEN oauth_integrity_tables] config_same [THEN config_integrity_tables]
  config_same_accept [THEN config_integrity_tables] subs_same [THEN subscription_limits_tables]
  subs_same_accept [THEN subscription_limits_tables]

lemma step_queue: "store_step d d' \<Longrightarrow> queue_integrity d \<Longrightarrow> queue_integrity d'"
proof (induction rule: store_step.induct)
  case (accept p d ids)
  then show ?case using AcceptEvent_integrity [of d ids p] by (cases "AcceptEvent ids p d") simp
qed (simp_all add: kept ClaimDelivery_integrity Complete_integrity RetryDeadDelivery_integrity Prune_integrity)

lemma step_oauth: "store_step d d' \<Longrightarrow> oauth_integrity d \<Longrightarrow> oauth_integrity d'"
  by (induction rule: store_step.induct)
    (simp_all add: kept SaveOAuthCode_integrity ExchangeOAuthCode_integrity RotateOAuthRefresh_integrity Revoke_integrity)

lemma step_config: "store_step d d' \<Longrightarrow> config_integrity d \<Longrightarrow> config_integrity d'"
  by (induction rule: store_step.induct) (simp_all add: kept config_writes)

lemma removed_subscriptions: "subscription_limits d \<Longrightarrow> subscription_limits (snd (RemoveEventSubscription i owner d))"
    "subscription_limits d \<Longrightarrow> subscription_limits (snd (PruneEventSubscriptions now d))"
  by (simp_all add: RemoveEventSubscription_def PruneEventSubscriptions_def subscription_limits_delete)

lemma step_limits: "store_step d d' \<Longrightarrow> subscription_limits d \<Longrightarrow> subscription_limits d'"
  by (induction rule: store_step.induct)
    (simp_all add: kept subscription_limits_kept removed_subscriptions)

lemma accept_events:
  assumes "e \<in> set (events (snd (AcceptEvent ids p d)))"
  shows "e \<in> set (events d) \<or> (\<exists>i oc started. e = event_row_of i p oc started)"
proof -
  obtain res d' where run: "AcceptEvent ids p d = (res, d')" by fastforce
  from run have "\<exists>i oc started. set (events d') \<subseteq> insert (event_row_of i p oc started) (set (events d))"
  proof (cases rule: AcceptEvent_cases)
    case (queued reason0 started act recordID rows)
    then show ?thesis
      by (intro exI [of _ recordID] exI [of _ OutcomeQueued] exI [of _ started])
        (auto simp: enqueueEventSubscriptions_def split: option.splits)
  qed auto
  then show ?thesis using assms run by auto
qed

lemma events_of_tables: "queue_tables d' = queue_tables d \<Longrightarrow> events d' = events d"
  by (simp add: queue_tables_def)

lemma queue_events [simp]:
  "events (snd (ClaimDelivery choice now lease d)) = events d" "events (snd (CompleteSuccess i code t d)) = events d"
  "events (snd (CompleteFailure i n t msg code dead d)) = events d" "events (snd (RetryDeadDelivery i now d)) = events d"
  "events (snd (Prune before d)) = delete_rows (prunable before d) (events d)"
  by (auto simp: op_defs Let_def split: option.split)

lemma step_typed: "store_step d d' \<Longrightarrow> \<forall>e\<in>set (events d). typed_row e \<Longrightarrow> \<forall>e\<in>set (events d'). typed_row e"
proof (induction rule: store_step.induct)
  case (accept p d ids)
  then show ?case
    using accept_events [of _ ids p d] by (fastforce simp: typed_alert_def typed_row_def event_row_of_def Let_def)
qed (simp_all add: queue_same [THEN events_of_tables] set_delete_rows)

lemma store_ok_empty: "store_ok empty_db"
  by (simp add: store_ok_def) (simp add: empty_db_def)

lemma runs_ok: "store_runs d d' \<Longrightarrow> store_ok d \<Longrightarrow> store_ok d'"
  by (induction rule: rtranclp_induct) (auto simp: store_ok_def dest: step_queue step_oauth step_config step_limits step_typed)

section \<open>The lives of the deliveries\<close>

lemma lives_of_tables: "queue_tables d' = queue_tables d \<Longrightarrow> lives d d'"
  by (simp add: queue_tables_def lives_frame)

lemma step_lives: "store_step d d' \<Longrightarrow> queue_integrity d \<Longrightarrow> lives d d'"
proof (induction rule: store_step.induct)
  case (accept p d ids)
  then show ?case using AcceptEvent_lives [of ids p d] by (cases "AcceptEvent ids p d") simp
qed (simp_all add: queue_same [THEN lives_of_tables] ClaimDelivery_lives Complete_lives RetryDeadDelivery_lives Prune_lives)

lemma runs_lives:
  assumes "store_runs d d'" and "store_ok d"
  shows "life_step\<^sup>*\<^sup>* (delivery_state i d) (delivery_state i d')"
  using assms(1)
proof (induction rule: rtranclp_induct)
  case (step d1 d2)
  have "store_ok d1" using runs_ok [OF step(1) assms(2)] .
  then have "lives d1 d2" using step_lives step(2) by (simp add: store_ok_def)
  then have "life_step\<^sup>=\<^sup>= (delivery_state i d1) (delivery_state i d2)" by (simp add: lives_def)
  with step(3) show ?case by (auto intro: rtranclp.rtrancl_into_rtrancl)
qed simp

end
