(* ===== verification/AdminSession.thy ===== *)
theory AdminSession
  imports Gateway PasswordHash OAuthStore RateLimit
begin

text \<open>
  \<open>internal/admin/admin.go\<close>, first part: requests and responses of the administration pages, the sessions
  behind them, and the password login. The templates and the pictures are not modelled: a page is the data
  its template gets. Form and URL decoding, the time formats and the address functions of the standard
  library are the fields of \<open>web\<close>; \<open>fault k\<close> says that the \<open>k\<close>-th database call of a request fails.
\<close>

section \<open>Requests and responses\<close>

type_synonym form_values = "(string \<times> string list) list"

record admin_request =
  aq_method :: string
  aq_path :: string
  aq_raw_query :: string
  aq_content_type :: string
  aq_cookie :: "string option"
  aq_oidc_cookie :: "string option"
  aq_host :: string
  aq_tls :: bool
  aq_forwarded_proto :: string
  aq_body :: "string option"

text \<open>
  \<open>wb_query\<close> is what \<open>url.ParseQuery\<close> reads of a text, \<open>wb_query_ok\<close> whether it reports no error; the text of
  a parsed URL is \<open>wb_url_text\<close>. A time zone is its name.
\<close>

record web =
  wb_media_type :: "string \<Rightarrow> string option"
  wb_query :: "string \<Rightarrow> form_values"
  wb_query_ok :: "string \<Rightarrow> bool"
  wb_parse_url :: url_parser
  wb_url_text :: "string \<Rightarrow> string"
  wb_split_host_port :: "string \<Rightarrow> (string \<times> string) option"
  wb_is_ip :: "string \<Rightarrow> bool"
  wb_parse_time :: "string \<Rightarrow> string \<Rightarrow> instant option"
  wb_format_time :: "string \<Rightarrow> instant \<Rightarrow> string"

text \<open>The fixed texts of the pages.\<close>

datatype admin_text =
    NoText | InvalidFormat | SecurityCheckFailed | FallbackDisabled | TooManyAttempts | ServiceUnavailable
  | LoginCancelled | BadCredentials | NoSessionCreated | RevocationFailed | IdentityNotAuthorised

record admin_cookie =
  ck_name :: string
  ck_value :: string
  ck_path :: string
  ck_max_age :: int
  ck_secure :: bool
  ck_http_only :: bool
  ck_same_site_strict :: bool

text \<open>\<open>pageData\<close>, common part: \<open>pg_Notice\<close> is whether the notice is shown.\<close>

record page_head =
  pg_CSRF :: string
  pg_Notice :: bool
  pg_Error :: string

datatype secret_kind = ClientSecret | TokenSecret

record guide_data =
  gd_ClientID :: string
  gd_ClientEnabled :: bool
  gd_Routes :: "string list"
  gd_Route :: string
  gd_Severity :: string
  gd_RouteConfigured :: bool

datatype admin_content =
    Redirect string
  | PlainText string
  | Asset string
  | LoginPage admin_text string
  | ErrorPage admin_text
  | DashboardPage page_head dashboard_stats
  | ClientsPage page_head "client_view list" "token_view list" "route_view list" "string list"
  | SecretPage string secret_kind string string
  | ChannelsPage page_head "channel_view list" "channel_input option"
  | RoutesPage page_head "route_view list" "channel_view list" "string list"
  | SilencesPage page_head "silence_row list" "route_view list" "string list" string
  | DeliveriesPage page_head "delivery_view list" string int int
  | GuidePage page_head string "client_view list" "route_view list" guide_data

record admin_response =
  ah_status :: int
  ah_headers :: "(string \<times> string) list"
  ah_cookies :: "admin_cookie list"
  ah_content :: admin_content

definition respond :: "int \<Rightarrow> admin_content \<Rightarrow> admin_response" where
  "respond status content = \<lparr>ah_status = status, ah_headers = [], ah_cookies = [], ah_content = content\<rparr>"

definition redirect :: "string \<Rightarrow> admin_response" where
  "redirect target = respond 303 (Redirect target)"

definition render :: "int \<Rightarrow> admin_content \<Rightarrow> admin_response" where
  "render status content = (respond status content)\<lparr>ah_headers :=
     [(''Cache-Control'', ''no-store''), (''Referrer-Policy'', ''no-referrer''), (''Content-Type'', ''text/html; charset=utf-8'')]\<rparr>"

definition renderError :: "int \<Rightarrow> admin_text \<Rightarrow> admin_response" where
  "renderError status message = render status (ErrorPage message)"

definition admin_not_allowed :: "string \<Rightarrow> admin_response" where
  "admin_not_allowed allow = (respond 405 (PlainText ''method not allowed''))\<lparr>ah_headers := [(''Allow'', allow)]\<rparr>"

definition not_found_page :: admin_response where
  "not_found_page = respond 404 (PlainText ''404 page not found'')"

text \<open>The failure notice of the redirects, as \<open>url.QueryEscape\<close> writes it.\<close>

definition failure_notice :: string where
  "failure_notice = ''%E6%93%8D%E4%BD%9C%E5%A4%B1%E8%B4%A5%EF%BC%8C%E8%AF%B7%E6%A3%80%E6%9F%A5%E8%BE%93%E5%85%A5%E5%92%8C%E5%BD%93%E5%89%8D%E7%8A%B6%E6%80%81''"

definition redirectFailure :: "string \<Rightarrow> admin_response" where
  "redirectFailure path =
     redirect (path @ (if CHR ''?'' \<in> set path then ''&'' else ''?'') @ ''error='' @ failure_notice)"

section \<open>Forms\<close>

definition value_of :: "form_values \<Rightarrow> string \<Rightarrow> string" where
  "value_of vs key = (case map_of vs key of Some (v # _) \<Rightarrow> v | _ \<Rightarrow> [])"

definition values_at :: "form_values \<Rightarrow> string \<Rightarrow> string list" where
  "values_at vs key = (case map_of vs key of None \<Rightarrow> [] | Some ws \<Rightarrow> ws)"

definition query_value :: "web \<Rightarrow> admin_request \<Rightarrow> string \<Rightarrow> string" where
  "query_value wb rq key = value_of (wb_query wb (aq_raw_query rq)) key"

text \<open>\<open>r.Form\<close> after \<open>ParseForm\<close>: the values of the body before those of the URL.\<close>

definition merge_values :: "form_values \<Rightarrow> form_values \<Rightarrow> form_values" where
  "merge_values body url =
     map (\<lambda>(k, ws). (k, ws @ values_at url k)) body @ filter (\<lambda>(k, _). map_of body k = None) url"

definition form_type :: "web \<Rightarrow> admin_request \<Rightarrow> bool" where
  "form_type wb rq \<longleftrightarrow> wb_media_type wb (aq_content_type rq) = Some ''application/x-www-form-urlencoded''"

text \<open>The form and the form of the body alone; \<open>None\<close> for any error.\<close>

definition parseForm :: "web \<Rightarrow> admin_request \<Rightarrow> (form_values \<times> form_values) option" where
  "parseForm wb rq =
     (if \<not> form_type wb rq then None
      else case aq_body rq of None \<Rightarrow> None
      | Some body \<Rightarrow>
          if 64 * 1024 < length body \<or> \<not> wb_query_ok wb body \<or> \<not> wb_query_ok wb (aq_raw_query rq) then None
          else Some (merge_values (wb_query wb body) (wb_query wb (aq_raw_query rq)), wb_query wb body))"

text \<open>\<open>strconv.Atoi\<close> with its error ignored: 0 for a text that is no number, the nearest value for one out of range.\<close>

definition atoi :: "string \<Rightarrow> int" where
  "atoi s =
     (let (neg, digits) =
        (case s of [] \<Rightarrow> (False, []) | c # cs \<Rightarrow>
           if c = CHR ''-'' then (True, cs) else if c = CHR ''+'' then (False, cs) else (False, s))
      in case parse_nat digits of None \<Rightarrow> 0
         | Some n \<Rightarrow> if neg then max (- int n) (- (2 ^ 63)) else min (int n) (2 ^ 63 - 1))"

text \<open>\<open>splitValues\<close>: the trimmed items between commas, each once, none empty.\<close>

definition splitValues :: "string list \<Rightarrow> string list" where
  "splitValues vs = unique_from [] (filter (\<lambda>v. v \<noteq> []) (concat (map (\<lambda>v. map trim_space (split_on CHR '','' v)) vs)))"

definition formList :: "form_values \<Rightarrow> string \<Rightarrow> string list" where
  "formList form key = splitValues (values_at form key)"

definition splitCSV :: "string \<Rightarrow> string list" where
  "splitCSV v = splitValues [v]"

definition splitRouteRule :: "string \<Rightarrow> (string \<times> string) option" where
  "splitRouteRule v =
     (case split_two CHR ''|'' (trim_space v) of None \<Rightarrow> None
      | Some (route, severity) \<Rightarrow>
          if route = [] \<or> severity = [] \<or> CHR ''|'' \<in> set severity then None else Some (route, severity))"

section \<open>Configuration and sessions\<close>

record oidc_config =
  oc_Issuer :: string
  oc_ClientID :: string
  oc_ClientSecret :: string
  oc_RedirectURL :: string
  oc_AdminSubject :: string
  oc_PasswordFallback :: bool

text \<open>A missing display zone is the empty name.\<close>

record admin_config =
  ad_OIDC :: "oidc_config option"
  ad_Username :: string
  ad_PasswordHash :: string
  ad_SessionLifetime :: duration
  ad_SecureCookie :: bool
  ad_DisplayZone :: string
  ad_ProcessZone :: string

definition NewAdmin :: "admin_config \<Rightarrow> admin_config option" where
  "NewAdmin cfg =
     (if ad_Username cfg = [] \<or> \<not> ValidateHash (ad_PasswordHash cfg) then None
      else let cfg1 = (if ad_DisplayZone cfg = [] then cfg\<lparr>ad_DisplayZone := ''UTC''\<rparr> else cfg)
           in Some (if ad_SessionLifetime cfg1 \<le> 0 then cfg1\<lparr>ad_SessionLifetime := 12 * hour\<rparr> else cfg1))"

abbreviation sessionCookie :: string where "sessionCookie \<equiv> ''alertbridge_admin''"

definition randomToken :: "string option \<Rightarrow> string option" where
  "randomToken buffer = map_option rawURLEncode buffer"

definition setSessionCookie :: "admin_config \<Rightarrow> string \<Rightarrow> int \<Rightarrow> admin_response \<Rightarrow> admin_response" where
  "setSessionCookie cfg v maxAge r = r\<lparr>ah_cookies := ah_cookies r @
     [\<lparr>ck_name = sessionCookie, ck_value = v, ck_path = ''/admin'', ck_max_age = maxAge, ck_secure = ad_SecureCookie cfg,
       ck_http_only = True, ck_same_site_strict = True\<rparr>]\<rparr>"

text \<open>The session of a request: its CSRF token and its end.\<close>

definition authenticate :: "bool \<Rightarrow> instant \<Rightarrow> admin_request \<Rightarrow> db \<Rightarrow> (string \<times> instant) option" where
  "authenticate fault now rq d =
     (case aq_cookie rq of None \<Rightarrow> None
      | Some v \<Rightarrow>
          if length v < 32 \<or> fault then None
          else case GetAdminSession (sha256 v) now d of Inl _ \<Rightarrow> None | Inr s \<Rightarrow> Some s)"

definition OAuthSession :: "bool \<Rightarrow> instant \<Rightarrow> admin_request \<Rightarrow> db \<Rightarrow> string option" where
  "OAuthSession fault now rq d = map_option fst (authenticate fault now rq d)"

definition oauthLoginNext :: "web \<Rightarrow> string \<Rightarrow> string" where
  "oauthLoginNext wb raw =
     (if 8192 < length raw then []
      else case wb_parse_url wb raw of None \<Rightarrow> []
      | Some u \<Rightarrow> if url_scheme u \<noteq> [] \<or> url_host u \<noteq> [] \<or> url_path u \<noteq> ''/admin/mcp/authorize'' \<or> url_fragment u \<noteq> []
                  then [] else wb_url_text wb raw)"

section \<open>Logging in and out\<close>

text \<open>The new session and its cookie; \<open>random\<close> holds the buffers of the session token and the CSRF token.\<close>

definition open_session ::
  "admin_config \<Rightarrow> bool \<Rightarrow> string option \<times> string option \<Rightarrow> string \<Rightarrow> instant \<Rightarrow> db \<Rightarrow> admin_response \<times> db" where
  "open_session cfg fault random next now d =
     (case randomToken (fst random) of None \<Rightarrow> (renderError 500 NoSessionCreated, d)
      | Some token \<Rightarrow>
         (case randomToken (snd random) of None \<Rightarrow> (renderError 500 NoSessionCreated, d)
          | Some csrf \<Rightarrow>
             (case store_call fault (CreateAdminSession (sha256 token) csrf (now + ad_SessionLifetime cfg) now) d of
                (Inl _, d1) \<Rightarrow> (renderError 503 ServiceUnavailable, d1)
              | (Inr _, d1) \<Rightarrow>
                  (setSessionCookie cfg token (ad_SessionLifetime cfg div second)
                     (redirect (if next \<noteq> [] then next else ''/admin/'')), d1))))"

text \<open>Both are checked before either failure is answered.\<close>

definition credentials_match :: "admin_config \<Rightarrow> idkey \<Rightarrow> form_values \<Rightarrow> bool" where
  "credentials_match cfg idkey form \<longleftrightarrow>
     sha256 (value_of form ''username'') = sha256 (ad_Username cfg) \<and>
     VerifyPassword idkey (value_of form ''password'') (ad_PasswordHash cfg)"

text \<open>The attempt is counted first; \<open>cancelled\<close> says that the client gave up while another password was checked.\<close>

definition login_form ::
  "admin_config \<Rightarrow> idkey \<Rightarrow> (nat \<Rightarrow> bool) \<Rightarrow> string option \<times> string option \<Rightarrow> bool \<Rightarrow> instant \<Rightarrow> form_values \<Rightarrow> string \<Rightarrow>
   db \<Rightarrow> admin_response \<times> db" where
  "login_form cfg idkey fault random cancelled now form next d =
     (case store_call (fault 0) (RecordAdminLoginAttempt now 10) d of
        (Inl ErrRateLimit, d1) \<Rightarrow>
          ((render 429 (LoginPage TooManyAttempts next))\<lparr>ah_headers := (''Retry-After'', ''60'') #
              ah_headers (render 429 (LoginPage TooManyAttempts next))\<rparr>, d1)
      | (Inl _, d1) \<Rightarrow> (render 503 (LoginPage ServiceUnavailable next), d1)
      | (Inr _, d1) \<Rightarrow>
          if cancelled then (render 408 (LoginPage LoginCancelled []), d1)
          else if \<not> credentials_match cfg idkey form then (render 401 (LoginPage BadCredentials next), d1)
          else open_session cfg (fault 1) random next now d1)"

definition login ::
  "admin_config \<Rightarrow> web \<Rightarrow> idkey \<Rightarrow> (nat \<Rightarrow> bool) \<Rightarrow> string option \<times> string option \<Rightarrow> bool \<Rightarrow> instant \<Rightarrow> admin_request \<Rightarrow> db \<Rightarrow>
   admin_response \<times> db" where
  "login cfg wb idkey fault random cancelled now rq d =
     (if aq_method rq = ''POST'' \<and> map_option oc_PasswordFallback (ad_OIDC cfg) = Some False
      then (renderError 403 FallbackDisabled, d)
      else if aq_method rq = ''GET''
      then (render 200 (LoginPage (if query_value wb rq ''oidc_error'' \<noteq> [] then IdentityNotAuthorised else NoText)
              (oauthLoginNext wb (query_value wb rq ''next''))), d)
      else if aq_method rq \<noteq> ''POST'' then (admin_not_allowed ''GET, POST'', d)
      else case parseForm wb rq of None \<Rightarrow> (render 400 (LoginPage InvalidFormat []), d)
      | Some (form, post) \<Rightarrow>
          login_form cfg idkey fault random cancelled now form (oauthLoginNext wb (value_of post ''next'')) d)"

text \<open>A failed deletion is ignored.\<close>

definition logout :: "admin_config \<Rightarrow> bool \<Rightarrow> admin_request \<Rightarrow> db \<Rightarrow> admin_response \<times> db" where
  "logout cfg fault rq d =
     (if aq_method rq \<noteq> ''POST'' then (admin_not_allowed ''POST'', d)
      else (setSessionCookie cfg [] (- 1) (redirect ''/admin/login''),
            case aq_cookie rq of None \<Rightarrow> d | Some v \<Rightarrow> snd (store_call fault (DeleteAdminSession (sha256 v)) d)))"

end
