(* ===== verification/McpOAuth.thy ===== *)
theory McpOAuth
  imports AdminSession
begin

text \<open>
  \<open>internal/mcpapi/oauth.go\<close>: the OAuth endpoints for MCP clients. The administrator consents on the authorize
  page with the session of the administration; the token endpoint exchanges codes and rotates refresh tokens.
  Form and URL decoding are those of \<open>web\<close>; \<open>session\<close> is the verifier of the administrator's session that the
  constructor gets.
\<close>

section \<open>Configuration\<close>

definition OAuthClientID :: string where "OAuthClientID = ''alertbridge-dots''"

definition OAuthScope :: string where "OAuthScope = ''alerts:read''"

definition tokenHash :: "string \<Rightarrow> string" where
  "tokenHash s = hex_encode (sha256 s)"

record oauth_server =
  ou_issuer :: string
  ou_resource :: string
  ou_redirect :: string
  ou_policy :: string
  ou_routes :: string
  ou_events :: bool

definition NewOAuth :: "url_parser \<Rightarrow> string \<Rightarrow> string \<Rightarrow> string \<Rightarrow> oauth_server option" where
  "NewOAuth parse_url publicURL routes callback0 =
     (case parse_url publicURL of None \<Rightarrow> None
      | Some u \<Rightarrow>
          if url_scheme u \<noteq> ''https'' \<or> url_host u = [] \<or> url_has_user u \<or> url_query u \<noteq> [] \<or> url_fragment u \<noteq> [] \<or>
             (url_path u \<noteq> [] \<and> url_path u \<noteq> ''/'') then None
          else let callback = (if callback0 = [] then ''https://chatgpt.com/connector_platform_oauth_redirect'' else callback0) in
            case parse_url callback of None \<Rightarrow> None
            | Some r \<Rightarrow>
                if url_scheme r \<noteq> ''https'' \<or> url_host r = [] \<or> url_has_user r \<or> url_fragment r \<noteq> [] \<or> url_query r \<noteq> [] then None
                else let issuer = trim_suffix ''/'' publicURL; resource = issuer @ ''/mcp'' in
                  Some \<lparr>ou_issuer = issuer, ou_resource = resource, ou_redirect = callback,
                        ou_policy = tokenHash (resource @ [CHR 0x0A] @ routes), ou_routes = routes, ou_events = False\<rparr>)"

section \<open>Requests and responses\<close>

record oauth_request = admin_request +
  or_authorization :: string
  or_uri :: string

text \<open>
  \<open>CallbackTo\<close> holds the parameters of the redirect back to the client; the metadata documents are the fields
  that depend on the configuration.
\<close>

datatype oauth_content =
    OAuthError string
  | ResourceMetadata string string
  | ServerMetadata string
  | Consent string string string bool
  | LoginFirst string
  | CallbackTo string "(string \<times> string) list"
  | Revoked
  | Tokens string string
  | NoSuchPage

record oauth_response =
  os_status :: int
  os_headers :: "(string \<times> string) list"
  os_content :: oauth_content

definition oauth_reply :: "int \<Rightarrow> oauth_content \<Rightarrow> oauth_response" where
  "oauth_reply status content = \<lparr>os_status = status, os_headers = [], os_content = content\<rparr>"

definition oauthError :: "int \<Rightarrow> string \<Rightarrow> oauth_response" where
  "oauthError status code = oauth_reply status (OAuthError code)"

definition slow_down :: oauth_response where
  "slow_down = (oauthError 429 ''slow_down'')\<lparr>os_headers := [(''Retry-After'', ''60'')]\<rparr>"

text \<open>\<open>randomOAuthToken\<close>: a buffer of the random source, or its failure.\<close>

definition randomOAuthToken :: "string option \<Rightarrow> string option" where
  "randomOAuthToken buffer = map_option rawURLEncode buffer"

text \<open>\<open>r.PostForm\<close> after \<open>ParseForm\<close> on a limited body; \<open>None\<close> for any error. A body of another type is not read.\<close>

definition post_form :: "web \<Rightarrow> nat \<Rightarrow> oauth_request \<Rightarrow> form_values option" where
  "post_form wb limit rq =
     (case (if aq_content_type rq = [] then Some ''application/octet-stream'' else wb_media_type wb (aq_content_type rq)) of
        None \<Rightarrow> None
      | Some kind \<Rightarrow>
          if \<not> wb_query_ok wb (aq_raw_query rq) then None
          else if kind \<noteq> ''application/x-www-form-urlencoded'' then Some []
          else case aq_body rq of None \<Rightarrow> None
          | Some body \<Rightarrow> if limit < length body \<or> \<not> wb_query_ok wb body then None else Some (wb_query wb body))"

section \<open>Consent\<close>

definition url_token_char :: "char \<Rightarrow> bool" where
  "url_token_char c \<longleftrightarrow> is_alnum c \<or> c = CHR ''_'' \<or> c = CHR ''-''"

definition valid_challenge :: "string \<Rightarrow> bool" where
  "valid_challenge s \<longleftrightarrow> length s = 43 \<and> list_all url_token_char s"

definition authorize_keys :: "string list" where
  "authorize_keys = [''client_id'', ''redirect_uri'', ''response_type'', ''code_challenge'', ''code_challenge_method'', ''resource'',
     ''scope'', ''state'']"

definition authorize_request_ok :: "oauth_server \<Rightarrow> form_values \<Rightarrow> bool" where
  "authorize_request_ok srv q \<longleftrightarrow>
     value_of q ''client_id'' = OAuthClientID \<and> value_of q ''redirect_uri'' = ou_redirect srv \<and>
     value_of q ''response_type'' = ''code'' \<and> value_of q ''code_challenge_method'' = ''S256'' \<and>
     valid_challenge (value_of q ''code_challenge'') \<and> value_of q ''resource'' = ou_resource srv \<and>
     value_of q ''scope'' = OAuthScope \<and> length (value_of q ''state'') \<le> 1024"

text \<open>The decision of the form; the parameters in the order \<open>Encode\<close> writes them.\<close>

definition authorize_decision ::
  "oauth_server \<Rightarrow> bool \<Rightarrow> string option \<Rightarrow> instant \<Rightarrow> form_values \<Rightarrow> form_values \<Rightarrow> db \<Rightarrow> oauth_response \<times> db" where
  "authorize_decision srv fault random now q form d =
     (let common = [(''iss'', ou_issuer srv), (''state'', value_of q ''state'')] in
      if value_of form ''decision'' \<noteq> ''allow''
      then (oauth_reply 303 (CallbackTo (ou_redirect srv) ((''error'', ''access_denied'') # common)), d)
      else case randomOAuthToken random of None \<Rightarrow> (oauthError 503 ''temporarily_unavailable'', d)
      | Some code \<Rightarrow>
          (case store_call fault (SaveOAuthCode (tokenHash code) (value_of q ''code_challenge'') (ou_redirect srv) (ou_resource srv)
                  (ou_policy srv) now) d of
             (Inl _, d1) \<Rightarrow> (oauthError 503 ''temporarily_unavailable'', d1)
           | (Inr _, d1) \<Rightarrow> (oauth_reply 303 (CallbackTo (ou_redirect srv) ((''code'', code) # common)), d1)))"

definition authorize ::
  "oauth_server \<Rightarrow> web \<Rightarrow> (oauth_request \<Rightarrow> db \<Rightarrow> string option) \<Rightarrow> bool \<Rightarrow> string option \<Rightarrow> instant \<Rightarrow> oauth_request \<Rightarrow> db \<Rightarrow>
   oauth_response \<times> db" where
  "authorize srv wb session fault random now rq d =
     (let q = wb_query wb (aq_raw_query rq) in
      if aq_method rq \<noteq> ''GET'' \<and> aq_method rq \<noteq> ''POST'' then (oauthError 405 ''invalid_request'', d)
      else if 8192 < length (aq_raw_query rq) then (oauthError 400 ''invalid_request'', d)
      else if list_ex (\<lambda>k. 1 < length (values_at q k)) authorize_keys \<or> \<not> authorize_request_ok srv q
      then (oauthError 400 ''invalid_request'', d)
      else case session rq d of None \<Rightarrow> (oauth_reply 303 (LoginFirst (or_uri rq)), d)
      | Some csrf \<Rightarrow>
          if aq_method rq = ''GET'' then (oauth_reply 200 (Consent (ou_routes srv) (ou_redirect srv) csrf (ou_events srv)), d)
          else case post_form wb 4096 rq of None \<Rightarrow> (oauthError 403 ''access_denied'', d)
          | Some form \<Rightarrow>
              if value_of form ''csrf'' \<noteq> csrf then (oauthError 403 ''access_denied'', d)
              else authorize_decision srv fault random now q form d)"

section \<open>Tokens\<close>

definition valid_verifier :: "string \<Rightarrow> bool" where
  "valid_verifier s \<longleftrightarrow> 43 \<le> length s \<and> length s \<le> 128 \<and>
     list_all (\<lambda>c. is_alnum c \<or> c \<in> {CHR ''.'', CHR ''_'', CHR ''~'', CHR ''-''}) s"

definition s256_challenge :: "string \<Rightarrow> string" where
  "s256_challenge verifier = rawURLEncode (sha256 verifier)"

text \<open>The exchange of a code or a refresh token, after the checks both share; \<open>random 2\<close> is the id of a new grant.\<close>

definition grant_tokens ::
  "oauth_server \<Rightarrow> bool \<Rightarrow> string option \<Rightarrow> instant \<Rightarrow> form_values \<Rightarrow> string \<Rightarrow> string \<Rightarrow> db \<Rightarrow> oauth_response \<times> db" where
  "grant_tokens srv fault random now p access refresh d =
     (let answer = (\<lambda>(result, d1).
        (case result of
           Inl e \<Rightarrow> if e = ErrOAuthGrant then oauthError 400 ''invalid_grant'' else oauthError 503 ''temporarily_unavailable''
         | Inr _ \<Rightarrow> oauth_reply 200 (Tokens access refresh), d1)) in
      if value_of p ''grant_type'' = ''authorization_code'' then
        (if \<not> valid_verifier (value_of p ''code_verifier'') \<or> value_of p ''redirect_uri'' \<noteq> ou_redirect srv
         then (oauthError 400 ''invalid_grant'', d)
         else case randomOAuthToken random of None \<Rightarrow> (oauthError 503 ''temporarily_unavailable'', d)
         | Some i \<Rightarrow> answer (store_call fault
             (ExchangeOAuthCode (tokenHash (value_of p ''code'')) (s256_challenge (value_of p ''code_verifier'')) (ou_redirect srv)
                (ou_resource srv) (ou_policy srv) i (tokenHash access) (tokenHash refresh) now) d))
      else if value_of p ''grant_type'' = ''refresh_token'' then
        answer (store_call fault
          (RotateOAuthRefresh (tokenHash (value_of p ''refresh_token'')) (ou_policy srv) (tokenHash access) (tokenHash refresh) now) d)
      else (oauthError 400 ''unsupported_grant_type'', d))"

text \<open>The form of the token endpoint, after the rate limit.\<close>

definition token_form ::
  "oauth_server \<Rightarrow> bool \<Rightarrow> (nat \<Rightarrow> string option) \<Rightarrow> instant \<Rightarrow> oauth_request \<Rightarrow> form_values \<Rightarrow> db \<Rightarrow> oauth_response \<times> db" where
  "token_form srv fault random now rq p d =
     (if \<not> list_all (\<lambda>(k, vs). length vs = 1) p then (oauthError 400 ''invalid_request'', d)
      else if value_of p ''client_id'' \<noteq> OAuthClientID \<or> value_of p ''client_secret'' \<noteq> [] \<or> or_authorization rq \<noteq> []
      then (oauthError 401 ''invalid_client'', d)
      else if aq_path rq = ''/oauth/revoke'' then
        (case store_call fault (RevokeOAuthToken (tokenHash (value_of p ''token''))) d of
           (Inl _, d1) \<Rightarrow> (oauthError 503 ''temporarily_unavailable'', d1)
         | (Inr _, d1) \<Rightarrow> (oauth_reply 200 Revoked, d1))
      else if value_of p ''resource'' \<noteq> ou_resource srv \<or> (value_of p ''scope'' \<noteq> [] \<and> value_of p ''scope'' \<noteq> OAuthScope)
      then (oauthError 400 ''invalid_target'', d)
      else case (randomOAuthToken (random 0), randomOAuthToken (random 1)) of
        (Some access, Some refresh) \<Rightarrow> grant_tokens srv fault (random 2) now p access refresh d
      | _ \<Rightarrow> (oauthError 503 ''temporarily_unavailable'', d))"

definition token ::
  "oauth_server \<Rightarrow> web \<Rightarrow> (nat \<Rightarrow> bool) \<Rightarrow> (nat \<Rightarrow> string option) \<Rightarrow> instant \<Rightarrow> oauth_request \<Rightarrow> db \<Rightarrow> oauth_response \<times> db" where
  "token srv wb fault random now rq d =
     (if aq_method rq \<noteq> ''POST'' then (oauthError 405 ''invalid_request'', d)
      else if \<not> has_prefix ''application/x-www-form-urlencoded'' (aq_content_type rq) then (oauthError 415 ''invalid_request'', d)
      else case store_call (fault 0) (RecordRateLimit ''mcp-oauth-token'' now 60) d of
        (Inl _, d1) \<Rightarrow> (slow_down, d1)
      | (Inr _, d1) \<Rightarrow>
          (case post_form wb 8192 rq of None \<Rightarrow> (oauthError 400 ''invalid_request'', d1)
           | Some p \<Rightarrow> token_form srv (fault 1) random now rq p d1))"

section \<open>Dispatch\<close>

definition oauth_headers :: "(string \<times> string) list" where
  "oauth_headers = [(''Cache-Control'', ''no-store''), (''Pragma'', ''no-cache''), (''Referrer-Policy'', ''no-referrer''),
     (''X-Content-Type-Options'', ''nosniff'')]"

text \<open>The authorize page puts its callback in its own policy.\<close>

definition content_policy :: "oauth_server \<Rightarrow> string \<Rightarrow> string" where
  "content_policy srv path =
     (if path = ''/admin/mcp/authorize''
      then ''default-src 'none'; form-action 'self' '' @ ou_redirect srv @ ''; base-uri 'none'; frame-ancestors 'none'' @ [CHR 0x27]
      else ''default-src 'none'; form-action 'self'; frame-ancestors 'none'' @ [CHR 0x27])"

definition ServeOAuth ::
  "oauth_server \<Rightarrow> web \<Rightarrow> (oauth_request \<Rightarrow> db \<Rightarrow> string option) \<Rightarrow> (nat \<Rightarrow> bool) \<Rightarrow> (nat \<Rightarrow> string option) \<Rightarrow> instant \<Rightarrow>
   oauth_request \<Rightarrow> db \<Rightarrow> oauth_response \<times> db" where
  "ServeOAuth srv wb session fault random now rq d =
     (let path = aq_path rq;
          read = (\<lambda>content. (if aq_method rq \<noteq> ''GET'' then oauthError 405 ''invalid_request'' else oauth_reply 200 content, d));
          (r, d') =
            (if path \<in> {''/.well-known/oauth-protected-resource'', ''/.well-known/oauth-protected-resource/mcp''}
             then read (ResourceMetadata (ou_resource srv) (ou_issuer srv))
             else if path = ''/.well-known/oauth-authorization-server'' then read (ServerMetadata (ou_issuer srv))
             else if path = ''/admin/mcp/authorize'' then authorize srv wb session (fault 0) (random 0) now rq d
             else if path \<in> {''/oauth/token'', ''/oauth/revoke''} then token srv wb fault random now rq d
             else (oauth_reply 404 NoSuchPage, d))
      in (r\<lparr>os_headers := oauth_headers @ [(''Content-Security-Policy'', content_policy srv path)] @ os_headers r\<rparr>, d'))"

end
