(* ===== verification/EventHook.thy ===== *)
theory EventHook
  imports Senders McpOAuth "HOL-Library.Word"
begin

text \<open>
  \<open>internal/mcpapi/event_webhook.go\<close> and \<open>event_egress.go\<close>: where callbacks may go, and how they are signed
  and sent. Addresses are those of \<open>net/netip\<close>: words, and for IPv6 whether there is a zone. Name resolution,
  parsing, the clock's text and the connection itself are the fields of \<open>hook\<close>.
\<close>

unbundle bit_operations_syntax

section \<open>Public addresses\<close>

datatype addr = V4 "32 word" | V6 "128 word" bool

datatype prefix = P4 "32 word" nat | P6 "128 word" nat

definition v4 :: "nat \<Rightarrow> nat \<Rightarrow> nat \<Rightarrow> nat \<Rightarrow> 32 word" where
  "v4 a b c d = word_of_nat (((a * 256 + b) * 256 + c) * 256 + d)"

definition v6 :: "nat \<Rightarrow> nat \<Rightarrow> nat \<Rightarrow> nat \<Rightarrow> nat \<Rightarrow> nat \<Rightarrow> nat \<Rightarrow> nat \<Rightarrow> 128 word" where
  "v6 a b c d e f g h = word_of_nat (foldl (\<lambda>n x. n * 65536 + x) 0 [a, b, c, d, e, f, g, h])"

text \<open>\<open>Prefix.Contains\<close>: the families agree, there is no zone, and the leading bits agree.\<close>

fun prefix_contains :: "prefix \<Rightarrow> addr \<Rightarrow> bool" where
  "prefix_contains (P4 p n) (V4 a) = (drop_bit (32 - n) a = drop_bit (32 - n) p)"
| "prefix_contains (P6 p n) (V6 a zone) = (\<not> zone \<and> drop_bit (128 - n) a = drop_bit (128 - n) p)"
| "prefix_contains _ _ = False"

text \<open>The tests of \<open>netip.Addr\<close>, which look at the address without its zone.\<close>

definition within :: "prefix \<Rightarrow> addr \<Rightarrow> bool" where
  "within p a = prefix_contains p (case a of V4 w \<Rightarrow> V4 w | V6 w _ \<Rightarrow> V6 w False)"

definition mapped_prefix :: "128 word" where "mapped_prefix = v6 0 0 0 0 0 0xFFFF 0 0"

fun unmap :: "addr \<Rightarrow> addr" where
  "unmap (V4 a) = V4 a"
| "unmap (V6 a zone) = (if drop_bit 32 a = drop_bit 32 mapped_prefix then V4 (ucast a) else V6 a zone)"

definition is_loopback :: "addr \<Rightarrow> bool" where
  "is_loopback a \<longleftrightarrow> within (P4 (v4 127 0 0 0) 8) a \<or> within (P6 1 128) a"

definition is_multicast :: "addr \<Rightarrow> bool" where
  "is_multicast a \<longleftrightarrow> within (P4 (v4 224 0 0 0) 4) a \<or> within (P6 (v6 0xFF00 0 0 0 0 0 0 0) 8) a"

definition is_link_local :: "addr \<Rightarrow> bool" where
  "is_link_local a \<longleftrightarrow> within (P4 (v4 169 254 0 0) 16) a \<or> within (P6 (v6 0xFE80 0 0 0 0 0 0 0) 10) a"

definition is_private :: "addr \<Rightarrow> bool" where
  "is_private a \<longleftrightarrow> within (P4 (v4 10 0 0 0) 8) a \<or> within (P4 (v4 172 16 0 0) 12) a \<or> within (P4 (v4 192 168 0 0) 16) a \<or>
     within (P6 (v6 0xFC00 0 0 0 0 0 0 0) 7) a"

definition is_global_unicast :: "addr \<Rightarrow> bool" where
  "is_global_unicast a \<longleftrightarrow>
     (case a of V4 w \<Rightarrow> w \<noteq> 0 \<and> w \<noteq> - 1 | V6 w zone \<Rightarrow> w \<noteq> 0 \<or> zone) \<and>
     \<not> is_loopback a \<and> \<not> is_multicast a \<and> \<not> is_link_local a"

definition callbackBlockedRanges :: "prefix list" where
  "callbackBlockedRanges =
     [P4 (v4 0 0 0 0) 8, P4 (v4 100 64 0 0) 10, P4 (v4 192 0 0 0) 24, P4 (v4 192 0 2 0) 24, P4 (v4 192 88 99 0) 24,
      P4 (v4 198 18 0 0) 15, P4 (v4 198 51 100 0) 24, P4 (v4 203 0 113 0) 24, P4 (v4 240 0 0 0) 4,
      P6 0 96, P6 mapped_prefix 96, P6 (v6 0x64 0xFF9B 0 0 0 0 0 0) 96, P6 (v6 0x64 0xFF9B 1 0 0 0 0 0) 48,
      P6 (v6 0x100 0 0 0 0 0 0 0) 64, P6 (v6 0x2001 0 0 0 0 0 0 0) 23, P6 (v6 0x2001 0xDB8 0 0 0 0 0 0) 32,
      P6 (v6 0x2002 0 0 0 0 0 0 0) 16, P6 (v6 0x3FFF 0 0 0 0 0 0 0) 20]"

definition publicCallbackIP :: "addr \<Rightarrow> bool" where
  "publicCallbackIP ip0 \<longleftrightarrow>
     (let ip = unmap ip0 in
      is_global_unicast ip \<and> \<not> is_private ip \<and> \<not> is_loopback ip \<and> \<not> is_link_local ip \<and>
      (case ip of V4 _ \<Rightarrow> True | V6 _ _ \<Rightarrow> prefix_contains (P6 (v6 0x2000 0 0 0 0 0 0 0) 3) ip) \<and>
      \<not> list_ex (\<lambda>p. prefix_contains p ip) callbackBlockedRanges)"

section \<open>Callback URLs\<close>

definition callback_label :: "string \<Rightarrow> bool" where
  "callback_label l \<longleftrightarrow> l \<noteq> [] \<and> length l \<le> 63 \<and> hd l \<noteq> CHR ''-'' \<and> last l \<noteq> CHR ''-'' \<and>
     list_all (\<lambda>c. is_lower c \<or> is_digit c \<or> c = CHR ''-'') l"

definition validCallbackHostname :: "string \<Rightarrow> bool" where
  "validCallbackHostname host \<longleftrightarrow> length host \<le> 253 \<and> list_all callback_label (split_on CHR ''.'' host)"

datatype hook_outcome = HookTimeout | HookFailed | HookAnswer int string

record hook =
  hk_parse_url :: url_parser
  hk_parse_ip :: "string \<Rightarrow> addr option"
  hk_lower :: "string \<Rightarrow> string"
  hk_split_host_port :: "string \<Rightarrow> (string \<times> string) option"
  hk_resolve :: "string \<Rightarrow> addr list option"
  hk_connects :: "addr \<Rightarrow> bool"
  hk_request_ok :: "string \<Rightarrow> bool"
  hk_http :: "http_request \<Rightarrow> hook_outcome"

definition callbackURL :: "hook \<Rightarrow> string list \<Rightarrow> string \<Rightarrow> url option" where
  "callbackURL hk hosts raw =
     (case hk_parse_url hk raw of None \<Rightarrow> None
      | Some u \<Rightarrow>
          if 2048 < length raw \<or> url_scheme u \<noteq> ''https'' \<or> url_host u = [] \<or> url_has_user u \<or> url_fragment u \<noteq> [] \<or>
             url_opaque u \<noteq> [] \<or> (url_port u \<noteq> [] \<and> url_port u \<noteq> ''443'') \<or> hk_lower hk (url_hostname u) \<notin> set hosts then None
          else (case hk_parse_ip hk (url_hostname u) of
                  Some ip \<Rightarrow> if publicCallbackIP ip then Some u else None
                | None \<Rightarrow> Some u))"

text \<open>
  The dialer of the callback client: \<open>None\<close> is an error before any connection is tried, otherwise the address
  it connects to, if one of those it tries accepts.
\<close>

definition dial_candidates :: "hook \<Rightarrow> string list \<Rightarrow> string \<Rightarrow> addr list option" where
  "dial_candidates hk hosts address =
     (case hk_split_host_port hk address of None \<Rightarrow> None
      | Some (host, port) \<Rightarrow>
          if port \<noteq> ''443'' \<or> hk_lower hk host \<notin> set hosts then None
          else case hk_resolve hk host of None \<Rightarrow> None
          | Some addresses \<Rightarrow>
              if addresses = [] \<or> list_ex (\<lambda>ip. \<not> publicCallbackIP ip) addresses then None else Some addresses)"

definition dial_callback :: "hook \<Rightarrow> string list \<Rightarrow> string \<Rightarrow> addr option" where
  "dial_callback hk hosts address =
     (case dial_candidates hk hosts address of None \<Rightarrow> None | Some addresses \<Rightarrow> find (hk_connects hk) addresses)"

text \<open>
  \<open>ConfigureEgress\<close>: the destinations of the egress configuration must be callback hosts; \<open>True\<close> is success.
  \<open>load\<close> gives the destinations the file configures, \<open>client_ok\<close> whether its client can be built.
\<close>

definition ConfigureEgress ::
  "hook \<Rightarrow> string list \<Rightarrow> (string \<Rightarrow> string list option) \<Rightarrow> (string \<Rightarrow> bool) \<Rightarrow> string \<Rightarrow> bool" where
  "ConfigureEgress hk hosts load client_ok path \<longleftrightarrow>
     path = [] \<or>
     (case load path of None \<Rightarrow> False
      | Some destinations \<Rightarrow>
          list_all (\<lambda>authority. case hk_split_host_port hk authority of None \<Rightarrow> False
                      | Some (host, port) \<Rightarrow> port = ''443'' \<and> host \<in> set hosts) destinations \<and> client_ok path)"

section \<open>Signatures\<close>

definition signingKey :: "string \<Rightarrow> string option" where
  "signingKey secret =
     (if \<not> has_prefix ''whsec_'' secret then None
      else case stdDecode (trim_prefix ''whsec_'' secret) of None \<Rightarrow> None
      | Some key \<Rightarrow> if length key < 24 \<or> 64 < length key then None else Some key)"

definition webhookSignature :: "string \<Rightarrow> string \<Rightarrow> string \<Rightarrow> string \<Rightarrow> string option" where
  "webhookSignature secret i timestamp body =
     map_option (\<lambda>key. ''v1,'' @ stdEncode (hmac_sha256 key (i @ ''.'' @ timestamp @ ''.'' @ body))) (signingKey secret)"

section \<open>Sending\<close>

record credentials =
  ec_URL :: string
  ec_Secret :: string
  ec_OldSecret :: string
  ec_RotateUntil :: instant

text \<open>The signatures of a message: during a rotation the one of the old secret follows.\<close>

definition post_signature :: "credentials \<Rightarrow> instant \<Rightarrow> string \<Rightarrow> string \<Rightarrow> string option" where
  "post_signature cr now i body =
     (let stamp = show_int (unix_seconds now) in
      case webhookSignature (ec_Secret cr) i stamp body of None \<Rightarrow> None
      | Some signature \<Rightarrow>
          if ec_OldSecret cr \<noteq> [] \<and> now < ec_RotateUntil cr
          then map_option (\<lambda>old. signature @ '' '' @ old) (webhookSignature (ec_OldSecret cr) i stamp body)
          else Some signature)"

definition hook_request :: "credentials \<Rightarrow> instant \<Rightarrow> string \<Rightarrow> string \<Rightarrow> string \<Rightarrow> string \<Rightarrow> http_request" where
  "hook_request cr now subscriptionID i body signature =
     \<lparr>hr_url = ec_URL cr,
      hr_headers = [(''Content-Type'', ''application/json''), (''webhook-id'', i), (''webhook-timestamp'', show_int (unix_seconds now)),
        (''webhook-signature'', signature), (''X-MCP-Subscription-Id'', subscriptionID)],
      hr_body = body\<rparr>"

definition post_callback ::
  "hook \<Rightarrow> string list \<Rightarrow> instant \<Rightarrow> credentials \<Rightarrow> string \<Rightarrow> string \<Rightarrow> string \<Rightarrow> hook_outcome" where
  "post_callback hk hosts now cr subscriptionID i body =
     (if 256 * 1024 < length body \<or> callbackURL hk hosts (ec_URL cr) = None then HookFailed
      else case post_signature cr now i body of None \<Rightarrow> HookFailed
      | Some signature \<Rightarrow>
          if \<not> hk_request_ok hk (ec_URL cr) then HookFailed
          else hk_http hk (hook_request cr now subscriptionID i body signature))"

end
