(* ===== verification/SecureStore.thy ===== *)
theory SecureStore
  imports GoText
begin

text \<open>
  \<open>internal/securestore/cipher.go\<close>: the encryption of secrets at rest. AES-GCM is the record \<open>aead\<close>: its
  \<open>Seal\<close> and \<open>Open\<close> take a nonce, a text and the additional data. What the program relies on is \<open>aead_ok\<close>:
  opening what was sealed under the same nonce and data gives the text back, and sealing adds the tag.
\<close>

record aead =
  ae_nonce_size :: nat
  ae_overhead :: nat
  ae_seal :: "string \<Rightarrow> string \<Rightarrow> string \<Rightarrow> string"
  ae_open :: "string \<Rightarrow> string \<Rightarrow> string \<Rightarrow> string option"

definition aead_ok :: "aead \<Rightarrow> bool" where
  "aead_ok a \<longleftrightarrow> (\<forall>nonce text ad. length nonce = ae_nonce_size a \<longrightarrow>
     ae_open a nonce (ae_seal a nonce text ad) ad = Some text \<and>
     length (ae_seal a nonce text ad) = length text + ae_overhead a)"

definition formatVersion :: char where "formatVersion = CHR 0x01"

text \<open>\<open>New\<close>: \<open>gcm\<close> builds the cipher of a key.\<close>

definition NewCipher :: "(string \<Rightarrow> aead option) \<Rightarrow> string \<Rightarrow> aead option" where
  "NewCipher gcm key = (if length key \<noteq> 32 then None else gcm key)"

text \<open>\<open>random\<close> is what the random source fills the nonce with, \<open>None\<close> when it fails.\<close>

definition Encrypt :: "aead \<Rightarrow> string option \<Rightarrow> string \<Rightarrow> string option" where
  "Encrypt a random plaintext =
     (case random of None \<Rightarrow> None
      | Some nonce \<Rightarrow> Some (formatVersion # nonce @ ae_seal a nonce plaintext [formatVersion]))"

definition Decrypt :: "aead \<Rightarrow> string \<Rightarrow> string option" where
  "Decrypt a value =
     (let minimum = 1 + ae_nonce_size a + ae_overhead a in
      if length value < minimum \<or> hd value \<noteq> formatVersion then None
      else let nonce = take (ae_nonce_size a) (drop 1 value)
           in ae_open a nonce (drop (1 + ae_nonce_size a) value) [formatVersion])"

lemma Decrypt_Encrypt:
  assumes "aead_ok a" and "length nonce = ae_nonce_size a" and "Encrypt a (Some nonce) plaintext = Some value"
  shows "Decrypt a value = Some plaintext"
  using assms by (auto simp: aead_ok_def Encrypt_def Decrypt_def Let_def)

text \<open>Only a sealed text under a nonce of its own decrypts.\<close>

lemma Decrypt_Some:
  "Decrypt a value = Some plaintext \<longleftrightarrow>
     (\<exists>nonce sealed. value = formatVersion # nonce @ sealed \<and> length nonce = ae_nonce_size a \<and>
        ae_overhead a \<le> length sealed \<and> ae_open a nonce sealed [formatVersion] = Some plaintext)"
  (is "?l \<longleftrightarrow> ?r")
proof
  assume l: ?l
  then obtain c rest where cons: "value = c # rest" by (cases "value") (auto simp: Decrypt_def Let_def)
  from l show ?r unfolding cons
    by (intro exI [of _ "take (ae_nonce_size a) rest"] exI [of _ "drop (ae_nonce_size a) rest"])
      (auto simp: Decrypt_def Let_def split: if_splits)
next
  assume ?r
  then show ?l by (auto simp: Decrypt_def Let_def)
qed

end
