(* ===== verification/Events.thy ===== *)
theory Events
  imports EventHook Delivery SecureStore
begin

text \<open>
  \<open>internal/mcpapi/events.go\<close>: event subscriptions of MCP clients. A subscription is verified by a challenge to
  its callback, kept encrypted in the database, and resolved again for every delivery. JSON and the cipher are
  the fields of \<open>event_codec\<close>; a raw JSON value is its text, an absent one the empty text.
\<close>

section \<open>Configuration\<close>

record events_config =
  ev_routes :: "string list"
  ev_staticOwner :: string
  ev_staticPolicy :: string
  ev_oauthPolicy :: string
  ev_hosts :: "string list"

definition eventIdentifier :: "string \<Rightarrow> nat \<Rightarrow> bool" where
  "eventIdentifier v limit \<longleftrightarrow>
     (case v of [] \<Rightarrow> False | c # cs \<Rightarrow> length v \<le> limit \<and> is_alnum c \<and> list_all is_ident_char cs)"

definition callback_hosts :: "hook \<Rightarrow> string \<Rightarrow> string list" where
  "callback_hosts hk csv =
     filter (\<lambda>h. h \<noteq> []) (map (\<lambda>h. hk_lower hk (trim_space h)) (split_on CHR '','' csv))"

definition NewEvents :: "hook \<Rightarrow> string \<Rightarrow> string \<Rightarrow> string \<Rightarrow> string \<Rightarrow> events_config option" where
  "NewEvents hk routes digest publicURL callbackHosts =
     (let allowed = map trim_space (split_on CHR '','' routes); hosts = callback_hosts hk callbackHosts in
      if \<not> list_all (\<lambda>r. eventIdentifier r 64) allowed then None
      else if \<not> list_all validCallbackHostname hosts \<or> hosts = [] then None
      else Some
        \<lparr>ev_routes = sort allowed,
         ev_staticOwner = (if digest \<noteq> [] then ''static:'' @ digest else []),
         ev_staticPolicy = (if digest \<noteq> [] then tokenHash (digest @ [CHR 0x0A] @ join_with '','' (sort allowed)) else []),
         ev_oauthPolicy = (if publicURL \<noteq> [] then tokenHash (trim_suffix ''/'' publicURL @ ''/mcp'' @ [CHR 0x0A] @ routes) else []),
         ev_hosts = hosts\<rparr>)"

section \<open>Messages\<close>

record event_filters =
  ef_Route :: string
  ef_Source :: string
  ef_Severity :: string
  ef_Status :: string

record sub_params =
  sp_Name :: string
  sp_Arguments :: event_filters
  sp_Mode :: string
  sp_URL :: string
  sp_Secret :: string
  sp_Cursor :: string
  sp_TTL :: string

record rpc_request =
  rp_jsonrpc :: string
  rp_id :: string
  rp_method :: string
  rp_params :: string

record event_codec =
  cd_marshal :: "json \<Rightarrow> string"
  cd_list_cursor :: "string \<Rightarrow> string option"
  cd_sub_params :: "string \<Rightarrow> sub_params option"
  cd_int64 :: "string \<Rightarrow> int option"
  cd_challenge :: "string \<Rightarrow> string option"
  cd_marshal_credentials :: "credentials \<Rightarrow> string"
  cd_credentials :: "string \<Rightarrow> credentials option"
  cd_encrypt :: "string \<Rightarrow> string option"
  cd_decrypt :: "string \<Rightarrow> string option"
  cd_rfc3339 :: "instant \<Rightarrow> string"

text \<open>A reply: the HTTP status, and an error with its code, message and reason, or a result.\<close>

datatype rpc_body =
    RpcError int string "string option"
  | EventList
  | Unsubscribed
  | Subscribed string string
  | PlainError string

record rpc_reply =
  rr_status :: int
  rr_id :: string
  rr_body :: rpc_body

definition rpc_fail :: "rpc_request \<Rightarrow> int \<Rightarrow> string \<Rightarrow> rpc_reply" where
  "rpc_fail req code message = \<lparr>rr_status = 200, rr_id = rp_id req, rr_body = RpcError code message None\<rparr>"

definition rpc_result :: "rpc_request \<Rightarrow> rpc_body \<Rightarrow> rpc_reply" where
  "rpc_result req body = \<lparr>rr_status = 200, rr_id = rp_id req, rr_body = body\<rparr>"

section \<open>Authorization\<close>

definition policy_of :: "events_config \<Rightarrow> string \<Rightarrow> string" where
  "policy_of ev owner =
     (if owner = ev_staticOwner ev \<and> owner \<noteq> [] then ev_staticPolicy ev
      else if has_prefix ''oauth:'' owner then ev_oauthPolicy ev else [])"

text \<open>\<open>fault\<close> says that the look at the grant fails.\<close>

definition authorized :: "events_config \<Rightarrow> bool \<Rightarrow> string \<Rightarrow> string \<Rightarrow> instant \<Rightarrow> instant \<Rightarrow> db \<Rightarrow> bool" where
  "authorized ev fault owner policy expires now d \<longleftrightarrow>
     now < expires \<and> policy \<noteq> [] \<and> policy = policy_of ev owner \<and>
     (if has_prefix ''oauth:'' owner then \<not> fault \<and> OAuthGrantActive (trim_prefix ''oauth:'' owner) policy now d
      else owner = ev_staticOwner ev)"

definition filters_json :: "event_filters \<Rightarrow> json" where
  "filters_json f = JObj (map (\<lambda>(k, v). (k, JStr v)) (filter (\<lambda>(k, v). v \<noteq> [])
     [(''routing_key'', ef_Route f), (''source'', ef_Source f), (''severity'', ef_Severity f), (''status'', ef_Status f)]))"

definition identity :: "events_config \<Rightarrow> event_codec \<Rightarrow> string \<Rightarrow> sub_params \<Rightarrow> string" where
  "identity ev cd owner p =
     ''sub_'' @ hex_encode (sha256 (cd_marshal cd (JArr [JStr owner, JStr (policy_of ev owner), JStr (sp_URL p), JStr (sp_Name p),
       filters_json (sp_Arguments p)])))"

definition validate_sub :: "events_config \<Rightarrow> hook \<Rightarrow> sub_params \<Rightarrow> bool" where
  "validate_sub ev hk p \<longleftrightarrow>
     (let f = sp_Arguments p in
      sp_Name p = ''alert.created'' \<and> sp_Mode p = ''webhook'' \<and>
      (ef_Route f = [] \<or> ef_Route f \<in> set (ev_routes ev)) \<and>
      (ef_Source f = [] \<or> eventIdentifier (ef_Source f) 64) \<and>
      ef_Severity f \<in> {[], ''info'', ''warning'', ''critical''} \<and>
      ef_Status f \<in> {[], ''firing'', ''resolved'', ''info'', ''test''} \<and>
      callbackURL hk (ev_hosts ev) (sp_URL p) \<noteq> None)"

section \<open>Verification\<close>

datatype challenge_result = Echoed | ChallengeFailed | ChallengeTimeout

text \<open>\<open>random\<close> holds the buffers of the challenge and the message id.\<close>

definition verify_callback ::
  "events_config \<Rightarrow> hook \<Rightarrow> event_codec \<Rightarrow> string option \<times> string option \<Rightarrow> instant \<Rightarrow> credentials \<Rightarrow> string \<Rightarrow> challenge_result" where
  "verify_callback ev hk cd random now cr subID =
     (case (randomOAuthToken (fst random), randomOAuthToken (snd random)) of
        (Some challenge, Some verificationID) \<Rightarrow>
          (case post_callback hk (ev_hosts ev) now cr subID (''msg_verification_'' @ verificationID)
                  (cd_marshal cd (JObj [(''challenge'', JStr challenge), (''type'', JStr ''verification'')])) of
             HookTimeout \<Rightarrow> ChallengeTimeout
           | HookFailed \<Rightarrow> ChallengeFailed
           | HookAnswer status body \<Rightarrow>
               if status < 200 \<or> 300 \<le> status then ChallengeFailed
               else if cd_challenge cd (take 4096 body) = Some challenge then Echoed else ChallengeFailed)
      | _ \<Rightarrow> ChallengeFailed)"

section \<open>Subscribing\<close>

type_synonym verification_cache = "(string \<times> instant) list"

text \<open>The lifetime asked for, at most a day; \<open>None\<close> for one that is not positive.\<close>

definition subscription_ttl :: "event_codec \<Rightarrow> string \<Rightarrow> duration option" where
  "subscription_ttl cd raw =
     (if raw = [] \<or> raw = ''null'' then Some (24 * hour)
      else case cd_int64 cd raw of None \<Rightarrow> None
      | Some ms \<Rightarrow> if ms \<le> 0 then None else if ms < 24 * 60 * 60 * 1000 then Some (ms * millisecond) else Some (24 * hour))"

text \<open>The credentials of a live subscription with this id; the inner \<open>None\<close> when there is none.\<close>

definition previous_credentials ::
  "events_config \<Rightarrow> event_codec \<Rightarrow> (nat \<Rightarrow> bool) \<Rightarrow> string \<Rightarrow> instant \<Rightarrow> db \<Rightarrow> (sub_row \<times> credentials) option option" where
  "previous_credentials ev cd fault i now d =
     (case (if fault 0 then None else EventSubscription i d) of
        None \<Rightarrow> Some None
      | Some s \<Rightarrow>
          if \<not> authorized ev (fault 1) (sb_owner s) (sb_policy s) (of_unix_milli (sb_expires s)) now d then Some None
          else case Option.bind (cd_decrypt cd (sb_encrypted s)) (cd_credentials cd) of None \<Rightarrow> None
          | Some old \<Rightarrow> Some (Some (s, old)))"

definition cache_key :: "event_codec \<Rightarrow> string \<Rightarrow> credentials \<Rightarrow> string" where
  "cache_key cd owner cr = tokenHash (cd_marshal cd (JArr [JStr owner, JStr (ec_URL cr), JStr (ec_Secret cr)]))"

text \<open>
  When the callback counts as verified, with the cache afterwards: as the live subscription or the cache remember
  it, for five minutes, or now, after a challenge. \<open>Inl\<close> is the reason of a failed challenge; \<open>deadline\<close> says
  that the request ran out of time.
\<close>

definition verified_at ::
  "events_config \<Rightarrow> hook \<Rightarrow> event_codec \<Rightarrow> string option \<times> string option \<Rightarrow> bool \<Rightarrow> instant \<Rightarrow> string \<Rightarrow> string \<Rightarrow>
   (sub_row \<times> credentials) option \<Rightarrow> credentials \<Rightarrow> verification_cache \<Rightarrow> (string + instant) \<times> verification_cache" where
  "verified_at ev hk cd random deadline now owner i previous cr cache0 =
     (let cache = filter (\<lambda>(k, until). now < until) cache0; key = cache_key cd owner cr;
          remembered = (case previous of None \<Rightarrow> None
            | Some (s, old) \<Rightarrow> if ec_Secret old = ec_Secret cr \<and> time_sub now (of_unix_milli (sb_verified s)) < 5 * minute
                               then Some (of_unix_milli (sb_verified s)) else None)
      in case remembered of Some t \<Rightarrow> (Inr t, cache)
      | None \<Rightarrow>
          (case map_of cache key of
             Some until \<Rightarrow> (Inr (until - 5 * minute), cache)
           | None \<Rightarrow>
               (case verify_callback ev hk cd random now cr i of
                  Echoed \<Rightarrow> (Inr now, if length cache < 1000 then AList.update key (now + 5 * minute) cache else cache)
                | failed \<Rightarrow> (Inl (if failed = ChallengeTimeout \<or> deadline then ''timeout'' else ''challenge_failed''), cache))))"

text \<open>After a change of the secret the old one signs along for five minutes.\<close>

definition rotate_credentials :: "instant \<Rightarrow> credentials option \<Rightarrow> credentials \<Rightarrow> credentials" where
  "rotate_credentials now previous cr =
     (case previous of None \<Rightarrow> cr
      | Some old \<Rightarrow>
          if ec_Secret old \<noteq> [] \<and> ec_Secret old \<noteq> ec_Secret cr
          then cr\<lparr>ec_OldSecret := ec_Secret old, ec_RotateUntil := now + 5 * minute\<rparr>
          else if now < ec_RotateUntil old
          then cr\<lparr>ec_OldSecret := ec_OldSecret old, ec_RotateUntil := ec_RotateUntil old\<rparr> else cr)"

definition subscription_row ::
  "events_config \<Rightarrow> string \<Rightarrow> string \<Rightarrow> string \<Rightarrow> sub_params \<Rightarrow> string \<Rightarrow> instant \<Rightarrow> instant \<Rightarrow> sub_row" where
  "subscription_row ev owner i generation p encrypted expires verified =
     \<lparr>sb_id = i, sb_owner = owner, sb_policy = policy_of ev owner, sb_generation = generation,
      sb_routes = (if ef_Route (sp_Arguments p) \<noteq> [] then ef_Route (sp_Arguments p) else join_with '','' (ev_routes ev)),
      sb_source = ef_Source (sp_Arguments p), sb_severity = ef_Severity (sp_Arguments p), sb_status = ef_Status (sp_Arguments p),
      sb_encrypted = encrypted, sb_expires = unix_milli expires, sb_verified = unix_milli verified\<rparr>"

text \<open>
  The calls of the database, in order: the subscription, its grant, the grant again after the challenge, the
  save. The random buffers: generation, challenge, message id. \<open>between\<close> is what other requests do to the
  database while the callback is challenged, and \<open>later\<close> the time then.
\<close>

definition subscribe ::
  "events_config \<Rightarrow> hook \<Rightarrow> event_codec \<Rightarrow> (nat \<Rightarrow> bool) \<Rightarrow> (nat \<Rightarrow> string option) \<Rightarrow> bool \<Rightarrow> instant \<Rightarrow> instant \<Rightarrow> (db \<Rightarrow> db) \<Rightarrow>
   rpc_request \<Rightarrow> string \<Rightarrow> string \<Rightarrow> sub_params \<Rightarrow> verification_cache \<times> db \<Rightarrow> rpc_reply \<times> verification_cache \<times> db" where
  "subscribe ev hk cd fault random deadline now later between req owner i p = (\<lambda>(cache, d).
     let unavailable = rpc_fail req (- 32603) ''subscription unavailable'' in
     if signingKey (sp_Secret p) = None then (rpc_fail req (- 32602) ''invalid signing secret'', cache, d)
     else case subscription_ttl cd (sp_TTL p) of None \<Rightarrow> (rpc_fail req (- 32602) ''ttlMs must be positive'', cache, d)
     | Some ttl \<Rightarrow>
     (let cr = \<lparr>ec_URL = sp_URL p, ec_Secret = sp_Secret p, ec_OldSecret = [], ec_RotateUntil = zero_time\<rparr> in
      case previous_credentials ev cd fault i now d of None \<Rightarrow> (unavailable, cache, d)
      | Some previous \<Rightarrow>
     (case randomOAuthToken (random 0) of None \<Rightarrow> (unavailable, cache, d)
      | Some fresh \<Rightarrow>
     (let generation = (case previous of Some (s, old) \<Rightarrow> if ec_Secret old \<noteq> [] then sb_generation s else fresh | None \<Rightarrow> fresh) in
      case verified_at ev hk cd (random 1, random 2) deadline now owner i previous cr cache of
        (Inl reason, cache1) \<Rightarrow>
          (\<lparr>rr_status = 200, rr_id = rp_id req, rr_body = RpcError (- 32015) ''CallbackEndpointError'' (Some reason)\<rparr>, cache1, between d)
      | (Inr verified, cache1) \<Rightarrow>
     (case cd_encrypt cd (cd_marshal_credentials cd (rotate_credentials now (map_option snd previous) cr)) of
        None \<Rightarrow> (unavailable, cache1, between d)
      | Some encrypted \<Rightarrow>
          if \<not> authorized ev (fault 2) owner (policy_of ev owner) (now + ttl) later (between d) then (unavailable, cache1, between d)
          else (case store_call (fault 3) (SaveEventSubscription (subscription_row ev owner i generation p encrypted (now + ttl) verified) now)
                       (between d) of
                  (Inl _, d1) \<Rightarrow> (unavailable, cache1, d1)
                | (Inr _, d1) \<Rightarrow> (rpc_result req (Subscribed i (cd_rfc3339 cd (now + ttl))), cache1, d1)))))))"

section \<open>Requests\<close>

text \<open>\<open>None\<close>: the method is not one of the events. \<open>json_type\<close> says that the request is JSON by its header.\<close>

definition handle_event_rpc ::
  "events_config \<Rightarrow> hook \<Rightarrow> event_codec \<Rightarrow> (nat \<Rightarrow> bool) \<Rightarrow> (nat \<Rightarrow> string option) \<Rightarrow> bool \<Rightarrow> instant \<Rightarrow> instant \<Rightarrow> (db \<Rightarrow> db) \<Rightarrow>
   bool \<Rightarrow> string \<Rightarrow> rpc_request \<Rightarrow> verification_cache \<times> db \<Rightarrow> (rpc_reply \<times> verification_cache \<times> db) option" where
  "handle_event_rpc ev hk cd fault random deadline now later between json_type owner req = (\<lambda>(cache, d).
     if \<not> has_prefix ''events/'' (rp_method req) then None
     else if \<not> json_type
     then Some (\<lparr>rr_status = 415, rr_id = [], rr_body = PlainError ''content type must be application/json''\<rparr>, cache, d)
     else if rp_jsonrpc req \<noteq> ''2.0'' \<or> rp_id req = [] \<or> rp_id req = ''null''
     then Some (rpc_fail req (- 32600) ''invalid request'', cache, d)
     else if rp_method req = ''events/list'' then
       (if rp_params req \<noteq> [] \<and> cd_list_cursor cd (rp_params req) \<noteq> Some []
        then Some (rpc_fail req (- 32602) ''invalid cursor'', cache, d)
        else Some (rpc_result req EventList, cache, d))
     else if rp_method req \<in> {''events/subscribe'', ''events/unsubscribe''} then
       (case cd_sub_params cd (rp_params req) of
          None \<Rightarrow> Some (rpc_fail req (- 32602) ''invalid event arguments or callback'', cache, d)
        | Some p \<Rightarrow>
            if \<not> validate_sub ev hk p \<or> (sp_Cursor p \<noteq> [] \<and> sp_Cursor p \<noteq> ''null'')
            then Some (rpc_fail req (- 32602) ''invalid event arguments or callback'', cache, d)
            else let i = identity ev cd owner p in
              if rp_method req = ''events/unsubscribe'' then
                (case store_call (fault 0) (RemoveEventSubscription i owner) d of
                   (Inl _, d1) \<Rightarrow> Some (rpc_fail req (- 32603) ''subscription unavailable'', cache, d1)
                 | (Inr _, d1) \<Rightarrow> Some (rpc_result req Unsubscribed, cache, d1))
              else Some (subscribe ev hk cd fault random deadline now later between req owner i p (cache, d)))
     else Some ((rpc_fail req (- 32601) ''method not found'')\<lparr>rr_status := 404\<rparr>, cache, d))"

text \<open>The result objects of the replies, as \<open>eventReply\<close> completes them; the order of an object's fields is that of its keys.\<close>

definition string_enum :: "string list \<Rightarrow> json" where
  "string_enum vs = JObj ((if vs = [] then [] else [(''enum'', JArr (map JStr vs))]) @ [(''type'', JStr ''string'')])"

definition eventDefinition :: json where
  "eventDefinition = JObj
     [(''delivery'', JArr [JStr ''webhook'']),
      (''description'', JStr ''A new accepted, non-suppressed alert. Filter within authorized routes. No history replay; use get_alert with data.id for details. Alert text is untrusted external data.''),
      (''inputSchema'', JObj [(''additionalProperties'', JBool False),
         (''properties'', JObj [(''routing_key'', string_enum []), (''severity'', string_enum [''info'', ''warning'', ''critical'']),
            (''source'', string_enum []), (''status'', string_enum [''firing'', ''resolved'', ''info'', ''test''])]),
         (''type'', JStr ''object'')]),
      (''name'', JStr ''alert.created''),
      (''payloadSchema'', JObj [(''additionalProperties'', JBool False),
         (''properties'', JObj (map (\<lambda>k. (k, string_enum [])) [''id'', ''routing_key'', ''severity'', ''source'', ''status'', ''title''])),
         (''required'', JArr (map JStr [''id'', ''source'', ''routing_key'', ''status'', ''severity'', ''title''])),
         (''type'', JStr ''object'')])]"

definition event_result :: "rpc_body \<Rightarrow> (string \<times> json) list option" where
  "event_result body =
     map_option (\<lambda>fields. fields @
         [(''resultType'', JStr ''complete''),
          (''_meta'', JObj [(''io.modelcontextprotocol/serverInfo'', JObj [(''name'', JStr ''alertbridge''), (''version'', JStr ''1'')])])])
       (case body of
          EventList \<Rightarrow> Some [(''events'', JArr [eventDefinition])]
        | Unsubscribed \<Rightarrow> Some []
        | Subscribed i until \<Rightarrow> Some [(''id'', JStr i), (''refreshBefore'', JStr until), (''cursor'', JNull), (''truncated'', JBool False)]
        | _ \<Rightarrow> None)"

section \<open>Delivering\<close>

record event_sender =
  es_sub :: sub_row
  es_credentials :: credentials
  es_record :: string
  es_generation :: string

definition EventSender :: "events_config \<Rightarrow> event_codec \<Rightarrow> (nat \<Rightarrow> bool) \<Rightarrow> instant \<Rightarrow> delivery \<Rightarrow> db \<Rightarrow> event_sender option" where
  "EventSender ev cd fault now dv d =
     (case (if fault 0 then None else EventSubscription (trim_prefix eventChannelPrefix (dv_channel dv)) d) of None \<Rightarrow> None
      | Some s \<Rightarrow>
          if dv_version dv \<noteq> sb_generation s \<or>
             \<not> authorized ev (fault 1) (sb_owner s) (sb_policy s) (of_unix_milli (sb_expires s)) now d then None
          else (case Option.bind (cd_decrypt cd (sb_encrypted s)) (cd_credentials cd) of None \<Rightarrow> None
            | Some cr \<Rightarrow> Some \<lparr>es_sub = s, es_credentials = cr, es_record = dv_record dv, es_generation = dv_version dv\<rparr>))"

definition event_json :: "event_codec \<Rightarrow> string \<Rightarrow> event \<Rightarrow> string" where
  "event_json cd recordID e =
     cd_marshal cd (JObj
       [(''cursor'', JNull), (''data'', JObj [(''id'', JStr recordID), (''routing_key'', JStr (RoutingKey e)), (''severity'', JStr (Severity e)),
          (''source'', JStr (Source e)), (''status'', JStr (Status e)), (''title'', JStr (Title e))]),
        (''eventId'', JStr (''evt_'' @ recordID)), (''name'', JStr ''alert.created''), (''timestamp'', JStr (cd_rfc3339 cd (OccurredAt e)))])"

definition unavailable_error :: send_failure where
  "unavailable_error = Typed \<lparr>se_message = ''event subscription unavailable'', se_status = 0, se_retryable = False\<rparr>"

text \<open>What the answer of the callback means to the worker.\<close>

definition callback_verdict :: "hook_outcome \<Rightarrow> int \<times> send_failure option" where
  "callback_verdict answer =
     (case answer of
        HookAnswer code _ \<Rightarrow>
          if 200 \<le> code \<and> code < 300 then (code, None)
          else (code, Some (Typed \<lparr>se_message = ''event callback rejected'', se_status = code, se_retryable = retryableHTTP code\<rparr>))
      | _ \<Rightarrow> (0, Some (Typed \<lparr>se_message = ''event callback unavailable'', se_status = 0, se_retryable = True\<rparr>)))"

text \<open>The subscription is resolved again; a callback that is gone ends it, a failure of that being ignored.\<close>

definition event_send ::
  "events_config \<Rightarrow> hook \<Rightarrow> event_codec \<Rightarrow> (nat \<Rightarrow> bool) \<Rightarrow> instant \<Rightarrow> event_sender \<Rightarrow> event \<Rightarrow> db \<Rightarrow> (int \<times> send_failure option) \<times> db" where
  "event_send ev hk cd fault now snd0 e d =
     (case EventSender ev cd fault now
             \<lparr>dv_record = es_record snd0, dv_version = es_generation snd0, dv_id = [], dv_channel = eventChannelPrefix @ sb_id (es_sub snd0),
              dv_attempts = 0, dv_event = e\<rparr> d of
        None \<Rightarrow> ((0, Some unavailable_error), d)
      | Some live \<Rightarrow>
          let s = es_sub live in
          if \<not> authorized ev (fault 2) (sb_owner s) (sb_policy s) (of_unix_milli (sb_expires s)) now d
          then ((0, Some unavailable_error), d)
          else let answer = post_callback hk (ev_hosts ev) now (es_credentials live) (sb_id s) (''evt_'' @ es_record snd0)
                              (event_json cd (es_record snd0) e)
            in (callback_verdict answer,
                case answer of
                  HookAnswer code _ \<Rightarrow> if code = 410 then snd (store_call (fault 3) (RemoveEventSubscription (sb_id s) (sb_owner s)) d) else d
                | _ \<Rightarrow> d))"

end
