(* ===== verification/Query.thy ===== *)
theory Query
  imports Delivery
begin

text \<open>
  \<open>internal/store/query.go\<close>: the read side. Pages follow a stable cursor, the position of the last row
  shown: receipt time and record id for alerts, the row number for incidents. The locale \<open>paginated\<close> is
  what a client that follows cursors relies on. \<open>time.Parse\<close> and the text form of a cursor (base64 of
  JSON) are arguments of the definitions.
\<close>

section \<open>Positions\<close>

datatype position = Position millis string

instantiation position :: linorder
begin

definition less_eq_position :: "position \<Rightarrow> position \<Rightarrow> bool" where
  "less_eq_position p q =
     (case (p, q) of (Position t i, Position u j) \<Rightarrow> t < u \<or> (t = u \<and> i \<le> j))"

definition less_position :: "position \<Rightarrow> position \<Rightarrow> bool" where
  "less_position p q =
     (case (p, q) of (Position t i, Position u j) \<Rightarrow> t < u \<or> (t = u \<and> i < j))"

instance
  by standard (auto simp: less_eq_position_def less_position_def split: position.splits)

end

lemma Position_less [simp]: "Position t i < Position u j \<longleftrightarrow> t < u \<or> (t = u \<and> i < j)"
  by (simp add: less_position_def)

definition alert_position :: "event_row \<Rightarrow> position" where
  "alert_position e = Position (ev_created e) (ev_id e)"

section \<open>Alerts\<close>

record alert_query =
  q_Order :: string
  q_Since :: string
  q_Cursor :: string
  q_Limit :: int
  q_Source :: string
  q_Severity :: string
  q_Status :: string

record alert_record =
  al_ID :: string
  al_EventID :: string
  al_Source :: string
  al_Route :: string
  al_Status :: string
  al_Severity :: string
  al_Title :: string
  al_Message :: string
  al_OccurredAt :: instant
  al_ReceivedAt :: instant
  al_Outcome :: outcome

record alert_page =
  pg_Checkpoint :: string
  pg_Alerts :: "alert_record list"
  pg_NextCursor :: string

text \<open>The struct in a cursor, and its text form: \<open>None\<close> for bad base64, more than 256 bytes, or bad JSON.\<close>

record query_cursor =
  qc_Time :: int
  qc_ID :: string
  qc_Order :: string

record cursor_codec =
  encode_cursor :: "query_cursor \<Rightarrow> string"
  decode_cursor :: "string \<Rightarrow> query_cursor option"

definition alert_of :: "event_row \<Rightarrow> alert_record" where
  "alert_of e =
     \<lparr>al_ID = ev_id e, al_EventID = ev_event e, al_Source = ev_source e, al_Route = ev_route e,
      al_Status = ev_status e, al_Severity = ev_severity e, al_Title = ev_title e, al_Message = ev_message e,
      al_OccurredAt = of_unix_milli (ev_occurred e), al_ReceivedAt = of_unix_milli (ev_created e),
      al_Outcome = ev_outcome e\<rparr>"

text \<open>\<open>routePredicate\<close>: the row's route is one of the given; none for no routes.\<close>

definition routePredicate :: "string list \<Rightarrow> string \<Rightarrow> bool" where
  "routePredicate routes r \<longleftrightarrow> r \<in> set routes"

text \<open>The WHERE clause without the cursor, and the ORDER BY.\<close>

definition alert_matches :: "string list \<Rightarrow> alert_query \<Rightarrow> millis option \<Rightarrow> event_row \<Rightarrow> bool" where
  "alert_matches routes q since e \<longleftrightarrow>
     routePredicate routes (ev_route e) \<and>
     (case since of None \<Rightarrow> True | Some t \<Rightarrow> t \<le> ev_created e) \<and>
     (q_Source q = [] \<or> ev_source e = q_Source q) \<and>
     (q_Severity q = [] \<or> ev_severity e = q_Severity q) \<and>
     (q_Status q = [] \<or> ev_status e = q_Status q)"

definition alert_rows :: "string list \<Rightarrow> alert_query \<Rightarrow> millis option \<Rightarrow> bool \<Rightarrow> db \<Rightarrow> event_row list" where
  "alert_rows routes q since descending d =
     (let rows = sort_key alert_position (filter (alert_matches routes q since) (events d))
      in if descending then rev rows else rows)"

definition beyond :: "bool \<Rightarrow> position option \<Rightarrow> event_row \<Rightarrow> bool" where
  "beyond descending cursor e \<longleftrightarrow>
     (case cursor of None \<Rightarrow> True
      | Some c \<Rightarrow> if descending then alert_position e < c else c < alert_position e)"

text \<open>The cursor of a query: nothing, an error, or a position.\<close>

definition query_position :: "cursor_codec \<Rightarrow> string \<Rightarrow> string \<Rightarrow> store_error + position option" where
  "query_position codec cursorOrder text_form =
     (if text_form = [] then Inr None
      else case decode_cursor codec text_form of
        None \<Rightarrow> Inl (ErrQuery ''invalid cursor'')
      | Some c \<Rightarrow>
          if qc_Time c < 0 \<or> qc_ID c = [] then Inl (ErrQuery ''invalid cursor'')
          else if qc_Order c \<noteq> cursorOrder then Inl (ErrQuery ''cursor order does not match query order'')
          else Inr (Some (Position (qc_Time c) (qc_ID c))))"

definition cursor_at :: "cursor_codec \<Rightarrow> string \<Rightarrow> alert_record \<Rightarrow> string" where
  "cursor_at codec cursorOrder a =
     encode_cursor codec \<lparr>qc_Time = unix_milli (al_ReceivedAt a), qc_ID = al_ID a, qc_Order = cursorOrder\<rparr>"

definition query_defaults :: "alert_query \<Rightarrow> alert_query" where
  "query_defaults q =
     (let q1 = (if q_Order q = [] then q\<lparr>q_Order := ''asc''\<rparr> else q)
      in if q_Limit q1 = 0 then q1\<lparr>q_Limit := 20\<rparr> else q1)"

definition cursor_order :: "bool \<Rightarrow> string" where
  "cursor_order descending = (if descending then ''desc'' else [])"

text \<open>The page made of the rows read, one more than the limit when there are more.\<close>

definition build_page :: "cursor_codec \<Rightarrow> bool \<Rightarrow> string \<Rightarrow> nat \<Rightarrow> event_row list \<Rightarrow> alert_page" where
  "build_page codec descending cursor limit rows =
     (let all = map alert_of rows;
          more = (limit < length all);
          alerts = (if more then take limit all else all);
          next_cursor = (if more then cursor_at codec (cursor_order descending) (last alerts) else []);
          checkpoint = (if descending then []
                        else if alerts = [] then cursor else cursor_at codec [] (last alerts))
      in \<lparr>pg_Checkpoint = checkpoint, pg_Alerts = alerts, pg_NextCursor = next_cursor\<rparr>)"

definition QueryAlerts ::
  "(string \<Rightarrow> instant option) \<Rightarrow> cursor_codec \<Rightarrow> string list \<Rightarrow> alert_query \<Rightarrow> db \<Rightarrow> store_error + alert_page" where
  "QueryAlerts parse_time codec routes q0 d =
     (let q = query_defaults q0; descending = (q_Order q = ''desc'') in
      if q_Order q \<noteq> ''asc'' \<and> q_Order q \<noteq> ''desc'' then Inl (ErrQuery ''order must be asc or desc'')
      else if q_Limit q < 1 \<or> 100 < q_Limit q then Inl (ErrQuery ''limit must be between 1 and 100'')
      else if q_Since q \<noteq> [] \<and> parse_time (q_Since q) = None then Inl (ErrQuery ''since must be RFC3339'')
      else case query_position codec (cursor_order descending) (q_Cursor q) of
        Inl err \<Rightarrow> Inl err
      | Inr cursor \<Rightarrow>
          (let since = (if q_Since q = [] then None else map_option unix_milli (parse_time (q_Since q)));
               rows = take (nat (q_Limit q) + 1)
                 (filter (beyond descending cursor) (alert_rows routes q since descending d))
           in Inr (build_page codec descending (q_Cursor q) (nat (q_Limit q)) rows)))"

record query_delivery =
  qd_Channel :: string
  qd_Status :: delivery_status
  qd_Attempts :: int
  qd_Code :: int

definition QueryAlert :: "string list \<Rightarrow> string \<Rightarrow> db \<Rightarrow> store_error + alert_record \<times> query_delivery list" where
  "QueryAlert routes i d =
     (case query_row (\<lambda>e. routePredicate routes (ev_route e) \<and> ev_id e = i) (events d) of
        None \<Rightarrow> Inl (ErrQuery ''alert not found'')
      | Some e \<Rightarrow> Inr (alert_of e,
          map (\<lambda>r. \<lparr>qd_Channel = dl_channel r, qd_Status = dl_status r, qd_Attempts = dl_attempts r,
                    qd_Code = dl_code r\<rparr>)
            (sort_key dl_channel (filter (\<lambda>r. dl_event r = i) (deliveries d)))))"

section \<open>Incidents\<close>

record incident_record =
  ic_Client :: string
  ic_Route :: string
  ic_Key :: string
  ic_StartedAt :: instant
  ic_LastSeen :: instant

text \<open>Incidents are never deleted, so a row's \<open>rowid\<close> is its place in the table, from 1.\<close>

definition incident_rows :: "string list \<Rightarrow> db \<Rightarrow> (nat \<times> incident_row) list" where
  "incident_rows routes d =
     filter (\<lambda>(n, r). routePredicate routes (in_route r) \<and> in_state r = StatusFiring)
       (zip [1..<Suc (length (incidents d))] (incidents d))"

definition incident_record_of :: "nat \<times> incident_row \<Rightarrow> incident_record" where
  "incident_record_of x =
     (case x of (n, r) \<Rightarrow>
        \<lparr>ic_Client = in_client r, ic_Route = in_route r, ic_Key = in_dedupe r,
         ic_StartedAt = of_unix_milli (in_first r), ic_LastSeen = of_unix_milli (in_seen r)\<rparr>)"

text \<open>\<open>decode\<close> and \<open>encode\<close> are the text form of the row number.\<close>

definition QueryIncidents ::
  "(string \<Rightarrow> int option) \<Rightarrow> (nat \<Rightarrow> string) \<Rightarrow> string list \<Rightarrow> string \<Rightarrow> int \<Rightarrow> db
     \<Rightarrow> store_error + incident_record list \<times> string" where
  "QueryIncidents decode encode routes cursor limit0 d =
     (let limit = (if limit0 = 0 then 20 else limit0) in
      if limit < 1 \<or> 100 < limit then Inl (ErrQuery ''limit must be between 1 and 100'')
      else case (if cursor = [] then Some 0 else decode cursor) of
        None \<Rightarrow> Inl (ErrQuery ''invalid cursor'')
      | Some offset \<Rightarrow>
          if offset < 0 then Inl (ErrQuery ''invalid cursor'')
          else (let rows = take (nat limit + 1) (filter (\<lambda>(n, r). offset < int n) (incident_rows routes d))
                in if nat limit < length rows
                   then Inr (map incident_record_of (take (nat limit) rows), encode (fst (rows ! (nat limit - 1))))
                   else Inr (map incident_record_of rows, [])))"

section \<open>Following cursors\<close>

definition past :: "('p \<Rightarrow> 'a \<Rightarrow> bool) \<Rightarrow> 'p option \<Rightarrow> 'a \<Rightarrow> bool" where
  "past beyond_pos c x \<longleftrightarrow> (case c of None \<Rightarrow> True | Some p \<Rightarrow> beyond_pos p x)"

fun follow_pages :: "('p option \<Rightarrow> 'a list \<times> 'p option) \<Rightarrow> nat \<Rightarrow> 'p option \<Rightarrow> 'a list" where
  "follow_pages page 0 c = []"
| "follow_pages page (Suc fuel) c =
     (case page c of (xs, next_pos) \<Rightarrow>
        xs @ (case next_pos of None \<Rightarrow> [] | Some p \<Rightarrow> follow_pages page fuel (Some p)))"

locale paginated =
  fixes ok :: "'q \<Rightarrow> bool" and items :: "'q \<Rightarrow> 'a list" and further :: "'q \<Rightarrow> 'p \<Rightarrow> 'a \<Rightarrow> bool"
    and pos :: "'a \<Rightarrow> 'p" and page :: "'q \<Rightarrow> nat \<Rightarrow> 'p option \<Rightarrow> 'a list \<times> 'p option"
  assumes ordered: "ok q \<Longrightarrow> sorted_wrt (\<lambda>x y. further q (pos x) y \<and> \<not> further q (pos y) x) (items q)"
    and self: "\<not> further q (pos x) x"
    and trans: "further q p x \<Longrightarrow> further q (pos x) y \<Longrightarrow> further q p y"
    and page_eq: "page q n c =
      (let rest = filter (past (further q) c) (items q)
       in (take n rest, if n < length rest then Some (pos (rest ! (n - 1))) else None))"
begin

lemma rest_after:
  assumes "ok q" and "rest = filter (past (further q) c) (items q)" and "0 < n" and "n \<le> length rest"
  shows "filter (past (further q) (Some (pos (rest ! (n - 1))))) (items q) = drop n rest"
proof -
  let ?x = "rest ! (n - 1)"
  have sorted: "sorted_wrt (\<lambda>x y. further q (pos x) y \<and> \<not> further q (pos y) x) rest"
    unfolding assms(2) using ordered [OF assms(1)] by (rule sorted_wrt_filter)
  have x: "past (further q) c ?x" using assms nth_mem [of "n - 1" rest] by auto
  have narrow: "filter Q (items q) = filter Q rest" if "\<And>y. Q y \<Longrightarrow> past (further q) c y" for Q
    unfolding assms(2) filter_filter using that by (intro filter_cong) auto
  have "past (further q) c y" if "further q (pos ?x) y" for y
    using x trans [OF _ that] by (cases c) (simp_all add: past_def)
  then have "filter (further q (pos ?x)) (items q) = filter (further q (pos ?x)) rest" by (rule narrow)
  also have "\<dots> = filter (further q (pos ?x)) (take n rest) @ filter (further q (pos ?x)) (drop n rest)"
    by (metis append_take_drop_id filter_append)
  also have "filter (further q (pos ?x)) (take n rest) = []"
  proof -
    have "\<not> further q (pos ?x) (rest ! i)" if "i < n" for i
    proof (cases "i = n - 1")
      case False
      then have "i < n - 1" using that by simp
      then show ?thesis using sorted_wrt_nth_less [OF sorted, of i "n - 1"] assms(3,4) by simp
    qed (simp add: self)
    then show ?thesis using assms(4) by (auto simp: filter_empty_conv in_set_conv_nth)
  qed
  also have "filter (further q (pos ?x)) (drop n rest) = drop n rest"
  proof (rule filter_True, rule ballI)
    fix y
    assume "y \<in> set (drop n rest)"
    then obtain j where "j < length (drop n rest)" "y = drop n rest ! j" by (auto simp: in_set_conv_nth)
    then have "n + j < length rest" "y = rest ! (n + j)" by simp_all
    then show "further q (pos ?x) y"
      using sorted_wrt_nth_less [OF sorted, of "n - 1" "n + j"] assms(3) by simp
  qed
  finally show ?thesis by (simp add: past_def [abs_def])
qed

lemma follow_from:
  assumes "ok q" and "0 < n" and "length (filter (past (further q) c) (items q)) < fuel"
  shows "follow_pages (page q n) fuel c = filter (past (further q) c) (items q)"
  using assms(3)
proof (induction fuel arbitrary: c)
  case (Suc fuel)
  define rest where "rest = filter (past (further q) c) (items q)"
  show ?case
  proof (cases "n < length rest")
    case True
    from rest_after [OF assms(1) rest_def assms(2)] True
    have "filter (past (further q) (Some (pos (rest ! (n - 1))))) (items q) = drop n rest" by simp
    moreover have "length (drop n rest) < fuel" using Suc.prems True assms(2) by (simp add: rest_def)
    ultimately show ?thesis
      using Suc.IH [of "Some (pos (rest ! (n - 1)))"] True
      by (simp add: page_eq flip: rest_def)
  next
    case False
    then show ?thesis by (simp add: page_eq flip: rest_def)
  qed
qed simp

lemma follow_all:
  "ok q \<Longrightarrow> 0 < n \<Longrightarrow> length (items q) < fuel \<Longrightarrow> follow_pages (page q n) fuel None = items q"
  using follow_from [of q n None fuel] by (simp add: past_def)

end

section \<open>Both queries are paginated\<close>

text \<open>A page by position, before cursors are turned into text.\<close>

type_synonym alert_source = "string list \<times> alert_query \<times> millis option \<times> bool \<times> db"

definition source_rows :: "alert_source \<Rightarrow> event_row list" where
  "source_rows s = (case s of (routes, q, since, descending, d) \<Rightarrow> alert_rows routes q since descending d)"

definition source_further :: "alert_source \<Rightarrow> position \<Rightarrow> event_row \<Rightarrow> bool" where
  "source_further s p e =
     (case s of (routes, q, since, descending, d) \<Rightarrow> beyond descending (Some p) e)"

definition source_ok :: "alert_source \<Rightarrow> bool" where
  "source_ok s = (case s of (routes, q, since, descending, d) \<Rightarrow> keyed ev_id (events d))"

definition source_page :: "alert_source \<Rightarrow> nat \<Rightarrow> position option \<Rightarrow> event_row list \<times> position option" where
  "source_page s n c =
     (let rows = take (n + 1) (filter (past (source_further s) c) (source_rows s))
      in (take n rows, if n < length rows then Some (alert_position (rows ! (n - 1))) else None))"

lemma page_probe:
  "(let rows = take (n + 1) rest in (take n rows, if n < length rows then Some (f (rows ! (n - 1))) else None))
   = (take n rest, if n < length rest then Some (f (rest ! (n - 1))) else None)"
  by (auto simp: Let_def min_def)

lemma sorted_positions:
  assumes "keyed ev_id (events d)"
  shows "sorted_wrt (\<lambda>x y. alert_position x < alert_position y) (alert_rows routes q since False d)"
proof -
  let ?rows = "filter (alert_matches routes q since) (events d)"
  have "distinct (map ev_id ?rows)" using assms by (induction "events d") (auto simp: keyed_def distinct_map_filter)
  then have "distinct (map alert_position ?rows)"
    by (auto simp: distinct_map alert_position_def inj_on_def)
  then have "distinct (map alert_position (sort_key alert_position ?rows))"
    by (simp add: distinct_map)
  moreover have "sorted (map alert_position (sort_key alert_position ?rows))" by simp
  ultimately have "sorted_wrt (<) (map alert_position (sort_key alert_position ?rows))"
    by (simp add: strict_sorted_iff)
  then show ?thesis by (simp add: alert_rows_def sorted_wrt_map)
qed

interpretation alerts: paginated source_ok source_rows source_further alert_position source_page
proof (unfold_locales, goal_cases)
  case (1 s)
  obtain routes q since descending d where s: "s = (routes, q, since, descending, d)" by (cases s)
  have keyed: "keyed ev_id (events d)" using 1 s by (simp add: source_ok_def)
  note sorted = sorted_positions [OF keyed, of routes q since]
  show ?case
  proof (cases descending)
    case True
    have "alert_rows routes q since True d = rev (alert_rows routes q since False d)"
      by (simp add: alert_rows_def Let_def)
    then show ?thesis
      using sorted True s
      by (auto simp: source_rows_def source_further_def beyond_def sorted_wrt_rev elim!: sorted_wrt_mono_rel [rotated])
  next
    case False
    then show ?thesis
      using sorted s
      by (auto simp: source_rows_def source_further_def beyond_def elim!: sorted_wrt_mono_rel [rotated])
  qed
next
  case (2 q x)
  then show ?case by (auto simp: source_further_def beyond_def split: prod.splits)
next
  case (3 q p x y)
  then show ?case by (auto simp: source_further_def beyond_def split: prod.splits if_splits)
next
  case (4 s n c)
  show ?case unfolding source_page_def page_probe Let_def by simp
qed

definition incident_source_page ::
  "string list \<times> db \<Rightarrow> nat \<Rightarrow> nat option \<Rightarrow> (nat \<times> incident_row) list \<times> nat option" where
  "incident_source_page s n c =
     (let rows = take (n + 1) (filter (past (\<lambda>p x. p < fst x) c) (incident_rows (fst s) (snd s)))
      in (take n rows, if n < length rows then Some (fst (rows ! (n - 1))) else None))"

lemma sorted_incident_rows: "sorted_wrt (\<lambda>x y. fst x < fst y) (incident_rows routes d)"
proof -
  have "sorted_wrt (<) (map fst (zip [1..<Suc (length (incidents d))] (incidents d)))"
    by (simp add: sorted_wrt_upt del: upt_Suc)
  then show ?thesis unfolding incident_rows_def by (intro sorted_wrt_filter) (simp only: sorted_wrt_map)
qed

interpretation firing: paginated "\<lambda>s. True" "\<lambda>s. incident_rows (fst s) (snd s)" "\<lambda>s p x. p < fst x" fst incident_source_page
proof (unfold_locales, goal_cases)
  case (1 s)
  show ?case by (rule sorted_wrt_mono_rel [OF _ sorted_incident_rows]) simp
next
  case (2 q x)
  then show ?case by simp
next
  case (3 q p x y)
  then show ?case by simp
next
  case (4 s n c)
  show ?case unfolding incident_source_page_def page_probe Let_def by simp
qed

section \<open>Reading everything\<close>

text \<open>A client that starts without a cursor and sends back each \<open>next_cursor\<close> until there is none.\<close>

fun read_alerts ::
  "(string \<Rightarrow> instant option) \<Rightarrow> cursor_codec \<Rightarrow> string list \<Rightarrow> alert_query \<Rightarrow> db \<Rightarrow> nat \<Rightarrow> string \<Rightarrow> alert_record list" where
  "read_alerts parse_time codec routes q d 0 cursor = []"
| "read_alerts parse_time codec routes q d (Suc fuel) cursor =
     (case QueryAlerts parse_time codec routes (q\<lparr>q_Cursor := cursor\<rparr>) d of
        Inl err \<Rightarrow> []
      | Inr pg \<Rightarrow> pg_Alerts pg @
          (if pg_NextCursor pg = [] then []
           else read_alerts parse_time codec routes q d fuel (pg_NextCursor pg)))"

definition query_descending :: "alert_query \<Rightarrow> bool" where
  "query_descending q \<longleftrightarrow> q_Order q = ''desc''"

definition page_size :: "alert_query \<Rightarrow> nat" where
  "page_size q = (if q_Limit q = 0 then 20 else nat (q_Limit q))"

definition query_since :: "(string \<Rightarrow> instant option) \<Rightarrow> alert_query \<Rightarrow> millis option" where
  "query_since parse_time q = (if q_Since q = [] then None else map_option unix_milli (parse_time (q_Since q)))"

definition query_valid :: "(string \<Rightarrow> instant option) \<Rightarrow> alert_query \<Rightarrow> bool" where
  "query_valid parse_time q \<longleftrightarrow> q_Order q \<in> {[], ''asc'', ''desc''} \<and> 0 \<le> q_Limit q \<and> q_Limit q \<le> 100 \<and>
     (q_Since q = [] \<or> parse_time (q_Since q) \<noteq> None)"

definition cursor_text :: "cursor_codec \<Rightarrow> bool \<Rightarrow> position \<Rightarrow> string" where
  "cursor_text codec descending p =
     (case p of Position t i \<Rightarrow>
        encode_cursor codec \<lparr>qc_Time = t, qc_ID = i, qc_Order = cursor_order descending\<rparr>)"

lemma page_size_pos: "query_valid parse_time q \<Longrightarrow> 0 < page_size q"
  by (auto simp: query_valid_def page_size_def)

lemma cursor_at_row: "cursor_at codec (cursor_order desc) (alert_of e) = cursor_text codec desc (alert_position e)"
  by (simp add: cursor_at_def cursor_text_def alert_position_def alert_of_def)

lemma query_defaults_fields:
  "q_Since (query_defaults q) = q_Since q" "q_Cursor (query_defaults q) = q_Cursor q"
  "alert_matches routes (query_defaults q) since = alert_matches routes q since"
  by (auto simp: query_defaults_def Let_def alert_matches_def)

lemma QueryAlerts_valid:
  assumes "query_valid parse_time q"
    and "query_position codec (cursor_order (query_descending q)) (q_Cursor q) = Inr c"
  shows "QueryAlerts parse_time codec routes q d = Inr (build_page codec (query_descending q) (q_Cursor q) (page_size q)
    (take (page_size q + 1)
      (filter (beyond (query_descending q) c) (alert_rows routes q (query_since parse_time q) (query_descending q) d))))"
proof -
  have order: "q_Order (query_defaults q) = ''desc'' \<longleftrightarrow> query_descending q"
    "q_Order (query_defaults q) = ''asc'' \<or> q_Order (query_defaults q) = ''desc''"
    and limit: "nat (q_Limit (query_defaults q)) = page_size q" "\<not> (q_Limit (query_defaults q) < 1 \<or> 100 < q_Limit (query_defaults q))"
    using assms(1) by (auto simp: query_defaults_def Let_def query_descending_def query_valid_def page_size_def)
  have rows: "alert_rows routes (query_defaults q) since b d = alert_rows routes q since b d" for since b
    by (simp add: alert_rows_def query_defaults_fields)
  have since: "\<not> (q_Since q \<noteq> [] \<and> parse_time (q_Since q) = None)"
    using assms(1) by (auto simp: query_valid_def)
  show ?thesis
    unfolding QueryAlerts_def Let_def
    using order limit since assms(2) by (simp add: query_defaults_fields rows query_since_def)
qed

lemma build_page_fields:
  assumes "0 < n" and "length rows \<le> n + 1"
  shows "pg_Alerts (build_page codec desc cursor n rows) = map alert_of (take n rows)"
    and "pg_NextCursor (build_page codec desc cursor n rows) =
      (if n < length rows then cursor_text codec desc (alert_position (rows ! (n - 1))) else [])"
proof -
  show "pg_Alerts (build_page codec desc cursor n rows) = map alert_of (take n rows)"
    by (simp add: build_page_def Let_def take_map)
  have "last (take n (map alert_of rows)) = alert_of (rows ! (n - 1))" if "n < length rows"
  proof -
    have "take n rows \<noteq> []" using that assms(1) by auto
    then show ?thesis using that by (simp add: take_map last_map last_conv_nth)
  qed
  then show "pg_NextCursor (build_page codec desc cursor n rows) =
      (if n < length rows then cursor_text codec desc (alert_position (rows ! (n - 1))) else [])"
    by (simp add: build_page_def Let_def cursor_at_row)
qed

text \<open>A call in terms of pages by position.\<close>

lemma QueryAlerts_page:
  assumes "query_valid parse_time q"
    and "query_position codec (cursor_order (query_descending q)) cursor = Inr c"
    and "source_page (routes, q, query_since parse_time q, query_descending q, d) (page_size q) c = (rows, next_pos)"
  shows "\<exists>pg. QueryAlerts parse_time codec routes (q\<lparr>q_Cursor := cursor\<rparr>) d = Inr pg \<and>
    pg_Alerts pg = map alert_of rows \<and>
    pg_NextCursor pg = (case next_pos of None \<Rightarrow> [] | Some p \<Rightarrow> cursor_text codec (query_descending q) p)"
proof -
  let ?q = "q\<lparr>q_Cursor := cursor\<rparr>"
  let ?rows = "take (page_size q + 1) (filter (beyond (query_descending q) c)
    (alert_rows routes q (query_since parse_time q) (query_descending q) d))"
  have same: "query_valid parse_time ?q = query_valid parse_time q" "query_descending ?q = query_descending q"
    "page_size ?q = page_size q" "query_since parse_time ?q = query_since parse_time q"
    "alert_rows routes ?q since b d = alert_rows routes q since b d" for since b
    by (simp_all add: query_valid_def query_descending_def page_size_def query_since_def alert_rows_def
        alert_matches_def [abs_def])
  have past: "past (source_further (routes, q, query_since parse_time q, query_descending q, d)) c = beyond (query_descending q) c"
    by (intro ext) (simp add: past_def source_further_def beyond_def split: option.splits)
  have "source_page (routes, q, query_since parse_time q, query_descending q, d) (page_size q) c =
      (take (page_size q) ?rows,
       if page_size q < length ?rows then Some (alert_position (?rows ! (page_size q - 1))) else None)"
    by (simp only: source_page_def past source_rows_def Let_def prod.case)
  from trans [OF assms(3) [symmetric] this] have "rows = take (page_size q) ?rows"
    and "next_pos = (if page_size q < length ?rows then Some (alert_position (?rows ! (page_size q - 1))) else None)"
    unfolding prod.inject by (rule conjunct1, rule conjunct2)
  moreover have "QueryAlerts parse_time codec routes ?q d =
      Inr (build_page codec (query_descending q) cursor (page_size q) ?rows)"
    using QueryAlerts_valid [of parse_time ?q codec c routes d] assms(1,2) by (simp add: same)
  moreover note build_page_fields [OF page_size_pos [OF assms(1)], of ?rows codec "query_descending q" cursor]
  ultimately show ?thesis by auto
qed

text \<open>
  The text form gives back the struct of every cursor the queries make: a non-negative 64-bit time, an
  identifier of at most 64 letters and digits, and an order. Its JSON stays below 256 bytes.
\<close>

definition record_id :: "string \<Rightarrow> bool" where
  "record_id i \<longleftrightarrow> i \<noteq> [] \<and> length i \<le> 64 \<and> (\<forall>c\<in>set i. is_alnum c)"

definition codec_ok :: "cursor_codec \<Rightarrow> bool" where
  "codec_ok codec \<longleftrightarrow>
     (\<forall>c. 0 \<le> qc_Time c \<and> qc_Time c < 2 ^ 63 \<and> record_id (qc_ID c) \<and> qc_Order c \<in> {[], ''desc''} \<longrightarrow>
        decode_cursor codec (encode_cursor codec c) = Some c \<and> encode_cursor codec c \<noteq> [])"

definition events_ok :: "db \<Rightarrow> bool" where
  "events_ok d \<longleftrightarrow> keyed ev_id (events d) \<and>
     (\<forall>e\<in>set (events d). 0 \<le> ev_created e \<and> ev_created e < 2 ^ 63 \<and> record_id (ev_id e))"

lemma query_position_text:
  assumes "codec_ok codec" and "0 \<le> t" and "t < 2 ^ 63" and "record_id i"
  shows "cursor_text codec desc (Position t i) \<noteq> [] \<and>
    query_position codec (cursor_order desc) (cursor_text codec desc (Position t i)) = Inr (Some (Position t i))"
proof -
  let ?c = "\<lparr>qc_Time = t, qc_ID = i, qc_Order = cursor_order desc\<rparr>"
  have "decode_cursor codec (encode_cursor codec ?c) = Some ?c \<and> encode_cursor codec ?c \<noteq> []"
    using assms by (auto simp: codec_ok_def cursor_order_def)
  then show ?thesis using assms(2,4) by (simp add: query_position_def cursor_text_def record_id_def)
qed

lemma read_alerts_follow:
  assumes "query_valid parse_time q" and "codec_ok codec" and "events_ok d"
    and "query_position codec (cursor_order (query_descending q)) cursor = Inr c"
  shows "read_alerts parse_time codec routes q d fuel cursor =
    map alert_of (follow_pages (source_page (routes, q, query_since parse_time q, query_descending q, d) (page_size q)) fuel c)"
  using assms(4)
proof (induction fuel arbitrary: cursor c)
  case (Suc fuel)
  let ?s = "(routes, q, query_since parse_time q, query_descending q, d)"
  obtain rows next_pos where page: "source_page ?s (page_size q) c = (rows, next_pos)"
    by (cases "source_page ?s (page_size q) c")
  from QueryAlerts_page [OF assms(1) Suc.prems page] obtain pg where
    run: "QueryAlerts parse_time codec routes (q\<lparr>q_Cursor := cursor\<rparr>) d = Inr pg" "pg_Alerts pg = map alert_of rows"
    and nx: "pg_NextCursor pg = (case next_pos of None \<Rightarrow> [] | Some p \<Rightarrow> cursor_text codec (query_descending q) p)" by blast
  show ?case
  proof (cases next_pos)
    case None
    then show ?thesis using run nx page by simp
  next
    case (Some p)
    let ?rest = "filter (past (source_further ?s) c) (source_rows ?s)"
    have "p = alert_position (?rest ! (page_size q - 1))" "page_size q < length ?rest"
      using page Some unfolding alerts.page_eq Let_def by (auto split: if_splits)
    moreover from this(2) have "?rest ! (page_size q - 1) \<in> set (source_rows ?s)"
      using nth_mem [of "page_size q - 1" ?rest] by auto
    then have "?rest ! (page_size q - 1) \<in> set (events d)"
      by (auto simp: source_rows_def alert_rows_def Let_def split: if_splits)
    ultimately obtain e where "p = Position (ev_created e) (ev_id e)" "e \<in> set (events d)"
      by (auto simp: alert_position_def)
    then have "cursor_text codec (query_descending q) p \<noteq> [] \<and>
      query_position codec (cursor_order (query_descending q)) (cursor_text codec (query_descending q) p) = Inr (Some p)"
      using query_position_text [OF assms(2)] assms(3) by (auto simp: events_ok_def)
    then show ?thesis using run nx page Some Suc.IH [of "cursor_text codec (query_descending q) p" "Some p"] by simp
  qed
qed simp


text \<open>A codec with readable cursors.\<close>

definition plain_codec :: cursor_codec where
  "plain_codec =
     \<lparr>encode_cursor = (\<lambda>c. show_int (qc_Time c) @ CHR ''/'' # qc_ID c @ CHR ''/'' # qc_Order c),
      decode_cursor = (\<lambda>s.
        case split_two CHR ''/'' s of None \<Rightarrow> None
        | Some (t, rest) \<Rightarrow>
            (case split_two CHR ''/'' rest of None \<Rightarrow> None
             | Some (i, ord) \<Rightarrow>
                 map_option (\<lambda>n. \<lparr>qc_Time = n, qc_ID = i, qc_Order = ord\<rparr>) (parse_int64 t)))\<rparr>"

lemma plain_codec_ok: "codec_ok plain_codec"
  unfolding codec_ok_def
proof (intro allI impI)
  fix c :: query_cursor
  assume c: "0 \<le> qc_Time c \<and> qc_Time c < 2 ^ 63 \<and> record_id (qc_ID c) \<and> qc_Order c \<in> {[], ''desc''}"
  have "CHR ''/'' \<notin> set (show_int (qc_Time c))"
    using c show_nat_digits by (fastforce simp: show_int_def is_digit_def)
  then have "split_two CHR ''/'' (show_int (qc_Time c) @ CHR ''/'' # qc_ID c @ CHR ''/'' # qc_Order c) =
      Some (show_int (qc_Time c), qc_ID c @ CHR ''/'' # qc_Order c)"
    by (simp add: split_two_Some)
  moreover have "CHR ''/'' \<notin> set (qc_ID c)" using c by (auto simp: record_id_def byte_class_defs)
  then have "split_two CHR ''/'' (qc_ID c @ CHR ''/'' # qc_Order c) = Some (qc_ID c, qc_Order c)"
    by (simp add: split_two_Some)
  moreover have "parse_int64 (show_int (qc_Time c)) = Some (qc_Time c)" using c by (simp add: parse_int64_show)
  ultimately show "decode_cursor plain_codec (encode_cursor plain_codec c) = Some c \<and> encode_cursor plain_codec c \<noteq> []"
    by (simp add: plain_codec_def)
qed

definition demo_query :: alert_query where
  "demo_query = \<lparr>q_Order = ''desc'', q_Since = [], q_Cursor = [], q_Limit = 1, q_Source = [], q_Severity = [],
     q_Status = []\<rparr>"

definition history_db :: db where
  "history_db = empty_db\<lparr>events := map (\<lambda>(i, t). queue_event\<lparr>ev_id := i, ev_event := i, ev_created := t\<rparr>)
     [(''a'', 5), (''b'', 7), (''c'', 5)]\<rparr>"


end
