(* ===== verification/Incidents.thy ===== *)
theory Incidents
  imports Ingest
begin

text \<open>
  What a client can rely on when it reports to \<open>Store.AcceptEvent\<close>: retries are idempotent, an accepted
  event gets exactly its deliveries, and the incident of a (client, route, dedupe key) follows the
  abstract machine \<open>next_phase\<close>. The properties speak of the calls, not of the tables.
\<close>

section \<open>A call that stores an event\<close>

lemma AcceptEvent_stored:
  assumes "AcceptEvent ids p d = (Inr r, d')" and "ar_outcome r \<noteq> OutcomeDuplicate"
  obtains oc0 reason0 act where
    "find_duplicate d p = None" "lifecycle d p = (oc0, reason0, ar_started r, act)"
    "suppress p oc0 reason0 = (ar_outcome r, ar_reason r)"
    "incidents d' = apply_action act p (incidents d)"
    "events d' = events d @ [event_row_of (ar_event_id r) p (ar_outcome r) (ar_started r)]"
    "ids 0 = Some (ar_event_id r)" "ar_event_id r \<notin> ev_id ` set (events d)"
    "(ClientID p, EventID (Event p)) \<notin> event_key ` set (events d)"
  using assms(1)
proof (cases rule: AcceptEvent_cases)
  case (suppressed oc0 reason0 started act reason recordID)
  then show thesis by (intro that [of oc0 reason0 act]) simp_all
next
  case (queued reason0 started act recordID rows)
  note frame = enqueueEventSubscriptions_Some(2) [OF queued(8)]
  have "incidents d' = apply_action act p (incidents d)"
    and "events d' = events d @ [event_row_of recordID p OutcomeQueued started]"
    by (subst frame, simp)+
  with queued show thesis by (intro that [of OutcomeQueued reason0 act]) (simp_all add: suppress_def)
qed (use assms(2) in simp_all)

lemma find_duplicate_None: "find_duplicate d p = None \<longleftrightarrow> (ClientID p, EventID (Event p)) \<notin> event_key ` set (events d)"
  by (auto simp: find_duplicate_def query_row_None_key [symmetric] split: option.splits)

lemma suppressed_no_deliveries:
  assumes "AcceptEvent ids p d = (Inr r, d')" and "ar_outcome r \<noteq> OutcomeQueued"
  shows "deliveries d' = deliveries d \<and> event_deliveries d' = event_deliveries d"
  using assms(1)
proof (cases rule: AcceptEvent_cases)
  case (queued reason0 started act recordID rows)
  with assms(2) show ?thesis by simp
qed simp_all

section \<open>Retries\<close>

text \<open>A key found again leads to the row that carries it.\<close>

lemma find_duplicate_keyed:
  assumes "keyed event_key (events d)" and "e \<in> set (events d)"
    and "event_key e = (ClientID p, EventID (Event p))"
  shows "find_duplicate d p = Some (ev_id e,
      count_rows (\<lambda>r. dl_event r = ev_id e \<and> \<not> like_prefix eventChannelPrefix (dl_channel r)) (deliveries d))"
  using query_row_keyed [OF assms(1,2)] assms(3) by (simp add: find_duplicate_def)

lemma count_rows_cong: "(\<And>r. r \<in> set rows \<Longrightarrow> P r = Q r) \<Longrightarrow> count_rows P rows = count_rows Q rows"
  by (simp add: count_rows_def cong: filter_cong)

lemma count_rows_all: "(\<And>r. r \<in> set rows \<Longrightarrow> P r) \<Longrightarrow> count_rows P rows = length rows"
  by (simp add: count_rows_def)

text \<open>The deliveries of an event that are not deliveries to subscriptions.\<close>

definition target_deliveries :: "string \<Rightarrow> db \<Rightarrow> nat" where
  "target_deliveries i d =
     count_rows (\<lambda>r. dl_event r = i \<and> \<not> like_prefix eventChannelPrefix (dl_channel r)) (deliveries d)"

lemma stored_target_deliveries:
  assumes "queue_integrity d" and "AcceptEvent ids p d = (Inr r, d')"
    and "ar_outcome r \<noteq> OutcomeDuplicate"
    and "\<forall>t\<in>set (Targets p). \<not> like_prefix eventChannelPrefix t"
  shows "target_deliveries (ar_event_id r) d' = ar_deliveries r"
proof -
  have old: "dl_event x \<noteq> i" if "x \<in> set (deliveries d)" "i \<notin> ev_id ` set (events d)" for x i
    using assms(1) that by (auto simp: queue_integrity_def)
  show ?thesis
    using assms(2)
  proof (cases rule: AcceptEvent_cases)
    case (suppressed oc0 reason0 started act reason recordID)
    then show ?thesis using old by (auto simp: target_deliveries_def count_rows_zero)
  next
    case (queued reason0 started act recordID rows)
    obtain new where new: "rows = deliveries d @ new" "map dl_channel new = uniqueStrings (Targets p)"
        "\<forall>x\<in>set new. dl_event x = recordID"
      using enqueue_targets_Inr [OF queued(7)] by blast
    let ?P = "\<lambda>x. dl_event x = recordID \<and> \<not> like_prefix eventChannelPrefix (dl_channel x)"
    have "\<not> like_prefix eventChannelPrefix (dl_channel x)" if "x \<in> set new" for x
      using that new(2) assms(4) by (metis image_eqI set_map uniqueStrings_simps(1))
    then have "count_rows ?P new = length new" using new(3) by (intro count_rows_all) simp
    moreover have "length new = length (uniqueStrings (Targets p))" by (simp flip: new(2))
    moreover have "count_rows ?P (deliveries d) = 0"
      using old queued(5) by (auto simp: count_rows_zero)
    moreover have "count_rows ?P (subscription_deliveries recordID (Event p) (Now p) d2) = 0" for d2
      by (intro count_rows_zero [THEN iffD2] ballI) (drule subscription_delivery_channel, simp)
    ultimately show ?thesis
      using enqueueEventSubscriptions_Some(1) [OF queued(8)] new(1) queued(9)
      by (simp add: target_deliveries_def)
  qed (use assms(3) in simp_all)
qed

text \<open>
  C5. Retrying is safe. Once an event has been stored, any later call that carries the same client and
  event id (whatever else it carries, even a different body) is answered as a duplicate: it names the
  record of the first call, reports the number of channel deliveries the first call made, and leaves the
  database exactly as it was.
\<close>

theorem accept_retry_is_duplicate:
  assumes "queue_integrity d" and "AcceptEvent ids p d = (Inr r, d')"
    and "ar_outcome r \<noteq> OutcomeDuplicate"
    and "\<forall>t\<in>set (Targets p). \<not> like_prefix eventChannelPrefix t"
    and "ClientID q = ClientID p" and "EventID (Event q) = EventID (Event p)"
  shows "AcceptEvent ids' q d' =
    (Inr \<lparr>ar_event_id = ar_event_id r, ar_outcome = OutcomeDuplicate, ar_reason = [],
          ar_deliveries = ar_deliveries r, ar_started = None\<rparr>, d')"
proof -
  obtain oc0 reason0 act where ev: "events d' =
      events d @ [event_row_of (ar_event_id r) p (ar_outcome r) (ar_started r)]"
    by (rule AcceptEvent_stored [OF assms(2,3)])
  have "keyed event_key (events d')"
    using AcceptEvent_integrity [OF assms(1,2)] by (simp add: queue_integrity_def)
  from find_duplicate_keyed [OF this, of "event_row_of (ar_event_id r) p (ar_outcome r) (ar_started r)" q]
  have "find_duplicate d' q = Some (ar_event_id r, target_deliveries (ar_event_id r) d')"
    using ev assms(5,6) by (simp add: target_deliveries_def)
  then show ?thesis
    using stored_target_deliveries [OF assms(1-4)] by (simp add: AcceptEvent_def)
qed

text \<open>A first event and the identifiers of its calls, for the concrete instances below.\<close>

definition demo_event :: event where
  "demo_event =
     \<lparr>EventID = ''e1'', Source = ''web'', RoutingKey = ''ops'', Status = ''firing'', Severity = ''warning'',
      Title = ''t'', Message = ''m'', OccurredAt = 1000000000, DedupeKey = ''k'', Labels = [], URL = [],
      IncidentStartedAt = None\<rparr>"

definition demo_params :: accept_params where
  "demo_params =
     \<lparr>ClientID = ''c1'', Event = demo_event, Targets = [''chan'', ''chan''], Now = 2000000000,
      DedupeWindow = 300000000000, SuppressReason = [], RawPayload = ''{}''\<rparr>"

fun demo_ids :: "nat \<Rightarrow> string option" where
  "demo_ids n = Some (replicate (Suc n) CHR ''a'')"

definition demo_result :: accept_result where
  "demo_result = \<lparr>ar_event_id = ''a'', ar_outcome = OutcomeQueued, ar_reason = [], ar_deliveries = 1,
     ar_started = None\<rparr>"

definition demo_db :: db where
  "demo_db = empty_db\<lparr>
     incidents := [\<lparr>in_client = ''c1'', in_route = ''ops'', in_dedupe = ''k'', in_state = ''firing'',
       in_first = 2000, in_seen = 2000, in_notified = 2000\<rparr>],
     events := [event_row_of ''a'' demo_params OutcomeQueued None],
     deliveries := [new_delivery ''aa'' ''a'' ''chan'' 2000000000]\<rparr>"

lemma demo_accept: "AcceptEvent demo_ids demo_params empty_db = (Inr demo_result, demo_db)"
  by code_simp

theorem accept_retry_is_duplicate_witness:
  "AcceptEvent demo_ids (demo_params\<lparr>Event := demo_event\<lparr>Title := ''other''\<rparr>\<rparr>) demo_db =
    (Inr \<lparr>ar_event_id = ''a'', ar_outcome = OutcomeDuplicate, ar_reason = [], ar_deliveries = 1,
          ar_started = None\<rparr>, demo_db)"
  using accept_retry_is_duplicate [OF queue_integrity_empty demo_accept,
      of "demo_params\<lparr>Event := demo_event\<lparr>Title := ''other''\<rparr>\<rparr>" demo_ids]
  by (simp add: demo_result_def demo_params_def demo_event_def like_prefix_def)

section \<open>The deliveries of a queued event\<close>

text \<open>
  A queued event gets exactly its deliveries. The call appends one delivery per distinct target, in
  the order of the request, and then one per subscription that matches the event; nothing else changes
  among the deliveries. All of them are of the new record, pending, never attempted, and due at once; the
  result counts the distinct targets.
\<close>

theorem queued_deliveries_exact:
  assumes "AcceptEvent ids p d = (Inr r, d')" and "ar_outcome r = OutcomeQueued"
  shows "\<exists>new. deliveries d' = deliveries d @ new \<and>
    map dl_channel new = uniqueStrings (Targets p) @
      map (\<lambda>s. eventChannelPrefix @ sb_id s)
        (filter (subscription_matches (Event p) (Now p) d) (event_subscriptions d)) \<and>
    (\<forall>x\<in>set new. dl_event x = ar_event_id r \<and> dl_status x = Pending \<and> dl_attempts x = 0 \<and>
       dl_next x = unix_milli (Now p)) \<and>
    ar_deliveries r = card (set (Targets p))"
  using assms(1)
proof (cases rule: AcceptEvent_cases)
  case (queued reason0 started act recordID rows)
  define d1 where "d1 = d\<lparr>incidents := apply_action act p (incidents d),
      events := events d @ [event_row_of recordID p OutcomeQueued started], deliveries := rows\<rparr>"
  obtain new where new: "rows = deliveries d @ new" "map dl_channel new = uniqueStrings (Targets p)"
      "\<forall>x\<in>set new. dl_event x = recordID \<and> dl_status x = Pending \<and> dl_attempts x = 0 \<and>
         dl_created x = unix_milli (Now p) \<and> dl_next x = unix_milli (Now p)"
    using enqueue_targets_Inr [OF queued(7)] by blast
  have same: "subscription_matches (Event p) (Now p) d1 = subscription_matches (Event p) (Now p) d"
    by (rule ext) (simp add: d1_def subscription_matches_def owner_active_def)
  have subs: "event_subscriptions d1 = event_subscriptions d" by (simp add: d1_def)
  have "deliveries d' = rows @ subscription_deliveries recordID (Event p) (Now p) d1"
    using enqueueEventSubscriptions_Some(1) [OF queued(8)] by (simp add: d1_def)
  then have "deliveries d' = deliveries d @ new @ subscription_deliveries recordID (Event p) (Now p) d1"
    using new(1) by simp
  moreover have "length (uniqueStrings (Targets p)) = card (set (Targets p))"
    by (metis distinct_card uniqueStrings_simps)
  ultimately show ?thesis
    using new(2,3) queued(9)
    by (intro exI [of _ "new @ subscription_deliveries recordID (Event p) (Now p) d1"])
      (auto simp: subscription_deliveries_def same subs o_def)
qed (use assms(2) in simp_all)

theorem queued_deliveries_exact_witness:
  "\<exists>new. deliveries demo_db = [] @ new \<and> map dl_channel new = [''chan''] \<and>
    (\<forall>x\<in>set new. dl_event x = ''a'' \<and> dl_status x = Pending \<and> dl_attempts x = 0 \<and> dl_next x = 2000) \<and>
    (1::nat) = card (set [''chan'', ''chan''])"
  using queued_deliveries_exact [OF demo_accept]
  by (simp add: demo_result_def demo_params_def demo_event_def empty_db_def uniqueStrings_def unix_milli_def)

section \<open>The incident machine\<close>

text \<open>
  The abstract view of an incident: one phase per (client, route, dedupe key). \<open>next_phase\<close> is what an
  event that is not stale does to it.
\<close>

datatype phase = NoIncident | FiringIncident | ResolvedIncident

definition phase_of :: "string \<times> string \<times> string \<Rightarrow> db \<Rightarrow> phase" where
  "phase_of k d =
     (case query_row (\<lambda>r. incident_key r = k) (incidents d) of
        None \<Rightarrow> NoIncident
      | Some r \<Rightarrow> if in_state r = StatusFiring then FiringIncident else ResolvedIncident)"

fun next_phase :: "string \<Rightarrow> phase \<Rightarrow> phase" where
  "next_phase st ph =
     (if st = StatusFiring then FiringIncident
      else if st = StatusResolved \<and> ph = FiringIncident then ResolvedIncident
      else ph)"

text \<open>Rows carry one of two states (the column's CHECK).\<close>

definition incident_states :: "db \<Rightarrow> bool" where
  "incident_states d \<longleftrightarrow> (\<forall>r\<in>set (incidents d). in_state r = StatusFiring \<or> in_state r = StatusResolved)"

lemma find_incident_key: "find_incident d p = query_row (\<lambda>r. incident_key r = incident_of p) (incidents d)"
  by (simp add: find_incident_def)

text \<open>The row of the incident after each action, and the rows of the others.\<close>

lemma apply_action_other:
  assumes "k \<noteq> incident_of p"
  shows "query_row (\<lambda>r. incident_key r = k) (apply_action act p rows) = query_row (\<lambda>r. incident_key r = k) rows"
proof -
  have "map_option (\<lambda>r. if incident_key r = incident_of p then f r else r) (query_row (\<lambda>r. incident_key r = k) rows)
      = query_row (\<lambda>r. incident_key r = k) rows" for f
    using assms by (cases "query_row (\<lambda>r. incident_key r = k) rows") (auto dest: query_row_SomeD)
  moreover have "incident_of p = (ClientID p, RoutingKey (Event p), DedupeKey (Event p))"
    by (simp add: incident_of_def)
  ultimately show ?thesis
    using assms
    by (cases act) (auto simp: apply_action_def Let_def query_row_upsert_other query_row_update_key [where key = incident_key])
qed

definition acted :: "incident_action \<Rightarrow> accept_params \<Rightarrow> incident_row option \<Rightarrow> incident_row option" where
  "acted act p old =
     (let now = unix_milli (Now p) in
      case act of
        Keep \<Rightarrow> old
      | Open \<Rightarrow> Some \<lparr>in_client = ClientID p, in_route = RoutingKey (Event p), in_dedupe = DedupeKey (Event p),
          in_state = StatusFiring, in_first = now, in_seen = now, in_notified = now\<rparr>
      | Touch \<Rightarrow> map_option (\<lambda>r. r\<lparr>in_seen := now\<rparr>) old
      | Renotify \<Rightarrow> map_option (\<lambda>r. r\<lparr>in_seen := now, in_notified := now\<rparr>) old
      | Close \<Rightarrow> map_option (\<lambda>r. r\<lparr>in_state := StatusResolved, in_seen := now, in_notified := now\<rparr>) old)"

lemma apply_action_own:
  "query_row (\<lambda>r. incident_key r = incident_of p) (apply_action act p rows)
     = acted act p (query_row (\<lambda>r. incident_key r = incident_of p) rows)"
proof -
  let ?q = "query_row (\<lambda>r. incident_key r = incident_of p)"
  have upd: "?q (update_rows (\<lambda>r. incident_key r = incident_of p) f rows) = map_option f (?q rows)"
    if "\<And>r. incident_key (f r) = incident_key r" for f
    using that
    by (cases "?q rows") (auto simp: query_row_update_key [where key = incident_key] dest: query_row_SomeD)
  show ?thesis
  proof (cases act)
    case Open
    let ?new = "\<lparr>in_client = ClientID p, in_route = RoutingKey (Event p), in_dedupe = DedupeKey (Event p),
      in_state = StatusFiring, in_first = unix_milli (Now p), in_seen = unix_milli (Now p),
      in_notified = unix_milli (Now p)\<rparr>"
    let ?merge = "\<lambda>old new. old\<lparr>in_state := in_state new, in_first := in_first new, in_seen := in_seen new,
      in_notified := in_notified new\<rparr> :: incident_row"
    have key: "incident_of p = incident_key ?new" by (simp add: incident_of_def)
    have "?q (upsert_row incident_key ?merge ?new rows) =
        Some (case ?q rows of None \<Rightarrow> ?new | Some old \<Rightarrow> ?merge old ?new)"
      unfolding key by (rule query_row_upsert_same) simp
    moreover have "?merge old ?new = ?new" if "incident_key old = incident_of p" for old :: incident_row
      using that by (cases old) (simp add: incident_of_def)
    ultimately show ?thesis
      using Open by (auto simp: apply_action_def acted_def Let_def split: option.splits dest: query_row_SomeD)
  qed (simp_all add: apply_action_def acted_def Let_def upd)
qed

lemma phase_of_acted:
  assumes "incidents d' = apply_action act p (incidents d)"
  shows "k \<noteq> incident_of p \<Longrightarrow> phase_of k d' = phase_of k d"
    and "phase_of (incident_of p) d' =
      (case acted act p (find_incident d p) of
         None \<Rightarrow> NoIncident
       | Some r \<Rightarrow> if in_state r = StatusFiring then FiringIncident else ResolvedIncident)"
  using assms by (simp_all add: phase_of_def apply_action_other apply_action_own find_incident_def)

lemma is_stale_iff:
  "is_stale d p \<longleftrightarrow>
     (\<exists>e\<in>set (events d). same_incident p e \<and>
        (ev_status e = StatusFiring \<or> (ev_status e = StatusResolved \<and> ev_incident e \<noteq> None)) \<and>
        unix_milli (OccurredAt (Event p)) < ev_occurred e)"
proof (cases "latest_occurred d p")
  case None
  then show ?thesis by (auto simp: is_stale_def latest_occurred_def filter_empty_conv)
next
  case (Some m)
  from sql_max_Some [OF Some [unfolded latest_occurred_def]] show ?thesis
    using Some by (auto simp: is_stale_def intro: less_le_trans)
qed

text \<open>The decision, case by case.\<close>

lemma lifecycle_stale:
  "lifecycle_status (Status (Event p)) \<Longrightarrow> is_stale d p \<Longrightarrow>
     lifecycle d p = (OutcomeSuppressed, ''stale_event'', None, Keep)"
  by (simp add: lifecycle_def)

lemma lifecycle_other: "\<not> lifecycle_status (Status (Event p)) \<Longrightarrow> lifecycle d p = (OutcomeQueued, [], None, Keep)"
  by (simp add: lifecycle_def)

lemma lifecycle_status_iff: "lifecycle_status s \<longleftrightarrow> s = StatusFiring \<or> s = StatusResolved"
  by (simp add: lifecycle_status_def)

text \<open>
  C6. The incident table refines the phase machine. A stored event moves exactly the incident of its own
  client, route and dedupe key, by \<open>next_phase\<close>, and not at all when it is stale; every other incident
  stays as it is. This holds whether the event is queued or suppressed, by a silence or by anything else.
  And a stored resolution that is not stale is queued (when nothing silences it) exactly when it closes a
  firing incident, and then reports when that incident opened.
\<close>

theorem incident_refines_phase:
  assumes "incident_states d" and "AcceptEvent ids p d = (Inr r, d')"
    and "ar_outcome r \<noteq> OutcomeDuplicate"
  shows "phase_of (incident_of p) d' =
      (if is_stale d p then phase_of (incident_of p) d
       else next_phase (Status (Event p)) (phase_of (incident_of p) d)) \<and>
    (\<forall>k. k \<noteq> incident_of p \<longrightarrow> phase_of k d' = phase_of k d) \<and>
    incident_states d' \<and>
    (Status (Event p) = StatusResolved \<and> \<not> is_stale d p \<and> SuppressReason p = [] \<longrightarrow>
       (ar_outcome r = OutcomeQueued \<longleftrightarrow> phase_of (incident_of p) d = FiringIncident) \<and>
       ar_started r = (if phase_of (incident_of p) d = FiringIncident
         then map_option (of_unix_milli \<circ> in_first) (find_incident d p) else None))"
proof -
  obtain oc0 reason0 act where lc: "lifecycle d p = (oc0, reason0, ar_started r, act)"
    and sup: "suppress p oc0 reason0 = (ar_outcome r, ar_reason r)"
    and inc: "incidents d' = apply_action act p (incidents d)"
    by (rule AcceptEvent_stored [OF assms(2,3)])
  have state: "in_state i = StatusFiring \<or> in_state i = StatusResolved" if "find_incident d p = Some i" for i
    using assms(1) that query_row_SomeD unfolding incident_states_def find_incident_def by metis
  have phase: "phase_of (incident_of p) d = (case find_incident d p of None \<Rightarrow> NoIncident
      | Some i \<Rightarrow> if in_state i = StatusFiring then FiringIncident else ResolvedIncident)"
    by (simp add: phase_of_def find_incident_def)
  have own: "phase_of (incident_of p) d' =
      (if is_stale d p then phase_of (incident_of p) d
       else next_phase (Status (Event p)) (phase_of (incident_of p) d))"
    unfolding phase_of_acted(2) [OF inc] phase using lc state
    by (auto simp: lifecycle_def lifecycle_status_iff acted_def Let_def split: if_splits option.splits)
  have "incident_states d'"
    using assms(1) unfolding incident_states_def inc
    by (cases act) (auto simp: apply_action_def Let_def upsert_row_def update_rows_def split: if_splits)
  moreover have "(ar_outcome r = OutcomeQueued \<longleftrightarrow> phase_of (incident_of p) d = FiringIncident) \<and>
       ar_started r = (if phase_of (incident_of p) d = FiringIncident
         then map_option (of_unix_milli \<circ> in_first) (find_incident d p) else None)"
    if "Status (Event p) = StatusResolved \<and> \<not> is_stale d p \<and> SuppressReason p = []"
    unfolding phase using that lc sup
    by (auto simp: lifecycle_def lifecycle_status_iff suppress_def split: if_splits option.splits)
  ultimately show ?thesis using own phase_of_acted(1) [OF inc] by blast
qed

theorem incident_refines_phase_witness:
  "phase_of (''c1'', ''ops'', ''k'') demo_db = FiringIncident"
proof -
  have "incident_states empty_db" by (simp add: incident_states_def empty_db_def)
  moreover have "ar_outcome demo_result \<noteq> OutcomeDuplicate" by (simp add: demo_result_def)
  moreover have "incident_of demo_params = (''c1'', ''ops'', ''k'')" and "\<not> is_stale empty_db demo_params"
    and "Status (Event demo_params) = StatusFiring"
    by code_simp+
  ultimately show ?thesis using incident_refines_phase [OF _ demo_accept] by simp
qed

text \<open>
  Events that arrive out of order cannot rewrite history. If a stored event of the same incident
  (a firing, or a resolution that closed it) happened later than this one by the producer's clock, this
  firing or resolved event is recorded as suppressed, with reason \<open>stale_event\<close> unless it was suppressed
  for another reason, and touches neither an incident nor a delivery.
\<close>

theorem stale_event_moves_nothing:
  assumes "AcceptEvent ids p d = (Inr r, d')" and "ar_outcome r \<noteq> OutcomeDuplicate"
    and "lifecycle_status (Status (Event p))" and "e \<in> set (events d)" and "same_incident p e"
    and "ev_status e = StatusFiring \<or> (ev_status e = StatusResolved \<and> ev_incident e \<noteq> None)"
    and "unix_milli (OccurredAt (Event p)) < ev_occurred e"
  shows "ar_outcome r = OutcomeSuppressed \<and> ar_reason r = ''stale_event'' \<and> ar_started r = None \<and>
    incidents d' = incidents d \<and> deliveries d' = deliveries d \<and>
    length (events d') = Suc (length (events d))"
proof -
  obtain oc0 reason0 act where lc: "lifecycle d p = (oc0, reason0, ar_started r, act)"
    and sup: "suppress p oc0 reason0 = (ar_outcome r, ar_reason r)"
    and inc: "incidents d' = apply_action act p (incidents d)"
    and ev: "events d' = events d @ [event_row_of (ar_event_id r) p (ar_outcome r) (ar_started r)]"
    by (rule AcceptEvent_stored [OF assms(1,2)])
  have "is_stale d p" using assms(4-7) by (auto simp: is_stale_iff)
  with lc sup have out: "ar_outcome r = OutcomeSuppressed" "ar_reason r = ''stale_event''"
      "ar_started r = None" "act = Keep"
    by (auto simp: lifecycle_stale [OF assms(3)] suppress_def)
  then show ?thesis
    using suppressed_no_deliveries [OF assms(1)] inc ev by (simp add: apply_action_def Let_def)
qed

definition demo_late :: accept_params where
  "demo_late = demo_params\<lparr>Event := demo_event\<lparr>EventID := ''e2'', Status := ''resolved'', OccurredAt := 0\<rparr>\<rparr>"

theorem stale_event_moves_nothing_witness:
  "\<exists>r d'. AcceptEvent (demo_ids \<circ> Suc \<circ> Suc) demo_late demo_db = (Inr r, d') \<and>
     ar_outcome r = OutcomeSuppressed \<and> deliveries d' = deliveries demo_db"
proof -
  let ?d = "demo_db\<lparr>events := events demo_db @ [event_row_of ''aaa'' demo_late OutcomeSuppressed None]\<rparr>"
  let ?r = "\<lparr>ar_event_id = ''aaa'', ar_outcome = OutcomeSuppressed, ar_reason = ''stale_event'',
    ar_deliveries = 0, ar_started = None\<rparr>"
  have run: "AcceptEvent (demo_ids \<circ> Suc \<circ> Suc) demo_late demo_db = (Inr ?r, ?d)" by code_simp
  show ?thesis
    using stale_event_moves_nothing [OF run, of "event_row_of ''a'' demo_params OutcomeQueued None"] run
    by (simp add: demo_late_def demo_params_def demo_event_def demo_db_def lifecycle_status_def
        same_incident_def incident_of_def event_row_of_def Let_def unix_milli_def empty_db_def)
qed

section \<open>Repeats and escalations\<close>

lemma sql_rank_rank: "known_severity s \<Longrightarrow> rank s = sql_rank s"
  by (auto simp: rank_def sql_rank_def known_severity_def)

lemma rank_pos: "known_severity s \<Longrightarrow> 1 \<le> rank s"
  by (auto simp: rank_def known_severity_def)

text \<open>The events the incident has notified since it opened.\<close>

definition notified_by :: "accept_params \<Rightarrow> millis \<Rightarrow> event_row \<Rightarrow> bool" where
  "notified_by p firstFired e \<longleftrightarrow>
     same_incident p e \<and> ev_status e = StatusFiring \<and> ev_outcome e = OutcomeQueued \<and> firstFired \<le> ev_created e"

lemma previous_severity_ge:
  assumes "e \<in> set (events d)" and "notified_by p f e"
  shows "sql_rank (ev_severity e) \<le> previous_severity d p f"
proof (cases "sql_max (map (sql_rank \<circ> ev_severity) (filter (\<lambda>e. same_incident p e \<and>
        ev_status e = StatusFiring \<and> ev_outcome e = OutcomeQueued \<and> f \<le> ev_created e) (events d)))")
  case None
  then show ?thesis using assms by (auto simp: notified_by_def filter_empty_conv)
next
  case (Some m)
  from sql_max_Some [OF Some] show ?thesis
    using assms Some by (auto simp: previous_severity_def notified_by_def)
qed

lemma previous_severity_less:
  assumes "\<And>e. e \<in> set (events d) \<Longrightarrow> notified_by p f e \<Longrightarrow> sql_rank (ev_severity e) < n" and "0 < n"
  shows "previous_severity d p f < n"
proof (cases "sql_max (map (sql_rank \<circ> ev_severity) (filter (\<lambda>e. same_incident p e \<and>
        ev_status e = StatusFiring \<and> ev_outcome e = OutcomeQueued \<and> f \<le> ev_created e) (events d)))")
  case None
  then show ?thesis using assms(2) by (simp add: previous_severity_def)
next
  case (Some m)
  from sql_max_Some [OF Some] obtain e where "e \<in> set (events d)" "notified_by p f e"
    "m = sql_rank (ev_severity e)" by (auto simp: notified_by_def)
  then show ?thesis using assms(1) Some by (simp add: previous_severity_def)
qed

text \<open>A queued firing event leaves its incident firing, notified now, and no older than before.\<close>

lemma queued_firing_row:
  assumes "AcceptEvent ids p d = (Inr r, d')" and "ar_outcome r = OutcomeQueued"
    and "Status (Event p) = StatusFiring"
    and "\<forall>i\<in>set (incidents d). in_first i \<le> unix_milli (Now p)"
  obtains i where "find_incident d' p = Some i" "in_state i \<noteq> StatusResolved"
    "in_notified i = unix_milli (Now p)" "in_first i \<le> unix_milli (Now p)"
    "events d' = events d @ [event_row_of (ar_event_id r) p OutcomeQueued (ar_started r)]"
proof -
  obtain oc0 reason0 act where lc: "lifecycle d p = (oc0, reason0, ar_started r, act)"
    and sup: "suppress p oc0 reason0 = (ar_outcome r, ar_reason r)"
    and inc: "incidents d' = apply_action act p (incidents d)"
    and ev: "events d' = events d @ [event_row_of (ar_event_id r) p (ar_outcome r) (ar_started r)]"
    by (rule AcceptEvent_stored [OF assms(1)]) (use assms(2) in simp_all)
  from sup assms(2) have "oc0 = OutcomeQueued" by (auto simp: suppress_def split: if_splits)
  with lc assms(3) consider "act = Open"
    | i where "find_incident d p = Some i" "in_state i \<noteq> StatusResolved" "act = Renotify"
    by (auto simp: lifecycle_def lifecycle_status_iff split: if_splits option.splits)
  then show thesis
  proof cases
    case 1
    then show thesis
      using that ev assms(2) by (simp add: find_incident_def inc apply_action_own acted_def Let_def)
  next
    case 2
    then have "i \<in> set (incidents d)" by (auto simp: find_incident_def dest: query_row_SomeD)
    with 2 show thesis
      using that ev assms(2,4)
      by (simp add: find_incident_def inc apply_action_own acted_def Let_def)
  qed
qed

text \<open>
  C18. A repeat within the dedupe window is not sent twice. After a firing event has been queued, another
  firing event of the same incident that is no more severe, is not stale, and comes before the window has
  passed since then is stored as suppressed with reason \<open>dedupe_window\<close>, creates no delivery, and leaves
  the incident as it was except for the time it was last seen.
\<close>

theorem repeat_within_window_suppressed:
  assumes "AcceptEvent ids p d = (Inr r, d')" and "ar_outcome r = OutcomeQueued"
    and "Status (Event p) = StatusFiring" and "known_severity (Severity (Event p))"
    and "\<forall>i\<in>set (incidents d). in_first i \<le> unix_milli (Now p)"
    and "incident_of q = incident_of p" and "Status (Event q) = StatusFiring"
    and "known_severity (Severity (Event q))"
    and "rank (Severity (Event q)) \<le> rank (Severity (Event p))" and "\<not> is_stale d' q"
    and "Now q < of_unix_milli (unix_milli (Now p)) + DedupeWindow q" and "0 < DedupeWindow q"
    and "AcceptEvent ids' q d' = (Inr r', d'')" and "ar_outcome r' \<noteq> OutcomeDuplicate"
  shows "ar_outcome r' = OutcomeSuppressed \<and> ar_reason r' = ''dedupe_window'' \<and>
    deliveries d'' = deliveries d' \<and>
    find_incident d'' q = map_option (\<lambda>i. i\<lparr>in_seen := unix_milli (Now q)\<rparr>) (find_incident d' q)"
proof -
  obtain i where i: "find_incident d' p = Some i" "in_state i \<noteq> StatusResolved"
    and notified: "in_notified i = unix_milli (Now p)" and first: "in_first i \<le> unix_milli (Now p)"
    and ev: "events d' = events d @ [event_row_of (ar_event_id r) p OutcomeQueued (ar_started r)]"
    by (rule queued_firing_row [OF assms(1-3,5)])
  let ?e = "event_row_of (ar_event_id r) p OutcomeQueued (ar_started r)"
  have same: "find_incident d' q = Some i" using i(1) assms(6) by (simp add: find_incident_def)
  have "same_incident q ?e"
    using assms(6) by (simp add: same_incident_def incident_of_def event_row_of_def Let_def)
  then have "notified_by q (in_first i) ?e"
    using first assms(3) by (simp add: notified_by_def)
  from previous_severity_ge [OF _ this, of d'] have "rank (Severity (Event q)) \<le> previous_severity d' q (in_first i)"
    using ev assms(4,9) by (simp add: sql_rank_rank)
  moreover have "time_sub (Now q) (of_unix_milli (in_notified i)) < DedupeWindow q"
    using assms(11,12) notified by (auto simp: time_sub_def)
  ultimately have "within_dedupe d' q i" by (simp add: within_dedupe_def)
  then have lc: "lifecycle d' q = (OutcomeSuppressed, ''dedupe_window'', None, Touch)"
    using assms(7,10) same i(2) by (auto simp: lifecycle_def lifecycle_status_iff)
  obtain oc0 reason0 act where "lifecycle d' q = (oc0, reason0, ar_started r', act)"
    and "suppress q oc0 reason0 = (ar_outcome r', ar_reason r')"
    and inc: "incidents d'' = apply_action act q (incidents d')"
    by (rule AcceptEvent_stored [OF assms(13,14)])
  with lc have out: "ar_outcome r' = OutcomeSuppressed" "ar_reason r' = ''dedupe_window''" "act = Touch"
    by (auto simp: suppress_def)
  then show ?thesis
    using suppressed_no_deliveries [OF assms(13)] inc
    by (simp add: find_incident_def apply_action_own acted_def Let_def)
qed

definition demo_repeat :: accept_params where
  "demo_repeat = demo_params\<lparr>Event := demo_event\<lparr>EventID := ''e2''\<rparr>, Now := 3000000000\<rparr>"

definition demo_repeat_db :: db where
  "demo_repeat_db = demo_db\<lparr>
     incidents := [\<lparr>in_client = ''c1'', in_route = ''ops'', in_dedupe = ''k'', in_state = ''firing'',
       in_first = 2000, in_seen = 3000, in_notified = 2000\<rparr>],
     events := events demo_db @ [event_row_of ''aaa'' demo_repeat OutcomeSuppressed None]\<rparr>"

theorem repeat_within_window_suppressed_witness:
  "AcceptEvent (demo_ids \<circ> Suc \<circ> Suc) demo_repeat demo_db =
     (Inr \<lparr>ar_event_id = ''aaa'', ar_outcome = OutcomeSuppressed, ar_reason = ''dedupe_window'',
           ar_deliveries = 0, ar_started = None\<rparr>, demo_repeat_db) \<and>
   deliveries demo_repeat_db = deliveries demo_db"
proof -
  have run: "AcceptEvent (demo_ids \<circ> Suc \<circ> Suc) demo_repeat demo_db =
     (Inr \<lparr>ar_event_id = ''aaa'', ar_outcome = OutcomeSuppressed, ar_reason = ''dedupe_window'',
           ar_deliveries = 0, ar_started = None\<rparr>, demo_repeat_db)" by code_simp
  have fresh: "\<not> is_stale demo_db demo_repeat" and same: "incident_of demo_repeat = incident_of demo_params"
    by code_simp+
  have first: "ar_outcome demo_result = OutcomeQueued" by (simp add: demo_result_def)
  have "deliveries demo_repeat_db = deliveries demo_db"
    using repeat_within_window_suppressed [OF demo_accept first _ _ _ same _ _ _ fresh _ _ run]
    by (simp add: demo_params_def demo_event_def demo_repeat_def empty_db_def known_severity_def
        unix_milli_def of_unix_milli_def)
  with run show ?thesis by simp
qed

text \<open>
  News is always sent. A stored firing event that is not stale and that nothing silences is queued
  when its incident is not open, or when it is more severe than every event the incident has notified since
  it opened (so also when a silence swallowed all of them), or when the window has passed since the last
  notification. The incident is then open and counts as notified now.
\<close>

theorem firing_news_is_queued:
  assumes "AcceptEvent ids p d = (Inr r, d')" and "ar_outcome r \<noteq> OutcomeDuplicate"
    and "Status (Event p) = StatusFiring" and "known_severity (Severity (Event p))"
    and "\<not> is_stale d p" and "SuppressReason p = []"
    and "\<And>i. find_incident d p = Some i \<Longrightarrow> in_state i \<noteq> StatusResolved \<Longrightarrow>
      (\<forall>e\<in>set (events d). notified_by p (in_first i) e \<longrightarrow> sql_rank (ev_severity e) < rank (Severity (Event p))) \<or>
      DedupeWindow p \<le> time_sub (Now p) (of_unix_milli (in_notified i))"
  shows "ar_outcome r = OutcomeQueued \<and>
    (\<exists>i. find_incident d' p = Some i \<and> in_state i \<noteq> StatusResolved \<and> in_notified i = unix_milli (Now p))"
proof -
  obtain oc0 reason0 act where lc: "lifecycle d p = (oc0, reason0, ar_started r, act)"
    and sup: "suppress p oc0 reason0 = (ar_outcome r, ar_reason r)"
    and inc: "incidents d' = apply_action act p (incidents d)"
    by (rule AcceptEvent_stored [OF assms(1,2)])
  have not_within: "\<not> within_dedupe d p i"
    if i: "find_incident d p = Some i" "in_state i \<noteq> StatusResolved" for i
  proof
    assume within: "within_dedupe d p i"
    with assms(7) [OF i] have
      "\<forall>e\<in>set (events d). notified_by p (in_first i) e \<longrightarrow> sql_rank (ev_severity e) < rank (Severity (Event p))"
      by (auto simp: within_dedupe_def)
    then have "previous_severity d p (in_first i) < rank (Severity (Event p))"
      using rank_pos [OF assms(4)] by (intro previous_severity_less) auto
    with within show False by (simp add: within_dedupe_def)
  qed
  have acts: "oc0 = OutcomeQueued \<and> (act = Open \<or> act = Renotify \<and>
      (\<exists>i. find_incident d p = Some i \<and> in_state i \<noteq> StatusResolved))"
    using lc assms(3,5) not_within
    by (auto simp: lifecycle_def lifecycle_status_iff split: if_splits option.splits)
  then have "ar_outcome r = OutcomeQueued" using sup assms(6) by (simp add: suppress_def)
  with acts show ?thesis
    by (auto simp: find_incident_def inc apply_action_own acted_def Let_def)
qed

text \<open>The repeat is critical this time: it is news.\<close>

definition demo_escalate :: accept_params where
  "demo_escalate = demo_repeat\<lparr>Event := demo_event\<lparr>EventID := ''e3'', Severity := ''critical''\<rparr>\<rparr>"

theorem firing_news_is_queued_witness:
  "\<exists>r d'. AcceptEvent (demo_ids \<circ> Suc \<circ> Suc) demo_escalate demo_db = (Inr r, d') \<and> ar_outcome r = OutcomeQueued"
proof -
  let ?out = "AcceptEvent (demo_ids \<circ> Suc \<circ> Suc) demo_escalate demo_db"
  have ok: "\<not> isl (fst ?out)" and new: "find_duplicate demo_db demo_escalate = None"
    and fresh: "\<not> is_stale demo_db demo_escalate"
    and inc: "find_incident demo_db demo_escalate = Some \<lparr>in_client = ''c1'', in_route = ''ops'',
      in_dedupe = ''k'', in_state = ''firing'', in_first = 2000, in_seen = 2000, in_notified = 2000\<rparr>"
    and sev: "\<forall>e\<in>set (events demo_db). sql_rank (ev_severity e) < rank (Severity (Event demo_escalate))"
    by code_simp+
  obtain r where "fst ?out = Inr r" using ok by (cases "fst ?out") simp_all
  then obtain d' where run: "?out = (Inr r, d')" by (metis prod.collapse)
  have "ar_outcome r \<noteq> OutcomeDuplicate"
    using run by (rule AcceptEvent_cases) (use new in auto)
  from firing_news_is_queued [OF run this _ _ fresh] inc sev run show ?thesis
    by (auto simp: demo_escalate_def demo_repeat_def demo_params_def demo_event_def known_severity_def)
qed

end
