(* ===== verification/EventProps.thy ===== *)
theory EventProps
  imports Events Incidents
begin

text \<open>
  What the event subscriptions promise: the addresses a callback may have, octet by octet; when a subscription
  is saved; and that a revoked grant ends its subscriptions at once.
\<close>

unbundle bit_operations_syntax

section \<open>Prefixes in octets\<close>

lemma octets_bound:
  assumes "a < 256" "b < 256" "c < 256" "d < (256 :: nat)"
  shows "((a * 256 + b) * 256 + c) * 256 + d < 2 ^ 32"
  using assms by simp

lemma word_prefix:
  assumes "n < 2 ^ LENGTH('a)" "m < (2 :: nat) ^ LENGTH('a)"
  shows "drop_bit k (word_of_nat n :: 'a::len word) = drop_bit k (word_of_nat m) \<longleftrightarrow> n div 2 ^ k = m div 2 ^ k"
proof -
  have "drop_bit k (word_of_nat n :: 'a word) = drop_bit k (word_of_nat m) \<longleftrightarrow>
      unat (drop_bit k (word_of_nat n :: 'a word)) = unat (drop_bit k (word_of_nat m :: 'a word))"
    by (simp only: word_unat_eq_iff)
  then show ?thesis
    using assms by (simp only: unat_drop_bit_eq unat_of_nat drop_bit_eq_div [where 'a = nat] mod_less)
qed

lemma drop_prefix: "drop_bit k x = drop_bit k y \<Longrightarrow> k \<le> m \<Longrightarrow> drop_bit m x = drop_bit m y"
  for x y :: "'a::len word"
  by (metis drop_bit_drop_bit le_add_diff_inverse2)

text \<open>The number an address is, in octets and in groups of sixteen bits.\<close>

abbreviation octets :: "nat \<Rightarrow> nat \<Rightarrow> nat \<Rightarrow> nat \<Rightarrow> nat" where
  "octets a b c d \<equiv> ((a * 256 + b) * 256 + c) * 256 + d"

definition groups :: "nat list \<Rightarrow> nat" where "groups gs = foldl (\<lambda>n x. n * 65536 + x) 0 gs"

lemma v4_in_prefix:
  assumes "a < 256" "b < 256" "c < 256" "d < 256" and "p < 256" "q < 256" "r < 256" "s < 256"
  shows "prefix_contains (P4 (v4 p q r s) n) (V4 (v4 a b c d)) \<longleftrightarrow>
    octets a b c d div 2 ^ (32 - n) = octets p q r s div 2 ^ (32 - n)"
proof -
  have "octets a b c d < 2 ^ 32" "octets p q r s < 2 ^ 32" using assms by simp_all
  then show ?thesis unfolding prefix_contains.simps v4_def by (subst word_prefix) simp_all
qed

lemma v4_prefix_8:
  assumes "a < 256" "b < 256" "c < 256" "d < (256 :: nat)"
  shows "octets a b c d div 16777216 = a" "octets a b c d div 65536 = a * 256 + b"
    "octets a b c d div 256 = (a * 256 + b) * 256 + c"
    "octets a b c d div 268435456 = a div 16" "octets a b c d div 4194304 = a * 4 + b div 64"
    "octets a b c d div 1048576 = a * 16 + b div 16" "octets a b c d div 131072 = a * 128 + b div 2"
  using assms by simp_all

lemma shift_group: "y < 65536 \<Longrightarrow> (x * 65536 + y) div (65536 * k) = x div (k :: nat)"
  by (simp add: div_mult2_eq)

section \<open>Which addresses are public\<close>

text \<open>The special-purpose blocks, as the registries write them.\<close>

definition public_octets :: "nat \<Rightarrow> nat \<Rightarrow> nat \<Rightarrow> nat \<Rightarrow> bool" where
  "public_octets a b c d \<longleftrightarrow> 0 < a \<and> a < 224 \<and> a \<noteq> 10 \<and> a \<noteq> 127 \<and>
     \<not> (a = 100 \<and> 64 \<le> b \<and> b < 128) \<and> \<not> (a = 169 \<and> b = 254) \<and> \<not> (a = 172 \<and> 16 \<le> b \<and> b < 32) \<and>
     \<not> (a = 192 \<and> (b = 168 \<or> b = 0 \<and> (c = 0 \<or> c = 2) \<or> b = 88 \<and> c = 99)) \<and>
     \<not> (a = 198 \<and> (b = 18 \<or> b = 19 \<or> b = 51 \<and> c = 100)) \<and> \<not> (a = 203 \<and> b = 0 \<and> c = 113)"

definition public_groups :: "nat \<Rightarrow> nat \<Rightarrow> bool" where
  "public_groups a b \<longleftrightarrow> 0x2000 \<le> a \<and> a < 0x4000 \<and> \<not> (a = 0x2001 \<and> (b < 0x200 \<or> b = 0xDB8)) \<and> a \<noteq> 0x2002 \<and>
     \<not> (a = 0x3FFF \<and> b < 0x1000)"

lemma div_pair: "y < k \<Longrightarrow> q < k \<Longrightarrow> x * k + y = p * k + q \<longleftrightarrow> x = p \<and> y = q" for x y p q k :: nat
  by (metis add.commute div_mult_self3 div_less add_0_right mod_mult_self1 mod_less mult.commute less_zeroE)

lemma public_v4:
  assumes bounds: "a < 256" "b < 256" "c < 256" "d < 256"
  shows "publicCallbackIP (V4 (v4 a b c d)) \<longleftrightarrow> public_octets a b c d"
proof -
  have ends: "v4 a b c d = 0 \<Longrightarrow> a = 0" "v4 a b c d = - 1 \<Longrightarrow> a div 16 = 15"
  proof -
    assume "v4 a b c d = 0"
    then have "prefix_contains (P4 (v4 0 0 0 0) 8) (V4 (v4 a b c d))" by (simp add: v4_def)
    then show "a = 0" using bounds by (subst (asm) v4_in_prefix) (simp_all add: v4_prefix_8)
  next
    assume "v4 a b c d = - 1"
    then have "v4 a b c d = v4 255 255 255 255" by (simp add: v4_def)
    then have "prefix_contains (P4 (v4 255 255 255 255) 8) (V4 (v4 a b c d))" by simp
    then show "a div 16 = 15" using bounds by (subst (asm) v4_in_prefix) (simp_all add: v4_prefix_8)
  qed
  have pair: "a * 256 + b = p * 256 + q \<longleftrightarrow> a = p \<and> b = q" if "q < 256" for p q
    using bounds that by (simp add: div_pair)
  have triple: "(a * 256 + b) * 256 + c = (p * 256 + q) * 256 + r \<longleftrightarrow> a = p \<and> b = q \<and> c = r" if "q < 256" "r < 256" for p q r
    using bounds that by (simp only: div_pair conj_assoc)
  have blocks:
    "a * 16 + b div 16 = 172 * 16 + 1 \<longleftrightarrow> a = 172 \<and> 16 \<le> b \<and> b < 32"
    "a * 4 + b div 64 = 100 * 4 + 1 \<longleftrightarrow> a = 100 \<and> 64 \<le> b \<and> b < 128"
    "a * 128 + b div 2 = 198 * 128 + 9 \<longleftrightarrow> a = 198 \<and> (b = 18 \<or> b = 19)"
    using bounds by (subst div_pair; fastforce)+
  have small: "a div 16 \<noteq> 14 \<and> a div 16 \<noteq> 15 \<longleftrightarrow> a < 224"
    using bounds by auto
  show ?thesis
    unfolding publicCallbackIP_def is_global_unicast_def is_private_def is_loopback_def is_multicast_def is_link_local_def
      within_def callbackBlockedRanges_def unmap.simps Let_def addr.case
    using bounds ends
    apply (simp add: v4_in_prefix v4_prefix_8 [simplified] blocks [simplified] pair [of 254 169, simplified] pair [of 168 192, simplified]
      triple [of 0 0 192, simplified] triple [of 0 2 192, simplified] triple [of 88 99 192, simplified]
      triple [of 51 100 198, simplified] triple [of 0 113 203, simplified] public_octets_def del: prefix_contains.simps(1))
    using small by (cases "0 < a \<and> a < 224") (use ends in \<open>simp; blast\<close>)+
qed

text \<open>Eight groups; the first two decide all prefixes up to 32 bits, the first one the rest.\<close>

lemma groups_bound: "foldl (\<lambda>n x. n * 65536 + x) m gs < (m + 1) * 65536 ^ length gs" if "\<forall>g\<in>set gs. g < (65536 :: nat)"
  using that
proof (induction gs arbitrary: m)
  case (Cons g gs)
  have "foldl (\<lambda>n x. n * 65536 + x) (m * 65536 + g) gs < (m * 65536 + g + 1) * 65536 ^ length gs"
    using Cons.prems by (intro Cons.IH) simp
  also have "\<dots> \<le> ((m + 1) * 65536) * 65536 ^ length gs" using Cons.prems by (intro mult_right_mono) auto
  finally show ?case by (simp add: algebra_simps)
qed simp

abbreviation small :: "nat list \<Rightarrow> bool" where "small gs \<equiv> \<forall>g\<in>set gs. g < 65536"

lemma v6_groups: "v6 a b c d e f g h = word_of_nat (groups [a, b, c, d, e, f, g, h])"
  by (simp add: v6_def groups_def)

lemma groups_lead:
  assumes "small [a, b, c, d, e, f, g, h]"
  shows "groups [a, b, c, d, e, f, g, h] < 2 ^ 128"
    and "groups [a, b, c, d, e, f, g, h] div (2 ^ 96 * m) = (a * 65536 + b) div m"
proof -
  show "groups [a, b, c, d, e, f, g, h] < 2 ^ 128"
    using groups_bound [OF assms, of 0] by (simp add: groups_def)
  have "(2 :: nat) ^ 96 * m = 65536 * (65536 * (65536 * (65536 * (65536 * (65536 * m)))))" by simp
  then show "groups [a, b, c, d, e, f, g, h] div (2 ^ 96 * m) = (a * 65536 + b) div m"
    using assms by (simp only: groups_def foldl.simps shift_group list.set ball_simps) (simp add: shift_group)
qed

lemma v6_short:
  assumes "small [a, b, c, d, e, f, g, h]" "small [p, q, p1, p2, p3, p4, p5, p6]" and "n \<le> 32"
  shows "prefix_contains (P6 (v6 p q p1 p2 p3 p4 p5 p6) n) (V6 (v6 a b c d e f g h) zone) \<longleftrightarrow>
    \<not> zone \<and> (a * 65536 + b) div 2 ^ (32 - n) = (p * 65536 + q) div 2 ^ (32 - n)"
proof -
  have "128 - n = 96 + (32 - n)" using assms(3) by simp
  then have "(2 :: nat) ^ (128 - n) = 2 ^ 96 * 2 ^ (32 - n)" by (simp only: power_add)
  then show ?thesis
    using groups_lead [OF assms(1)] groups_lead [OF assms(2)]
    by (simp only: prefix_contains.simps v6_groups) (subst word_prefix; simp)
qed

lemma v6_long:
  assumes "small [a, b, c, d, e, f, g, h]" "small [p, q, p1, p2, p3, p4, p5, p6]" and "32 \<le> n"
    and "prefix_contains (P6 (v6 p q p1 p2 p3 p4 p5 p6) n) (V6 (v6 a b c d e f g h) zone)"
  shows "a = p"
proof -
  have "prefix_contains (P6 (v6 p q p1 p2 p3 p4 p5 p6) 16) (V6 (v6 a b c d e f g h) False)"
    using assms(3,4) drop_prefix [of "128 - n" "v6 a b c d e f g h" _ 112] by (simp del: One_nat_def)
  then show ?thesis using assms(1,2) by (subst (asm) v6_short) (simp_all)
qed

lemma v6_mapped:
  assumes "small [a, b, c, d, e, f, g, h]"
  shows "drop_bit 32 (v6 a b c d e f g h) = drop_bit 32 mapped_prefix \<longleftrightarrow>
    a = 0 \<and> b = 0 \<and> c = 0 \<and> d = 0 \<and> e = 0 \<and> f = 0xFFFF"
proof -
  have "(2 :: nat) ^ 32 = 65536 * (65536 * 1)" by simp
  then have "groups [a, b, c, d, e, f, g, h] div 2 ^ 32 = groups [a, b, c, d, e, f]"
    using assms by (simp only: groups_def foldl.simps shift_group list.set ball_simps) (simp add: shift_group)
  moreover have "groups [0, 0, 0, 0, 0, 0xFFFF, 0, 0] div 2 ^ 32 = 0xFFFF" by (simp add: groups_def)
  moreover have "groups [a, b, c, d, e, f] = 0xFFFF \<longleftrightarrow> a = 0 \<and> b = 0 \<and> c = 0 \<and> d = 0 \<and> e = 0 \<and> f = 0xFFFF"
  proof -
    have "groups [a, b, c, d, e, f] = groups [a, b, c, d, e] * 65536 + f" by (simp add: groups_def)
    moreover have "groups [a, b, c, d, e] = 0 \<longleftrightarrow> a = 0 \<and> b = 0 \<and> c = 0 \<and> d = 0 \<and> e = 0" by (simp add: groups_def)
    ultimately show ?thesis using assms div_pair [of f 65536 65535 "groups [a, b, c, d, e]" 0] by simp
  qed
  ultimately show ?thesis
    using groups_lead(1) [OF assms] groups_lead(1) [of 0 0 0 0 0 65535 0 0]
    by (simp only: mapped_prefix_def v6_groups) (subst word_prefix; simp)
qed

lemma mapped_unmap:
  assumes "g < 65536" "h < 65536"
  shows "unmap (V6 (v6 0 0 0 0 0 0xFFFF g h) zone) = V4 (v4 (g div 256) (g mod 256) (h div 256) (h mod 256))"
proof -
  let ?n = "g * 65536 + h"
  have n: "octets (g div 256) (g mod 256) (h div 256) (h mod 256) = ?n"
    using div_mult_mod_eq [of h 256] by (simp only: div_mult_mod_eq add_mult_distrib) simp
  have "groups [0, 0, 0, 0, 0, 0xFFFF, g, h] = 0xFFFF * 2 ^ 32 + ?n" by (simp add: groups_def)
  moreover have "?n < 2 ^ 32" using assms by simp
  moreover have "take_bit 32 (65535 * 2 ^ 32 + ?n) = take_bit 32 ?n" by (simp only: take_bit_eq_mod mod_mult_self3)
  moreover have "groups [0, 0, 0, 0, 0, 0xFFFF, g, h] < 2 ^ 128" using assms by (intro groups_lead) simp
  ultimately have "ucast (word_of_nat (groups [0, 0, 0, 0, 0, 0xFFFF, g, h]) :: 128 word) = (word_of_nat ?n :: 32 word)"
    by (simp only: unsigned_of_nat word_of_nat_eq_iff len_num0 len_num1 len_bit0 len_bit1) (simp add: take_bit_nat_eq_self)
  then show ?thesis using assms v6_mapped [of 0 0 0 0 0 65535 g h] by (simp add: v6_groups v4_def n)
qed

lemma lead_prefixes:
  assumes "b < (65536 :: nat)"
  shows "(a * 65536 + b) div 536870912 = a div 8192" "(a * 65536 + b) div 16777216 = a div 256"
    "(a * 65536 + b) div 4194304 = a div 64" "(a * 65536 + b) div 33554432 = a div 512" "(a * 65536 + b) div 65536 = a"
    "(a * 65536 + b) div 512 = a * 128 + b div 512" "(a * 65536 + b) div 4096 = a * 16 + b div 4096"
  using assms by simp_all

lemma zero_groups: "(0 :: 128 word) = v6 0 0 0 0 0 0 0 0" "(1 :: 128 word) = v6 0 0 0 0 0 0 0 1"
  by (simp_all add: v6_def)

lemma public_v6:
  assumes gs: "small [a, b, c, d, e, f, g, h]" and other: "\<not> (a = 0 \<and> b = 0 \<and> c = 0 \<and> d = 0 \<and> e = 0 \<and> f = 0xFFFF)"
  shows "publicCallbackIP (V6 (v6 a b c d e f g h) zone) \<longleftrightarrow> \<not> zone \<and> public_groups a b"
proof -
  let ?w = "v6 a b c d e f g h"
  have kept: "unmap (V6 ?w zone) = V6 ?w zone" using gs other by (simp add: v6_mapped)
  have start: "prefix_contains (P6 (v6 0x2000 0 0 0 0 0 0 0) 3) (V6 ?w zone) \<longleftrightarrow> \<not> zone \<and> 0x2000 \<le> a \<and> a < 0x4000"
    using gs by (subst v6_short) (simp_all add: lead_prefixes, arith)
  note short = v6_short [OF gs] and long = v6_long [OF gs, rotated 2]
  show ?thesis
  proof (cases "\<not> zone \<and> 0x2000 \<le> a \<and> a < 0x4000")
    case False
    then show ?thesis using kept start by (simp add: publicCallbackIP_def public_groups_def Let_def del: prefix_contains.simps unmap.simps) auto
  next
    case True
    have far: "\<not> prefix_contains (P6 (v6 p q p1 p2 p3 p4 p5 p6) n) (V6 ?w False)"
      if "small [p, q, p1, p2, p3, p4, p5, p6]" "32 \<le> n" "p < 0x2000" for p q p1 p2 p3 p4 p5 p6 n
      using v6_long [OF gs that(1,2)] True that(3) by auto
    have nonzero: "?w \<noteq> 0"
      using far [of 0 0 0 0 0 0 0 0 128] by (auto simp: zero_groups(1))
    have bits: "(a * 128 + b div 512 = 0x2001 * 128) \<longleftrightarrow> a = 0x2001 \<and> b < 512"
      "(a * 16 + b div 4096 = 0x3FFF * 16) \<longleftrightarrow> a = 0x3FFF \<and> b < 4096"
      "(a * 65536 + b = 0x2001 * 65536 + 0xDB8) \<longleftrightarrow> a = 0x2001 \<and> b = 0xDB8"
      using gs div_pair [of "b div 512" 128 0 a 8193] div_pair [of "b div 4096" 16 0 a 16383] div_pair [of b 65536 3512 a 8193]
      by (auto simp: div_eq_0_iff)
    have b: "b < 65536" and top: "a div 256 \<noteq> 255" "a div 64 \<noteq> 1018" "a div 512 \<noteq> 126" using gs True by auto
    show ?thesis
      using True kept start nonzero
      by (simp add: publicCallbackIP_def is_global_unicast_def is_private_def is_loopback_def is_multicast_def is_link_local_def
          within_def callbackBlockedRanges_def Let_def zero_groups mapped_prefix_def far short lead_prefixes [OF b] top b
          bits [simplified] public_groups_def del: prefix_contains.simps(1,2) unmap.simps) auto
  qed
qed

text \<open>
  C30. Exactly the addresses outside the registered special-purpose blocks pass \<open>publicCallbackIP\<close>: for IPv4 the
  listed octets, for IPv6 those of 2000::/3 without a zone that are not Teredo and its neighbours, documentation,
  or 6to4. An IPv4-mapped IPv6 address passes exactly when the IPv4 address in it does.
\<close>

theorem public_address_iff:
  assumes "o1 < 256" "o2 < 256" "o3 < 256" "o4 < 256" and "small [a, b, c, d, e, f, g, h]"
  shows "(publicCallbackIP (V4 (v4 o1 o2 o3 o4)) \<longleftrightarrow> public_octets o1 o2 o3 o4) \<and>
    (publicCallbackIP (V6 (v6 a b c d e f g h) zone) \<longleftrightarrow>
       (if a = 0 \<and> b = 0 \<and> c = 0 \<and> d = 0 \<and> e = 0 \<and> f = 0xFFFF
        then public_octets (g div 256) (g mod 256) (h div 256) (h mod 256) else \<not> zone \<and> public_groups a b))"
proof (cases "a = 0 \<and> b = 0 \<and> c = 0 \<and> d = 0 \<and> e = 0 \<and> f = 0xFFFF")
  case True
  have "publicCallbackIP (V6 (v6 0 0 0 0 0 0xFFFF g h) zone) =
      publicCallbackIP (V4 (v4 (g div 256) (g mod 256) (h div 256) (h mod 256)))"
    using assms(5) by (simp add: publicCallbackIP_def mapped_unmap del: unmap.simps(2))
  also have "\<dots> \<longleftrightarrow> public_octets (g div 256) (g mod 256) (h div 256) (h mod 256)"
    using assms(5) by (intro public_v4) auto
  finally show ?thesis using True assms(1-4) by (simp add: public_v4)
next
  case False
  show ?thesis by (simp only: if_not_P [OF False] public_v6 [OF assms(5) False] public_v4 [OF assms(1-4)])
qed

section \<open>Revocation\<close>

definition oauth_owner :: "string \<Rightarrow> string" where "oauth_owner gid = ''oauth:'' @ gid"

lemma oauth_owner_simps [simp]:
  "has_prefix ''oauth:'' (oauth_owner gid)" "trim_prefix ''oauth:'' (oauth_owner gid) = gid"
  "like_prefix ''oauth:'' (oauth_owner gid)" "drop 6 (oauth_owner gid) = gid"
  by (simp_all add: oauth_owner_def has_prefix_def trim_prefix_def like_prefix_def)

lemma grant_gone_authorized:
  assumes "gid \<notin> gr_id ` set (oauth_grants d)" and "owner = oauth_owner gid"
  shows "\<not> authorized ev fault owner policy expires now d"
  using assms by (auto simp: authorized_def OAuthGrantActive_def list_ex_iff)

lemma grant_gone_matches:
  assumes "gid \<notin> gr_id ` set (oauth_grants d)" and "sb_owner s = oauth_owner gid"
  shows "\<not> subscription_matches e now d s"
  using assms by (auto simp: subscription_matches_def owner_active_def list_ex_iff)

lemma EventSender_grant_gone:
  assumes "gid \<notin> gr_id ` set (oauth_grants d)" and "EventSubscription i d = Some s" and "sb_owner s = oauth_owner gid"
    and "dv_channel dv = eventChannelPrefix @ i"
  shows "EventSender ev cd fault now dv d = None"
  using assms grant_gone_authorized [OF assms(1,3)] by (simp add: EventSender_def has_prefix_def trim_prefix_def)

text \<open>The token is the access, refresh or a retired refresh token of the grant.\<close>

definition token_of :: "string \<Rightarrow> string \<Rightarrow> db \<Rightarrow> bool" where
  "token_of h gid d \<longleftrightarrow> list_ex (\<lambda>g. gr_id g = gid \<and> (gr_access g = h \<or> gr_refresh g = h \<or>
     list_ex (\<lambda>u. us_hash u = h \<and> us_grant u = gid) (oauth_used_refresh d))) (oauth_grants d)"

lemma revoked_gone:
  assumes "keyed gr_id (oauth_grants d)" and "token_of h gid d"
    and "d' = snd (RevokeOAuthToken h d) \<or> d' = snd (RevokeAllOAuth d)"
  shows "gid \<notin> gr_id ` set (oauth_grants d')"
proof
  assume "gid \<in> gr_id ` set (oauth_grants d')"
  then obtain x where x: "x \<in> set (oauth_grants d')" "gr_id x = gid" by auto
  from assms(2) obtain g where g: "g \<in> set (oauth_grants d)" "gr_id g = gid"
    "gr_access g = h \<or> gr_refresh g = h \<or> (\<exists>u\<in>set (oauth_used_refresh d). us_hash u = h \<and> us_grant u = gid)"
    by (auto simp: token_of_def list_ex_iff)
  from x(1) assms(3) have "x \<in> set (oauth_grants d)"
    by (auto simp: RevokeOAuthToken_def RevokeAllOAuth_def set_delete_rows)
  then have "x = g" using keyed_unique [OF assms(1)] g(1,2) x(2) by metis
  then show False
    using x g assms(3) by (auto simp: RevokeOAuthToken_def RevokeAllOAuth_def set_delete_rows list_ex_iff)
qed

section \<open>Subscriptions\<close>

lemma subscription_ttl_range: "subscription_ttl cd raw = Some ttl \<Longrightarrow> 0 < ttl \<and> ttl \<le> 24 * hour"
  by (auto simp: subscription_ttl_def split: if_splits option.splits)

text \<open>
  How a callback counts as verified: an echo of the challenge now, the entry of an earlier one in the cache, or
  the live subscription with the same secret.
\<close>

definition vouched ::
  "events_config \<Rightarrow> hook \<Rightarrow> event_codec \<Rightarrow> string option \<times> string option \<Rightarrow> instant \<Rightarrow> string \<Rightarrow> string \<Rightarrow>
   (sub_row \<times> credentials) option \<Rightarrow> credentials \<Rightarrow> verification_cache \<Rightarrow> instant \<Rightarrow> bool" where
  "vouched ev hk cd random now owner i previous cr cache v \<longleftrightarrow>
     now - v < 5 * minute \<and>
     ((v = now \<and> verify_callback ev hk cd random now cr i = Echoed) \<or>
      (\<exists>until. (cache_key cd owner cr, until) \<in> set cache \<and> v = until - 5 * minute) \<or>
      (\<exists>s old. previous = Some (s, old) \<and> ec_Secret old = ec_Secret cr \<and> v = of_unix_milli (sb_verified s)))"

lemma verified_vouched:
  assumes "verified_at ev hk cd random deadline now owner i previous cr cache = (Inr v, cache')"
  shows "vouched ev hk cd random now owner i previous cr cache v"
proof -
  let ?live = "filter (\<lambda>(k, until). now < until) cache" and ?key = "cache_key cd owner cr"
  consider (remembered) s old where "previous = Some (s, old)" "ec_Secret old = ec_Secret cr"
      "time_sub now (of_unix_milli (sb_verified s)) < 5 * minute" "v = of_unix_milli (sb_verified s)"
    | (cached) until where "map_of ?live ?key = Some until" "v = until - 5 * minute"
    | (echoed) "verify_callback ev hk cd random now cr i = Echoed" "v = now"
    using assms by (fastforce simp: verified_at_def Let_def split: option.splits if_splits challenge_result.splits prod.splits)
  then show ?thesis
  proof cases
    case remembered
    then show ?thesis using time_sub_less [OF remembered(3)] by (auto simp: vouched_def)
  next
    case cached
    then have "(?key, until) \<in> set ?live" by (metis map_of_SomeD)
    then show ?thesis using cached(2) by (auto simp: vouched_def)
  next
    case echoed
    then show ?thesis by (simp add: vouched_def)
  qed
qed

abbreviation fresh_credentials :: "sub_params \<Rightarrow> credentials" where
  "fresh_credentials p \<equiv> \<lparr>ec_URL = sp_URL p, ec_Secret = sp_Secret p, ec_OldSecret = [], ec_RotateUntil = zero_time\<rparr>"

lemma subscribe_success:
  assumes run: "subscribe ev hk cd fault random deadline now later between req owner i p (cache, d) = (reply, cache', d')"
    and body: "rr_body reply = Subscribed j ends"
  obtains ttl previous generation v encrypted where "signingKey (sp_Secret p) \<noteq> None" "subscription_ttl cd (sp_TTL p) = Some ttl"
    "previous_credentials ev cd fault i now d = Some previous"
    "vouched ev hk cd (random 1, random 2) now owner i previous (fresh_credentials p) cache v"
    "authorized ev (fault 2) owner (policy_of ev owner) (now + ttl) later (between d)"
    "SaveEventSubscription (subscription_row ev owner i generation p encrypted (now + ttl) v) now (between d) = (Inr (), d')"
    "j = i"
proof -
  note run = run [unfolded subscribe_def prod.case Let_def]
  have key: "signingKey (sp_Secret p) \<noteq> None"
  proof
    assume "signingKey (sp_Secret p) = None"
    then show False using run body by (auto simp: rpc_fail_def)
  qed
  obtain ttl where ttl: "subscription_ttl cd (sp_TTL p) = Some ttl"
    using run body key by (cases "subscription_ttl cd (sp_TTL p)") (auto simp: rpc_fail_def)
  obtain previous where previous: "previous_credentials ev cd fault i now d = Some previous"
    using run body key ttl by (cases "previous_credentials ev cd fault i now d") (auto simp: rpc_fail_def)
  obtain fresh where fresh: "randomOAuthToken (random 0) = Some fresh"
    using run body key ttl previous by (cases "randomOAuthToken (random 0)") (auto simp: rpc_fail_def)
  obtain result cache1 where result: "verified_at ev hk cd (random 1, random 2) deadline now owner i previous (fresh_credentials p) cache = (result, cache1)"
    by fastforce
  obtain v where "result = Inr v"
    using run body key ttl previous fresh result by (cases result) (auto simp: rpc_fail_def)
  note v = result [unfolded this]
  note known = key ttl previous fresh v
  show thesis
    using run body known verified_vouched [OF v]
    by (cases "cd_encrypt cd (cd_marshal_credentials cd (rotate_credentials now (map_option snd previous) (fresh_credentials p)))")
      (auto simp: rpc_fail_def rpc_result_def db_call_def split: if_splits prod.splits sum.splits intro: that)
qed

text \<open>The text search of the SQL over the joined routes finds exactly a whole route.\<close>

lemma split_on_parts: "split_on d (a @ d # s) = split_on d a @ split_on d s"
  by (induction a) (auto split: list.splits)

lemma split_on_plain: "d \<notin> set a \<Longrightarrow> split_on d a = [a]"
  by (induction a) auto

lemma split_on_joined:
  assumes "rs \<noteq> []" and "\<forall>r\<in>set rs. d \<notin> set r"
  shows "split_on d (join_with [d] rs) = rs"
  using assms by (induction "[d]" rs rule: join_with.induct) (auto simp: split_on_parts split_on_plain)

lemma route_in_list:
  assumes "contains_sub ('','' @ k @ '','') ('','' @ join_with '','' rs @ '','')" and "rs \<noteq> []" and "\<forall>r\<in>set rs. CHR '','' \<notin> set r"
    and "k \<noteq> []" and "CHR '','' \<notin> set k"
  shows "k \<in> set rs"
proof -
  from assms(1) obtain a b where "'','' @ join_with '','' rs @ '','' = a @ ('','' @ k @ '','') @ b" by (auto simp: contains_sub_iff)
  then have "split_on CHR '','' ([] @ CHR '','' # join_with '','' rs @ CHR '','' # []) = split_on CHR '','' (a @ CHR '','' # k @ CHR '','' # b)"
    by simp
  then have "[[]] @ rs @ [[]] = split_on CHR '','' a @ [k] @ split_on CHR '','' b"
    by (simp only: split_on_parts split_on_joined [OF assms(2,3)] split_on_plain [OF assms(5)]) simp
  then have "k \<in> set ([[]] @ rs @ [[]])" by simp
  then show ?thesis using assms(4) by simp
qed

lemma eventIdentifier_plain: "eventIdentifier r n \<Longrightarrow> r \<noteq> [] \<and> CHR '','' \<notin> set r"
  by (auto simp: eventIdentifier_def byte_class_defs list_all_iff split: list.splits)

lemma NewEvents_routes:
  assumes "NewEvents hk routes digest publicURL hosts = Some ev"
  shows "ev_routes ev \<noteq> []" and "\<forall>r\<in>set (ev_routes ev). r \<noteq> [] \<and> CHR '','' \<notin> set r"
proof -
  have rs: "ev_routes ev = sort (map trim_space (split_on CHR '','' routes))"
    and ids: "\<forall>r\<in>set (split_on CHR '','' routes). eventIdentifier (trim_space r) 64"
    using assms by (auto simp: NewEvents_def Let_def list_all_iff split: if_splits)
  have "set (ev_routes ev) \<noteq> {}" using split_on_nonempty [of "CHR '',''" routes] by (simp add: rs)
  then show "ev_routes ev \<noteq> []" by auto
  show "\<forall>r\<in>set (ev_routes ev). r \<noteq> [] \<and> CHR '','' \<notin> set r" using ids eventIdentifier_plain by (auto simp: rs)
qed

lemma row_routes_confined:
  assumes new: "NewEvents hk0 routes digest publicURL hosts = Some ev" and "validate_sub ev hk p"
    and "subscription_matches e t d0 (subscription_row ev owner i generation p encrypted expires v)" and "matches_identifier (RoutingKey e)"
  shows "RoutingKey e \<in> set (ev_routes ev)"
proof -
  let ?rs = "if ef_Route (sp_Arguments p) \<noteq> [] then [ef_Route (sp_Arguments p)] else ev_routes ev"
  have rs: "set ?rs \<subseteq> set (ev_routes ev)" "?rs \<noteq> []"
    using assms(2) NewEvents_routes(1) [OF new] by (auto simp: validate_sub_def Let_def)
  have "contains_sub ('','' @ RoutingKey e @ '','') ('','' @ join_with '','' ?rs @ '','')"
    using assms(3) by (simp add: subscription_matches_def subscription_row_def split: if_splits)
  then have "RoutingKey e \<in> set ?rs"
    using rs NewEvents_routes(2) [OF new] identifier_no_comma [OF assms(4)] assms(4)
    by (intro route_in_list) (auto simp: matches_identifier_def)
  then show ?thesis using rs(1) by blast
qed

lemma handle_subscribed:
  assumes "handle_event_rpc ev hk cd fault random deadline now later between json_type owner req (cache, d) = Some (reply, cache', d')"
    and "rr_body reply = Subscribed i ends"
  obtains p where "cd_sub_params cd (rp_params req) = Some p" "validate_sub ev hk p"
    "subscribe ev hk cd fault random deadline now later between req owner (identity ev cd owner p) p (cache, d) = (reply, cache', d')"
  using assms by (auto simp: handle_event_rpc_def rpc_fail_def rpc_result_def Let_def split: if_splits option.splits prod.splits sum.splits)


section \<open>Witnesses\<close>

text \<open>A client with the static token subscribes; its callback answers the challenge.\<close>

definition hook_buffer :: string where "hook_buffer = ''code''"

definition hook_answer :: string where "hook_answer = rawURLEncode hook_buffer"

definition key_bytes :: string where "key_bytes = replicate 24 CHR ''k''"

definition demo_secret :: string where "demo_secret = ''whsec_'' @ stdEncode key_bytes"

definition demo_hook :: hook where
  "demo_hook = \<lparr>hk_parse_url = (\<lambda>s. Some \<lparr>url_scheme = ''https'', url_host = ''a.b'', url_hostname = ''a.b'', url_port = [], url_path = ''/'',
       url_query = [], url_fragment = [], url_opaque = [], url_has_user = False\<rparr>),
     hk_parse_ip = (\<lambda>_. None), hk_lower = id, hk_split_host_port = (\<lambda>_. Some (''a.b'', ''443'')), hk_resolve = (\<lambda>_. Some [V4 (v4 8 8 8 8)]),
     hk_connects = (\<lambda>_. True), hk_request_ok = (\<lambda>_. True), hk_http = (\<lambda>rq. HookAnswer 200 (hr_body rq))\<rparr>"

fun challenge_text :: "json \<Rightarrow> string" where
  "challenge_text (JObj ((k, JStr c) # _)) = c"
| "challenge_text _ = ''json''"

definition alert_params :: sub_params where
  "alert_params = \<lparr>sp_Name = ''alert.created'', sp_Arguments = \<lparr>ef_Route = [], ef_Source = [], ef_Severity = [], ef_Status = []\<rparr>,
     sp_Mode = ''webhook'', sp_URL = ''https://a.b/'', sp_Secret = demo_secret, sp_Cursor = [], sp_TTL = []\<rparr>"

definition plain_codec0 :: event_codec where
  "plain_codec0 = \<lparr>cd_marshal = challenge_text, cd_list_cursor = (\<lambda>_. None), cd_sub_params = (\<lambda>_. Some alert_params), cd_int64 = (\<lambda>_. None),
     cd_challenge = (\<lambda>b. Some b), cd_marshal_credentials = (\<lambda>_. ''c''), cd_credentials = (\<lambda>_. None), cd_encrypt = (\<lambda>s. Some s),
     cd_decrypt = (\<lambda>s. Some s), cd_rfc3339 = (\<lambda>_. ''t'')\<rparr>"

definition demo_rpc :: rpc_request where
  "demo_rpc = \<lparr>rp_jsonrpc = ''2.0'', rp_id = ''1'', rp_method = ''events/subscribe'', rp_params = ''p''\<rparr>"

definition demo_policy :: string where "demo_policy = tokenHash (''d'' @ [CHR 0x0A] @ ''ops'')"

definition demo_events :: events_config where
  "demo_events = \<lparr>ev_routes = [''ops''], ev_staticOwner = ''static:d'', ev_staticPolicy = demo_policy, ev_oauthPolicy = [], ev_hosts = [''a.b'']\<rparr>"

lemma demo_NewEvents: "NewEvents demo_hook ''ops'' ''d'' [] ''a.b'' = Some demo_events"
proof -
  have "map trim_space (split_on CHR '','' ''ops'') = [''ops'']" by code_simp
  moreover have "eventIdentifier ''ops'' 64" by code_simp
  moreover have "callback_hosts demo_hook ''a.b'' = [''a.b'']" by (simp add: callback_hosts_def demo_hook_def) code_simp
  moreover have "validCallbackHostname ''a.b''" by code_simp
  ultimately show ?thesis by (simp add: NewEvents_def demo_events_def demo_policy_def Let_def)
qed

lemma demo_key: "\<exists>key. signingKey demo_secret = Some key"
proof -
  have "has_prefix ''whsec_'' demo_secret" "trim_prefix ''whsec_'' demo_secret = stdEncode key_bytes"
    by (simp_all only: demo_secret_def has_prefix_append trim_prefix_append)
  then show ?thesis by (simp add: signingKey_def b64_decode_encode) (simp add: key_bytes_def)
qed

lemma demo_verified: "verify_callback demo_events demo_hook plain_codec0 (Some hook_buffer, Some hook_buffer) 0 (fresh_credentials alert_params) i = Echoed"
proof -
  have "length hook_answer = 6" by (simp add: hook_answer_def length_raw) (simp add: hook_buffer_def)
  then have "take 4096 hook_answer = hook_answer" "length hook_answer \<le> 256 * 1024" by simp_all
  moreover obtain key where "signingKey demo_secret = Some key" using demo_key ..
  moreover have "callbackURL demo_hook [''a.b''] ''https://a.b/'' \<noteq> None" by (simp add: callbackURL_def demo_hook_def)
  ultimately show ?thesis
    by (simp add: verify_callback_def post_callback_def post_signature_def webhookSignature_def hook_request_def Let_def randomOAuthToken_def
        alert_params_def plain_codec0_def demo_events_def hook_answer_def [symmetric]) (simp add: demo_hook_def)
qed

lemma tokenHash_nonempty: "tokenHash s \<noteq> []"
proof -
  have "length (tokenHash s) = 64" by (simp add: tokenHash_def length_hex_encode length_sha256)
  then show ?thesis by auto
qed

lemma demo_policy_simps: "policy_of demo_events ''static:d'' = demo_policy" "demo_policy \<noteq> []"
  using tokenHash_nonempty by (auto simp: policy_of_def demo_events_def demo_policy_def)

abbreviation demo_id :: string where "demo_id \<equiv> identity demo_events plain_codec0 ''static:d'' alert_params"

abbreviation demo_row :: sub_row where
  "demo_row \<equiv> subscription_row demo_events ''static:d'' demo_id hook_answer alert_params ''c'' (24 * hour) 0"

lemma demo_subscribed:
  "\<exists>cache. subscribe demo_events demo_hook plain_codec0 (\<lambda>_. False) (\<lambda>_. Some hook_buffer) False 0 0 id demo_rpc ''static:d'' demo_id alert_params
     ([], empty_db) = (rpc_result demo_rpc (Subscribed demo_id ''t''), cache, empty_db\<lparr>event_subscriptions := [demo_row]\<rparr>)"
proof -
  obtain key where key: "signingKey (sp_Secret alert_params) = Some key" using demo_key by (auto simp: alert_params_def)
  have ttl: "subscription_ttl plain_codec0 (sp_TTL alert_params) = Some (24 * hour)"
    by (simp add: subscription_ttl_def alert_params_def)
  have previous: "previous_credentials demo_events plain_codec0 (\<lambda>_. False) demo_id 0 empty_db = Some None"
    by (simp add: previous_credentials_def EventSubscription_def empty_db_def)
  obtain cache where verified: "verified_at demo_events demo_hook plain_codec0 (Some hook_buffer, Some hook_buffer) False 0 ''static:d'' demo_id None
      (fresh_credentials alert_params) [] = (Inr 0, cache)"
    by (simp add: verified_at_def Let_def demo_verified)
  have authorized: "authorized demo_events False ''static:d'' (policy_of demo_events ''static:d'') (24 * hour) 0 empty_db"
    using demo_policy_simps by (simp add: authorized_def has_prefix_def) (simp add: demo_events_def)
  have save: "SaveEventSubscription demo_row 0 empty_db = (Inr (), empty_db\<lparr>event_subscriptions := [demo_row]\<rparr>)"
    by (simp add: SaveEventSubscription_def Let_def empty_db_def upsert_row_def delete_rows_def count_rows_def)
  show ?thesis
    using key ttl previous verified authorized save
    by (simp add: subscribe_def Let_def randomOAuthToken_def hook_answer_def rotate_credentials_def plain_codec0_def)
qed


theorem public_address_iff_witness:
  "publicCallbackIP (V4 (v4 8 8 8 8)) \<and> \<not> publicCallbackIP (V6 (v6 0 0 0 0 0 0xFFFF 0x7F00 1) False)"
  using public_address_iff [of 8 8 8 8 0 0 0 0 0 65535 32512 1 False] by (simp add: public_octets_def)

end
