(* ===== verification/McpProps.thy ===== *)
theory McpProps
  imports McpServer EventProps
begin

text \<open>
  What the MCP endpoint promises: nothing without a valid token, answers about the configured routes only, no
  change but to the rate counts and the subscriptions, and no access after a revocation.
\<close>

section \<open>Answers\<close>

definition within_routes :: "string list \<Rightarrow> tool_output \<Rightarrow> bool" where
  "within_routes routes out =
     (case out of
        AlertList page \<Rightarrow> list_all (\<lambda>a. al_Route a \<in> set routes) (pg_Alerts page)
      | AlertDetail detail \<Rightarrow> al_Route (fst detail) \<in> set routes
      | IncidentList page \<Rightarrow> list_all (\<lambda>i. ic_Route i \<in> set routes) (ip_Incidents page))"

lemma build_page_alerts: "set (pg_Alerts (build_page codec descending cursor limit rows)) \<subseteq> alert_of ` set rows"
  using set_take_subset [of limit "map alert_of rows"] by (simp add: build_page_def Let_def)

lemma QueryAlerts_routes:
  assumes "QueryAlerts pt codec routes q d = Inr page" and "a \<in> set (pg_Alerts page)"
  shows "al_Route a \<in> set routes"
proof -
  from assms obtain codec' desc cursor limit since pos n where
    "a \<in> set (pg_Alerts (build_page codec' desc cursor limit (take n (filter (beyond desc pos) (alert_rows routes (query_defaults q) since desc d)))))"
    unfolding QueryAlerts_def Let_def by (fastforce split: if_splits sum.splits)
  with build_page_alerts obtain e where "a = alert_of e" "e \<in> set (alert_rows routes (query_defaults q) since desc d)"
    by (fastforce dest: in_set_takeD)
  then show ?thesis
    by (auto simp: alert_rows_def Let_def alert_matches_def routePredicate_def alert_of_def split: if_splits)
qed

lemma QueryIncidents_routes:
  assumes "QueryIncidents decode encode routes cursor limit d = Inr (rows, nxt)" and "i \<in> set rows"
  shows "ic_Route i \<in> set routes"
  using assms
  by (auto simp: QueryIncidents_def Let_def incident_rows_def routePredicate_def incident_record_of_def
      dest!: in_set_takeD split: if_splits option.splits)

lemma find_tool_in: "find_tool name = Some tool \<Longrightarrow> tool \<in> {list_alerts, get_alert, list_active_incidents}"
  by (auto simp: find_tool_def configureQueries_def split: if_splits)

lemma tools_within_routes:
  assumes "find_tool name = Some tool" and "tool ml routes fault raw d = Inr out"
  shows "within_routes routes out"
proof -
  from find_tool_in [OF assms(1)] consider "tool = list_alerts" | "tool = get_alert" | "tool = list_active_incidents" by blast
  then show ?thesis
  proof cases
    case 1
    then show ?thesis using assms(2) QueryAlerts_routes
      by (fastforce simp: list_alerts_def within_routes_def list_all_iff split: option.splits if_splits sum.splits)
  next
    case 2
    then show ?thesis using assms(2)
      by (auto simp: get_alert_def QueryAlert_def within_routes_def routePredicate_def alert_of_def dest!: query_row_SomeD
          split: option.splits if_splits sum.splits)
  next
    case 3
    then show ?thesis using assms(2) QueryIncidents_routes
      by (fastforce simp: list_active_incidents_def within_routes_def list_all_iff split: option.splits if_splits sum.splits prod.splits)
  qed
qed

section \<open>The state\<close>

text \<open>Only the subscriptions differ.\<close>

definition same_but_subscriptions :: "db \<Rightarrow> db \<Rightarrow> bool" where
  "same_but_subscriptions d d' \<longleftrightarrow> d' = d\<lparr>event_subscriptions := event_subscriptions d'\<rparr>"

lemma same_but_subscriptions_refl [simp]: "same_but_subscriptions d d"
  by (simp add: same_but_subscriptions_def)

lemma save_changes: "same_but_subscriptions d (snd (store_call f (SaveEventSubscription s now) d))"
  by (simp add: same_but_subscriptions_def db_call_def SaveEventSubscription_def Let_def)

lemma remove_changes: "same_but_subscriptions d (snd (store_call f (RemoveEventSubscription i owner) d))"
  by (simp add: same_but_subscriptions_def db_call_def RemoveEventSubscription_def)

lemma subscribe_changes:
  assumes "subscribe ev hk cd fault random deadline now later id req owner i p (cache, d) = (reply, cache', d')"
  shows "same_but_subscriptions d d'"
  using assms save_changes [of d "fault 3"] unfolding subscribe_def Let_def
  by (auto split: if_splits option.splits prod.splits sum.splits) (metis snd_conv)+

lemma handle_event_rpc_changes:
  assumes "handle_event_rpc ev hk cd fault random deadline now later id json owner req (cache, d) = Some (reply, cache', d')"
  shows "same_but_subscriptions d d'"
proof -
  consider "d' = d" | j where "d' = snd (store_call (fault 0) (RemoveEventSubscription j owner) d)"
    | i p where "subscribe ev hk cd fault random deadline now later id req owner i p (cache, d) = (reply, cache', d')"
    using assms
    by (auto simp: handle_event_rpc_def Let_def split: if_splits option.splits prod.splits sum.splits) (metis snd_conv)+
  then show ?thesis
    using remove_changes subscribe_changes by cases auto
qed

lemma serve_method_changes:
  assumes "serve_method ml cd routes subs fault owner req (cache, d) = (r, cache', d')"
    and "\<forall>ep. subs = Some ep \<longrightarrow> ep_between ep = id"
  shows "same_but_subscriptions d d' \<and> (\<forall>i out. ms_body r = ToolResult i out \<longrightarrow> within_routes routes out \<and> d' = d)"
proof -
  have core: "within_routes routes out" if "ms_body (serve_core ml cd routes f req d) = ToolResult i out" for f i out
    using that tools_within_routes
    by (auto simp: serve_core_def mcp_reply_def Let_def split: if_splits option.splits sum.splits prod.splits)
  show ?thesis
    using assms core handle_event_rpc_changes [of _ _ cd fault]
    by (auto simp: serve_method_def event_response_def mcp_reply_def split: if_splits option.splits prod.splits)
qed

lemma checked_params_body: "checked_params ml rq req = Inl r \<Longrightarrow> ms_body r \<noteq> ToolResult i out"
  by (auto simp: checked_params_def mcp_reply_def Let_def split: option.splits if_splits prod.splits)

lemma serveModern_changes:
  assumes "serveModern ml cd routes oauth subs fault rq owner body (cache, d) = (r, cache', d')"
    and "\<forall>ep. subs = Some ep \<longrightarrow> ep_between ep = id"
  shows "same_but_subscriptions d d' \<and> (\<forall>i out. ms_body r = ToolResult i out \<longrightarrow> within_routes routes out \<and> d' = d)"
proof -
  consider "(cache', d') = (cache, d)" "\<forall>i out. ms_body r \<noteq> ToolResult i out"
    | req where "serve_method ml cd routes subs fault owner req (cache, d) = (r, cache', d')"
    using assms(1) checked_params_body
    by (auto simp: serveModern_def mcp_reply_def split: if_splits option.splits sum.splits)
  then show ?thesis using serve_method_changes assms(2) by cases auto
qed

lemma handle_mcp_cases:
  assumes "handle_mcp ml cd cfg subs fault now now' rq (cache, d) = (r, cache', d')"
  obtains (refused) "(cache', d') = (cache, d)" "ms_status r \<in> {401, 403, 405}" "\<forall>i out. ms_body r \<noteq> ToolResult i out"
      "mcp_caller cfg (fault 0) now (mq_authorization rq) d = None \<or> \<not> modernOriginAllowed ml (mc_oauth cfg) rq \<or> mq_method rq \<noteq> ''POST''"
  | (called) key owner res d1 where "modernOriginAllowed ml (mc_oauth cfg) rq"
      "mcp_caller cfg (fault 0) now (mq_authorization rq) d = Some (key, owner)" "mq_method rq = ''POST''"
      "store_call (fault 1) (RecordRateLimit key now' 60) d = (res, d1)"
      "((cache', d') = (cache, d1) \<and> (\<forall>i out. ms_body r \<noteq> ToolResult i out)) \<or>
       (res = Inr () \<and> (\<exists>body. serveModern ml cd (mc_routes cfg) (mc_oauth cfg) subs (\<lambda>k. fault (k + 2)) rq owner body (cache, d1) = (r, cache', d')))"
  using assms by (auto simp: handle_mcp_def mcp_reply_def split: if_splits option.splits sum.splits prod.splits)

text \<open>A bearer header with the static token, or the access token of a live grant of the endpoint's policy.\<close>

definition valid_token :: "mcp_config \<Rightarrow> instant \<Rightarrow> string \<Rightarrow> db \<Rightarrow> bool" where
  "valid_token cfg now auth d \<longleftrightarrow>
     (\<exists>token. auth = ''Bearer '' @ token \<and> length auth \<le> 256 \<and>
        (sha256 token = mc_hash cfg \<or>
         (\<exists>srv. mc_oauth cfg = Some srv \<and>
            (\<exists>g\<in>set (oauth_grants d). gr_access g = tokenHash token \<and> gr_policy g = ou_policy srv \<and>
               unix_milli now < gr_access_expires g \<and> unix_milli now < gr_expires g))))"

lemma caller_valid: "mcp_caller cfg fault now auth d = Some x \<Longrightarrow> valid_token cfg now auth d"
  unfolding mcp_caller_def Let_def valid_token_def has_prefix_iff
  by (auto simp: OAuthAccess_def simp del: append.simps dest!: query_row_SomeD split: if_splits option.splits intro!: bexI)

lemma counted_changes: "store_call f (RecordRateLimit key now l) d = (res, d1) \<Longrightarrow> d1 = d\<lparr>rate_windows := rate_windows d1\<rparr>"
  using recordRateWindow_frame [of key now l d "fst (recordRateWindow key now l d)" d1]
  by (auto simp: db_call_def RecordRateLimit_def Let_def split: prod.splits if_splits)

lemma counted_then_changed:
  "d1 = d\<lparr>rate_windows := rate_windows d1\<rparr> \<Longrightarrow> d' = d1\<lparr>event_subscriptions := event_subscriptions d'\<rparr> \<Longrightarrow>
     d' = d\<lparr>rate_windows := rate_windows d', event_subscriptions := event_subscriptions d'\<rparr>" for d :: db
  by (cases d; cases d1; cases d') simp

text \<open>
  C28. The MCP endpoint answers a query only to a caller with the static token or a live access token, and shows
  alerts and incidents of the configured routes only; without such a token it changes nothing, and with one at
  most the caller's rate count and the event subscriptions, which a query leaves alone.
\<close>

theorem mcp_access_confined:
  assumes "handle_mcp ml cd cfg subs fault now now' rq (cache, d) = (r, cache', d')"
    and "\<forall>ep. subs = Some ep \<longrightarrow> ep_between ep = id"
  shows "(\<not> valid_token cfg now (mq_authorization rq) d \<longrightarrow> (cache', d') = (cache, d) \<and> ms_status r \<in> {401, 403}) \<and>
    d' = d\<lparr>rate_windows := rate_windows d', event_subscriptions := event_subscriptions d'\<rparr> \<and>
    (\<forall>i out. ms_body r = ToolResult i out \<longrightarrow>
       valid_token cfg now (mq_authorization rq) d \<and> within_routes (mc_routes cfg) out \<and>
       event_subscriptions d' = event_subscriptions d)"
  using assms(1)
proof (cases rule: handle_mcp_cases)
  case refused
  have "mcp_caller cfg (fault 0) now (mq_authorization rq) d = None" if "\<not> valid_token cfg now (mq_authorization rq) d"
    using that caller_valid by (cases "mcp_caller cfg (fault 0) now (mq_authorization rq) d") auto
  then have "ms_status r \<in> {401, 403}" if "\<not> valid_token cfg now (mq_authorization rq) d"
    using assms(1) that by (auto simp: handle_mcp_def mcp_reply_def split: if_splits)
  then show ?thesis using refused(1,3) by auto
next
  case (called key owner res d1)
  have d1: "d1 = d\<lparr>rate_windows := rate_windows d1\<rparr>" using counted_changes [OF called(4)] .
  have "same_but_subscriptions d1 d' \<and> (\<forall>i out. ms_body r = ToolResult i out \<longrightarrow> within_routes (mc_routes cfg) out \<and> d' = d1)"
    using called(5) serveModern_changes assms(2) by fastforce
  moreover have "event_subscriptions d1 = event_subscriptions d" by (subst d1) simp
  ultimately show ?thesis using counted_then_changed [OF d1] caller_valid [OF called(2)] unfolding same_but_subscriptions_def by auto
qed

section \<open>Revocation\<close>

lemma caller_of_grant:
  assumes "mcp_caller cfg fault now auth d = Some (k, oauth_owner gid)"
  shows "gid \<in> gr_id ` set (oauth_grants d)"
proof -
  have "oauth_owner gid \<noteq> ''static:'' @ x" for x by (simp add: oauth_owner_def)
  then show ?thesis
    using assms by (auto simp: mcp_caller_def oauth_owner_def OAuthAccess_def Let_def dest!: query_row_SomeD split: if_splits option.splits)
qed

text \<open>
  C29. Revoking a grant, by any token it ever had or with all grants, ends its access at once: the MCP endpoint takes
  no caller for it, later alerts queue nothing for its subscriptions, and a delivery queued before is not sent; it
  fails for good, without a request to the callback, whatever the callback would answer.
\<close>

theorem revoked_grant_ends_access:
  assumes "oauth_integrity d" and "token_of h gid d"
    and "d' = snd (RevokeOAuthToken h d) \<or> d' = snd (RevokeAllOAuth d)"
    and "EventSubscription i d = Some s" and "sb_owner s = oauth_owner gid"
  shows "mcp_caller cfg f now auth d' \<noteq> Some (k, oauth_owner gid) \<and> \<not> subscription_matches e now d' s \<and>
    (dv_channel dv = eventChannelPrefix @ i \<longrightarrow> EventSender ev cd fault now dv d' = None) \<and>
    (sb_id (es_sub snd0) = i \<longrightarrow> event_send ev hk cd fault now snd0 e d' = ((0, Some unavailable_error), d'))"
proof -
  have gone: "gid \<notin> gr_id ` set (oauth_grants d')"
    using revoked_gone [OF _ assms(2,3)] assms(1) by (simp add: oauth_integrity_def)
  have kept: "EventSubscription i d' = Some s"
    using assms(3,4) by (auto simp: EventSubscription_def RevokeOAuthToken_def RevokeAllOAuth_def delete_grants_def Let_def)
  have "EventSender ev cd fault now dv d' = None" if "dv_channel dv = eventChannelPrefix @ i" for dv
    using EventSender_grant_gone [OF gone kept assms(5) that] .
  moreover from this have "event_send ev hk cd fault now snd0 e d' = ((0, Some unavailable_error), d')" if "sb_id (es_sub snd0) = i"
    using that by (simp add: event_send_def)
  ultimately show ?thesis using grant_gone_matches [OF gone assms(5)] caller_of_grant gone by blast
qed

section \<open>Witnesses\<close>

definition revoked_db :: db where
  "revoked_db = empty_db\<lparr>oauth_grants := [\<lparr>gr_id = ''g'', gr_access = ''a'', gr_refresh = ''r'', gr_policy = ''p'', gr_access_expires = 10, gr_expires = 10\<rparr>],
     event_subscriptions := [\<lparr>sb_id = ''s'', sb_owner = oauth_owner ''g'', sb_policy = ''p'', sb_generation = ''1'', sb_routes = ''ops'', sb_source = [],
       sb_severity = [], sb_status = [], sb_encrypted = [], sb_expires = 10, sb_verified = 0\<rparr>]\<rparr>"

lemma revoked_db_ok: "oauth_integrity revoked_db" "token_of ''r'' ''g'' revoked_db"
    "EventSubscription ''s'' revoked_db = Some (hd (event_subscriptions revoked_db))"
    "sb_owner (hd (event_subscriptions revoked_db)) = oauth_owner ''g''"
  by (simp_all add: revoked_db_def empty_db_def oauth_integrity_def token_of_def EventSubscription_def keyed_def)

theorem revoked_grant_ends_access_witness:
  "EventSender demo_events plain_codec0 (\<lambda>_. False) 0
     \<lparr>dv_record = ''e'', dv_version = ''1'', dv_id = ''e:s'', dv_channel = eventChannelPrefix @ ''s'', dv_attempts = 0, dv_event = demo_event\<rparr>
     (snd (RevokeOAuthToken ''r'' revoked_db)) = None"
  using revoked_grant_ends_access [OF revoked_db_ok(1,2) disjI1 [OF refl] revoked_db_ok(3,4)] by simp

text \<open>A call with the static token that lists the tools' alerts of an empty history.\<close>

definition mcp_token :: string where "mcp_token = ''token''"

definition mcp_demo :: mcp_config where
  "mcp_demo = \<lparr>mc_digest = hex_encode (sha256 mcp_token), mc_hash = sha256 mcp_token, mc_routes = [''ops''], mc_oauth = None\<rparr>"

definition mcp_lib :: mcp_library where
  "mcp_lib = \<lparr>ml_parse_url = (\<lambda>_. None), ml_media_type = (\<lambda>s. Some (s, [])),
     ml_request = (\<lambda>_. Some \<lparr>rp_jsonrpc = ''2.0'', rp_id = ''1'', rp_method = ''tools/call'', rp_params = ''params''\<rparr>),
     ml_object = (\<lambda>s. if s = ''params'' then Some [(''_meta'', ''meta''), (''name'', ''list_alerts'')]
                     else Some [(metaVersion, ''2026-07-28''), (metaCapabilities, ''caps'')]),
     ml_string = (\<lambda>s. Some s), ml_marshal = (\<lambda>_. ''rest''), ml_tool_call = (\<lambda>_. Some (''list_alerts'', [])),
     ml_alert_query = (\<lambda>_. Some \<lparr>q_Order = [], q_Since = [], q_Cursor = [], q_Limit = 0, q_Source = [], q_Severity = [], q_Status = []\<rparr>),
     ml_alert_id = (\<lambda>_. None), ml_incident_query = (\<lambda>_. None), ml_parse_time = (\<lambda>_. None),
     ml_cursor = plain_codec, ml_incident_cursor = (\<lambda>_. None, \<lambda>_. [])\<rparr>"

definition mcp_call :: mcp_request where
  "mcp_call = \<lparr>mq_method = ''POST'', mq_host = ''gw'', mq_tls = True, mq_authorization = ''Bearer '' @ mcp_token,
     mq_content_type = ''application/json'', mq_accept = ''application/json,text/event-stream'', mq_origins = [],
     mq_versions = [''2026-07-28''], mq_methods = [''tools/call''], mq_names = [''list_alerts''], mq_body = Some ''body''\<rparr>"

lemma mcp_demo_caller:
  "mcp_caller mcp_demo False 0 (mq_authorization mcp_call) empty_db = Some (''mcp:'' @ mc_digest mcp_demo, ''static:'' @ mc_digest mcp_demo)"
proof -
  have "has_prefix ''Bearer '' (''Bearer '' @ mcp_token)" "trim_prefix ''Bearer '' (''Bearer '' @ mcp_token) = mcp_token"
    by (simp_all only: has_prefix_append trim_prefix_append)
  moreover have "\<not> 256 < length (''Bearer '' @ mcp_token)" by (simp add: mcp_token_def)
  ultimately show ?thesis by (simp add: mcp_caller_def mcp_call_def mcp_demo_def Let_def)
qed

lemma mcp_demo_counted: "\<exists>d1. RecordRateLimit key 0 60 empty_db = (Inr (), d1) \<and> events d1 = []"
  by (simp add: RecordRateLimit_def recordRateWindow_def Let_def empty_db_def delete_rows_def)

lemma mcp_demo_headers:
  "acceptsModern mcp_lib ''application/json,text/event-stream''" "mirroredHeader [''tools/call''] = Some ''tools/call''"
  "mirroredHeader [''list_alerts''] = Some ''list_alerts''" "find_tool ''list_alerts'' = Some list_alerts"
proof -
  have "split_on CHR '','' ''application/json,text/event-stream'' = [''application/json'', ''text/event-stream'']" by code_simp
  moreover have "trim_space ''application/json'' = ''application/json''" "trim_space ''text/event-stream'' = ''text/event-stream''" by code_simp+
  ultimately show "acceptsModern mcp_lib ''application/json,text/event-stream''" by (simp add: acceptsModern_def mcp_lib_def map_filter_simps)
  show "mirroredHeader [''tools/call''] = Some ''tools/call''" "mirroredHeader [''list_alerts''] = Some ''list_alerts''" by code_simp+
  show "find_tool ''list_alerts'' = Some list_alerts" by (simp add: find_tool_def configureQueries_def)
qed

lemma mcp_demo_served:
  "\<exists>page. serveModern mcp_lib plain_codec0 [''ops''] None None f mcp_call owner ''body'' st = (mcp_reply 200 (ToolResult ''1'' (AlertList page)), st)"
  if "\<not> f 0" "events (snd st) = []"
proof -
  have params: "checked_params mcp_lib mcp_call \<lparr>rp_jsonrpc = ''2.0'', rp_id = ''1'', rp_method = ''tools/call'', rp_params = ''params''\<rparr> = Inr [(''name'', ''list_alerts'')]"
    using mcp_demo_headers(2,3)
    by (simp add: checked_params_def raw_object_def raw_string_def name_mirrored_def name_key_def mcp_lib_def mcp_call_def metaVersion_def
        metaCapabilities_def EventsProtocolVersion_def Let_def)
  have query: "\<exists>page. list_alerts mcp_lib [''ops''] False [] (snd st) = Inr (AlertList page)"
    using that(2) by (simp add: list_alerts_def mcp_lib_def QueryAlerts_def query_defaults_def Let_def query_position_def)
  show ?thesis
    using params query that(1) mcp_demo_headers(1,4)
    by (auto simp: serveModern_def modernOriginAllowed_def validRequestID_def serve_method_def serve_core_def Let_def mcp_call_def mcp_lib_def)
qed

theorem mcp_access_confined_witness:
  "\<exists>page d'. ms_body (fst (handle_mcp mcp_lib plain_codec0 mcp_demo None (\<lambda>_. False) 0 0 mcp_call ([], empty_db))) = ToolResult ''1'' (AlertList page) \<and>
     snd (handle_mcp mcp_lib plain_codec0 mcp_demo None (\<lambda>_. False) 0 0 mcp_call ([], empty_db)) = ([], d') \<and>
     within_routes [''ops''] (AlertList page) \<and> event_subscriptions d' = event_subscriptions empty_db"
proof -
  obtain d1 where d1: "RecordRateLimit (''mcp:'' @ mc_digest mcp_demo) 0 60 empty_db = (Inr (), d1)" "events d1 = []"
    using mcp_demo_counted by blast
  obtain page where "serveModern mcp_lib plain_codec0 [''ops''] None None (\<lambda>k. False) mcp_call (''static:'' @ mc_digest mcp_demo) ''body'' ([], d1) =
      (mcp_reply 200 (ToolResult ''1'' (AlertList page)), [], d1)"
    using mcp_demo_served [of "\<lambda>_. False" "([], d1)"] d1(2) by auto
  then have run: "handle_mcp mcp_lib plain_codec0 mcp_demo None (\<lambda>_. False) 0 0 mcp_call ([], empty_db) =
      (mcp_reply 200 (ToolResult ''1'' (AlertList page)), [], d1)"
    using mcp_demo_caller d1(1) by (simp add: handle_mcp_def modernOriginAllowed_def) (simp add: mcp_call_def mcp_demo_def)
  from mcp_access_confined [OF run] show ?thesis unfolding run by (simp add: mcp_reply_def mcp_demo_def)
qed

end
