(* ===== verification/Oidc.thy ===== *)
theory Oidc
  imports AdminSession Bootstrap
begin

text \<open>
  \<open>internal/admin/oidc.go\<close>: logging in through an OpenID provider. The login handler starts an attempt, kept
  in memory under the digest of its state, and the callback of the provider finishes it. The OAuth and OIDC
  libraries are the fields of \<open>oidc_provider\<close>; the discovery of the provider is an argument of \<open>NewOIDC\<close>.
\<close>

section \<open>Configuration\<close>

text \<open>\<open>op_exchange\<close> gives the ID token of the answer, if there is an answer and it has one.\<close>

record id_token =
  it_Issuer :: string
  it_Subject :: string
  it_Nonce :: string
  it_azp :: "string option"

record oidc_provider =
  op_authorize :: "string \<Rightarrow> string \<Rightarrow> string \<Rightarrow> string"
  op_exchange :: "string \<Rightarrow> string \<Rightarrow> string option option"
  op_verify :: "string \<Rightarrow> id_token option"

definition secureURL :: "url \<Rightarrow> bool" where
  "secureURL u \<longleftrightarrow> url_scheme u = ''https'' \<and> url_host u \<noteq> [] \<and> \<not> url_has_user u \<and> url_fragment u = [] \<and> url_opaque u = []"

text \<open>\<open>discover\<close> gives the authorization and the token endpoint, and the key set's URL if its claims decode.\<close>

definition NewOIDC ::
  "url_parser \<Rightarrow> (string \<Rightarrow> (string \<times> string \<times> string option) option) \<Rightarrow> oidc_config \<Rightarrow> oidc_config option" where
  "NewOIDC parse_url discover cfg =
     (case (parse_url (oc_Issuer cfg), parse_url (oc_RedirectURL cfg)) of
        (Some issuer, Some callback) \<Rightarrow>
          if \<not> secureURL issuer \<or> \<not> secureURL callback \<or> url_query issuer \<noteq> [] \<or> url_query callback \<noteq> [] \<or>
             url_path callback \<noteq> ''/auth/oidc/callback'' \<or> oc_ClientID cfg = [] \<or> length (oc_ClientSecret cfg) < 32 \<or>
             oc_AdminSubject cfg = [] then None
          else (case discover (oc_Issuer cfg) of
            Some (auth, token, Some jwks) \<Rightarrow>
              if list_all (\<lambda>raw. case parse_url raw of None \<Rightarrow> False | Some u \<Rightarrow> secureURL u \<and> url_host u = url_host issuer)
                   [auth, token, jwks] then Some cfg else None
          | _ \<Rightarrow> None)
      | _ \<Rightarrow> None)"

text \<open>
  \<open>None\<close> is an error, \<open>Some None\<close> that no file is configured. \<open>decode\<close> reads exactly one JSON value without
  unknown fields.
\<close>

definition LoadOIDC ::
  "url_parser \<Rightarrow> (string \<Rightarrow> (string \<times> string \<times> string option) option) \<Rightarrow> (string \<Rightarrow> oidc_config option) \<Rightarrow> files \<Rightarrow> string \<Rightarrow>
   oidc_config option option" where
  "LoadOIDC parse_url discover decode fs path =
     (if path = [] then Some None
      else case fs path of None \<Rightarrow> None
      | Some f \<Rightarrow>
          if \<not> fl_regular f \<or> fl_mode f mod 8 \<noteq> 0 \<or> fl_mode f div 16 mod 2 \<noteq> 0 then None
          else case decode (take 16385 (fl_data f)) of None \<Rightarrow> None
          | Some cfg \<Rightarrow> map_option Some (NewOIDC parse_url discover cfg))"

section \<open>Attempts\<close>

record oidc_attempt =
  oa_binding :: string
  oa_nonce :: string
  oa_verifier :: string
  oa_next :: string
  oa_oldSession :: string
  oa_expires :: instant

type_synonym attempts = "(string \<times> oidc_attempt) list"

text \<open>The zero array.\<close>

definition no_session :: string where
  "no_session = replicate 32 (char_of (0 :: nat))"

definition oidcAttemptCookie :: "string \<Rightarrow> int \<Rightarrow> admin_response \<Rightarrow> admin_response" where
  "oidcAttemptCookie v maxAge r = r\<lparr>ah_cookies :=
     \<lparr>ck_name = ''__Secure-alertbridge_oidc'', ck_value = v, ck_path = ''/auth/oidc'', ck_max_age = maxAge, ck_secure = True,
      ck_http_only = True, ck_same_site_strict = False\<rparr> # ah_cookies r\<rparr>"

definition oidcFailure :: admin_response where
  "oidcFailure = redirect ''/admin/login?oidc_error=1''"

definition validHost :: "web \<Rightarrow> oidc_config \<Rightarrow> admin_request \<Rightarrow> bool" where
  "validHost wb oc rq \<longleftrightarrow> map_option url_host (wb_parse_url wb (oc_RedirectURL oc)) = Some (aq_host rq)"

text \<open>\<open>random\<close> holds the buffers of state, binding and nonce; \<open>verifier\<close> is the library's PKCE verifier.\<close>

definition oidcLogin ::
  "admin_config \<Rightarrow> web \<Rightarrow> oidc_provider \<Rightarrow> (nat \<Rightarrow> bool) \<Rightarrow> (nat \<Rightarrow> string option) \<Rightarrow> string \<Rightarrow> instant \<Rightarrow> admin_request \<Rightarrow>
   attempts \<times> db \<Rightarrow> admin_response \<times> attempts \<times> db" where
  "oidcLogin cfg wb pr fault random verifier now rq = (\<lambda>(att, d).
     if aq_method rq \<noteq> ''GET'' then (admin_not_allowed ''GET'', att, d)
     else case ad_OIDC cfg of None \<Rightarrow> (not_found_page, att, d)
     | Some oc \<Rightarrow>
         if \<not> validHost wb oc rq then (oidcFailure, att, d)
         else (case store_call (fault 0) (RecordAdminLoginAttempt now 10) d of
           (Inl _, d1) \<Rightarrow> (oidcFailure, att, d1)
         | (Inr _, d1) \<Rightarrow>
             (case (randomToken (random 0), randomToken (random 1), randomToken (random 2)) of
               (Some state, Some binding, Some nonce) \<Rightarrow>
                 let a = \<lparr>oa_binding = sha256 binding, oa_nonce = nonce, oa_verifier = verifier,
                          oa_next = oauthLoginNext wb (query_value wb rq ''next''),
                          oa_oldSession = (case aq_cookie rq of None \<Rightarrow> no_session | Some v \<Rightarrow> sha256 v),
                          oa_expires = now + 5 * minute\<rparr>;
                     live = filter (\<lambda>(k, v). now < oa_expires v) att
                 in if 256 \<le> length live then (oidcFailure, live, d1)
                    else (oidcAttemptCookie binding 300 (redirect (op_authorize pr state nonce verifier)),
                          AList.update (sha256 state) a live, d1)
             | _ \<Rightarrow> (oidcFailure, att, d1))))"

section \<open>The callback\<close>

text \<open>The parameters of the callback: state, code and error; \<open>None\<close> when one is missing or repeated.\<close>

definition callback_parameters :: "web \<Rightarrow> admin_request \<Rightarrow> (string \<times> string \<times> string) option" where
  "callback_parameters wb rq =
     (let q = wb_query wb (aq_raw_query rq)
      in if \<not> wb_query_ok wb (aq_raw_query rq) \<or> length (values_at q ''state'') \<noteq> 1 \<or> 1 < length (values_at q ''code'') \<or>
            1 < length (values_at q ''error'') then None
         else Some (value_of q ''state'', value_of q ''code'', value_of q ''error''))"

text \<open>Taking an attempt out of the map: only the browser that holds its binding can.\<close>

definition take_attempt :: "string \<Rightarrow> string \<Rightarrow> attempts \<Rightarrow> oidc_attempt option \<times> attempts" where
  "take_attempt state cookie att =
     (case map_of att (sha256 state) of None \<Rightarrow> (None, att)
      | Some a \<Rightarrow> if oa_binding a = sha256 cookie then (Some a, AList.delete (sha256 state) att) else (None, att))"

text \<open>What the provider says of the code: the administrator, and for this attempt.\<close>

definition identity_confirmed :: "oidc_config \<Rightarrow> oidc_provider \<Rightarrow> oidc_attempt \<Rightarrow> string \<Rightarrow> bool" where
  "identity_confirmed oc pr a code =
     (case op_exchange pr code (oa_verifier a) of
        Some (Some raw) \<Rightarrow>
          (case op_verify pr raw of None \<Rightarrow> False
           | Some t \<Rightarrow> it_Nonce t = oa_nonce a \<and> it_Issuer t = oc_Issuer oc \<and> it_Subject t = oc_AdminSubject oc \<and>
               (case it_azp t of None \<Rightarrow> False | Some azp \<Rightarrow> azp = [] \<or> azp = oc_ClientID oc))
      | _ \<Rightarrow> False)"

text \<open>The new session, and the end of the one the browser had.\<close>

definition rotate_session ::
  "admin_config \<Rightarrow> (nat \<Rightarrow> bool) \<Rightarrow> string \<Rightarrow> string \<Rightarrow> string \<Rightarrow> instant \<Rightarrow> db \<Rightarrow> bool \<times> db" where
  "rotate_session cfg fault old token csrf now d =
     (case store_call (fault 0) (CreateAdminSession (sha256 token) csrf (now + ad_SessionLifetime cfg) now) d of
        (Inl _, d1) \<Rightarrow> (False, d1)
      | (Inr _, d1) \<Rightarrow>
          if old = no_session then (True, d1)
          else (case store_call (fault 1) (DeleteAdminSession old) d1 of
            (Inl _, d2) \<Rightarrow> (False, snd (store_call (fault 2) (DeleteAdminSession (sha256 token)) d2))
          | (Inr _, d2) \<Rightarrow> (True, d2)))"

definition oidcCallback ::
  "admin_config \<Rightarrow> web \<Rightarrow> oidc_provider \<Rightarrow> (nat \<Rightarrow> bool) \<Rightarrow> (nat \<Rightarrow> string option) \<Rightarrow> instant \<Rightarrow> admin_request \<Rightarrow>
   attempts \<times> db \<Rightarrow> admin_response \<times> attempts \<times> db" where
  "oidcCallback cfg wb pr fault random now rq = (\<lambda>(att, d).
     if aq_method rq \<noteq> ''GET'' then (admin_not_allowed ''GET'', att, d)
     else case ad_OIDC cfg of None \<Rightarrow> (not_found_page, att, d)
     | Some oc \<Rightarrow>
         if \<not> validHost wb oc rq \<or> 8192 < length (aq_raw_query rq) then (oidcFailure, att, d)
         else (case (callback_parameters wb rq, aq_oidc_cookie rq) of
           (Some (state, code, err), Some cookie) \<Rightarrow>
             if length cookie \<noteq> 43 \<or> length state \<noteq> 43 then (oidcFailure, att, d)
             else (let (taken, att1) = take_attempt state cookie att; failed = oidcAttemptCookie [] (- 1) oidcFailure in
               (case taken of None \<Rightarrow> (failed, att1, d)
               | Some a \<Rightarrow>
                   if \<not> now < oa_expires a \<or> err \<noteq> [] \<or> code = [] \<or> \<not> identity_confirmed oc pr a code
                   then (failed, att1, d)
                   else (case (randomToken (random 0), randomToken (random 1)) of
                     (Some token, Some csrf) \<Rightarrow>
                       (case rotate_session cfg fault (oa_oldSession a) token csrf now d of
                         (False, d1) \<Rightarrow> (failed, att1, d1)
                       | (True, d1) \<Rightarrow>
                           (oidcAttemptCookie [] (- 1) (setSessionCookie cfg token (ad_SessionLifetime cfg div second)
                              (redirect (if oa_next a = [] then ''/admin/'' else oa_next a))), att1, d1))
                   | _ \<Rightarrow> (failed, att1, d))))
         | _ \<Rightarrow> (oidcFailure, att, d)))"

end
