(* ===== verification/AdminPages.thy ===== *)
theory AdminPages
  imports Oidc
begin

text \<open>
  \<open>internal/admin/admin.go\<close>, second part: the pages behind the session check, their forms, and the dispatch.
  A handler gets the environment, the faults of its database calls, the random buffers and the clock, the
  request with its form, and the CSRF token of the session.
\<close>

section \<open>Handlers\<close>

record admin_env =
  ae_config :: admin_config
  ae_gateway :: environment
  ae_web :: web
  ae_idkey :: idkey
  ae_provider :: oidc_provider

record admin_call =
  cl_fault :: "nat \<Rightarrow> bool"
  cl_random :: "nat \<Rightarrow> string option"
  cl_now :: instant
  cl_request :: admin_request
  cl_form :: form_values
  cl_csrf :: string

type_synonym page_handler = "admin_env \<Rightarrow> admin_call \<Rightarrow> manager \<Rightarrow> admin_response \<times> manager"

definition get_value :: "admin_call \<Rightarrow> string \<Rightarrow> string" where
  "get_value c key = value_of (cl_form c) key"

text \<open>The method guard of every handler, and the end of every form.\<close>

definition only :: "string \<Rightarrow> page_handler \<Rightarrow> page_handler" where
  "only method handler env c m =
     (if aq_method (cl_request c) \<noteq> method then (admin_not_allowed method, m) else handler env c m)"

definition finish :: "string \<Rightarrow> ('a \<Rightarrow> admin_response) \<Rightarrow> 'a gateway_result \<Rightarrow> admin_response \<times> manager" where
  "finish path answer result = (case result of (Inl _, m) \<Rightarrow> (redirectFailure path, m) | (Inr v, m) \<Rightarrow> (answer v, m))"

definition head_of :: "admin_env \<Rightarrow> admin_call \<Rightarrow> page_head" where
  "head_of env c = \<lparr>pg_CSRF = cl_csrf c, pg_Notice = query_value (ae_web env) (cl_request c) ''ok'' \<noteq> [],
     pg_Error = query_value (ae_web env) (cl_request c) ''error''\<rparr>"

definition operationError :: admin_response where
  "operationError = renderError 503 ServiceUnavailable"

definition routeOptions :: "client_view list \<Rightarrow> route_view list \<Rightarrow> string list" where
  "routeOptions clients routes = sort (remdups (map wr_RoutingKey routes @ concat (map wc_AllowedRoutes clients)))"

definition dashboard :: page_handler where
  "dashboard = only ''GET'' (\<lambda>env c m.
     if cl_fault c 0 then (operationError, m)
     else (render 200 (DashboardPage (head_of env c) (Dashboard (cl_now c) (mg_db m))), m))"

section \<open>Clients and tokens\<close>

definition clients_page :: page_handler where
  "clients_page = only ''GET'' (\<lambda>env c m.
     let cs = Clients (cl_fault c 0) m; rs = Routes m
     in (render 200 (ClientsPage (head_of env c) cs (IngressTokens (cl_fault c 1) m) rs (routeOptions cs rs)), m))"

definition createClient :: page_handler where
  "createClient = only ''POST'' (\<lambda>env c m.
     finish ''/admin/clients'' (\<lambda>secret. render 201 (SecretPage (cl_csrf c) ClientSecret (get_value c ''id'') secret))
       (CreateClient (ae_gateway env) (cl_fault c) (cl_random c 0) (cl_now c) (trim_space (get_value c ''id''))
          (get_value c ''enabled'' = ''on'') (formList (cl_form c) ''routes'') (atoi (get_value c ''rate_limit'')) m))"

definition saved :: "string \<Rightarrow> 'a \<Rightarrow> admin_response" where
  "saved path _ = redirect path"

definition clientAction :: page_handler where
  "clientAction = only ''POST'' (\<lambda>env c m.
     let i = get_value c ''id''; action = get_value c ''action'' in
     if action = ''update'' then
       finish ''/admin/clients'' (saved ''/admin/clients?ok=saved'')
         (UpdateClient (ae_gateway env) (cl_fault c) (cl_now c) i (get_value c ''enabled'' = ''on'')
            (formList (cl_form c) ''routes'') (atoi (get_value c ''rate_limit'')) m)
     else if action = ''rotate'' then
       finish ''/admin/clients'' (\<lambda>secret. render 200 (SecretPage (cl_csrf c) ClientSecret i secret))
         (RotateClientSecret (ae_gateway env) (cl_fault c) (cl_random c 0) (cl_now c) i m)
     else if action = ''delete'' then
       finish ''/admin/clients'' (saved ''/admin/clients?ok=saved'') (RemoveClient (ae_gateway env) (cl_fault c) i m)
     else (redirectFailure ''/admin/clients'', m))"

definition createIngressToken :: page_handler where
  "createIngressToken = only ''POST'' (\<lambda>env c m.
     case splitRouteRule (get_value c ''route_rule'') of None \<Rightarrow> (redirectFailure ''/admin/clients'', m)
     | Some (route, severity) \<Rightarrow>
         let i = trim_space (get_value c ''id'') in
         finish ''/admin/clients'' (\<lambda>plain. render 201 (SecretPage (cl_csrf c) TokenSecret i plain))
           (CreateIngressToken (ae_gateway env) (cl_fault c) (cl_random c 0, cl_random c 1) (cl_now c) i
              (get_value c ''enabled'' = ''on'') route severity (atoi (get_value c ''rate_limit'')) m))"

definition ingressTokenAction :: page_handler where
  "ingressTokenAction = only ''POST'' (\<lambda>env c m.
     let i = get_value c ''id''; action = get_value c ''action'' in
     if action = ''update'' then
       (case splitRouteRule (get_value c ''route_rule'') of None \<Rightarrow> (redirectFailure ''/admin/clients'', m)
        | Some (route, severity) \<Rightarrow>
            finish ''/admin/clients'' (saved ''/admin/clients?ok=saved'')
              (UpdateIngressToken (ae_gateway env) (cl_fault c) (cl_now c) i (get_value c ''enabled'' = ''on'') route severity
                 (atoi (get_value c ''rate_limit'')) m))
     else if action = ''rotate'' then
       finish ''/admin/clients'' (\<lambda>plain. render 200 (SecretPage (cl_csrf c) TokenSecret i plain))
         (RotateIngressToken (ae_gateway env) (cl_fault c) (cl_random c 0, cl_random c 1) (cl_now c) i m)
     else if action = ''delete'' then
       finish ''/admin/clients'' (saved ''/admin/clients?ok=saved'') (RemoveIngressToken (ae_gateway env) (cl_fault c) i m)
     else (redirectFailure ''/admin/clients'', m))"

section \<open>Channels\<close>

definition channels_page :: page_handler where
  "channels_page = only ''GET'' (\<lambda>env c m.
     let i = query_value (ae_web env) (cl_request c) ''edit'' in
     if i = [] then (render 200 (ChannelsPage (head_of env c) (Channels m) None), m)
     else case ChannelForEdit (ae_gateway env) (cl_fault c 0) i m of
       Inl e \<Rightarrow> (if e = StoreError ErrNotFound then not_found_page
                else respond 500 (PlainText ''cannot read the channel configuration''), m)
     | Inr input \<Rightarrow> (render 200 (ChannelsPage (head_of env c) (Channels m) (Some input)), m))"

definition channel_form :: "admin_call \<Rightarrow> channel_input" where
  "channel_form c =
     \<lparr>ci_ID = trim_space (get_value c ''id''), ci_Type = get_value c ''type'', ci_Enabled = (get_value c ''enabled'' = ''on''),
      ci_Endpoint = trim_space (get_value c ''endpoint''), ci_Secret = get_value c ''secret'',
      ci_ChatID = trim_space (get_value c ''chat_id''), ci_SMTPHost = trim_space (get_value c ''smtp_host''),
      ci_SMTPPort = atoi (get_value c ''smtp_port''), ci_SMTPUsername = trim_space (get_value c ''smtp_username''),
      ci_SMTPFrom = trim_space (get_value c ''smtp_from''), ci_SMTPRecipients = splitCSV (get_value c ''smtp_recipients''),
      ci_SMTPMode = get_value c ''smtp_mode'', ci_MessageType = get_value c ''message_type'',
      ci_Keyword = Some (trim_space (get_value c ''keyword''))\<rparr>"

definition saveChannel :: page_handler where
  "saveChannel = only ''POST'' (\<lambda>env c m.
     finish ''/admin/channels'' (saved ''/admin/channels?ok=saved'')
       (SaveChannel (ae_gateway env) (cl_fault c) (cl_now c) (channel_form c) m))"

definition toggled :: "channel_view \<Rightarrow> channel_input" where
  "toggled view =
     \<lparr>ci_ID = cv_ID view, ci_Type = cv_Type view, ci_Enabled = (\<not> cv_Enabled view), ci_Endpoint = [], ci_Secret = [],
      ci_ChatID = [], ci_SMTPHost = [], ci_SMTPPort = 0, ci_SMTPUsername = [], ci_SMTPFrom = [], ci_SMTPRecipients = [],
      ci_SMTPMode = [], ci_MessageType = [], ci_Keyword = None\<rparr>"

definition channelAction :: page_handler where
  "channelAction = only ''POST'' (\<lambda>env c m.
     let i = get_value c ''id''; action = get_value c ''action''; answer = (\<lambda>_. redirect (''/admin/channels?ok='' @ action)) in
     if action = ''toggle'' then
       (case find (\<lambda>v. cv_ID v = i) (Channels m) of None \<Rightarrow> (redirectFailure ''/admin/channels'', m)
        | Some view \<Rightarrow> finish ''/admin/channels'' answer
            (SaveChannel (ae_gateway env) (cl_fault c) (cl_now c) (toggled view) m))
     else if action = ''test'' then
       finish ''/admin/channels'' answer (QueueChannelTest (cl_fault c 0) (cl_random c) (cl_now c) i m)
     else if action = ''delete'' then
       finish ''/admin/channels'' answer (RemoveChannel (ae_gateway env) (cl_fault c) i m)
     else (redirectFailure ''/admin/channels'', m))"

section \<open>Routes and silences\<close>

definition routes_page :: page_handler where
  "routes_page = only ''GET'' (\<lambda>env c m.
     (render 200 (RoutesPage (head_of env c) (Routes m) (Channels m) (routeOptions [] (Routes m))), m))"

definition saveRoute :: page_handler where
  "saveRoute = only ''POST'' (\<lambda>env c m.
     finish ''/admin/routes'' (saved ''/admin/routes?ok=saved'')
       (SetRoute (ae_gateway env) (cl_fault c) (cl_now c) (trim_space (get_value c ''routing_key'')) (get_value c ''severity'')
          (formList (cl_form c) ''channels'') m))"

definition deleteRoute :: page_handler where
  "deleteRoute = only ''POST'' (\<lambda>env c m.
     finish ''/admin/routes'' (saved ''/admin/routes?ok=deleted'')
       (RemoveRoute (ae_gateway env) (cl_fault c) (get_value c ''routing_key'') (get_value c ''severity'') m))"

text \<open>The default of the page's time fields is in the display zone.\<close>

definition silences_page :: page_handler where
  "silences_page = only ''GET'' (\<lambda>env c m.
     if cl_fault c 0 then (operationError, m)
     else (render 200 (SilencesPage (head_of env c) (ListSilences (mg_db m)) (Routes m) (routeOptions [] (Routes m))
             (wb_format_time (ae_web env) (ad_DisplayZone (ae_config env)) (cl_now c))), m))"

text \<open>The fields are read in the zone of the process.\<close>

definition createSilence :: page_handler where
  "createSilence = only ''POST'' (\<lambda>env c m.
     case (wb_parse_time (ae_web env) (ad_ProcessZone (ae_config env)) (get_value c ''starts_at''),
           wb_parse_time (ae_web env) (ad_ProcessZone (ae_config env)) (get_value c ''ends_at'')) of
       (Some starts, Some ends) \<Rightarrow>
         finish ''/admin/silences'' (saved ''/admin/silences?ok=saved'')
           (AddSilence (ae_gateway env) (cl_fault c) (cl_random c 0) (cl_now c) (get_value c ''routing_key'')
              (get_value c ''severity'') starts ends (get_value c ''reason'') m)
     | _ \<Rightarrow> (redirectFailure ''/admin/silences'', m))"

definition deleteSilence :: page_handler where
  "deleteSilence = only ''POST'' (\<lambda>env c m.
     finish ''/admin/silences'' (saved ''/admin/silences?ok=deleted'')
       (RemoveSilence (ae_gateway env) (cl_fault c) (get_value c ''id'') m))"

section \<open>Deliveries\<close>

definition deliveries_page :: page_handler where
  "deliveries_page = only ''GET'' (\<lambda>env c m.
     let asked = query_value (ae_web env) (cl_request c) ''status'';
         status = (if ValidateDeliveryStatus asked then asked else []);
         page = max 1 (atoi (query_value (ae_web env) (cl_request c) ''page''))
     in if cl_fault c 0 then (operationError, m)
        else (case ListDeliveries status 50 (int64 ((page - 1) * 50)) (mg_db m) of
          (items, matching) \<Rightarrow>
            (render 200 (DeliveriesPage (head_of env c) items status page (max 1 ((int matching + 49) div 50))), m)))"

definition retryDelivery :: page_handler where
  "retryDelivery = only ''POST'' (\<lambda>env c m.
     case store_call (cl_fault c 0) (RetryDeadDelivery (get_value c ''id'') (cl_now c)) (mg_db m) of
       (Inl _, d) \<Rightarrow> (redirectFailure ''/admin/deliveries?status=dead'', m\<lparr>mg_db := d\<rparr>)
     | (Inr _, d) \<Rightarrow> (redirect ''/admin/deliveries?status=dead&ok=retry'', m\<lparr>mg_db := d\<rparr>))"

definition mcp_revoke :: page_handler where
  "mcp_revoke = only ''POST'' (\<lambda>env c m.
     case store_call (cl_fault c 0) RevokeAllOAuth (mg_db m) of
       (Inl _, d) \<Rightarrow> (renderError 503 RevocationFailed, m\<lparr>mg_db := d\<rparr>)
     | (Inr _, d) \<Rightarrow> (redirect ''/admin/guide?ok=mcp-revoked'', m\<lparr>mg_db := d\<rparr>))"

section \<open>The guide\<close>

definition letter_or_digit :: "char \<Rightarrow> bool" where
  "letter_or_digit c \<longleftrightarrow> is_lower c \<or> is_upper c \<or> is_digit c"

definition dns_label :: "string \<Rightarrow> bool" where
  "dns_label l \<longleftrightarrow> l \<noteq> [] \<and> length l \<le> 63 \<and> letter_or_digit (hd l) \<and> letter_or_digit (last l) \<and>
     list_all (\<lambda>c. letter_or_digit c \<or> c = CHR ''-'') (butlast (tl l))"

definition validDNSHostname :: "string \<Rightarrow> bool" where
  "validDNSHostname hostname \<longleftrightarrow>
     (let h = trim_suffix ''.'' hostname
      in h \<noteq> [] \<and> length h \<le> 253 \<and> list_all dns_label (split_on CHR ''.'' h))"

definition host_and_port :: "web \<Rightarrow> string \<Rightarrow> (string \<times> string) option" where
  "host_and_port wb raw =
     (if has_prefix ''['' raw
      then if last raw = CHR '']'' then Some (butlast (tl raw), []) else wb_split_host_port wb raw
      else if count_list raw CHR '':'' = 1 then wb_split_host_port wb raw
      else if CHR '':'' \<in> set raw then None
      else Some (raw, []))"

definition validatedRequestHost :: "web \<Rightarrow> string \<Rightarrow> string option" where
  "validatedRequestHost wb raw =
     (if raw = [] \<or> 320 < length raw \<or> trim_space raw \<noteq> raw then None
      else case host_and_port wb raw of None \<Rightarrow> None
      | Some (hostname, port) \<Rightarrow>
          if port \<noteq> [] \<and> \<not> (1 \<le> atoi port \<and> atoi port \<le> 65535) then None
          else if \<not> wb_is_ip wb hostname \<and> \<not> validDNSHostname hostname then None
          else Some raw)"

definition requestBaseURL :: "web \<Rightarrow> admin_request \<Rightarrow> string option" where
  "requestBaseURL wb rq =
     map_option (\<lambda>host.
       let forwarded = trim_space (hd (split_on CHR '','' (aq_forwarded_proto rq)));
           scheme = (if aq_tls rq then ''https'' else if forwarded \<in> {''http'', ''https''} then forwarded else ''http'')
       in scheme @ ''://'' @ host) (validatedRequestHost wb (aq_host rq))"

fun guide_client :: "string \<Rightarrow> client_view option \<Rightarrow> client_view list \<Rightarrow> client_view option" where
  "guide_client requested selected [] = selected"
| "guide_client requested selected (c # cs) =
     (if wc_ID c = requested then Some c
      else guide_client requested (if selected = None \<and> wc_Enabled c then Some c else selected) cs)"

definition guide_selected :: "string \<Rightarrow> client_view list \<Rightarrow> client_view option" where
  "guide_selected requested cs =
     (case guide_client requested None cs of
        None \<Rightarrow> (case cs of [] \<Rightarrow> None | c # _ \<Rightarrow> Some c)
      | Some c \<Rightarrow> Some c)"

fun guide_rule :: "route_view list \<Rightarrow> string list \<Rightarrow> (string \<times> string) option" where
  "guide_rule routes [] = None"
| "guide_rule routes (allowed # rest) =
     (case find (\<lambda>s. list_ex (\<lambda>r. wr_RoutingKey r = allowed \<and> wr_Severity r = s \<and> wr_Channels r \<noteq> []) routes)
             [''info'', ''warning'', ''critical''] of
        None \<Rightarrow> guide_rule routes rest
      | Some severity \<Rightarrow> Some (allowed, severity))"

definition guide_data_of :: "client_view list \<Rightarrow> route_view list \<Rightarrow> string \<Rightarrow> guide_data" where
  "guide_data_of cs routes requested =
     (case guide_selected requested cs of
        None \<Rightarrow> \<lparr>gd_ClientID = ''your-client'', gd_ClientEnabled = False, gd_Routes = [], gd_Route = ''your-route'',
                 gd_Severity = ''info'', gd_RouteConfigured = False\<rparr>
      | Some c \<Rightarrow>
          let rule = guide_rule routes (wc_AllowedRoutes c);
              first = (case wc_AllowedRoutes c of [] \<Rightarrow> ''your-route'' | r # _ \<Rightarrow> r)
          in \<lparr>gd_ClientID = wc_ID c, gd_ClientEnabled = wc_Enabled c, gd_Routes = wc_AllowedRoutes c,
              gd_Route = (case rule of None \<Rightarrow> first | Some (route, _) \<Rightarrow> route),
              gd_Severity = (case rule of None \<Rightarrow> ''info'' | Some (_, severity) \<Rightarrow> severity),
              gd_RouteConfigured = (rule \<noteq> None)\<rparr>)"

definition guide :: page_handler where
  "guide = only ''GET'' (\<lambda>env c m.
     case requestBaseURL (ae_web env) (cl_request c) of None \<Rightarrow> (respond 400 (PlainText ''invalid request host''), m)
     | Some base \<Rightarrow>
         let cs = Clients (cl_fault c 0) m; rs = Routes m
         in (render 200 (GuidePage (head_of env c) base cs rs
               (guide_data_of cs rs (trim_space (query_value (ae_web env) (cl_request c) ''client'')))), m))"

section \<open>Dispatch\<close>

definition logout_page :: page_handler where
  "logout_page env c m =
     (case logout (ae_config env) (cl_fault c 0) (cl_request c) (mg_db m) of (r, d) \<Rightarrow> (r, m\<lparr>mg_db := d\<rparr>))"

definition unknown_page :: page_handler where
  "unknown_page env c m = (not_found_page, m)"

definition pages :: "(string \<times> page_handler) list" where
  "pages =
     [(''/admin/'', dashboard), (''/admin/logout'', logout_page), (''/admin/clients'', clients_page),
      (''/admin/clients/create'', createClient), (''/admin/clients/action'', clientAction),
      (''/admin/tokens/create'', createIngressToken), (''/admin/tokens/action'', ingressTokenAction),
      (''/admin/channels'', channels_page), (''/admin/channels/save'', saveChannel),
      (''/admin/channels/action'', channelAction), (''/admin/routes'', routes_page), (''/admin/routes/save'', saveRoute),
      (''/admin/routes/delete'', deleteRoute), (''/admin/silences'', silences_page),
      (''/admin/silences/create'', createSilence), (''/admin/silences/delete'', deleteSilence),
      (''/admin/deliveries'', deliveries_page), (''/admin/deliveries/retry'', retryDelivery), (''/admin/guide'', guide),
      (''/admin/mcp/revoke'', mcp_revoke)]"

definition serve_page :: "string \<Rightarrow> page_handler" where
  "serve_page path = (case map_of pages path of None \<Rightarrow> unknown_page | Some handler \<Rightarrow> handler)"

definition serveAsset :: "admin_request \<Rightarrow> string \<Rightarrow> string \<Rightarrow> admin_response" where
  "serveAsset rq contentType name =
     (if aq_method rq \<noteq> ''GET'' then admin_not_allowed ''GET''
      else (respond 200 (Asset name))\<lparr>ah_headers := [(''Content-Type'', contentType), (''Cache-Control'', ''public, max-age=3600'')]\<rparr>)"

text \<open>A request behind the login: the session first, then the form and its CSRF token, then the page.\<close>

definition serve_session ::
  "admin_env \<Rightarrow> (nat \<Rightarrow> bool) \<Rightarrow> (nat \<Rightarrow> string option) \<Rightarrow> instant \<Rightarrow> admin_request \<Rightarrow> manager \<Rightarrow> admin_response \<times> manager" where
  "serve_session env fault random now rq m =
     (case authenticate (fault 0) now rq (mg_db m) of None \<Rightarrow> (redirect ''/admin/login'', m)
      | Some (csrf, _) \<Rightarrow>
          let call = (\<lambda>form. \<lparr>cl_fault = (\<lambda>k. fault (k + 1)), cl_random = random, cl_now = now, cl_request = rq,
                              cl_form = form, cl_csrf = csrf\<rparr>) in
          if aq_method rq \<noteq> ''POST'' then serve_page (aq_path rq) env (call []) m
          else (case parseForm (ae_web env) rq of None \<Rightarrow> (renderError 400 InvalidFormat, m)
            | Some (form, _) \<Rightarrow>
                if value_of form ''csrf'' \<noteq> csrf then (renderError 403 SecurityCheckFailed, m)
                else serve_page (aq_path rq) env (call form) m))"

definition adminHeaders :: "admin_response \<Rightarrow> admin_response" where
  "adminHeaders r = r\<lparr>ah_headers :=
     [(''Content-Security-Policy'', ''default-src 'none'; style-src 'self'; img-src 'self'; form-action 'self'; base-uri 'none'; frame-ancestors 'none'' @ [CHR 0x27]),
      (''Permissions-Policy'', ''camera=(), microphone=(), geolocation=()'')] @ ah_headers r\<rparr>"

definition ServeAdmin ::
  "admin_env \<Rightarrow> (nat \<Rightarrow> bool) \<Rightarrow> (nat \<Rightarrow> string option) \<Rightarrow> string \<Rightarrow> bool \<Rightarrow> instant \<Rightarrow> admin_request \<Rightarrow>
   attempts \<times> manager \<Rightarrow> admin_response \<times> attempts \<times> manager" where
  "ServeAdmin env fault random verifier cancelled now rq = (\<lambda>(att, m).
     let cfg = ae_config env; wb = ae_web env; path = aq_path rq;
         with_db = (\<lambda>(r, att', d). (adminHeaders r, att', m\<lparr>mg_db := d\<rparr>))
     in if path = ''/auth/oidc/login''
        then with_db (oidcLogin cfg wb (ae_provider env) fault random verifier now rq (att, mg_db m))
        else if path = ''/auth/oidc/callback''
        then with_db (oidcCallback cfg wb (ae_provider env) fault random now rq (att, mg_db m))
        else if path = ''/admin/assets/app.css'' then (adminHeaders (serveAsset rq ''text/css; charset=utf-8'' ''app.css''), att, m)
        else if path = ''/admin/assets/alertbridge-mark.svg''
        then (adminHeaders (serveAsset rq ''image/svg+xml'' ''alertbridge-mark.svg''), att, m)
        else if path = ''/admin'' then (adminHeaders (redirect ''/admin/''), att, m)
        else if path = ''/admin/login''
        then (case login cfg wb (ae_idkey env) fault (random 0, random 1) cancelled now rq (mg_db m) of
                (r, d) \<Rightarrow> with_db (r, att, d))
        else (case serve_session env fault random now rq m of (r, m') \<Rightarrow> (adminHeaders r, att, m')))"

end
