(* ===== verification/HttpApi.thy ===== *)
theory HttpApi
  imports Auth RateLimit Incidents
begin

text \<open>
  \<open>internal/httpapi/server.go\<close>: the public HTTP interface. A handler maps a request, the readings of the
  clock, the random buffers and the database to a response and the database it leaves; \<open>fault k\<close> says that
  its \<open>k\<close>-th database call fails outside the program. The media type parser, the JSON decoder and the URL
  parser of the standard library are the fields of \<open>codec\<close>; the verifiers, the targets of a route and the
  silences come from the configuration manager through the fields of \<open>server\<close>. The embedded start page,
  the administration pages and the MCP endpoints are other handlers behind the same router.
\<close>

section \<open>Requests and responses\<close>

record request =
  rq_method :: string
  rq_path :: string
  rq_content_type :: string
  rq_authorization :: string
  rq_client :: string
  rq_timestamp :: string
  rq_nonce :: string
  rq_signature :: string
  rq_request_id :: string
  rq_body :: "string option"

record accepted_response =
  ap_RequestID :: string
  ap_EventRecordID :: string
  ap_EventID :: string
  ap_Outcome :: outcome
  ap_Reason :: string
  ap_Deliveries :: nat

datatype response_body =
    ErrorBody string string string
  | StatusBody string
  | AcceptedBody accepted_response

record response =
  rs_status :: int
  rs_headers :: "(string \<times> string) list"
  rs_body :: response_body

record simple_notification =
  sm_Title :: string
  sm_Message :: string
  sm_Category :: string
  sm_URL :: string

text \<open>
  The standard library: \<open>mime.ParseMediaType\<close> (\<open>None\<close> for an error), \<open>Decode\<close> with unknown fields refused
  (the value and the rest of the input), whether the rest holds nothing more (\<open>io.EOF\<close>), and \<open>url.Parse\<close>.
\<close>

record codec =
  cd_media_type :: "string \<Rightarrow> string option"
  cd_event :: "string \<Rightarrow> (event \<times> string) option"
  cd_notification :: "string \<Rightarrow> (simple_notification \<times> string) option"
  cd_at_end :: "string \<Rightarrow> bool"
  cd_parse_url :: url_parser

section \<open>The server\<close>

text \<open>\<open>Config\<close>; \<open>None\<close> is a nil function. The routes are the static ones.\<close>

record server_config =
  sc_Verifier :: verifier
  sc_Bearer :: "(string \<Rightarrow> ingress_token option) option"
  sc_Routes :: "(string \<times> (string \<times> string list) list) list"
  sc_EnabledChannels :: "(string \<times> bool) list"
  sc_ResolveTargets :: "(string \<Rightarrow> string \<Rightarrow> string list) option"
  sc_IsSilenced :: "(string \<Rightarrow> string \<Rightarrow> instant \<Rightarrow> bool) option"
  sc_NonceRetention :: duration
  sc_DedupeWindow :: duration
  sc_BodyLimitBytes :: int
  sc_SimpleBodyLimit :: int

record server =
  sv_Verifier :: verifier
  sv_Bearer :: "(string \<Rightarrow> ingress_token option) option"
  sv_ResolveTargets :: "string \<Rightarrow> string \<Rightarrow> string list"
  sv_IsSilenced :: "string \<Rightarrow> string \<Rightarrow> instant \<Rightarrow> bool"
  sv_NonceRetention :: duration
  sv_DedupeWindow :: duration
  sv_BodyLimit :: int
  sv_SimpleBodyLimit :: int

definition staticTargets :: "server_config \<Rightarrow> string \<Rightarrow> string \<Rightarrow> string list" where
  "staticTargets cfg route severity =
     (case map_of (sc_Routes cfg) route of
        None \<Rightarrow> []
      | Some severities \<Rightarrow>
          filter (\<lambda>i. map_of (sc_EnabledChannels cfg) i = Some True)
            (case map_of severities severity of None \<Rightarrow> [] | Some configured \<Rightarrow> configured))"

definition NewServer :: "server_config \<Rightarrow> server" where
  "NewServer cfg =
     \<lparr>sv_Verifier = sc_Verifier cfg, sv_Bearer = sc_Bearer cfg,
      sv_ResolveTargets = (case sc_ResolveTargets cfg of None \<Rightarrow> staticTargets cfg | Some f \<Rightarrow> f),
      sv_IsSilenced = (case sc_IsSilenced cfg of None \<Rightarrow> (\<lambda>_ _ _. False) | Some f \<Rightarrow> f),
      sv_NonceRetention = sc_NonceRetention cfg, sv_DedupeWindow = sc_DedupeWindow cfg,
      sv_BodyLimit = (if sc_BodyLimitBytes cfg \<le> 0 then 32 * 1024 else sc_BodyLimitBytes cfg),
      sv_SimpleBodyLimit = (if sc_SimpleBodyLimit cfg \<le> 0 then 8 * 1024 else sc_SimpleBodyLimit cfg)\<rparr>"

datatype endpoint = Home | Health | Ready | Events | Notifications | LegacyHook | Mcp | OAuth | AdminPages | NotFound

text \<open>The router, for clean paths: exact patterns, and those that end in a slash for everything below.\<close>

definition endpoint_of :: "bool \<Rightarrow> bool \<Rightarrow> bool \<Rightarrow> string \<Rightarrow> endpoint" where
  "endpoint_of mcp oauth admin path =
     (if path = ''/'' then Home
      else if path = ''/healthz'' then Health
      else if path = ''/readyz'' then Ready
      else if path = ''/api/v1/events'' then Events
      else if path = ''/api/v1/notifications'' then Notifications
      else if mcp \<and> path = ''/mcp'' then Mcp
      else if oauth \<and> (path = ''/admin/mcp/authorize'' \<or> has_prefix ''/oauth/'' path \<or>
        path \<in> {''/.well-known/oauth-authorization-server'', ''/.well-known/oauth-protected-resource'',
                ''/.well-known/oauth-protected-resource/mcp''}) then OAuth
      else if has_prefix ''/hooks/'' path then LegacyHook
      else if admin \<and> (has_prefix ''/auth/oidc/'' path \<or> path = ''/admin'' \<or> has_prefix ''/admin/'' path) then AdminPages
      else NotFound)"

section \<open>Writing responses\<close>

definition writeJSON :: "int \<Rightarrow> response_body \<Rightarrow> response" where
  "writeJSON status body =
     \<lparr>rs_status = status, rs_headers = [(''Content-Type'', ''application/json; charset=utf-8'')], rs_body = body\<rparr>"

definition writeError :: "int \<Rightarrow> string \<Rightarrow> string \<Rightarrow> string \<Rightarrow> response" where
  "writeError status code message i = writeJSON status (ErrorBody code message i)"

definition with_header :: "string \<Rightarrow> string \<Rightarrow> response \<Rightarrow> response" where
  "with_header name value r = r\<lparr>rs_headers := (name, value) # rs_headers r\<rparr>"

definition methodNotAllowed :: "string \<Rightarrow> string \<Rightarrow> response" where
  "methodNotAllowed allow i =
     with_header ''Allow'' allow (writeError 405 ''method_not_allowed'' ''method is not allowed'' i)"

section \<open>Request ids\<close>

definition request_id_char :: "char \<Rightarrow> bool" where
  "request_id_char c \<longleftrightarrow> c = CHR ''-'' \<or> c = CHR ''_'' \<or> is_alnum c"

definition randomHex :: "string option \<Rightarrow> string option" where
  "randomHex buffer = map_option hex_encode buffer"

text \<open>The context's id, else a well-formed header, else random, else the clock (\<open>nanos\<close>).\<close>

definition requestID :: "string option \<Rightarrow> string \<Rightarrow> string option \<Rightarrow> int \<Rightarrow> string" where
  "requestID ctx header random nanos =
     (case ctx of
        Some i \<Rightarrow> i
      | None \<Rightarrow>
          if 8 \<le> length header \<and> length header \<le> 64 \<and> list_all request_id_char header then header
          else case randomHex random of Some i \<Rightarrow> i | None \<Rightarrow> ''fallback-'' @ show_int nanos)"

definition securityHeaders :: "string \<Rightarrow> response \<Rightarrow> response" where
  "securityHeaders i r = r\<lparr>rs_headers :=
     [(''X-Content-Type-Options'', ''nosniff''), (''X-Frame-Options'', ''DENY''), (''Referrer-Policy'', ''no-referrer''),
      (''Cache-Control'', ''no-store''),
      (''Content-Security-Policy'', ''default-src '' @ [CHR 0x27] @ ''none'' @ [CHR 0x27] @ ''; frame-ancestors '' @ [CHR 0x27] @ ''none'' @ [CHR 0x27]),
      (''X-Request-ID'', i)] @ rs_headers r\<rparr>"

section \<open>Handlers\<close>

definition health :: "string \<Rightarrow> request \<Rightarrow> response" where
  "health i rq = (if rq_method rq \<noteq> ''GET'' then methodNotAllowed ''GET'' i else writeJSON 200 (StatusBody ''ok''))"

definition ready :: "bool \<Rightarrow> string \<Rightarrow> request \<Rightarrow> response" where
  "ready ping_fails i rq =
     (if rq_method rq \<noteq> ''GET'' then methodNotAllowed ''GET'' i
      else if ping_fails then writeError 503 ''not_ready'' ''service is not ready'' i
      else writeJSON 200 (StatusBody ''ready''))"

definition legacyHookGone :: "string \<Rightarrow> response" where
  "legacyHookGone i = writeError 410 ''endpoint_removed'' ''this endpoint was removed; use POST /api/v1/events'' i"

definition json_request :: "codec \<Rightarrow> request \<Rightarrow> bool" where
  "json_request cd rq \<longleftrightarrow> cd_media_type cd (rq_content_type rq) = Some ''application/json''"

text \<open>\<open>io.ReadAll\<close> of the body behind \<open>MaxBytesReader\<close>.\<close>

definition read_body :: "int \<Rightarrow> request \<Rightarrow> string option" where
  "read_body limit rq =
     (case rq_body rq of None \<Rightarrow> None | Some body \<Rightarrow> if limit < int (length body) then None else Some body)"

definition request_headers :: "request \<Rightarrow> headers" where
  "request_headers rq =
     \<lparr>hd_ClientID = rq_client rq, hd_Timestamp = rq_timestamp rq, hd_Nonce = rq_nonce rq, hd_Signature = rq_signature rq\<rparr>"

definition storage_unavailable :: "string \<Rightarrow> response" where
  "storage_unavailable i = writeError 503 ''storage_unavailable'' ''service is temporarily unavailable'' i"

text \<open>The text of a validation error; the key of a label whose value is too long is an identifier, so \<open>%q\<close> only puts it in quotes.\<close>

fun event_error_text :: "event_error \<Rightarrow> string" where
  "event_error_text (BadIdentifier name maximum) =
     name @ '' must match ^[A-Za-z0-9][A-Za-z0-9._:-]*$ and contain at most '' @ show_nat maximum @ '' bytes''"
| "event_error_text BadStatus = ''status must be firing, resolved, info, or test''"
| "event_error_text BadSeverity = ''severity must be critical, warning, or info''"
| "event_error_text BadTitle = ''title must contain 1 to 200 characters''"
| "event_error_text TitleLineBreak = ''title must not contain line breaks''"
| "event_error_text BadMessage = ''message must contain 1 to 4000 characters''"
| "event_error_text NoOccurredAt = ''occurred_at is required''"
| "event_error_text FutureOccurredAt = ''occurred_at must not be more than 5 minutes in the future''"
| "event_error_text TooManyLabels = ''labels must not contain more than 20 entries''"
| "event_error_text (BadLabelValue key) = ''label '' @ [CHR 0x22] @ key @ [CHR 0x22] @ '' value must not exceed 256 characters''"
| "event_error_text BadURL = ''url must be an absolute HTTP or HTTPS URL without user information''"

definition persistEvent ::
  "server \<Rightarrow> bool \<Rightarrow> (nat \<Rightarrow> string option) \<Rightarrow> string \<Rightarrow> string \<Rightarrow> event \<Rightarrow> string \<Rightarrow> string list \<Rightarrow> instant \<Rightarrow> int \<Rightarrow>
   db \<Rightarrow> response \<times> db" where
  "persistEvent sv fault ids i clientID e body targets now successStatus d =
     (let suppressReason = (if sv_IsSilenced sv (RoutingKey e) (Severity e) now then ''silence'' else [])
      in case store_call fault (AcceptEvent ids
                \<lparr>ClientID = clientID, Event = e, Targets = targets, Now = now, DedupeWindow = sv_DedupeWindow sv,
                 SuppressReason = suppressReason, RawPayload = body\<rparr>) d of
           (Inl err, d1) \<Rightarrow> (storage_unavailable i, d1)
         | (Inr result, d1) \<Rightarrow>
             (writeJSON successStatus (AcceptedBody
                \<lparr>ap_RequestID = i, ap_EventRecordID = ar_event_id result, ap_EventID = EventID e,
                 ap_Outcome = ar_outcome result, ap_Reason = ar_reason result, ap_Deliveries = ar_deliveries result\<rparr>), d1))"

definition acceptEvent ::
  "server \<Rightarrow> codec \<Rightarrow> (nat \<Rightarrow> bool) \<Rightarrow> (nat \<Rightarrow> string option) \<Rightarrow> instant \<Rightarrow> string \<Rightarrow> client \<Rightarrow> headers \<Rightarrow> event \<Rightarrow> string \<Rightarrow>
   db \<Rightarrow> response \<times> db" where
  "acceptEvent sv cd fault ids now i c h e body d =
     (case Validate (cd_parse_url cd) e now of
        Some err \<Rightarrow> (writeError 422 ''invalid_event'' (event_error_text err) i, d)
      | None \<Rightarrow>
          if \<not> CanUseRoute c (RoutingKey e)
          then (writeError 403 ''route_forbidden'' ''client is not allowed to use this route'' i, d)
          else
            let targets = sv_ResolveTargets sv (RoutingKey e) (Severity e)
            in if targets = []
               then (writeError 422 ''route_unavailable'' ''route has no enabled channel for this severity'' i, d)
               else case store_call (fault 0)
                      (RecordRequest (ac_ID c) (hd_Nonce h) (now + sv_NonceRetention sv) now (ac_RateLimit c)) d of
                 (Inl ErrReplay, d1) \<Rightarrow> (writeError 401 ''authentication_failed'' ''request authentication failed'' i, d1)
               | (Inl ErrRateLimit, d1) \<Rightarrow>
                   (with_header ''Retry-After'' ''60'' (writeError 429 ''rate_limited'' ''client request rate exceeded'' i), d1)
               | (Inl _, d1) \<Rightarrow> (storage_unavailable i, d1)
               | (Inr _, d1) \<Rightarrow> persistEvent sv (fault 1) ids i (ac_ID c) e body targets now 202 d1)"

text \<open>\<open>verified\<close> and \<open>now\<close> are the two readings of the clock, by the verifier and by \<open>acceptEvent\<close>.\<close>

definition handle_events ::
  "server \<Rightarrow> codec \<Rightarrow> (nat \<Rightarrow> bool) \<Rightarrow> (nat \<Rightarrow> string option) \<Rightarrow> instant \<Rightarrow> instant \<Rightarrow> string \<Rightarrow> request \<Rightarrow> db \<Rightarrow> response \<times> db" where
  "handle_events sv cd fault ids verified now i rq d =
     (if rq_method rq \<noteq> ''POST'' then (methodNotAllowed ''POST'' i, d)
      else if \<not> json_request cd rq
      then (writeError 415 ''unsupported_media_type'' ''Content-Type must be application/json'' i, d)
      else case read_body (sv_BodyLimit sv) rq of
        None \<Rightarrow> (writeError 413 ''body_too_large'' ''request body exceeds the configured limit'' i, d)
      | Some body \<Rightarrow>
         (case Verify (sv_Verifier sv) verified (request_headers rq) body of
            Inl _ \<Rightarrow> (writeError 401 ''authentication_failed'' ''request authentication failed'' i, d)
          | Inr c \<Rightarrow>
             (case cd_event cd body of
                None \<Rightarrow> (writeError 400 ''invalid_json'' ''request body is not a valid event'' i, d)
              | Some (e, rest) \<Rightarrow>
                  if \<not> cd_at_end cd rest
                  then (writeError 400 ''invalid_json'' ''request body must contain exactly one JSON object'' i, d)
                  else acceptEvent sv cd fault ids now i c (request_headers rq) e body d)))"

text \<open>The event a bearer token's notification becomes.\<close>

definition notification_event :: "ingress_token \<Rightarrow> string \<Rightarrow> simple_notification \<Rightarrow> string \<Rightarrow> instant \<Rightarrow> event" where
  "notification_event token eventID input category now =
     \<lparr>EventID = ''simple-'' @ eventID, Source = bt_ID token, RoutingKey = bt_RoutingKey token, Status = StatusInfo,
      Severity = bt_Severity token, Title = sm_Title input, Message = sm_Message input, OccurredAt = now,
      DedupeKey = [], Labels = (if category \<noteq> [] then [(''category'', category)] else []), URL = sm_URL input,
      IncidentStartedAt = None\<rparr>"

definition handle_notifications ::
  "server \<Rightarrow> codec \<Rightarrow> (nat \<Rightarrow> bool) \<Rightarrow> (nat \<Rightarrow> string option) \<Rightarrow> string option \<Rightarrow> instant \<Rightarrow> string \<Rightarrow> request \<Rightarrow> db \<Rightarrow> response \<times> db" where
  "handle_notifications sv cd fault ids random now i rq d =
     (if rq_method rq \<noteq> ''POST'' then (methodNotAllowed ''POST'' i, d)
      else if \<not> json_request cd rq
      then (writeError 415 ''unsupported_media_type'' ''Content-Type must be application/json'' i, d)
      else case BearerVerify (sv_Bearer sv) (rq_authorization rq) of
        None \<Rightarrow> (with_header ''WWW-Authenticate'' (''Bearer realm='' @ [CHR 0x22] @ ''alertbridge'' @ [CHR 0x22])
                   (writeError 401 ''authentication_failed'' ''request authentication failed'' i), d)
      | Some token \<Rightarrow>
         (case store_call (fault 0) (RecordRateLimit (''bearer:'' @ bt_PublicID token) now (bt_RateLimit token)) d of
            (Inl ErrRateLimit, d1) \<Rightarrow>
              (with_header ''Retry-After'' ''60'' (writeError 429 ''rate_limited'' ''token request rate exceeded'' i), d1)
          | (Inl _, d1) \<Rightarrow> (storage_unavailable i, d1)
          | (Inr _, d1) \<Rightarrow>
             (case read_body (sv_SimpleBodyLimit sv) rq of
                None \<Rightarrow> (writeError 413 ''body_too_large'' ''request body exceeds the configured limit'' i, d1)
              | Some body \<Rightarrow>
                 (case cd_notification cd body of
                    None \<Rightarrow> (writeError 400 ''invalid_json'' ''request body is not a valid notification'' i, d1)
                  | Some (input, rest) \<Rightarrow>
                      if \<not> cd_at_end cd rest
                      then (writeError 400 ''invalid_json'' ''request body must contain exactly one JSON object'' i, d1)
                      else
                        let category = trim_space (sm_Category input)
                        in if 64 < rune_count category \<or> has_line_break category
                           then (writeError 422 ''invalid_notification'' ''category must not exceed 64 characters or contain line breaks'' i, d1)
                           else case randomHex random of
                             None \<Rightarrow> (writeError 503 ''service_unavailable'' ''service is temporarily unavailable'' i, d1)
                           | Some eventID \<Rightarrow>
                              (let e = notification_event token eventID input category now
                               in case Validate (cd_parse_url cd) e now of
                                    Some err \<Rightarrow> (writeError 422 ''invalid_notification'' (event_error_text err) i, d1)
                                  | None \<Rightarrow>
                                     (let targets = sv_ResolveTargets sv (RoutingKey e) (Severity e)
                                      in if targets = []
                                         then (writeError 422 ''route_unavailable'' ''token route has no enabled channel'' i, d1)
                                         else persistEvent sv (fault 1) ids i (''@bearer:'' @ bt_ID token) e body targets now 200 d1))))))"

end
