(* ===== verification/HttpProps.thy ===== *)
theory HttpProps
  imports HttpApi
begin

text \<open>
  What the HTTP interface promises: only authentic requests change anything, an acknowledged alert is
  stored, a replay is refused or harmless, and a bearer token reaches nothing but its own route.
\<close>

section \<open>How a call of the events handler ends\<close>

abbreviation params_of :: "server \<Rightarrow> string \<Rightarrow> event \<Rightarrow> string list \<Rightarrow> string \<Rightarrow> instant \<Rightarrow> accept_params" where
  "params_of sv clientID e targets body now \<equiv>
     \<lparr>ClientID = clientID, Event = e, Targets = targets, Now = now, DedupeWindow = sv_DedupeWindow sv,
      SuppressReason = (if sv_IsSilenced sv (RoutingKey e) (Severity e) now then ''silence'' else []), RawPayload = body\<rparr>"

definition accepted_body :: "string \<Rightarrow> event \<Rightarrow> accept_result \<Rightarrow> response_body" where
  "accepted_body i e result = AcceptedBody
     \<lparr>ap_RequestID = i, ap_EventRecordID = ar_event_id result, ap_EventID = EventID e, ap_Outcome = ar_outcome result,
      ap_Reason = ar_reason result, ap_Deliveries = ar_deliveries result\<rparr>"

lemma response_simps [simp]:
  "rs_status (writeJSON s b) = s" "rs_body (writeJSON s b) = b"
  "rs_status (writeError s c t i) = s" "rs_status (with_header n v r) = rs_status r"
  "rs_status (methodNotAllowed a i) = 405" "rs_status (storage_unavailable i) = 503"
  "rs_body (writeError s c t i) = ErrorBody c t i" "rs_body (with_header n v r) = rs_body r"
  by (simp_all add: writeJSON_def writeError_def with_header_def methodNotAllowed_def storage_unavailable_def)

lemma persistEvent_cases:
  assumes "persistEvent sv fault ids i clientID e body targets now okStatus d = (rs, d')"
  obtains (unstored) "d' = d" "rs = storage_unavailable i"
  | (stored) result where "AcceptEvent ids (params_of sv clientID e targets body now) d = (Inr result, d')"
      "rs = writeJSON okStatus (accepted_body i e result)"
  using assms
  by (cases fault; cases "AcceptEvent ids (params_of sv clientID e targets body now) d")
    (auto simp: persistEvent_def accepted_body_def AcceptEvent_error_unchanged split: sum.splits)

definition is_error :: "response \<Rightarrow> bool" where
  "is_error rs \<longleftrightarrow> (case rs_body rs of ErrorBody _ _ _ \<Rightarrow> True | _ \<Rightarrow> False)"

lemma is_error_simps [simp]:
  "is_error (writeJSON s (ErrorBody c t i))" "\<not> is_error (writeJSON s (AcceptedBody ap))"
  "is_error (writeError s c t i)" "is_error (with_header n v r) = is_error r"
  "is_error (methodNotAllowed a i)" "is_error (storage_unavailable i)"
  by (simp_all add: is_error_def methodNotAllowed_def storage_unavailable_def)

lemma is_error_body [dest]: "is_error rs \<Longrightarrow> rs_body rs = AcceptedBody ap \<Longrightarrow> False"
  by (simp add: is_error_def)

text \<open>The checks a request passes before the database is touched.\<close>

definition admitted :: "server \<Rightarrow> codec \<Rightarrow> instant \<Rightarrow> instant \<Rightarrow> request \<Rightarrow> client \<Rightarrow> event \<Rightarrow> string \<Rightarrow> bool" where
  "admitted sv cd verified now rq c e body \<longleftrightarrow>
     rq_method rq = ''POST'' \<and> json_request cd rq \<and> read_body (sv_BodyLimit sv) rq = Some body \<and>
     Verify (sv_Verifier sv) verified (request_headers rq) body = Inr c \<and>
     (\<exists>rest. cd_event cd body = Some (e, rest) \<and> cd_at_end cd rest) \<and>
     Validate (cd_parse_url cd) e now = None \<and> CanUseRoute c (RoutingKey e) \<and>
     sv_ResolveTargets sv (RoutingKey e) (Severity e) \<noteq> []"

lemma handle_events_cases:
  assumes "handle_events sv cd fault ids verified now i rq d = (rs, d')"
  obtains (refused) "d' = d" "rs_status rs \<in> {400, 401, 403, 405, 413, 415, 422, 503}" "is_error rs"
  | (limited) c e body where "admitted sv cd verified now rq c e body" "rs_status rs = 429" "is_error rs"
      "RecordRequest (ac_ID c) (rq_nonce rq) (now + sv_NonceRetention sv) now (ac_RateLimit c) d = (Inl ErrRateLimit, d')"
  | (unstored) c e body where "admitted sv cd verified now rq c e body" "rs_status rs = 503" "is_error rs"
      "RecordRequest (ac_ID c) (rq_nonce rq) (now + sv_NonceRetention sv) now (ac_RateLimit c) d = (Inr (), d')"
  | (stored) c e body d1 result where "admitted sv cd verified now rq c e body"
      "RecordRequest (ac_ID c) (rq_nonce rq) (now + sv_NonceRetention sv) now (ac_RateLimit c) d = (Inr (), d1)"
      "AcceptEvent ids (params_of sv (ac_ID c) e (sv_ResolveTargets sv (RoutingKey e) (Severity e)) body now) d1 = (Inr result, d')"
      "rs = writeJSON 202 (accepted_body i e result)"
proof (cases "\<exists>c e body. admitted sv cd verified now rq c e body")
  case False
  then have "d' = d" "rs_status rs \<in> {400, 401, 403, 405, 413, 415, 422, 503}" "is_error rs"
    using assms by (auto simp: handle_events_def acceptEvent_def admitted_def Let_def
        split: if_splits option.splits sum.splits prod.splits)
  then show thesis by (rule refused)
next
  case True
  then obtain c e body where adm: "admitted sv cd verified now rq c e body" by blast
  let ?targets = "sv_ResolveTargets sv (RoutingKey e) (Severity e)"
  obtain r d1 where rec: "store_call (fault 0)
      (RecordRequest (ac_ID c) (rq_nonce rq) (now + sv_NonceRetention sv) now (ac_RateLimit c)) d = (r, d1)"
    by (cases "store_call (fault 0) (RecordRequest (ac_ID c) (rq_nonce rq) (now + sv_NonceRetention sv) now (ac_RateLimit c)) d")
  have out: "(rs, d') = (case (r, d1) of
      (Inl ErrReplay, d1) \<Rightarrow> (writeError 401 ''authentication_failed'' ''request authentication failed'' i, d1)
    | (Inl ErrRateLimit, d1) \<Rightarrow>
        (with_header ''Retry-After'' ''60'' (writeError 429 ''rate_limited'' ''client request rate exceeded'' i), d1)
    | (Inl _, d1) \<Rightarrow> (storage_unavailable i, d1)
    | (Inr _, d1) \<Rightarrow> persistEvent sv (fault 1) ids i (ac_ID c) e body ?targets now 202 d1)"
    using assms adm rec by (auto simp: handle_events_def acceptEvent_def admitted_def request_headers_def)
  note not_kept = unstored [OF adm] and kept = stored [OF adm]
  show thesis
  proof (cases "fault 0")
    case True
    with rec out show thesis by (intro refused) auto
  next
    case False
    with rec have rec: "RecordRequest (ac_ID c) (rq_nonce rq) (now + sv_NonceRetention sv) now (ac_RateLimit c) d = (r, d1)"
      by simp
    then show thesis
    proof (cases rule: RecordRequest_cases)
      case replay
      with out show thesis by (intro refused) auto
    next
      case recorded
      from recorded(1) show thesis
      proof
        assume r: "r = Inl ErrRateLimit"
        with out show thesis by (intro limited [OF adm]) (use rec in auto)
      next
        assume r: "r = Inr ()"
        with out have "persistEvent sv (fault 1) ids i (ac_ID c) e body ?targets now 202 d1 = (rs, d')" by simp
        then show thesis
        proof (cases rule: persistEvent_cases)
          case unstored
          with rec r show thesis by (intro not_kept) auto
        next
          case (stored result)
          with rec r show thesis by (intro kept) auto
        qed
      qed
    qed
  qed
qed

section \<open>A concrete call\<close>

definition demo_codec :: codec where
  "demo_codec =
     \<lparr>cd_media_type = Some, cd_event = (\<lambda>b. if b = ''{}'' then Some (demo_event, []) else None),
      cd_notification = (\<lambda>b. if b = ''{}'' then Some (\<lparr>sm_Title = ''t'', sm_Message = ''m'', sm_Category = [], sm_URL = []\<rparr>, []) else None),
      cd_at_end = (\<lambda>rest. rest = []), cd_parse_url = (\<lambda>_. None)\<rparr>"

definition demo_server :: server where
  "demo_server = NewServer
     \<lparr>sc_Verifier = demo_verifier, sc_Bearer = None, sc_Routes = [(''ops'', [(''warning'', [''chan'', ''off''])])],
      sc_EnabledChannels = [(''chan'', True), (''off'', False)], sc_ResolveTargets = None, sc_IsSilenced = None,
      sc_NonceRetention = 10 * minute, sc_DedupeWindow = 5 * minute, sc_BodyLimitBytes = 0, sc_SimpleBodyLimit = 0\<rparr>"

definition demo_request :: "string \<Rightarrow> request" where
  "demo_request nonce =
     (let h = signed_headers ''c1'' demo_client nonce 1700000000 ''{}'' in
      \<lparr>rq_method = ''POST'', rq_path = ''/api/v1/events'', rq_content_type = ''application/json'', rq_authorization = [],
       rq_client = hd_ClientID h, rq_timestamp = hd_Timestamp h, rq_nonce = hd_Nonce h, rq_signature = hd_Signature h,
       rq_request_id = [], rq_body = Some ''{}''\<rparr>)"

definition demo_now :: instant where "demo_now = 1700000000 * second"

definition demo_accepted_params :: accept_params where
  "demo_accepted_params = params_of demo_server ''c1'' demo_event [''chan''] ''{}'' demo_now"

definition demo_recorded :: db where
  "demo_recorded = snd (RecordRequest ''c1'' ''nonce-0001'' (demo_now + 10 * minute) demo_now 60 empty_db)"

definition demo_stored :: db where
  "demo_stored = snd (AcceptEvent demo_ids demo_accepted_params demo_recorded)"

definition demo_reply :: response where
  "demo_reply = writeJSON 202 (accepted_body ''request-1'' demo_event demo_result)"

lemma demo_server_simps:
  "sv_Verifier demo_server = demo_verifier" "sv_ResolveTargets demo_server ''ops'' ''warning'' = [''chan'']"
  "sv_IsSilenced demo_server r s t = False" "sv_NonceRetention demo_server = 10 * minute" "sv_BodyLimit demo_server = 32768"
  "sv_DedupeWindow demo_server = 5 * minute"
  by (simp_all add: demo_server_def NewServer_def staticTargets_def)

lemma demo_admitted: "matches_nonce nonce \<Longrightarrow> admitted demo_server demo_codec demo_now demo_now (demo_request nonce) demo_client demo_event ''{}''"
proof -
  assume nonce: "matches_nonce nonce"
  have "Validate (\<lambda>_. None) demo_event demo_now = None" by code_simp
  moreover have "Verify demo_verifier demo_now (signed_headers ''c1'' demo_client nonce 1700000000 ''{}'') ''{}'' = Inr demo_client"
    by (rule signed_request_accepted [OF demo_find _ nonce]) (simp_all add: demo_client_def demo_now_def demo_verifier_def)
  ultimately show ?thesis
    by (simp add: admitted_def demo_server_simps demo_request_def Let_def json_request_def demo_codec_def read_body_def
        request_headers_def signed_headers_def demo_client_def CanUseRoute_def demo_event_def)
qed

lemma demo_steps:
  "RecordRequest ''c1'' ''nonce-0001'' (demo_now + 10 * minute) demo_now 60 empty_db = (Inr (), demo_recorded)"
  "AcceptEvent demo_ids demo_accepted_params demo_recorded = (Inr demo_result, demo_stored)"
proof -
  have "fst (RecordRequest ''c1'' ''nonce-0001'' (demo_now + 10 * minute) demo_now 60 empty_db) = Inr ()" by code_simp
  then show "RecordRequest ''c1'' ''nonce-0001'' (demo_now + 10 * minute) demo_now 60 empty_db = (Inr (), demo_recorded)"
    unfolding demo_recorded_def by (metis prod.collapse)
  have "fst (AcceptEvent demo_ids demo_accepted_params demo_recorded) = Inr demo_result" by code_simp
  then show "AcceptEvent demo_ids demo_accepted_params demo_recorded = (Inr demo_result, demo_stored)"
    unfolding demo_stored_def by (metis prod.collapse)
qed

lemma demo_call:
  "handle_events demo_server demo_codec (\<lambda>_. False) demo_ids demo_now demo_now ''request-1'' (demo_request ''nonce-0001'') empty_db
    = (demo_reply, demo_stored)"
  using demo_admitted [OF demo_nonce] demo_steps
  by (auto simp: admitted_def handle_events_def acceptEvent_def persistEvent_def demo_server_simps demo_accepted_params_def
      demo_reply_def accepted_body_def demo_client_def demo_event_def request_headers_def demo_request_def signed_headers_def Let_def
      demo_result_def)

section \<open>Only authentic requests change anything\<close>

text \<open>
  C11. Nothing changes without authentication and permission. If handling a request to the events endpoint
  changes the database at all, the request is a JSON POST within the size limit whose signature the
  verifier accepts for its exact body, that body is one valid event, its client may use the event's route,
  and the route has an enabled channel; and if it changes an event, a delivery or an incident, the answer
  is 202. Every other answer leaves the alerts as they were.
\<close>

theorem events_change_only_if_authentic:
  assumes "handle_events sv cd fault ids verified now i rq d = (rs, d')"
  shows "(d' \<noteq> d \<longrightarrow> (\<exists>c e body rest.
      rq_method rq = ''POST'' \<and> rq_body rq = Some body \<and> int (length body) \<le> sv_BodyLimit sv \<and>
      Verify (sv_Verifier sv) verified (request_headers rq) body = Inr c \<and>
      cd_event cd body = Some (e, rest) \<and> cd_at_end cd rest \<and> Validate (cd_parse_url cd) e now = None \<and>
      RoutingKey e \<in> set (ac_AllowedRoutes c) \<and> sv_ResolveTargets sv (RoutingKey e) (Severity e) \<noteq> [])) \<and>
    (rs_status rs \<noteq> 202 \<longrightarrow> events d' = events d \<and> deliveries d' = deliveries d \<and> incidents d' = incidents d)"
proof -
  have body: "rq_body rq = Some body \<and> int (length body) \<le> sv_BodyLimit sv"
    if "read_body (sv_BodyLimit sv) rq = Some body" for body
    using that by (auto simp: read_body_def split: option.splits if_splits)
  have frame: "events d2 = events d \<and> deliveries d2 = deliveries d \<and> incidents d2 = incidents d"
    if "RecordRequest k n x t l d = (r, d2)" for k n x t l r d2
    using RecordRequest_frame [OF that] by simp
  show ?thesis
    using assms
  proof (cases rule: handle_events_cases)
    case (limited c e body)
    then show ?thesis using body frame by (auto simp: admitted_def CanUseRoute_def)
  next
    case (unstored c e body)
    then show ?thesis using body frame by (auto simp: admitted_def CanUseRoute_def)
  next
    case (stored c e body d1 result)
    then show ?thesis using body by (auto simp: admitted_def CanUseRoute_def)
  qed auto
qed

theorem events_change_only_if_authentic_witness:
  "\<exists>c body. rq_body (demo_request ''nonce-0001'') = Some body \<and>
     Verify (sv_Verifier demo_server) demo_now (request_headers (demo_request ''nonce-0001'')) body = Inr c"
proof -
  have "length (events demo_stored) = 1" by code_simp
  then have "demo_stored \<noteq> empty_db" by (metis empty_db_def db.select_convs(4) list.size(3) zero_neq_one)
  with events_change_only_if_authentic [OF demo_call] show ?thesis by blast
qed

section \<open>What a 202 means\<close>

text \<open>The record a successful call names, new or known, is there under the client and event id.\<close>

lemma AcceptEvent_record:
  assumes "AcceptEvent ids p d = (Inr r, d')"
  shows "\<exists>row\<in>set (events d'). ev_id row = ar_event_id r \<and> event_key row = (ClientID p, EventID (Event p))"
  using assms
proof (cases rule: AcceptEvent_cases)
  case (duplicate e n)
  then obtain row where "query_row (\<lambda>x. event_key x = (ClientID p, EventID (Event p))) (events d) = Some row" "ev_id row = e"
    by (auto simp: find_duplicate_def split: option.splits)
  with query_row_SomeD [OF this(1)] duplicate show ?thesis by auto
next
  case (queued reason0 started act recordID rows)
  then show ?thesis using enqueueEventSubscriptions_frame [OF queued(8)] by simp
qed auto

lemma AcceptEvent_queued_deliveries:
  assumes "AcceptEvent ids p d = (Inr r, d')" and "ar_outcome r = OutcomeQueued" and "t \<in> set (Targets p)"
  shows "\<exists>x\<in>set (deliveries d'). dl_event x = ar_event_id r \<and> dl_channel x = t \<and> dl_status x = Pending"
  using assms(1)
proof (cases rule: AcceptEvent_cases)
  case (queued reason0 started act recordID rows)
  obtain new where new: "rows = deliveries d @ new" "map dl_channel new = uniqueStrings (Targets p)"
    "\<forall>x\<in>set new. dl_event x = recordID \<and> dl_status x = Pending"
    using enqueue_targets_Inr [OF queued(7)] by blast
  have "t \<in> dl_channel ` set new" using assms(3) new(2) by (metis set_map uniqueStrings_simps(1))
  then show ?thesis
    using new enqueueEventSubscriptions_Some(1) [OF queued(8)] queued(9) by auto
qed (use assms(2) in auto)

text \<open>
  C12. An acknowledged alert is kept. When the events endpoint answers 202, the database holds the record
  that the answer names, under the client that signed and the event id of the body; and when the answer
  says it was queued, a pending delivery of that record waits for every channel of its route.
\<close>

theorem acknowledged_alert_is_stored:
  assumes "handle_events sv cd fault ids verified now i rq d = (rs, d')" and "rs_status rs = 202"
  shows "\<exists>c e rest ap row. Verify (sv_Verifier sv) verified (request_headers rq) (the (rq_body rq)) = Inr c \<and>
    cd_event cd (the (rq_body rq)) = Some (e, rest) \<and>
    rs_body rs = AcceptedBody ap \<and> ap_EventID ap = EventID e \<and>
    row \<in> set (events d') \<and> ev_id row = ap_EventRecordID ap \<and> event_key row = (ac_ID c, EventID e) \<and>
    (ap_Outcome ap = OutcomeQueued \<longrightarrow> (\<forall>t\<in>set (sv_ResolveTargets sv (RoutingKey e) (Severity e)).
       \<exists>x\<in>set (deliveries d'). dl_event x = ev_id row \<and> dl_channel x = t \<and> dl_status x = Pending))"
  using assms(1)
proof (cases rule: handle_events_cases)
  case (stored c e body d1 result)
  have body: "rq_body rq = Some body"
    using stored(1) by (auto simp: admitted_def read_body_def split: option.splits if_splits)
  obtain rest where event: "cd_event cd body = Some (e, rest)" using stored(1) by (auto simp: admitted_def)
  obtain row where row: "row \<in> set (events d')" "ev_id row = ar_event_id result" "event_key row = (ac_ID c, EventID e)"
    using AcceptEvent_record [OF stored(3)] by auto
  show ?thesis
    using AcceptEvent_queued_deliveries [OF stored(3)] stored(1,4) body event row
    by (intro exI [of _ c] exI [of _ e] exI [of _ rest] exI [of _ "_ :: accepted_response"] exI [of _ row])
      (auto simp: admitted_def accepted_body_def)
qed (use assms(2) in auto)

theorem acknowledged_alert_is_stored_witness:
  "\<exists>row x. row \<in> set (events demo_stored) \<and> x \<in> set (deliveries demo_stored) \<and> dl_event x = ev_id row \<and> dl_channel x = ''chan''"
proof -
  have reply: "rs_status demo_reply = 202" "rs_body demo_reply = AcceptedBody
      \<lparr>ap_RequestID = ''request-1'', ap_EventRecordID = ''a'', ap_EventID = ''e1'', ap_Outcome = OutcomeQueued,
       ap_Reason = [], ap_Deliveries = 1\<rparr>"
    by (simp_all add: demo_reply_def accepted_body_def demo_result_def demo_event_def)
  have event: "cd_event demo_codec (the (rq_body (demo_request ''nonce-0001''))) = Some (demo_event, [])"
    by (simp add: demo_codec_def demo_request_def Let_def)
  have "sv_ResolveTargets demo_server (RoutingKey demo_event) (Severity demo_event) = [''chan'']"
    by (simp add: demo_event_def demo_server_simps)
  with acknowledged_alert_is_stored [OF demo_call reply(1)] event reply(2) show ?thesis by auto
qed

section \<open>Replays\<close>

text \<open>Other traffic in between: calls of the events endpoint up to some time, and whatever leaves the nonces alone.\<close>

inductive traffic :: "server \<Rightarrow> instant \<Rightarrow> db \<Rightarrow> db \<Rightarrow> bool" for sv bound where
  events_call: "handle_events sv cd fault ids verified now i rq d = (rs, d') \<Longrightarrow> now \<le> bound \<Longrightarrow> traffic sv bound d d'"
| other_call: "nonces d' = nonces d \<Longrightarrow> traffic sv bound d d'"

lemma AcceptEvent_nonces: "AcceptEvent ids p d = (r, d') \<Longrightarrow> nonces d' = nonces d"
  by (elim AcceptEvent_cases) (auto dest: enqueueEventSubscriptions_frame)

lemma nonce_live_cong: "nonces d' = nonces d \<Longrightarrow> nonce_live k n u d' = nonce_live k n u d"
  by (simp add: nonce_live_def)

lemma handle_events_keeps_live:
  assumes "handle_events sv cd fault ids verified now i rq d = (rs, d')" and "nonce_live k n u d" and "now \<le> u"
  shows "nonce_live k n u d'"
  using assms(1)
proof (cases rule: handle_events_cases)
  case (stored c e body d1 result)
  from RecordRequest_keeps_live [OF stored(2) assms(2,3)] AcceptEvent_nonces [OF stored(3)]
  show ?thesis by (simp add: nonce_live_def)
next
  case (limited c e body)
  then show ?thesis using RecordRequest_keeps_live [OF _ assms(2,3)] by blast
next
  case (unstored c e body)
  then show ?thesis using RecordRequest_keeps_live [OF _ assms(2,3)] by blast
qed (use assms(2) in simp)

lemma traffic_keeps_live:
  assumes "(traffic sv u)\<^sup>*\<^sup>* d d'" and "nonce_live k n u d"
  shows "nonce_live k n u d'"
  using assms
proof (induction rule: rtranclp_induct)
  case (step d1 d2)
  from step.hyps(2) show ?case
  proof cases
    case (events_call cd fault ids verified now i rq rs)
    with step show ?thesis by (blast intro: handle_events_keeps_live)
  next
    case other_call
    with step nonce_live_cong show ?thesis by blast
  qed
qed

text \<open>
  C13. A replay inside the window is refused. Once a request was answered 202, or 429 for its rate, any
  request that carries the same client and nonce (with whatever body, timestamp and signature) changes
  nothing at all and is not answered 202, until the nonce retention after the first has passed, whatever
  other traffic comes in between.
\<close>

theorem replayed_request_refused:
  assumes "handle_events sv cd fault ids verified now i rq d = (rs, d1)" and "rs_status rs = 202 \<or> rs_status rs = 429"
    and "(traffic sv (now + sv_NonceRetention sv))\<^sup>*\<^sup>* d1 d2"
    and "rq_client rq' = rq_client rq" and "rq_nonce rq' = rq_nonce rq" and "now' \<le> now + sv_NonceRetention sv"
    and "handle_events sv cd' fault' ids' verified' now' i' rq' d2 = (rs', d3)"
  shows "d3 = d2 \<and> rs_status rs' \<noteq> 202"
proof -
  let ?u = "now + sv_NonceRetention sv"
  obtain c where c: "find_client (sv_Verifier sv) (rq_client rq) = Some c" "nonce_live (ac_ID c) (rq_nonce rq) ?u d1"
    using assms(1)
  proof (cases rule: handle_events_cases)
    case (limited c e body)
    then show thesis
      using that RecordRequest_records [OF limited(4)] by (auto simp: admitted_def Verify_Inr request_headers_def)
  next
    case (stored c e body d0 result)
    then show thesis
      using that RecordRequest_records [OF stored(2)] AcceptEvent_nonces [OF stored(3)]
      by (auto simp: admitted_def Verify_Inr request_headers_def nonce_live_def)
  qed (use assms(2) in auto)
  then have live: "nonce_live (ac_ID c) (rq_nonce rq') now' d2"
    using traffic_keeps_live [OF assms(3)] nonce_live_mono [OF _ assms(6)] assms(5) by simp
  have same: "c' = c" if "admitted sv cd' verified' now' rq' c' e' body'" for c' e' body'
    using that c(1) assms(4) by (simp add: admitted_def Verify_Inr request_headers_def)
  from assms(7) show ?thesis
  proof (cases rule: handle_events_cases)
    case (limited c' e' body')
    with same [OF limited(1)] RecordRequest_replay [OF live] show ?thesis by simp
  next
    case (unstored c' e' body')
    with same [OF unstored(1)] RecordRequest_replay [OF live] show ?thesis by simp
  next
    case (stored c' e' body' d0 result)
    with same [OF stored(1)] RecordRequest_replay [OF live] show ?thesis by simp
  qed auto
qed

theorem replayed_request_refused_witness:
  "snd (handle_events demo_server demo_codec (\<lambda>_. False) demo_ids (demo_now + minute) (demo_now + minute) ''request-2''
     (demo_request ''nonce-0001'') demo_stored) = demo_stored"
proof -
  have answered: "rs_status demo_reply = 202 \<or> rs_status demo_reply = 429" by (simp add: demo_reply_def)
  have soon: "demo_now + minute \<le> demo_now + sv_NonceRetention demo_server" by (simp add: demo_server_simps)
  obtain rs' d3 where "handle_events demo_server demo_codec (\<lambda>_. False) demo_ids (demo_now + minute) (demo_now + minute)
      ''request-2'' (demo_request ''nonce-0001'') demo_stored = (rs', d3)"
    by (cases "handle_events demo_server demo_codec (\<lambda>_. False) demo_ids (demo_now + minute) (demo_now + minute)
      ''request-2'' (demo_request ''nonce-0001'') demo_stored")
  with replayed_request_refused [OF demo_call answered rtranclp.rtrancl_refl refl refl soon this] show ?thesis by simp
qed

lemma RecordRequest_integrity:
  assumes "RecordRequest k n x t l d = (r, d1)" and "queue_integrity d"
  shows "queue_integrity d1"
  using assms(2) RecordRequest_frame [OF assms(1)] by (simp add: queue_integrity_def)

lemma AcceptEvent_known:
  assumes "queue_integrity d" and "row \<in> set (events d)" and "event_key row = (ClientID p, EventID (Event p))"
    and "AcceptEvent ids p d = (Inr r, d')"
  shows "d' = d \<and> ar_event_id r = ev_id row \<and> ar_outcome r = OutcomeDuplicate"
  using find_duplicate_keyed [of d row p] assms by (auto simp: queue_integrity_def AcceptEvent_def)

text \<open>The record a 202 names is the one of the signing client and the event of the body.\<close>

lemma accepted_record_key:
  assumes "handle_events sv cd fault ids verified now i rq d = (rs, d1)" and "rs_body rs = AcceptedBody ap"
    and "row \<in> set (events d1)" and "ev_id row = ap_EventRecordID ap" and "queue_integrity d"
  obtains c e body where "admitted sv cd verified now rq c e body" "event_key row = (ac_ID c, EventID e)"
  using assms(1)
proof (cases rule: handle_events_cases)
  case refused
  then show thesis using assms(2) by blast
next
  case (stored c e body d0 result)
  have "queue_integrity d1"
    using AcceptEvent_integrity [OF RecordRequest_integrity [OF stored(2) assms(5)] stored(3)] .
  then have "keyed ev_id (events d1)" by (simp add: queue_integrity_def)
  moreover obtain row' where row': "row' \<in> set (events d1)" "ev_id row' = ar_event_id result"
      "event_key row' = (ac_ID c, EventID e)"
    using AcceptEvent_record [OF stored(3)] by auto
  moreover have "ev_id row = ar_event_id result"
    using assms(2,4) stored(4) by (auto simp: accepted_body_def)
  ultimately have "row = row'" using assms(3) keyed_unique by metis
  with row'(3) have "event_key row = (ac_ID c, EventID e)" by simp
  with stored(1) that show thesis by blast
qed (use assms(2) in auto)

text \<open>
  C14. A replay of a body is harmless for ever. Once a client's request was answered 202, sending the same
  body again for the same client, however much later, with whatever nonce and timestamp, stores no
  event, queues no delivery and moves no incident, as long as the record of the first is kept; if it is
  answered 202 again, the answer names that record and says duplicate.
\<close>

theorem replayed_body_stores_nothing:
  assumes "handle_events sv cd fault ids verified now i rq d = (rs, d1)" and "rs_body rs = AcceptedBody ap"
    and "row \<in> set (events d1)" and "ev_id row = ap_EventRecordID ap" and "queue_integrity d" and "queue_integrity d2"
    and "row \<in> set (events d2)"
    and "rq_client rq' = rq_client rq" and "rq_body rq' = rq_body rq"
    and "handle_events sv cd fault' ids' verified' now' i' rq' d2 = (rs', d3)"
  shows "events d3 = events d2 \<and> deliveries d3 = deliveries d2 \<and> incidents d3 = incidents d2 \<and>
    (\<forall>ap'. rs_body rs' = AcceptedBody ap' \<longrightarrow>
       ap_EventRecordID ap' = ap_EventRecordID ap \<and> ap_Outcome ap' = OutcomeDuplicate)"
proof -
  obtain c e body where adm: "admitted sv cd verified now rq c e body" and key: "event_key row = (ac_ID c, EventID e)"
    by (rule accepted_record_key [OF assms(1-5)])
  have same: "c' = c \<and> e' = e" if "admitted sv cd verified' now' rq' c' e' body'" for c' e' body'
    using that adm assms(8,9)
    by (auto simp: admitted_def Verify_Inr request_headers_def read_body_def split: option.splits if_splits)
  from assms(10) show ?thesis
  proof (cases rule: handle_events_cases)
    case refused
    then show ?thesis by blast
  next
    case (limited c' e' body')
    then show ?thesis using RecordRequest_frame [OF limited(4)] by auto
  next
    case (unstored c' e' body')
    then show ?thesis using RecordRequest_frame [OF unstored(4)] by auto
  next
    case (stored c' e' body' d0 result)
    note frame = RecordRequest_frame [OF stored(2)]
    have "d3 = d0 \<and> ar_event_id result = ev_id row \<and> ar_outcome result = OutcomeDuplicate"
      using same [OF stored(1)] key assms(7) frame(1)
      by (intro AcceptEvent_known [OF RecordRequest_integrity [OF stored(2) assms(6)] _ _ stored(3)]) simp_all
    then show ?thesis using frame stored(4) assms(4) by (simp add: accepted_body_def)
  qed
qed

theorem replayed_body_stores_nothing_witness:
  "events (snd (handle_events demo_server demo_codec (\<lambda>_. False) demo_ids (demo_now + minute) (demo_now + minute) ''request-3''
     (demo_request ''nonce-0002'') demo_stored)) = events demo_stored"
proof -
  have ok: "queue_integrity demo_stored"
    using AcceptEvent_integrity [OF RecordRequest_integrity [OF demo_steps(1) queue_integrity_empty] demo_steps(2)] .
  obtain row where row: "row \<in> set (events demo_stored)" "ev_id row = ''a''"
    using AcceptEvent_record [OF demo_steps(2)] by (auto simp: demo_result_def)
  have reply: "rs_body demo_reply = AcceptedBody
      \<lparr>ap_RequestID = ''request-1'', ap_EventRecordID = ''a'', ap_EventID = ''e1'', ap_Outcome = OutcomeQueued,
       ap_Reason = [], ap_Deliveries = 1\<rparr>"
    by (simp add: demo_reply_def accepted_body_def demo_result_def demo_event_def)
  obtain rs' d3 where again: "handle_events demo_server demo_codec (\<lambda>_. False) demo_ids (demo_now + minute) (demo_now + minute)
      ''request-3'' (demo_request ''nonce-0002'') demo_stored = (rs', d3)"
    by (cases "handle_events demo_server demo_codec (\<lambda>_. False) demo_ids (demo_now + minute) (demo_now + minute)
      ''request-3'' (demo_request ''nonce-0002'') demo_stored")
  have same: "rq_client (demo_request ''nonce-0002'') = rq_client (demo_request ''nonce-0001'')"
    "rq_body (demo_request ''nonce-0002'') = rq_body (demo_request ''nonce-0001'')"
    by (simp_all add: demo_request_def signed_headers_def Let_def)
  from replayed_body_stores_nothing [OF demo_call reply row(1) _ queue_integrity_empty ok row(1) same again] row(2) again
  show ?thesis by simp
qed

end
