(* ===== verification/NotifyProps.thy ===== *)
theory NotifyProps
  imports HttpProps
begin

text \<open>
  The notifications endpoint: how a call ends, and how far a bearer token reaches.
\<close>

section \<open>What one accepted event adds\<close>

text \<open>Every delivery a call adds is of its record, for one of its targets or for a subscription to its route.\<close>

lemma AcceptEvent_adds:
  assumes "AcceptEvent ids p d = (Inr r, d')" and "d' \<noteq> d"
  obtains row new where "events d' = events d @ [row]" "deliveries d' = deliveries d @ new"
    "ev_client row = ClientID p" "ev_event row = EventID (Event p)" "ev_source row = Source (Event p)"
    "ev_route row = RoutingKey (Event p)" "ev_severity row = Severity (Event p)" "ev_status row = Status (Event p)"
    "ev_id row = ar_event_id r"
    "\<forall>x\<in>set new. dl_event x = ev_id row \<and> (dl_channel x \<in> set (Targets p) \<or>
       (\<exists>s\<in>set (event_subscriptions d). dl_channel x = eventChannelPrefix @ sb_id s \<and>
          contains_sub ('','' @ RoutingKey (Event p) @ '','') ('','' @ sb_routes s @ '','')))"
  using assms(1)
proof (cases rule: AcceptEvent_cases)
  case (queued reason0 started act recordID rows)
  obtain new where new: "rows = deliveries d @ new" "map dl_channel new = uniqueStrings (Targets p)"
    "\<forall>x\<in>set new. dl_event x = recordID"
    using enqueue_targets_Inr [OF queued(7)] by blast
  have targets: "dl_channel x \<in> set (Targets p)" if "x \<in> set new" for x
    using that new(2) by (metis image_eqI set_map uniqueStrings_simps(1))
  define subs where "subs = subscription_deliveries recordID (Event p) (Now p)
    (d\<lparr>incidents := apply_action act p (incidents d),
       events := events d @ [event_row_of recordID p OutcomeQueued started], deliveries := rows\<rparr>)"
  have subs: "\<forall>x\<in>set subs. dl_event x = recordID \<and>
      (\<exists>s\<in>set (event_subscriptions d). dl_channel x = eventChannelPrefix @ sb_id s \<and>
         contains_sub ('','' @ RoutingKey (Event p) @ '','') ('','' @ sb_routes s @ '',''))"
    by (auto simp: subs_def subscription_deliveries_def subscription_matches_def)
  have rows: "deliveries d' = deliveries d @ new @ subs"
    using enqueueEventSubscriptions_Some(1) [OF queued(8)] new(1) by (simp add: subs_def)
  have all: "\<forall>x\<in>set (new @ subs). dl_event x = ar_event_id r \<and> (dl_channel x \<in> set (Targets p) \<or>
       (\<exists>s\<in>set (event_subscriptions d). dl_channel x = eventChannelPrefix @ sb_id s \<and>
          contains_sub ('','' @ RoutingKey (Event p) @ '','') ('','' @ sb_routes s @ '','')))"
    using subs new(3) targets queued(9) by auto
  show thesis
    using enqueueEventSubscriptions_frame [OF queued(8)] queued(9) all rows
    by (intro that [of "event_row_of recordID p OutcomeQueued started" "new @ subs"])
      (simp_all add: event_row_of_def Let_def)
next
  case (suppressed oc0 reason0 started act reason recordID)
  then show thesis
    by (intro that [of "event_row_of recordID p OutcomeSuppressed started" "[]"]) (simp_all add: event_row_of_def Let_def)
qed (use assms(2) in auto)

text \<open>An event that is neither firing nor resolved moves no incident; no event touches the other tables.\<close>

lemma AcceptEvent_frame:
  assumes "AcceptEvent ids p d = (r, d')"
  shows "d'\<lparr>events := events d, deliveries := deliveries d, event_deliveries := event_deliveries d,
      incidents := incidents d\<rparr> = d"
  using assms
proof (cases rule: AcceptEvent_cases)
  case (queued reason0 started act recordID rows)
  then show ?thesis by (auto simp: enqueueEventSubscriptions_def split: option.splits)
qed auto

lemma AcceptEvent_no_incident:
  assumes "AcceptEvent ids p d = (r, d')" and "\<not> lifecycle_status (Status (Event p))"
  shows "incidents d' = incidents d"
  using assms(1)
proof (cases rule: AcceptEvent_cases)
  case (queued reason0 started act recordID rows)
  then show ?thesis
    using enqueueEventSubscriptions_frame [OF queued(8)] assms(2) by (auto simp: lifecycle_def apply_action_def)
qed (use assms(2) in \<open>auto simp: lifecycle_def apply_action_def\<close>)

section \<open>How a call ends\<close>

lemma RecordRateLimit_frame:
  "RecordRateLimit k t l d = (r, d1) \<Longrightarrow> d1 = d\<lparr>rate_windows := rate_windows d1\<rparr>"
  using recordRateWindow_frame [of k t l d "fst (recordRateWindow k t l d)" d1]
  by (auto simp: RecordRateLimit_def Let_def split: prod.splits if_splits)

lemma handle_notifications_cases:
  assumes "handle_notifications sv cd fault ids random now i rq d = (rs, d')"
  obtains (refused) "d' = d" "is_error rs"
  | (limited) token r where "BearerVerify (sv_Bearer sv) (rq_authorization rq) = Some token"
      "RecordRateLimit (''bearer:'' @ bt_PublicID token) now (bt_RateLimit token) d = (r, d')" "is_error rs"
  | (stored) token d1 body input category eventID e result where
      "BearerVerify (sv_Bearer sv) (rq_authorization rq) = Some token"
      "RecordRateLimit (''bearer:'' @ bt_PublicID token) now (bt_RateLimit token) d = (Inr (), d1)"
      "e = notification_event token eventID input category now"
      "sv_ResolveTargets sv (RoutingKey e) (Severity e) \<noteq> []"
      "AcceptEvent ids (params_of sv (''@bearer:'' @ bt_ID token) e
         (sv_ResolveTargets sv (RoutingKey e) (Severity e)) body now) d1 = (Inr result, d')"
      "rs = writeJSON 200 (accepted_body i e result)" "Validate (cd_parse_url cd) e now = None"
proof (cases "BearerVerify (sv_Bearer sv) (rq_authorization rq)")
  case None
  then show thesis using assms by (intro refused) (auto simp: handle_notifications_def split: if_splits)
next
  case (Some token)
  show thesis
  proof (cases "rq_method rq = ''POST'' \<and> json_request cd rq")
    case False
    then show thesis using assms by (intro refused) (auto simp: handle_notifications_def split: if_splits)
  next
    case True
    note ok = True
    obtain r d1 where rec: "store_call (fault 0)
        (RecordRateLimit (''bearer:'' @ bt_PublicID token) now (bt_RateLimit token)) d = (r, d1)"
      by (cases "store_call (fault 0) (RecordRateLimit (''bearer:'' @ bt_PublicID token) now (bt_RateLimit token)) d")
    note stores = stored [OF Some]
    consider (down) "fault 0" | (over) err where "\<not> fault 0" "r = Inl err" | (metered) "\<not> fault 0" "r = Inr ()"
      by (cases r) auto
    then show thesis
    proof cases
      case down
      with rec have "d1 = d" "r = Inl ErrStorage" by simp_all
      with assms True Some rec show thesis by (intro refused) (auto simp: handle_notifications_def)
    next
      case (over err)
      with assms True Some rec have "d' = d1" "is_error rs"
        by (auto simp: handle_notifications_def split: store_error.splits)
      with rec over show thesis by (intro limited [OF Some]) auto
    next
      case metered
      then have rec1: "RecordRateLimit (''bearer:'' @ bt_PublicID token) now (bt_RateLimit token) d = (Inr (), d1)"
        using rec by simp
      show thesis
      proof (cases "is_error rs \<and> d' = d1")
        case True
        with rec1 show thesis by (intro limited [OF Some]) auto
      next
        case False
        then obtain body input category eventID e where
          e: "e = notification_event token eventID input category now"
            "sv_ResolveTargets sv (RoutingKey e) (Severity e) \<noteq> []" "Validate (cd_parse_url cd) e now = None"
          and persist: "persistEvent sv (fault 1) ids i (''@bearer:'' @ bt_ID token) e body
            (sv_ResolveTargets sv (RoutingKey e) (Severity e)) now 200 d1 = (rs, d')"
          using assms ok Some rec metered
          by (auto simp: handle_notifications_def Let_def split: if_splits option.splits prod.splits)
        from persist show thesis
        proof (cases rule: persistEvent_cases)
          case unstored
          with False show thesis by auto
        next
          case (stored result)
          with e rec1 show thesis by (intro stores) auto
        qed
      qed
    qed
  qed
qed

section \<open>How far a bearer token reaches\<close>

text \<open>
  C15. A bearer token reaches nothing but its own route. A call of the notifications endpoint that changes
  the database carries a token that passes; it changes no nonce, no incident, no configuration and no grant;
  besides the rate count it adds at most one event, which has the token's route, severity and source, the
  status info and the token's own client name, and deliveries of that event to the enabled channels of that
  route and severity and to subscriptions of that route. Only an answer 200 adds anything.
\<close>

theorem notification_confined:
  assumes "handle_notifications sv cd fault ids random now i rq d = (rs, d')" and "d' \<noteq> d"
  shows "\<exists>token added new. BearerVerify (sv_Bearer sv) (rq_authorization rq) = Some token \<and>
    d'\<lparr>rate_windows := rate_windows d, events := events d, deliveries := deliveries d, event_deliveries := event_deliveries d\<rparr> = d \<and>
    events d' = events d @ added \<and> deliveries d' = deliveries d @ new \<and> length added \<le> 1 \<and>
    (rs_status rs \<noteq> 200 \<longrightarrow> added = [] \<and> new = []) \<and>
    (\<forall>row\<in>set added. ev_client row = ''@bearer:'' @ bt_ID token \<and> ev_route row = bt_RoutingKey token \<and>
       ev_severity row = bt_Severity token \<and> ev_source row = bt_ID token \<and> ev_status row = StatusInfo) \<and>
    (\<forall>x\<in>set new. dl_event x \<in> ev_id ` set added \<and>
       (dl_channel x \<in> set (sv_ResolveTargets sv (bt_RoutingKey token) (bt_Severity token)) \<or>
        (\<exists>s\<in>set (event_subscriptions d). dl_channel x = eventChannelPrefix @ sb_id s \<and>
           contains_sub ('','' @ bt_RoutingKey token @ '','') ('','' @ sb_routes s @ '',''))))"
  using assms(1)
proof (cases rule: handle_notifications_cases)
  case refused
  with assms(2) show ?thesis by simp
next
  case (limited token r)
  obtain ws where "d' = d\<lparr>rate_windows := ws\<rparr>" using RecordRateLimit_frame [OF limited(2)] by blast
  with limited(1) show ?thesis by (intro exI [of _ token] exI [of _ "[]"]) simp
next
  case (stored token d1 body input category eventID e result)
  obtain ws where d1: "d1 = d\<lparr>rate_windows := ws\<rparr>" using RecordRateLimit_frame [OF stored(2)] by blast
  have e: "RoutingKey e = bt_RoutingKey token" "Severity e = bt_Severity token" "Source e = bt_ID token"
    "Status e = StatusInfo" "\<not> lifecycle_status (Status e)"
    using stored(3) by (simp_all add: notification_event_def lifecycle_status_def)
  have frame: "d'\<lparr>rate_windows := rate_windows d, events := events d, deliveries := deliveries d,
      event_deliveries := event_deliveries d\<rparr> = d"
    using AcceptEvent_frame [OF stored(5)] AcceptEvent_no_incident [OF stored(5)] e(5) unfolding d1
    by (cases d; cases d') simp
  show ?thesis
  proof (cases "d' = d1")
    case True
    with d1 stored(1) show ?thesis by (intro exI [of _ token] exI [of _ "[]"]) simp
  next
    case False
    then obtain row new where "events d' = events d @ [row]" "deliveries d' = deliveries d @ new"
      "ev_client row = ''@bearer:'' @ bt_ID token" "ev_source row = Source e" "ev_route row = RoutingKey e"
      "ev_severity row = Severity e" "ev_status row = Status e"
      "\<forall>x\<in>set new. dl_event x = ev_id row \<and> (dl_channel x \<in> set (sv_ResolveTargets sv (RoutingKey e) (Severity e)) \<or>
         (\<exists>s\<in>set (event_subscriptions d). dl_channel x = eventChannelPrefix @ sb_id s \<and>
            contains_sub ('','' @ RoutingKey e @ '','') ('','' @ sb_routes s @ '','')))"
      by (rule AcceptEvent_adds [OF stored(5)]) (simp add: d1)
    with stored(1,6) frame e show ?thesis
      by (intro exI [of _ token] exI [of _ "[row]"] exI [of _ new]) auto
  qed
qed

section \<open>A concrete call\<close>

definition note_secret :: string where "note_secret = replicate 32 CHR ''s''"

definition note_token :: ingress_token where
  "note_token = \<lparr>bt_ID = ''t1'', bt_PublicID = ''4142434445464748'', bt_SecretHash = sha256 note_secret, bt_Enabled = True,
     bt_RoutingKey = ''ops'', bt_Severity = ''warning'', bt_RateLimit = 10\<rparr>"

definition note_server :: server where
  "note_server = demo_server\<lparr>sv_Bearer := Some (\<lambda>p. if p = ''4142434445464748'' then Some note_token else None)\<rparr>"

definition note_request :: request where
  "note_request = \<lparr>rq_method = ''POST'', rq_path = ''/api/v1/notifications'', rq_content_type = ''application/json'',
     rq_authorization = ''Bearer '' @ bearerPrefix @ hex_encode ''ABCDEFGH'' @ ''_'' @ hex_encode note_secret,
     rq_client = [], rq_timestamp = [], rq_nonce = [], rq_signature = [], rq_request_id = [], rq_body = Some ''{}''\<rparr>"

definition note_event :: event where
  "note_event = \<lparr>EventID = ''simple-6162'', Source = ''t1'', RoutingKey = ''ops'', Status = StatusInfo, Severity = ''warning'',
     Title = ''t'', Message = ''m'', OccurredAt = demo_now, DedupeKey = [], Labels = [], URL = [], IncidentStartedAt = None\<rparr>"

lemma note_event:
  "notification_event note_token ''6162'' \<lparr>sm_Title = ''t'', sm_Message = ''m'', sm_Category = [], sm_URL = []\<rparr> [] demo_now = note_event"
  by (simp add: notification_event_def note_event_def note_token_def)

definition note_metered :: db where
  "note_metered = snd (RecordRateLimit ''bearer:4142434445464748'' demo_now 10 empty_db)"

definition note_stored :: db where
  "note_stored = snd (AcceptEvent demo_ids (params_of note_server ''@bearer:t1'' note_event [''chan''] ''{}'' demo_now) note_metered)"

lemma note_accepted: "BearerVerify (sv_Bearer note_server) (rq_authorization note_request) = Some note_token"
proof -
  have "hex_encode ''ABCDEFGH'' = ''4142434445464748''" by code_simp
  moreover have "GenerateBearerToken (Some ''ABCDEFGH'') (Some note_secret) =
      Some (bearerPrefix @ hex_encode ''ABCDEFGH'' @ ''_'' @ hex_encode note_secret, hex_encode ''ABCDEFGH'', sha256 note_secret)"
    by (simp add: GenerateBearerToken_def Let_def)
  moreover have "equal_fold ''Bearer'' ''Bearer''" "\<forall>c\<in>set ''Bearer''. is_graphic c" by code_simp+
  ultimately show ?thesis
    using generated_token_accepted [of "''ABCDEFGH''" note_secret
        "bearerPrefix @ hex_encode ''ABCDEFGH'' @ ''_'' @ hex_encode note_secret" "hex_encode ''ABCDEFGH''" "sha256 note_secret"
        "\<lambda>p. if p = ''4142434445464748'' then Some note_token else None" note_token "''Bearer''"]
    by (simp add: note_server_def note_request_def note_token_def note_secret_def del: hex_encode.simps)
qed

lemma persistEvent_snd:
  "snd (persistEvent sv False ids i k e body targets now st d) = snd (AcceptEvent ids (params_of sv k e targets body now) d)"
  by (cases "AcceptEvent ids (params_of sv k e targets body now) d") (auto simp: persistEvent_def Let_def split: sum.split)

lemma note_call:
  obtains rs where "handle_notifications note_server demo_codec (\<lambda>_. False) demo_ids (Some ''ab'') demo_now ''request-1'' note_request empty_db
    = (rs, note_stored)"
proof -
  have metered: "RecordRateLimit ''bearer:4142434445464748'' demo_now 10 empty_db = (Inr (), note_metered)"
  proof -
    have "fst (RecordRateLimit ''bearer:4142434445464748'' demo_now 10 empty_db) = Inr ()" by code_simp
    then show ?thesis unfolding note_metered_def by (metis prod.collapse)
  qed
  have valid: "Validate (\<lambda>_. None) note_event demo_now = None" by code_simp
  have small: "trim_space [] = []" "rune_count [] = 0" "\<not> has_line_break []" "hex_encode ''ab'' = ''6162''" by code_simp+
  have route: "RoutingKey note_event = ''ops''" "Severity note_event = ''warning''"
    by (simp_all add: note_event_def)
  have server: "sv_SimpleBodyLimit note_server = 8192" "sv_ResolveTargets note_server = sv_ResolveTargets demo_server"
    by (simp_all add: note_server_def demo_server_def NewServer_def)
  let ?persist = "persistEvent note_server False demo_ids ''request-1'' ''@bearer:t1'' note_event ''{}'' [''chan''] demo_now 200 note_metered"
  have "snd ?persist = note_stored" unfolding note_stored_def by (rule persistEvent_snd)
  then have stored: "?persist = (fst ?persist, note_stored)" by (metis prod.collapse)
  have json: "json_request demo_codec note_request" "read_body 8192 note_request = Some ''{}''"
    "cd_notification demo_codec ''{}'' = Some (\<lparr>sm_Title = ''t'', sm_Message = ''m'', sm_Category = [], sm_URL = []\<rparr>, [])"
    "cd_at_end demo_codec []" "cd_parse_url demo_codec = (\<lambda>_. None)" "rq_method note_request = ''POST''"
    by (simp_all add: json_request_def demo_codec_def note_request_def read_body_def)
  have token: "bt_PublicID note_token = ''4142434445464748''" "bt_RateLimit note_token = 10" "bt_ID note_token = ''t1''"
    by (simp_all add: note_token_def)
  have "handle_notifications note_server demo_codec (\<lambda>_. False) demo_ids (Some ''ab'') demo_now ''request-1'' note_request empty_db
    = ?persist"
    using metered valid
    by (simp add: handle_notifications_def note_accepted json token server small randomHex_def route demo_server_simps
        note_event del: hex_encode.simps)
  with stored that show thesis by metis
qed

text \<open>The call stored one event.\<close>

theorem notification_confined_witness:
  "\<exists>row. events note_stored = [row] \<and> ev_client row = ''@bearer:t1'' \<and> ev_route row = ''ops'' \<and> ev_severity row = ''warning''"
proof -
  obtain rs where call: "handle_notifications note_server demo_codec (\<lambda>_. False) demo_ids (Some ''ab'') demo_now ''request-1'' note_request empty_db
    = (rs, note_stored)" by (rule note_call)
  have "length (events note_stored) = 1" by code_simp
  then obtain row where row: "events note_stored = [row]" by (cases "events note_stored") auto
  then have "note_stored \<noteq> empty_db" by (metis empty_db_def db.select_convs(4) list.distinct(1))
  with notification_confined [OF call] note_accepted row show ?thesis
    by (auto simp: note_token_def empty_db_def)
qed

end
