(* ===== verification/AdminProps.thy ===== *)
theory AdminProps
  imports AdminPages NotifyProps GatewayProps
begin

text \<open>
  What the administration pages guarantee: who can change anything (a live session together with its CSRF
  token), where sessions come from (the right password, or an identity the provider confirms for an attempt
  of the same browser), how long they last, and which zone a silence is read in.
\<close>

section \<open>Pages that only read\<close>

named_theorems page_defs \<open>the handlers of the pages\<close>

lemmas [page_defs] = dashboard_def clients_page_def createClient_def clientAction_def createIngressToken_def
  ingressTokenAction_def channels_page_def saveChannel_def channelAction_def routes_page_def saveRoute_def
  deleteRoute_def silences_page_def createSilence_def deleteSilence_def deliveries_page_def retryDelivery_def
  guide_def mcp_revoke_def

lemma only_other [simp]: "aq_method (cl_request c) \<noteq> method \<Longrightarrow> only method h env c m = (admin_not_allowed method, m)"
  by (simp add: only_def)

lemma only_frame: "(\<And>env c m. snd (h env c m) = m) \<Longrightarrow> snd (only method h env c m) = m"
  by (simp add: only_def)

lemma reading_pages [simp]:
  "snd (dashboard env c m) = m" "snd (clients_page env c m) = m" "snd (channels_page env c m) = m"
  "snd (routes_page env c m) = m" "snd (silences_page env c m) = m" "snd (deliveries_page env c m) = m"
  "snd (guide env c m) = m"
  unfolding page_defs
  by (rule only_frame; simp add: Let_def split: sum.split option.split prod.split)+

lemma writing_pages [simp]:
  assumes "aq_method (cl_request c) \<noteq> ''POST''"
  shows "snd (createClient env c m) = m" "snd (clientAction env c m) = m" "snd (createIngressToken env c m) = m"
    "snd (ingressTokenAction env c m) = m" "snd (saveChannel env c m) = m" "snd (channelAction env c m) = m"
    "snd (saveRoute env c m) = m" "snd (deleteRoute env c m) = m" "snd (createSilence env c m) = m"
    "snd (deleteSilence env c m) = m" "snd (retryDelivery env c m) = m" "snd (mcp_revoke env c m) = m"
    "snd (logout_page env c m) = m"
  using assms by (simp_all add: page_defs logout_page_def logout_def)

text \<open>What holds of every page holds of the page that is served.\<close>

lemma serve_page_cases: "serve_page path = unknown_page \<or> (\<exists>h. (path, h) \<in> set pages \<and> serve_page path = h)"
  by (cases "map_of pages path") (auto simp: serve_page_def dest: map_of_SomeD)

lemma serve_page_rule:
  assumes "P unknown_page" and "list_all P (map snd pages)"
  shows "P (serve_page path)"
  using serve_page_cases [of path] assms by (auto simp: list_all_iff)

lemma serve_page_reads:
  assumes "aq_method (cl_request c) \<noteq> ''POST''"
  shows "snd (serve_page path env c m) = m"
  by (rule serve_page_rule [where P = "\<lambda>h. snd (h env c m) = m"]) (simp_all add: assms pages_def unknown_page_def)

section \<open>Nothing changes without a session and its CSRF token\<close>

definition authorised_post :: "admin_env \<Rightarrow> instant \<Rightarrow> admin_request \<Rightarrow> db \<Rightarrow> bool" where
  "authorised_post env now rq d \<longleftrightarrow>
     aq_method rq = ''POST'' \<and>
     (\<exists>v csrf expires form post. aq_cookie rq = Some v \<and> GetAdminSession (sha256 v) now d = Inr (csrf, expires) \<and>
        parseForm (ae_web env) rq = Some (form, post) \<and> value_of form ''csrf'' = csrf)"

lemma authenticate_Some:
  "authenticate fault now rq d = Some s \<Longrightarrow>
     \<exists>v. aq_cookie rq = Some v \<and> 32 \<le> length v \<and> \<not> fault \<and> GetAdminSession (sha256 v) now d = Inr s"
  by (auto simp: authenticate_def split: option.splits if_splits sum.splits)

lemma serve_session_cases:
  assumes "serve_session env fault random now rq m = (r, m')"
  shows "m' = m \<or> (authorised_post env now rq (mg_db m) \<and>
    (\<exists>c. cl_request c = rq \<and> cl_now c = now \<and> (r, m') = serve_page (aq_path rq) env c m))"
proof (cases "authenticate (fault 0) now rq (mg_db m)")
  case (Some s)
  obtain csrf expires where s: "s = (csrf, expires)" by (cases s)
  show ?thesis
  proof (cases "aq_method rq = ''POST''")
    case False
    with assms Some s have "m' = snd (serve_page (aq_path rq) env
        \<lparr>cl_fault = (\<lambda>k. fault (k + 1)), cl_random = random, cl_now = now, cl_request = rq, cl_form = [], cl_csrf = csrf\<rparr> m)"
      by (simp add: serve_session_def Let_def)
    with False show ?thesis by (simp add: serve_page_reads)
  next
    case True
    show ?thesis
    proof (cases "parseForm (ae_web env) rq")
      case None
      with assms Some s True show ?thesis by (simp add: serve_session_def Let_def)
    next
      case form: (Some forms)
      let ?c = "\<lparr>cl_fault = (\<lambda>k. fault (k + 1)), cl_random = random, cl_now = now, cl_request = rq, cl_form = fst forms,
                 cl_csrf = csrf\<rparr>"
      show ?thesis
      proof (cases "value_of (fst forms) ''csrf'' = csrf")
        case match: True
        have "(r, m') = serve_page (aq_path rq) env ?c m"
          using assms Some s True form match by (simp add: serve_session_def Let_def split: prod.splits)
        moreover have "authorised_post env now rq (mg_db m)"
          using authenticate_Some [OF Some] s True form match by (cases forms) (auto simp: authorised_post_def)
        ultimately show ?thesis by (intro disjI2 conjI exI [of _ ?c]) simp_all
      next
        case False
        with assms Some s True form show ?thesis by (simp add: serve_session_def Let_def split: prod.splits)
      qed
    qed
  qed
qed (use assms in \<open>simp add: serve_session_def\<close>)

text \<open>The tables of the login: its attempts and the sessions.\<close>

definition login_tables_only :: "db \<Rightarrow> db \<Rightarrow> bool" where
  "login_tables_only d d' \<longleftrightarrow>
     d' = d\<lparr>admin_login_windows := admin_login_windows d', admin_sessions := admin_sessions d'\<rparr>"

lemma login_tables_only_refl [simp]: "login_tables_only d d"
  by (simp add: login_tables_only_def)

lemma login_tables_only_trans: "login_tables_only d d1 \<Longrightarrow> login_tables_only d1 d2 \<Longrightarrow> login_tables_only d d2"
  by (cases d; cases d1; cases d2) (simp add: login_tables_only_def)

lemma session_calls_tables:
  "login_tables_only d (snd (store_call fault (CreateAdminSession h csrf e now) d))"
  "login_tables_only d (snd (store_call fault (DeleteAdminSession h) d))"
  "login_tables_only d (snd (store_call fault (RecordAdminLoginAttempt now l) d))"
  by (auto simp: db_call_def login_tables_only_def CreateAdminSession_def DeleteAdminSession_def
      RecordAdminLoginAttempt_def Let_def split: option.split)

lemma open_session_cases:
  "open_session cfg fault random next now d = (r, d') \<Longrightarrow>
     (ah_status r \<noteq> 303 \<and> d' = d) \<or>
     (\<exists>token csrf. randomToken (fst random) = Some token \<and> randomToken (snd random) = Some csrf \<and>
        CreateAdminSession (sha256 token) csrf (now + ad_SessionLifetime cfg) now d = (Inr (), d') \<and>
        ah_status r = 303 \<and>
        ah_cookies r = [\<lparr>ck_name = sessionCookie, ck_value = token, ck_path = ''/admin'',
          ck_max_age = ad_SessionLifetime cfg div second, ck_secure = ad_SecureCookie cfg, ck_http_only = True,
          ck_same_site_strict = True\<rparr>])"
  by (auto simp: open_session_def renderError_def render_def respond_def setSessionCookie_def redirect_def db_call_def
      CreateAdminSession_def split: option.splits if_splits)

text \<open>A login either only counts the attempt, or goes all the way.\<close>

lemma login_form_cases:
  assumes "login_form cfg idkey fault random cancelled now form next d = (r, d')"
  shows "(ah_status r \<noteq> 303 \<and> d' = snd (store_call (fault 0) (RecordAdminLoginAttempt now 10) d)) \<or>
    (\<exists>d1. RecordAdminLoginAttempt now 10 d = (Inr (), d1) \<and> credentials_match cfg idkey form \<and>
       open_session cfg (fault 1) random next now d1 = (r, d') \<and> ah_status r = 303)"
proof -
  obtain x d1 where attempt: "store_call (fault 0) (RecordAdminLoginAttempt now 10) d = (x, d1)" by fastforce
  show ?thesis
  proof (cases x)
    case (Inl e)
    with assms attempt show ?thesis
      by (cases e) (auto simp: login_form_def render_def respond_def)
  next
    case (Inr u)
    with attempt have granted: "RecordAdminLoginAttempt now 10 d = (Inr (), d1)" by (auto simp: db_call_def split: if_splits)
    show ?thesis
    proof (cases "cancelled \<or> \<not> credentials_match cfg idkey form")
      case True
      with assms attempt Inr show ?thesis by (auto simp: login_form_def render_def respond_def split: if_splits)
    next
      case False
      with assms attempt Inr have "open_session cfg (fault 1) random next now d1 = (r, d')" by (simp add: login_form_def)
      with open_session_cases [OF this] granted False attempt show ?thesis by auto
    qed
  qed
qed

lemma login_tables:
  assumes "login cfg wb idkey fault random cancelled now rq d = (r, d')"
  shows "login_tables_only d d' \<and> (d' \<noteq> d \<longrightarrow> aq_method rq = ''POST'')"
proof (cases "\<exists>form next. aq_method rq = ''POST'' \<and> login_form cfg idkey fault random cancelled now form next d = (r, d')")
  case True
  then obtain form "next" where post: "aq_method rq = ''POST''" and
    run: "login_form cfg idkey fault random cancelled now form next d = (r, d')" by blast
  from login_form_cases [OF run] consider (counted) "d' = snd (store_call (fault 0) (RecordAdminLoginAttempt now 10) d)"
    | (opened) d1 where "RecordAdminLoginAttempt now 10 d = (Inr (), d1)" "open_session cfg (fault 1) random next now d1 = (r, d')"
    by blast
  then have "login_tables_only d d'"
  proof cases
    case opened
    have "login_tables_only d d1" using session_calls_tables(3) [of d False now 10] opened(1) by simp
    moreover have "login_tables_only d1 d'"
      using open_session_cases [OF opened(2)] session_calls_tables(1) [of d1 False] by (auto, metis db_call_ok snd_conv)
    ultimately show ?thesis by (rule login_tables_only_trans)
  qed (simp add: session_calls_tables)
  with post show ?thesis by simp
next
  case False
  with assms have "d' = d" by (auto simp: login_def split: if_splits option.splits)
  then show ?thesis by simp
qed

lemma oidcLogin_tables:
  assumes "oidcLogin cfg wb pr fault random verifier now rq (att, d) = (r, att', d')"
  shows "login_tables_only d d' \<and> admin_sessions d' = admin_sessions d"
proof -
  have attempt: "admin_sessions (snd (store_call (fault 0) (RecordAdminLoginAttempt now 10) d)) = admin_sessions d"
    by (auto simp: db_call_def RecordAdminLoginAttempt_def Let_def split: option.split)
  show ?thesis
    using assms attempt session_calls_tables(3) [of d "fault 0" now 10]
    by (auto simp: oidcLogin_def Let_def split: if_splits option.splits prod.splits sum.splits)
qed

lemma rotate_session_tables:
  assumes "rotate_session cfg fault old token csrf now d = (ok, d')"
  shows "login_tables_only d d'"
proof -
  obtain x d1 where create: "store_call (fault 0) (CreateAdminSession (sha256 token) csrf (now + ad_SessionLifetime cfg) now) d = (x, d1)"
    by fastforce
  obtain y d2 where old: "store_call (fault 1) (DeleteAdminSession old) d1 = (y, d2)" by fastforce
  have 1: "login_tables_only d d1" using session_calls_tables(1) create by (metis snd_conv)
  have 2: "login_tables_only d1 d2" using session_calls_tables(2) old by (metis snd_conv)
  have 3: "login_tables_only d2 (snd (store_call (fault 2) (DeleteAdminSession (sha256 token)) d2))"
    by (rule session_calls_tables)
  have "d' = d1 \<or> d' = d2 \<or> d' = snd (store_call (fault 2) (DeleteAdminSession (sha256 token)) d2)"
    using assms create old by (auto simp: rotate_session_def split: sum.splits if_splits)
  then show ?thesis using 1 2 3 login_tables_only_trans by metis
qed

text \<open>What a callback did when it changed the sessions.\<close>

definition confirmed_callback ::
  "admin_config \<Rightarrow> web \<Rightarrow> oidc_provider \<Rightarrow> instant \<Rightarrow> admin_request \<Rightarrow> attempts \<Rightarrow> attempts \<Rightarrow> bool" where
  "confirmed_callback cfg wb pr now rq att att' \<longleftrightarrow>
     (\<exists>oc state code cookie a. ad_OIDC cfg = Some oc \<and> validHost wb oc rq \<and>
        callback_parameters wb rq = Some (state, code, []) \<and> aq_oidc_cookie rq = Some cookie \<and>
        map_of att (sha256 state) = Some a \<and> oa_binding a = sha256 cookie \<and> now < oa_expires a \<and>
        identity_confirmed oc pr a code \<and> map_of att' (sha256 state) = None)"

lemma oidcCallback_cases:
  assumes "oidcCallback cfg wb pr fault random now rq (att, d) = (r, att', d')"
  shows "d' = d \<or> (login_tables_only d d' \<and> aq_method rq = ''GET'' \<and> confirmed_callback cfg wb pr now rq att att')"
proof (cases "d' = d")
  case False
  with assms obtain oc state code cookie a token csrf ok where
      "ad_OIDC cfg = Some oc" "validHost wb oc rq" "aq_method rq = ''GET''"
      "callback_parameters wb rq = Some (state, code, [])" "aq_oidc_cookie rq = Some cookie"
      "take_attempt state cookie att = (Some a, att')" "now < oa_expires a" "identity_confirmed oc pr a code"
      "rotate_session cfg fault (oa_oldSession a) token csrf now d = (ok, d')"
    by (simp add: oidcCallback_def Let_def split: if_splits option.splits prod.splits bool.splits)
  moreover from this(6) have "map_of att (sha256 state) = Some a" "oa_binding a = sha256 cookie"
      "map_of att' (sha256 state) = None"
    by (auto simp: take_attempt_def delete_conv split: option.splits if_splits)
  ultimately show ?thesis
    using rotate_session_tables by (simp add: confirmed_callback_def)
qed simp

text \<open>
  C19. Nothing changes without authority. A request to the administration changes the snapshot, or any table
  but those of the login, only as a POST with the cookie of a live session and that session's CSRF token. The
  login tables change otherwise only through a login POST, the start of an OpenID login, or its callback.
\<close>

theorem admin_changes_authorised:
  assumes "ServeAdmin env fault random verifier cancelled now rq (att, m) = (r, att', m')" and "m' \<noteq> m"
  shows "authorised_post env now rq (mg_db m) \<or>
    (mg_state m' = mg_state m \<and> login_tables_only (mg_db m) (mg_db m') \<and>
     (aq_path rq = ''/admin/login'' \<and> aq_method rq = ''POST'' \<or>
      aq_path rq = ''/auth/oidc/login'' \<and> admin_sessions (mg_db m') = admin_sessions (mg_db m) \<or>
      aq_path rq = ''/auth/oidc/callback'' \<and>
        confirmed_callback (ae_config env) (ae_web env) (ae_provider env) now rq att att'))"
proof -
  have same: "mg_db m' = mg_db m \<Longrightarrow> mg_state m' = mg_state m \<Longrightarrow> False" using assms(2) by simp
  consider (start) "aq_path rq = ''/auth/oidc/login''" | (callback) "aq_path rq = ''/auth/oidc/callback''"
    | (login) "aq_path rq = ''/admin/login''"
    | (page) r0 where "serve_session env fault random now rq m = (r0, m')"
    using assms by (auto simp: ServeAdmin_def Let_def split: if_splits prod.splits)
  then show ?thesis
  proof cases
    case start
    obtain r0 att0 d0 where run: "oidcLogin (ae_config env) (ae_web env) (ae_provider env) fault random verifier now rq
        (att, mg_db m) = (r0, att0, d0)"
      by (rule prod_cases3)
    with assms(1) start have "m' = m\<lparr>mg_db := d0\<rparr>" by (simp add: ServeAdmin_def Let_def)
    with oidcLogin_tables [OF run] start show ?thesis by simp
  next
    case callback
    obtain r0 att0 d0 where run: "oidcCallback (ae_config env) (ae_web env) (ae_provider env) fault random now rq
        (att, mg_db m) = (r0, att0, d0)"
      by (rule prod_cases3)
    with assms(1) callback have "m' = m\<lparr>mg_db := d0\<rparr>" "att' = att0" by (simp_all add: ServeAdmin_def Let_def)
    with oidcCallback_cases [OF run] callback same show ?thesis by auto
  next
    case login
    obtain r0 d0 where run: "login (ae_config env) (ae_web env) (ae_idkey env) fault (random 0, random 1) cancelled now rq
        (mg_db m) = (r0, d0)"
      by fastforce
    with assms(1) login have "m' = m\<lparr>mg_db := d0\<rparr>" by (simp add: ServeAdmin_def Let_def)
    with login_tables [OF run] login same show ?thesis by auto
  next
    case page
    with serve_session_cases assms(2) show ?thesis by blast
  qed
qed

section \<open>Sessions come from a login\<close>

lemma serve_call [simp]:
  "\<forall>d. admin_sessions (snd (wop d)) = admin_sessions d \<Longrightarrow>
     admin_sessions (snd (store_call fault wop d)) = admin_sessions d"
  by (simp add: db_call_def)

lemma write_reload_sessions:
  assumes "\<forall>d. admin_sessions (snd (wop d)) = admin_sessions d"
  shows "admin_sessions (mg_db (snd (write_reload env fault x wop m))) = admin_sessions (mg_db m)"
proof (cases "write_reload env fault x wop m")
  case (Pair r m')
  show ?thesis
  proof (cases r)
    case (Inl e)
    with write_reload_failure [of env fault x wop m e m'] Pair assms show ?thesis by auto
  next
    case (Inr y)
    with write_reload_success [of env fault x wop m y m'] Pair assms show ?thesis by auto (metis snd_conv)
  qed
qed

lemma table_write_sessions:
  "admin_sessions (snd (UpsertClient c now d)) = admin_sessions d"
  "admin_sessions (snd (DeleteClient i d)) = admin_sessions d"
  "admin_sessions (snd (UpsertIngressToken k now d)) = admin_sessions d"
  "admin_sessions (snd (DeleteIngressToken i d)) = admin_sessions d"
  "admin_sessions (snd (UpsertChannel ch now d)) = admin_sessions d"
  "admin_sessions (snd (DeleteChannel i d)) = admin_sessions d"
  "admin_sessions (snd (ReplaceRoute rt sv cs now d)) = admin_sessions d"
  "admin_sessions (snd (DeleteRoute rt sv d)) = admin_sessions d"
  "admin_sessions (snd (CreateSilence i' s now d)) = admin_sessions d"
  "admin_sessions (snd (DeleteSilence i d)) = admin_sessions d"
  "admin_sessions (snd (RetryDeadDelivery i now d)) = admin_sessions d"
  "admin_sessions (snd (RevokeAllOAuth d)) = admin_sessions d"
  by (auto simp: UpsertClient_def DeleteClient_def UpsertIngressToken_def DeleteIngressToken_def UpsertChannel_def
      DeleteChannel_def ReplaceRoute_def DeleteRoute_def CreateSilence_def DeleteSilence_def RetryDeadDelivery_def
      RevokeAllOAuth_def delete_grants_def Let_def split: option.split)

lemma accept_sessions: "admin_sessions (snd (AcceptEvent ids p d)) = admin_sessions d"
proof (cases "AcceptEvent ids p d")
  case (Pair r d')
  from AcceptEvent_frame [OF this] have "admin_sessions (d'\<lparr>events := events d, deliveries := deliveries d,
      event_deliveries := event_deliveries d, incidents := incidents d\<rparr>) = admin_sessions d" by simp
  then show ?thesis using Pair by simp
qed

named_theorems session_frames \<open>operations that leave the sessions alone\<close>

lemma gateway_sessions [session_frames]:
  "admin_sessions (mg_db (snd (CreateClient env fault b now i en rts lim m))) = admin_sessions (mg_db m)"
  "admin_sessions (mg_db (snd (UpdateClient env fault now i en rts lim m))) = admin_sessions (mg_db m)"
  "admin_sessions (mg_db (snd (RotateClientSecret env fault b now i m))) = admin_sessions (mg_db m)"
  "admin_sessions (mg_db (snd (RemoveClient env fault i m))) = admin_sessions (mg_db m)"
  "admin_sessions (mg_db (snd (CreateIngressToken env fault bs now i en rt sv lim m))) = admin_sessions (mg_db m)"
  "admin_sessions (mg_db (snd (UpdateIngressToken env fault now i en rt sv lim m))) = admin_sessions (mg_db m)"
  "admin_sessions (mg_db (snd (RotateIngressToken env fault bs now i m))) = admin_sessions (mg_db m)"
  "admin_sessions (mg_db (snd (RemoveIngressToken env fault i m))) = admin_sessions (mg_db m)"
  "admin_sessions (mg_db (snd (SaveChannel env fault now input m))) = admin_sessions (mg_db m)"
  "admin_sessions (mg_db (snd (RemoveChannel env fault i m))) = admin_sessions (mg_db m)"
  "admin_sessions (mg_db (snd (SetRoute env fault now rt sv cs m))) = admin_sessions (mg_db m)"
  "admin_sessions (mg_db (snd (RemoveRoute env fault rt sv m))) = admin_sessions (mg_db m)"
  "admin_sessions (mg_db (snd (AddSilence env fault newID now rt sv starts ends reason m))) = admin_sessions (mg_db m)"
  "admin_sessions (mg_db (snd (RemoveSilence env fault i m))) = admin_sessions (mg_db m)"
  by (auto simp: CreateClient_def UpdateClient_def RotateClientSecret_def RemoveClient_def CreateIngressToken_def
      UpdateIngressToken_def RotateIngressToken_def RemoveIngressToken_def SaveChannel_def RemoveChannel_def SetRoute_def
      RemoveRoute_def AddSilence_def RemoveSilence_def Let_def table_write_sessions write_reload_sessions
      split: option.split sum.split)

lemma channel_test_sessions [session_frames]:
  "admin_sessions (mg_db (snd (QueueChannelTest fault ids now i m))) = admin_sessions (mg_db m)"
proof -
  have "admin_sessions (snd (store_call fault (AcceptEvent ids p) (mg_db m))) = admin_sessions (mg_db m)" for p
    by (simp add: accept_sessions)
  then show ?thesis
    unfolding QueueChannelTest_def by (simp split: prod.split sum.split) (metis snd_conv)
qed

lemma finish_db [simp]: "mg_db (snd (finish path answer res)) = mg_db (snd res)"
  by (simp add: finish_def split: prod.split sum.split)

lemma only_db: "(P (snd (h env c m)) \<and> P m) \<Longrightarrow> P (snd (only method h env c m))"
  by (simp add: only_def)

lemma with_db_sessions:
  assumes "admin_sessions (snd (wop d)) = admin_sessions d"
  shows "admin_sessions (mg_db (snd (case store_call fault wop d of (Inl e, d') \<Rightarrow> (a e, m\<lparr>mg_db := d'\<rparr>)
     | (Inr y, d') \<Rightarrow> (b y, m\<lparr>mg_db := d'\<rparr>)))) = admin_sessions d"
  using assms by (auto simp: db_call_def split: prod.split sum.split)

definition sessions_within :: "manager \<Rightarrow> manager \<Rightarrow> bool" where
  "sessions_within m m' \<longleftrightarrow> set (admin_sessions (mg_db m')) \<subseteq> set (admin_sessions (mg_db m))"

lemma sessions_within_same: "admin_sessions (mg_db m') = admin_sessions (mg_db m) \<Longrightarrow> sessions_within m m'"
  by (simp add: sessions_within_def)

lemma serve_page_sessions: "sessions_within m (snd (serve_page path env c m))"
proof (rule serve_page_rule [where P = "\<lambda>h. sessions_within m (snd (h env c m))"])
  note same = sessions_within_same [OF refl, of m]
  have "sessions_within m (snd (logout_page env c m))"
    by (auto simp: sessions_within_def logout_page_def logout_def db_call_def DeleteAdminSession_def delete_rows_def
        split: option.split)
  then show "list_all (\<lambda>h. sessions_within m (snd (h env c m))) (map snd pages)"
    by (simp add: pages_def same)
      (intro conjI sessions_within_same;
       simp add: page_defs only_def Let_def session_frames with_db_sessions table_write_sessions
         split: option.split prod.split)
qed (simp add: sessions_within_def unknown_page_def)

lemma created_sessions:
  assumes "CreateAdminSession h csrf e now d = (x, d')" and "s \<in> set (admin_sessions d')" and "s \<notin> set (admin_sessions d)"
  shows "x = Inr () \<and> s = \<lparr>se_hash = h, se_csrf = csrf, se_expires = unix_milli e, se_created = unix_milli now\<rparr>"
  using assms by (auto simp: CreateAdminSession_def insert_row_Some delete_rows_def split: option.splits)

definition password_login ::
  "admin_config \<Rightarrow> web \<Rightarrow> idkey \<Rightarrow> instant \<Rightarrow> admin_request \<Rightarrow> db \<Rightarrow> bool" where
  "password_login cfg wb idkey now rq d \<longleftrightarrow>
     aq_method rq = ''POST'' \<and> map_option oc_PasswordFallback (ad_OIDC cfg) \<noteq> Some False \<and>
     fst (RecordAdminLoginAttempt now 10 d) = Inr () \<and>
     (\<exists>form post. parseForm wb rq = Some (form, post) \<and> credentials_match cfg idkey form)"

lemma login_attempt_sessions: "admin_sessions (snd (store_call fault (RecordAdminLoginAttempt now l) d)) = admin_sessions d"
  by (auto simp: db_call_def RecordAdminLoginAttempt_def Let_def split: option.split)

lemma login_success:
  assumes "login cfg wb idkey fault random cancelled now rq d = (r, d')"
    and "admin_sessions d' \<noteq> admin_sessions d \<or> ah_status r = 303"
  obtains d1 "next" where "password_login cfg wb idkey now rq d" "RecordAdminLoginAttempt now 10 d = (Inr (), d1)"
    "open_session cfg (fault 1) random next now d1 = (r, d')" "ah_status r = 303"
proof -
  have "\<exists>form post next. aq_method rq = ''POST'' \<and> map_option oc_PasswordFallback (ad_OIDC cfg) \<noteq> Some False \<and>
      parseForm wb rq = Some (form, post) \<and> login_form cfg idkey fault random cancelled now form next d = (r, d')"
    using assms by (auto simp: login_def renderError_def render_def respond_def admin_not_allowed_def
        split: if_splits option.splits)
  then obtain form post "next" where form: "aq_method rq = ''POST''" "map_option oc_PasswordFallback (ad_OIDC cfg) \<noteq> Some False"
      "parseForm wb rq = Some (form, post)" and run: "login_form cfg idkey fault random cancelled now form next d = (r, d')"
    by blast
  from login_form_cases [OF run] show ?thesis
    using assms(2) form that login_attempt_sessions [of "fault 0" now 10 d] by (auto simp: password_login_def)
qed

lemma rotated_sessions:
  assumes "rotate_session cfg fault old token csrf now d = (ok, d')"
    and "s \<in> set (admin_sessions d')" and "s \<notin> set (admin_sessions d)"
  shows "se_expires s = unix_milli (now + ad_SessionLifetime cfg) \<and> se_hash s = sha256 token \<and> se_csrf s = csrf"
proof -
  obtain x d1 where create: "store_call (fault 0) (CreateAdminSession (sha256 token) csrf (now + ad_SessionLifetime cfg) now) d = (x, d1)"
    by fastforce
  have "set (admin_sessions d') \<subseteq> set (admin_sessions d1)"
    using assms(1) create
    by (auto simp: rotate_session_def db_call_def DeleteAdminSession_def delete_rows_def split: sum.splits if_splits)
  with assms(2) have s: "s \<in> set (admin_sessions d1)" by blast
  with assms(3) have "d1 \<noteq> d" by blast
  with create have "CreateAdminSession (sha256 token) csrf (now + ad_SessionLifetime cfg) now d = (x, d1)"
    by (auto simp: db_call_def split: if_splits)
  from created_sessions [OF this s assms(3)] show ?thesis by simp
qed

lemma oidcCallback_sessions:
  assumes "oidcCallback cfg wb pr fault random now rq (att, d) = (r, att', d')"
    and "s \<in> set (admin_sessions d')" and "s \<notin> set (admin_sessions d)"
  shows "se_expires s = unix_milli (now + ad_SessionLifetime cfg)"
proof -
  have "d' \<noteq> d" using assms by auto
  with assms(1) obtain old token csrf ok where "rotate_session cfg fault old token csrf now d = (ok, d')"
    by (simp add: oidcCallback_def Let_def split: if_splits option.splits prod.splits bool.splits)
  from rotated_sessions [OF this assms(2,3)] show ?thesis by simp
qed

text \<open>
  C20. Every session comes from a login. A request that leaves a session behind that was not there before is
  either a POST to the login page, counted within the ten attempts of the minute, with the administrator's
  name and password while passwords are allowed; or a callback whose code the provider confirms as the
  configured administrator for a pending attempt of the same browser, which is then used up. The session
  ends after the configured lifetime.
\<close>

theorem session_needs_login:
  assumes "ServeAdmin env fault random verifier cancelled now rq (att, m) = (r, att', m')"
    and new: "s \<in> set (admin_sessions (mg_db m'))" "s \<notin> set (admin_sessions (mg_db m))"
  shows "se_expires s = unix_milli (now + ad_SessionLifetime (ae_config env)) \<and>
    (aq_path rq = ''/admin/login'' \<and> password_login (ae_config env) (ae_web env) (ae_idkey env) now rq (mg_db m) \<or>
     aq_path rq = ''/auth/oidc/callback'' \<and>
       confirmed_callback (ae_config env) (ae_web env) (ae_provider env) now rq att att')"
proof -
  consider (start) "aq_path rq = ''/auth/oidc/login''" | (callback) "aq_path rq = ''/auth/oidc/callback''"
    | (login) "aq_path rq = ''/admin/login''"
    | (page) r0 where "serve_session env fault random now rq m = (r0, m')"
    using assms by (auto simp: ServeAdmin_def Let_def split: if_splits prod.splits)
  then show ?thesis
  proof cases
    case start
    obtain r0 att0 d0 where run: "oidcLogin (ae_config env) (ae_web env) (ae_provider env) fault random verifier now rq
        (att, mg_db m) = (r0, att0, d0)"
      by (rule prod_cases3)
    with assms(1) start have "mg_db m' = d0" by (auto simp: ServeAdmin_def Let_def)
    with oidcLogin_tables [OF run] new show ?thesis by simp
  next
    case callback
    obtain r0 att0 d0 where run: "oidcCallback (ae_config env) (ae_web env) (ae_provider env) fault random now rq
        (att, mg_db m) = (r0, att0, d0)"
      by (rule prod_cases3)
    with assms(1) callback have "mg_db m' = d0" "att' = att0" by (auto simp: ServeAdmin_def Let_def)
    with oidcCallback_cases [OF run] oidcCallback_sessions [OF run] callback new show ?thesis by auto
  next
    case login
    obtain r0 d0 where run: "login (ae_config env) (ae_web env) (ae_idkey env) fault (random 0, random 1) cancelled now rq
        (mg_db m) = (r0, d0)"
      by fastforce
    with assms(1) login have d0: "mg_db m' = d0" by (auto simp: ServeAdmin_def Let_def)
    with new have "admin_sessions d0 \<noteq> admin_sessions (mg_db m)" by auto
    with login_success [OF run] obtain d1 "next" where
      ok: "password_login (ae_config env) (ae_web env) (ae_idkey env) now rq (mg_db m)"
      and d1: "RecordAdminLoginAttempt now 10 (mg_db m) = (Inr (), d1)"
      and run1: "open_session (ae_config env) (fault 1) (random 0, random 1) next now d1 = (r0, d0)"
      by blast
    have old: "admin_sessions d1 = admin_sessions (mg_db m)"
      using login_attempt_sessions [of False now 10 "mg_db m"] d1 by simp
    with open_session_cases [OF run1] new d0 obtain token csrf where
      "CreateAdminSession (sha256 token) csrf (now + ad_SessionLifetime (ae_config env)) now d1 = (Inr (), d0)"
      by auto
    from created_sessions [OF this, of s] new d0 old ok login show ?thesis by auto
  next
    case page
    with serve_session_cases [OF page] obtain c where "m' = snd (serve_page (aq_path rq) env c m)"
      using new by (auto, metis snd_conv)
    with serve_page_sessions [of m "aq_path rq" env c] new show ?thesis by (auto simp: sessions_within_def)
  qed
qed

text \<open>
  C21. A login opens a session that ends when it should. When the login page sends the browser on, the cookie it
  sets is accepted for the configured lifetime and not after it, and a logout with that cookie ends it at once.
\<close>

theorem login_opens_session:
  assumes "login cfg wb idkey fault (Some buffer, csrf_buffer) cancelled now rq d = (r, d')" and "ah_status r = 303"
    and "length buffer = 32" and "map ck_value (ah_cookies r) = [v]" and "aq_cookie rq' = Some v"
  shows "(authenticate False later rq' d' \<noteq> None) = (unix_milli later \<le> unix_milli (now + ad_SessionLifetime cfg)) \<and>
    (aq_method rq' = ''POST'' \<longrightarrow> authenticate False later rq' (snd (logout cfg False rq' d')) = None)"
proof -
  from login_success [OF assms(1)] assms(2) obtain d1 "next" where
    run: "open_session cfg (fault 1) (Some buffer, csrf_buffer) next now d1 = (r, d')" by blast
  from open_session_cases [OF run] assms(2,4) obtain csrf where v: "v = rawURLEncode buffer" and
    create: "CreateAdminSession (sha256 v) csrf (now + ad_SessionLifetime cfg) now d1 = (Inr (), d')"
    by (auto simp: randomToken_def)
  have long: "32 \<le> length v" using assms(3) by (simp add: v length_raw)
  from session_lifetime [OF create, of later] show ?thesis
    using long assms(5) by (simp add: authenticate_def logout_def)
qed

section \<open>Silences are read in the zone of the process\<close>

lemma AddSilence_new:
  assumes "AddSilence env fault newID now route severity starts ends reason m = (x, m')"
    and "silences (mg_db m') \<noteq> silences (mg_db m)"
  shows "\<exists>s. silences (mg_db m') = silences (mg_db m) @ [s] \<and> si_starts s = unix_milli starts \<and> si_ends s = unix_milli ends"
proof -
  let ?row = "\<lparr>si_id = [], si_route = route, si_severity = severity, si_starts = unix_milli starts, si_ends = unix_milli ends,
    si_reason = trim_space reason, si_created = 0\<rparr>"
  have run: "write_reload env fault () (CreateSilence newID ?row now) m = (x, m')"
    using assms by (auto simp: AddSilence_def Let_def split: if_splits)
  have new: "silences (snd (CreateSilence newID ?row now (mg_db m))) = silences (mg_db m) \<or>
      (\<exists>s. silences (snd (CreateSilence newID ?row now (mg_db m))) = silences (mg_db m) @ [s] \<and>
         si_starts s = unix_milli starts \<and> si_ends s = unix_milli ends)"
    by (auto simp: CreateSilence_def insert_row_Some split: option.split)
  have "mg_db m' = mg_db m \<or> mg_db m' = snd (CreateSilence newID ?row now (mg_db m))"
  proof (cases x)
    case (Inl e)
    with run have "write_reload env fault () (CreateSilence newID ?row now) m = (Inl e, m')" by simp
    from write_reload_failure [OF this] show ?thesis by blast
  next
    case (Inr u)
    with run have "write_reload env fault () (CreateSilence newID ?row now) m = (Inr u, m')" by simp
    from write_reload_success [OF this] show ?thesis by auto
  qed
  with new assms(2) show ?thesis by auto
qed

text \<open>
  C22. A silence starts where the process's zone puts the text, not where the page's zone does. When the two
  zones are \<open>shift\<close> apart, a silence whose start is the text the page shows for a moment starts \<open>shift\<close> after
  that moment's minute.
\<close>

theorem silence_read_in_process_zone:
  assumes "createSilence env c m = (r, m')" and "silences (mg_db m') \<noteq> silences (mg_db m)"
    and shown: "get_value c ''starts_at'' = wb_format_time (ae_web env) (ad_DisplayZone (ae_config env)) shown"
    and display: "wb_parse_time (ae_web env) (ad_DisplayZone (ae_config env))
        (wb_format_time (ae_web env) (ad_DisplayZone (ae_config env)) shown) = Some (shown - shown mod minute)"
    and zones: "\<forall>text. wb_parse_time (ae_web env) (ad_ProcessZone (ae_config env)) text =
        map_option (\<lambda>t. t + shift) (wb_parse_time (ae_web env) (ad_DisplayZone (ae_config env)) text)"
  shows "\<exists>s. silences (mg_db m') = silences (mg_db m) @ [s] \<and> si_starts s = unix_milli (shown - shown mod minute + shift)"
proof -
  have post: "aq_method (cl_request c) = ''POST''" using assms(1,2) by (auto simp: createSilence_def only_def split: if_splits)
  with assms(1,2) obtain ends where ends: "wb_parse_time (ae_web env) (ad_ProcessZone (ae_config env)) (get_value c ''ends_at'') = Some ends"
    by (auto simp: createSilence_def only_def split: option.splits)
  have start: "wb_parse_time (ae_web env) (ad_ProcessZone (ae_config env)) (get_value c ''starts_at'') = Some (shown - shown mod minute + shift)"
    using display zones by (simp add: shown)
  obtain x m1 where add: "AddSilence (ae_gateway env) (cl_fault c) (cl_random c 0) (cl_now c) (get_value c ''routing_key'')
      (get_value c ''severity'') (shown - shown mod minute + shift) ends (get_value c ''reason'') m = (x, m1)"
    by fastforce
  have "m' = m1"
    using assms(1) post by (auto simp: createSilence_def only_def start ends add finish_def split: sum.splits)
  with AddSilence_new [OF add] assms(2) show ?thesis by auto
qed

section \<open>A day in the administration\<close>

text \<open>
  A host with one administrator, a zone eight hours east of the process's zone, and times written as plain
  numbers. The body of a form is its CSRF token; the credentials are those of the administrator.
\<close>

definition plain_web :: web where
  "plain_web = \<lparr>wb_media_type = (\<lambda>s. Some s),
     wb_query = (\<lambda>s. if s = [] then [] else [(''csrf'', [s]), (''username'', [''root'']), (''password'', [''pw''])]),
     wb_query_ok = (\<lambda>_. True), wb_parse_url = (\<lambda>_. None), wb_url_text = (\<lambda>s. s), wb_split_host_port = (\<lambda>_. None),
     wb_is_ip = (\<lambda>_. False),
     wb_parse_time = (\<lambda>zone s. map_option (\<lambda>t. t - (if zone = ''UTC'' then 0 else 8 * hour)) (parse_int64 s)),
     wb_format_time = (\<lambda>zone t. show_int (t - t mod minute + (if zone = ''UTC'' then 0 else 8 * hour)))\<rparr>"

definition plain_idkey :: idkey where
  "plain_idkey = (\<lambda>password salt t m p n. replicate n CHR ''h'')"

definition plain_admin :: admin_config where
  "plain_admin = \<lparr>ad_OIDC = None, ad_Username = ''root'',
     ad_PasswordHash = encode_hash (replicate 16 CHR ''s'') (replicate 32 CHR ''h''), ad_SessionLifetime = hour,
     ad_SecureCookie = True, ad_DisplayZone = ''Asia/Shanghai'', ad_ProcessZone = ''UTC''\<rparr>"

definition plain_provider :: oidc_provider where
  "plain_provider = \<lparr>op_authorize = (\<lambda>_ _ _. []), op_exchange = (\<lambda>_ _. None), op_verify = (\<lambda>_. None)\<rparr>"

definition plain_admin_env :: admin_env where
  "plain_admin_env = \<lparr>ae_config = plain_admin, ae_gateway = demo_env, ae_web = plain_web, ae_idkey = plain_idkey,
     ae_provider = plain_provider\<rparr>"

definition admin_post :: "string \<Rightarrow> string option \<Rightarrow> admin_request" where
  "admin_post path cookie = \<lparr>aq_method = ''POST'', aq_path = path, aq_raw_query = [],
     aq_content_type = ''application/x-www-form-urlencoded'', aq_cookie = cookie, aq_oidc_cookie = None, aq_host = ''host'',
     aq_tls = True, aq_forwarded_proto = [], aq_body = Some ''token''\<rparr>"

abbreviation demo_cookie :: string where "demo_cookie \<equiv> replicate 40 CHR ''c''"

definition logged_in :: manager where
  "logged_in = \<lparr>mg_state = None, mg_db = empty_db\<lparr>
     admin_sessions := [\<lparr>se_hash = sha256 demo_cookie, se_csrf = ''token'', se_expires = 5000, se_created = 0\<rparr>],
     oauth_codes := [\<lparr>co_hash = ''h'', co_challenge = [], co_redirect = [], co_resource = [], co_policy = [], co_expires = 9\<rparr>]\<rparr>\<rparr>"

lemma demo_form [simp]: "parseForm plain_web (admin_post path cookie) = Some (wb_query plain_web ''token'', wb_query plain_web ''token'')"
  by (simp add: parseForm_def form_type_def plain_web_def admin_post_def merge_values_def values_at_def)

lemma plain_env_simps [simp]:
  "ae_web plain_admin_env = plain_web" "ae_config plain_admin_env = plain_admin" "ae_gateway plain_admin_env = demo_env"
  "ae_idkey plain_admin_env = plain_idkey" "ae_provider plain_admin_env = plain_provider"
  by (simp_all add: plain_admin_env_def)

lemma plain_form_simps [simp]:
  "value_of (wb_query plain_web ''token'') ''csrf'' = ''token''" "value_of (wb_query plain_web ''token'') ''username'' = ''root''"
  "value_of (wb_query plain_web ''token'') ''password'' = ''pw''"
  by (simp_all add: value_of_def plain_web_def)

lemma admin_post_simps [simp]:
  "aq_method (admin_post path cookie) = ''POST''" "aq_path (admin_post path cookie) = path"
  "aq_cookie (admin_post path cookie) = cookie"
  by (simp_all add: admin_post_def)

theorem admin_changes_authorised_witness:
  "authorised_post plain_admin_env 0 (admin_post ''/admin/mcp/revoke'' (Some demo_cookie)) (mg_db logged_in)"
proof -
  let ?rq = "admin_post ''/admin/mcp/revoke'' (Some demo_cookie)"
  let ?m = "logged_in\<lparr>mg_db := (mg_db logged_in)\<lparr>oauth_codes := []\<rparr>\<rparr>"
  have auth: "authenticate False 0 ?rq (mg_db logged_in) = Some (''token'', of_unix_milli 5000)"
    by (simp add: authenticate_def GetAdminSession_def logged_in_def unix_milli_def)
  have page: "serve_page ''/admin/mcp/revoke'' plain_admin_env c logged_in = (redirect ''/admin/guide?ok=mcp-revoked'', ?m)"
    if "aq_method (cl_request c) = ''POST''" "\<not> cl_fault c 0" for c
    using that by (simp add: serve_page_def pages_def mcp_revoke_def only_def RevokeAllOAuth_def delete_grants_def logged_in_def
        delete_rows_def empty_db_def)
  have run: "ServeAdmin plain_admin_env (\<lambda>_. False) (\<lambda>_. None) [] False 0 ?rq ([], logged_in) =
      (adminHeaders (redirect ''/admin/guide?ok=mcp-revoked''), [], ?m)"
    by (simp add: ServeAdmin_def serve_session_def Let_def auth page)
  have "?m \<noteq> logged_in" by (simp add: logged_in_def empty_db_def)
  from admin_changes_authorised [OF run this] show ?thesis by simp
qed

text \<open>A login with the administrator's credentials.\<close>

definition login_rq :: admin_request where
  "login_rq = admin_post ''/admin/login'' None"

definition fresh_buffer :: string where
  "fresh_buffer = replicate 32 CHR ''r''"

lemma plain_credentials: "credentials_match plain_admin plain_idkey (wb_query plain_web ''token'')"
  by (simp add: credentials_match_def VerifyPassword_def plain_admin_def parse_encode plain_idkey_def)

definition first_attempt :: db where
  "first_attempt = snd (RecordAdminLoginAttempt 0 10 empty_db)"

lemma first_attempt_run: "RecordAdminLoginAttempt 0 10 empty_db = (Inr (), first_attempt)" "admin_sessions first_attempt = []"
  by (simp_all add: first_attempt_def RecordAdminLoginAttempt_def Let_def upsert_row_def delete_rows_def empty_db_def)

definition session_at_0 :: "string \<Rightarrow> string \<Rightarrow> session_row" where
  "session_at_0 token csrf = \<lparr>se_hash = sha256 token, se_csrf = csrf, se_expires = unix_milli hour, se_created = 0\<rparr>"

definition after_login :: db where
  "after_login = first_attempt\<lparr>admin_sessions := [session_at_0 (rawURLEncode fresh_buffer) (rawURLEncode fresh_buffer)]\<rparr>"

lemma plain_login:
  "login plain_admin plain_web plain_idkey (\<lambda>_. False) (Some fresh_buffer, Some fresh_buffer) False 0 login_rq empty_db =
     (setSessionCookie plain_admin (rawURLEncode fresh_buffer) (hour div second) (redirect ''/admin/''), after_login)"
proof -
  have no_target: "oauthLoginNext plain_web s = []" for s by (simp add: oauthLoginNext_def plain_web_def)
  have create: "CreateAdminSession (sha256 (rawURLEncode fresh_buffer)) (rawURLEncode fresh_buffer) hour 0 first_attempt = (Inr (), after_login)"
    by (simp add: CreateAdminSession_def first_attempt_run delete_rows_def insert_row_def after_login_def session_at_0_def
        unix_milli_def)
  have cfg: "ad_SessionLifetime plain_admin = hour" "ad_OIDC plain_admin = None" by (simp_all add: plain_admin_def)
  have "open_session plain_admin False (Some fresh_buffer, Some fresh_buffer) [] 0 first_attempt =
      (setSessionCookie plain_admin (rawURLEncode fresh_buffer) (hour div second) (redirect ''/admin/''), after_login)"
    by (simp add: open_session_def randomToken_def cfg create del: One_nat_def)
  then show ?thesis
    by (simp add: login_def login_rq_def login_form_def no_target cfg plain_credentials first_attempt_run)
qed

theorem session_needs_login_witness:
  "password_login plain_admin plain_web plain_idkey 0 login_rq empty_db"
proof -
  let ?m = "\<lparr>mg_state = None, mg_db = empty_db\<rparr>"
  let ?random = "\<lambda>_ :: nat. Some fresh_buffer"
  have path: "aq_path login_rq = ''/admin/login''" by (simp add: login_rq_def)
  obtain r where run: "ServeAdmin plain_admin_env (\<lambda>_. False) ?random [] False 0 login_rq ([], ?m) = (r, [], ?m\<lparr>mg_db := after_login\<rparr>)"
    by (simp add: ServeAdmin_def Let_def path plain_login)
  have "session_at_0 (rawURLEncode fresh_buffer) (rawURLEncode fresh_buffer) \<in> set (admin_sessions (mg_db (?m\<lparr>mg_db := after_login\<rparr>)))"
    "session_at_0 (rawURLEncode fresh_buffer) (rawURLEncode fresh_buffer) \<notin> set (admin_sessions (mg_db ?m))"
    by (simp_all add: after_login_def empty_db_def)
  from session_needs_login [OF run this] show ?thesis by (simp add: path)
qed

theorem login_opens_session_witness:
  "authenticate False 0 (admin_post ''/admin/'' (Some (rawURLEncode fresh_buffer))) after_login \<noteq> None \<and>
   authenticate False (2 * hour) (admin_post ''/admin/'' (Some (rawURLEncode fresh_buffer))) after_login = None"
proof -
  have status: "ah_status (setSessionCookie plain_admin (rawURLEncode fresh_buffer) (hour div second) (redirect ''/admin/'')) = 303"
    "map ck_value (ah_cookies (setSessionCookie plain_admin (rawURLEncode fresh_buffer) (hour div second) (redirect ''/admin/''))) =
       [rawURLEncode fresh_buffer]"
    "length fresh_buffer = 32"
    by (simp_all add: setSessionCookie_def redirect_def respond_def fresh_buffer_def)
  have lifetime: "ad_SessionLifetime plain_admin = hour" by (simp add: plain_admin_def)
  note opened = login_opens_session [OF plain_login status(1) status(3) status(2), of "admin_post ''/admin/'' (Some (rawURLEncode fresh_buffer))"]
  show ?thesis
    using conjunct1 [OF opened [of 0]] conjunct1 [OF opened [of "2 * hour"]]
    by (simp add: lifetime unix_milli_def del: not_None_eq)
qed

text \<open>A silence entered at midnight for the moment the page shows, for two hours.\<close>

definition night_call :: admin_call where
  "night_call = \<lparr>cl_fault = (\<lambda>_. False), cl_random = (\<lambda>_. Some ''id''), cl_now = 0, cl_request = admin_post ''/admin/silences/create'' None,
     cl_form = [(''starts_at'', [show_int (8 * hour)]), (''ends_at'', [show_int (10 * hour)]), (''routing_key'', [''*'']),
                (''severity'', [''*'']), (''reason'', [''r''])], cl_csrf = []\<rparr>"

lemma night_saved:
  "\<exists>r m'. createSilence plain_admin_env night_call start_manager = (r, m') \<and>
     silences (mg_db m') \<noteq> silences (mg_db start_manager)"
proof -
  have checks: "trim_space ''r'' = ''r''" "rune_count ''r'' = 1" by code_simp+
  have post: "aq_method (cl_request night_call) = ''POST''" by (simp add: night_call_def)
  have times: "wb_parse_time plain_web ''UTC'' (show_int (8 * hour)) = Some (8 * hour)"
      "wb_parse_time plain_web ''UTC'' (show_int (10 * hour)) = Some (10 * hour)"
    by (simp_all add: plain_web_def parse_int64_show)
  have form: "get_value night_call ''starts_at'' = show_int (8 * hour)" "get_value night_call ''ends_at'' = show_int (10 * hour)"
      "get_value night_call ''routing_key'' = ''*''" "get_value night_call ''severity'' = ''*''" "get_value night_call ''reason'' = ''r''"
    by (simp_all add: get_value_def value_of_def night_call_def)
  have zone: "ad_ProcessZone plain_admin = ''UTC''" by (simp add: plain_admin_def)
  have call: "cl_fault night_call = no_fault" "cl_random night_call 0 = Some ''id''" "cl_now night_call = 0"
    by (simp_all add: night_call_def no_fault_def)
  have "\<exists>m'. AddSilence demo_env no_fault (Some ''id'') 0 ''*'' ''*'' (8 * hour) (10 * hour) ''r'' start_manager = (Inr (), m') \<and>
      silences (mg_db m') \<noteq> silences (mg_db start_manager)"
    by (simp add: AddSilence_def Let_def checks time_sub_def write_reload_def CreateSilence_def insert_row_def start_manager_def
        empty_loads)
  then show ?thesis
    by (auto simp: createSilence_def only_def post form zone times [simplified] call finish_def)
qed

theorem silence_read_in_process_zone_witness:
  "\<exists>r m' s. createSilence plain_admin_env night_call start_manager = (r, m') \<and>
     silences (mg_db m') = silences (mg_db start_manager) @ [s] \<and> si_starts s = unix_milli (8 * hour)"
proof -
  obtain r m' where run: "createSilence plain_admin_env night_call start_manager = (r, m')"
    "silences (mg_db m') \<noteq> silences (mg_db start_manager)" using night_saved by blast
  have "get_value night_call ''starts_at'' = wb_format_time (ae_web plain_admin_env) (ad_DisplayZone (ae_config plain_admin_env)) 0"
    by (simp add: get_value_def value_of_def night_call_def plain_web_def plain_admin_def)
  moreover have "wb_parse_time (ae_web plain_admin_env) (ad_DisplayZone (ae_config plain_admin_env))
      (wb_format_time (ae_web plain_admin_env) (ad_DisplayZone (ae_config plain_admin_env)) 0) = Some (0 - 0 mod minute)"
    by (simp add: plain_web_def plain_admin_def parse_int64_show)
  moreover have "\<forall>text. wb_parse_time (ae_web plain_admin_env) (ad_ProcessZone (ae_config plain_admin_env)) text =
      map_option (\<lambda>t. t + 8 * hour) (wb_parse_time (ae_web plain_admin_env) (ad_DisplayZone (ae_config plain_admin_env)) text)"
    by (simp add: plain_web_def plain_admin_def option.map_comp comp_def map_option.id)
  ultimately show ?thesis using silence_read_in_process_zone [OF run, of 0 "8 * hour"] run by auto
qed

end
