(* ===== verification/OAuthProps.thy ===== *)
theory OAuthProps
  imports McpOAuth
begin

text \<open>
  What the OAuth endpoints guarantee: a code needs the administrator's consent, a grant needs a code with the
  verifier of its challenge or a live refresh token, and the flow completes for the client that started it.
\<close>

section \<open>What one call can change\<close>

lemma rate_limit_oauth:
  "oauth_codes (snd (store_call fault (RecordRateLimit key now l) d)) = oauth_codes d"
  "oauth_grants (snd (store_call fault (RecordRateLimit key now l) d)) = oauth_grants d"
  by (auto simp: db_call_def RecordRateLimit_def recordRateWindow_def Let_def split: option.split prod.split)

lemma save_code_changes:
  assumes "store_call fault (SaveOAuthCode hash challenge callback resource policy now) d = (x, d')"
  shows "(\<forall>c\<in>set (oauth_codes d'). c \<notin> set (oauth_codes d) \<longrightarrow> x = Inr () \<and>
      c = \<lparr>co_hash = hash, co_challenge = challenge, co_redirect = callback, co_resource = resource, co_policy = policy,
           co_expires = unix_milli (now + 5 * minute)\<rparr>) \<and>
    set (oauth_grants d') \<subseteq> set (oauth_grants d)"
  using assms by (auto simp: db_call_def SaveOAuthCode_def Let_def insert_row_Some delete_rows_def split: if_splits option.splits)

lemma revoke_changes:
  "set (oauth_codes (snd (store_call fault (RevokeOAuthToken h) d))) \<subseteq> set (oauth_codes d)"
  "set (oauth_grants (snd (store_call fault (RevokeOAuthToken h) d))) \<subseteq> set (oauth_grants d)"
  by (auto simp: db_call_def RevokeOAuthToken_def delete_rows_def)

lemma exchange_changes:
  assumes "store_call fault (ExchangeOAuthCode hash challenge callback resource policy i access refresh now) d = (x, d')"
  shows "set (oauth_codes d') \<subseteq> set (oauth_codes d) \<and>
    (\<forall>g\<in>set (oauth_grants d'). g \<notin> set (oauth_grants d) \<longrightarrow>
       (\<exists>c\<in>set (oauth_codes d). c \<notin> set (oauth_codes d') \<and> co_hash c = hash \<and> co_challenge c = challenge \<and>
          co_redirect c = callback \<and> co_resource c = resource \<and> co_policy c = policy \<and> unix_milli now < co_expires c))"
proof (cases "d' = d")
  case False
  let ?usable = "\<lambda>c. co_hash c = hash \<and> co_challenge c = challenge \<and> co_redirect c = callback \<and> co_resource c = resource \<and>
    co_policy c = policy \<and> unix_milli now < co_expires c"
  from False assms have one: "count_rows ?usable (oauth_codes d) = 1" and d': "oauth_codes d' = delete_rows ?usable (oauth_codes d)"
    by (auto simp: db_call_def ExchangeOAuthCode_def Let_def split: if_splits)
  from one obtain c where "c \<in> set (oauth_codes d)" "?usable c" using count_rows_zero [of ?usable "oauth_codes d"] by auto
  with d' show ?thesis by (auto simp: delete_rows_def)
qed simp

lemma rotate_changes:
  assumes "store_call fault (RotateOAuthRefresh old policy access refresh now) d = (x, d')"
  shows "oauth_codes d' = oauth_codes d \<and>
    (\<forall>g\<in>set (oauth_grants d'). g \<notin> set (oauth_grants d) \<longrightarrow>
       (\<exists>g0\<in>set (oauth_grants d). gr_id g0 = gr_id g \<and> gr_refresh g0 = old \<and> gr_policy g0 = policy \<and> unix_milli now < gr_expires g0))"
  using assms
  by (auto simp: db_call_def RotateOAuthRefresh_def update_rows_def delete_rows_def Let_def
      split: if_splits option.splits dest!: query_row_SomeD) blast

definition consented ::
  "oauth_server \<Rightarrow> web \<Rightarrow> (oauth_request \<Rightarrow> db \<Rightarrow> string option) \<Rightarrow> instant \<Rightarrow> oauth_request \<Rightarrow> db \<Rightarrow> code_row \<Rightarrow> bool" where
  "consented srv wb session now rq d c \<longleftrightarrow>
     aq_path rq = ''/admin/mcp/authorize'' \<and> aq_method rq = ''POST'' \<and>
     authorize_request_ok srv (wb_query wb (aq_raw_query rq)) \<and>
     (\<exists>csrf form. session rq d = Some csrf \<and> post_form wb 4096 rq = Some form \<and> value_of form ''csrf'' = csrf \<and>
        value_of form ''decision'' = ''allow'') \<and>
     co_challenge c = value_of (wb_query wb (aq_raw_query rq)) ''code_challenge'' \<and> co_redirect c = ou_redirect srv \<and>
     co_resource c = ou_resource srv \<and> co_policy c = ou_policy srv \<and> co_expires c = unix_milli (now + 5 * minute)"

definition earned :: "oauth_server \<Rightarrow> web \<Rightarrow> instant \<Rightarrow> oauth_request \<Rightarrow> db \<Rightarrow> db \<Rightarrow> grant_row \<Rightarrow> bool" where
  "earned srv wb now rq d d' g \<longleftrightarrow>
     aq_path rq = ''/oauth/token'' \<and> aq_method rq = ''POST'' \<and>
     (\<exists>p. post_form wb 8192 rq = Some p \<and>
       ((\<exists>c\<in>set (oauth_codes d). c \<notin> set (oauth_codes d') \<and> co_hash c = tokenHash (value_of p ''code'') \<and>
           co_challenge c = s256_challenge (value_of p ''code_verifier'') \<and> co_redirect c = ou_redirect srv \<and>
           co_resource c = ou_resource srv \<and> co_policy c = ou_policy srv \<and> unix_milli now < co_expires c) \<or>
        (\<exists>g0\<in>set (oauth_grants d). gr_id g0 = gr_id g \<and> gr_refresh g0 = tokenHash (value_of p ''refresh_token'') \<and>
           gr_policy g0 = ou_policy srv \<and> unix_milli now < gr_expires g0)))"

lemma authorize_changes:
  assumes "authorize srv wb session fault random now rq d = (r, d')" and "aq_path rq = ''/admin/mcp/authorize''"
  shows "(\<forall>c\<in>set (oauth_codes d'). c \<notin> set (oauth_codes d) \<longrightarrow> consented srv wb session now rq d c) \<and>
    set (oauth_grants d') \<subseteq> set (oauth_grants d)"
proof (cases "\<exists>csrf form. session rq d = Some csrf \<and> post_form wb 4096 rq = Some form \<and> value_of form ''csrf'' = csrf \<and>
    authorize_request_ok srv (wb_query wb (aq_raw_query rq)) \<and> aq_method rq = ''POST'' \<and>
    authorize_decision srv fault random now (wb_query wb (aq_raw_query rq)) form d = (r, d')")
  case True
  then obtain csrf form where ok: "session rq d = Some csrf" "post_form wb 4096 rq = Some form" "value_of form ''csrf'' = csrf"
      "authorize_request_ok srv (wb_query wb (aq_raw_query rq))" "aq_method rq = ''POST''"
    and run: "authorize_decision srv fault random now (wb_query wb (aq_raw_query rq)) form d = (r, d')" by blast
  show ?thesis
  proof (cases "d' = d")
    case False
    with run obtain code x where allow: "value_of form ''decision'' = ''allow''" and save: "store_call fault (SaveOAuthCode (tokenHash code)
        (value_of (wb_query wb (aq_raw_query rq)) ''code_challenge'') (ou_redirect srv) (ou_resource srv) (ou_policy srv) now) d = (x, d')"
      by (auto simp: authorize_decision_def Let_def split: if_splits option.splits prod.splits sum.splits)
    show ?thesis
      using save_code_changes [OF save] ok allow assms(2) by (auto simp: consented_def)
  qed simp
next
  case False
  with assms(1) have "d' = d" by (auto simp: authorize_def Let_def split: if_splits option.splits)
  then show ?thesis by simp
qed

lemma grant_tokens_changes:
  assumes "grant_tokens srv fault random now p access refresh d = (r, d')" and "post_form wb 8192 rq = Some p"
    and "aq_path rq = ''/oauth/token''" and "aq_method rq = ''POST''"
  shows "set (oauth_codes d') \<subseteq> set (oauth_codes d) \<and>
    (\<forall>g\<in>set (oauth_grants d'). g \<notin> set (oauth_grants d) \<longrightarrow> earned srv wb now rq d d' g)"
proof -
  consider (none) "d' = d"
    | (exchange) i access' refresh' x where "store_call fault (ExchangeOAuthCode (tokenHash (value_of p ''code''))
        (s256_challenge (value_of p ''code_verifier'')) (ou_redirect srv) (ou_resource srv) (ou_policy srv) i access' refresh' now) d = (x, d')"
    | (rotate) access' refresh' x where "store_call fault (RotateOAuthRefresh (tokenHash (value_of p ''refresh_token'')) (ou_policy srv)
        access' refresh' now) d = (x, d')"
    using assms(1) by (auto simp: grant_tokens_def Let_def split: if_splits option.splits prod.splits)
  then show ?thesis
  proof cases
    case exchange
    from exchange_changes [OF this] assms(2-4) show ?thesis unfolding earned_def by blast
  next
    case rotate
    from rotate_changes [OF this] assms(2-4) show ?thesis by (simp add: earned_def)
  qed simp
qed

lemma oauth_token_changes:
  assumes "token srv wb fault random now rq d = (r, d')" and "aq_path rq \<in> {''/oauth/token'', ''/oauth/revoke''}"
  shows "set (oauth_codes d') \<subseteq> set (oauth_codes d) \<and>
    (\<forall>g\<in>set (oauth_grants d'). g \<notin> set (oauth_grants d) \<longrightarrow> earned srv wb now rq d d' g)"
proof -
  let ?d1 = "snd (store_call (fault 0) (RecordRateLimit ''mcp-oauth-token'' now 60) d)"
  note same = rate_limit_oauth [of "fault 0" "''mcp-oauth-token''" now 60 d]
  consider (counted) "d' = d \<or> d' = ?d1"
    | (revoked) h x where "store_call (fault 1) (RevokeOAuthToken h) ?d1 = (x, d')"
    | (granted) p access refresh where "post_form wb 8192 rq = Some p" "aq_path rq = ''/oauth/token''" "aq_method rq = ''POST''"
        "grant_tokens srv (fault 1) (random 2) now p access refresh ?d1 = (r, d')"
    using assms
    by (simp add: token_def token_form_def split: if_splits option.splits prod.splits sum.splits)
  then show ?thesis
  proof cases
    case counted
    with same show ?thesis by auto
  next
    case revoked
    with revoke_changes [of "fault 1" h ?d1] same show ?thesis by (auto simp del: db_call_ok)
  next
    case granted
    from grant_tokens_changes [OF granted(4,1,2,3)] same show ?thesis by (simp add: earned_def)
  qed
qed

text \<open>
  C25. Every token goes back to the administrator's consent. A call adds an authorization code only for a POST
  of the consent page with a live administrator session, its CSRF token and the decision to allow, for exactly
  the configured client, callback, resource and scope; the code is bound to the challenge sent. A call adds or
  renews a grant only for a POST to the token endpoint that presents a live code together with the verifier of
  its challenge, which uses the code up, or the current refresh token of a live grant.
\<close>

theorem tokens_need_consent:
  assumes "ServeOAuth srv wb session fault random now rq d = (r, d')"
  shows "(\<forall>c\<in>set (oauth_codes d'). c \<notin> set (oauth_codes d) \<longrightarrow> consented srv wb session now rq d c) \<and>
    (\<forall>g\<in>set (oauth_grants d'). g \<notin> set (oauth_grants d) \<longrightarrow> earned srv wb now rq d d' g)"
proof -
  consider (same) "d' = d"
    | (page) r0 where "aq_path rq = ''/admin/mcp/authorize''" "authorize srv wb session (fault 0) (random 0) now rq d = (r0, d')"
    | (tokens) r0 where "aq_path rq \<in> {''/oauth/token'', ''/oauth/revoke''}" "token srv wb fault random now rq d = (r0, d')"
    using assms by (simp add: ServeOAuth_def Let_def split: if_splits prod.splits)
  then show ?thesis
  proof cases
    case page
    from authorize_changes [OF page(2,1)] show ?thesis by blast
  next
    case tokens
    from oauth_token_changes [OF tokens(2,1)] show ?thesis by blast
  qed simp
qed

section \<open>The flow completes\<close>

lemma consented_code:
  assumes "authorize srv wb session fault (Some buffer) now rq d = (r, d1)" and "os_content r = CallbackTo u ((''code'', code) # ps)"
  shows "code = rawURLEncode buffer \<and>
    SaveOAuthCode (tokenHash code) (value_of (wb_query wb (aq_raw_query rq)) ''code_challenge'') (ou_redirect srv) (ou_resource srv)
      (ou_policy srv) now d = (Inr (), d1)"
proof -
  obtain form where "authorize_decision srv fault (Some buffer) now (wb_query wb (aq_raw_query rq)) form d = (r, d1)"
    using assms by (auto simp: authorize_def Let_def oauthError_def oauth_reply_def split: if_splits option.splits)
  then show ?thesis
    using assms(2) by (auto simp: authorize_decision_def Let_def oauthError_def oauth_reply_def randomOAuthToken_def db_call_def
        split: if_splits option.splits prod.splits sum.splits)
qed

lemma saved_code:
  assumes "SaveOAuthCode hash challenge callback resource policy now d = (Inr (), d1)"
  obtains live where "oauth_codes d1 = live @ [\<lparr>co_hash = hash, co_challenge = challenge, co_redirect = callback, co_resource = resource,
      co_policy = policy, co_expires = unix_milli (now + 5 * minute)\<rparr>]" and "hash \<notin> co_hash ` set live"
  using assms by (auto simp: SaveOAuthCode_def Let_def insert_row_Some split: option.splits)

lemma saved_code_exchanged:
  assumes "SaveOAuthCode hash challenge callback resource policy now d = (Inr (), d1)"
    and same: "oauth_codes d2 = oauth_codes d1" "oauth_grants d2 = oauth_grants d1"
    and fresh: "i \<notin> gr_id ` set (oauth_grants d1)" "access \<notin> gr_access ` set (oauth_grants d1)" "refresh \<notin> gr_refresh ` set (oauth_grants d1)"
    and time: "unix_milli now2 < unix_milli (now + 5 * minute)" "unix_milli t < unix_milli (now2 + hour)"
  obtains d3 where "ExchangeOAuthCode hash challenge callback resource policy i access refresh now2 d2 = (Inr (), d3)"
    and "OAuthAccess access policy t d3 = Some i"
    and "\<And>ch u rs pl i' a' f' later. ExchangeOAuthCode hash ch u rs pl i' a' f' later d3 = (Inl ErrOAuthGrant, d3)"
proof -
  from assms(1) obtain live where codes: "oauth_codes d1 = live @ [\<lparr>co_hash = hash, co_challenge = challenge, co_redirect = callback,
      co_resource = resource, co_policy = policy, co_expires = unix_milli (now + 5 * minute)\<rparr>]" and new: "hash \<notin> co_hash ` set live"
    by (rule saved_code)
  let ?usable = "\<lambda>c. co_hash c = hash \<and> co_challenge c = challenge \<and> co_redirect c = callback \<and> co_resource c = resource \<and>
    co_policy c = policy \<and> unix_milli now2 < co_expires c"
  let ?grant = "\<lparr>gr_id = i, gr_access = access, gr_refresh = refresh, gr_policy = policy, gr_access_expires = unix_milli (now2 + hour),
    gr_expires = unix_milli (now2 + 30 * 24 * hour)\<rparr>"
  let ?d3 = "d2\<lparr>oauth_codes := live, oauth_grants := oauth_grants d1 @ [?grant]\<rparr>"
  have none: "count_rows ?usable live = 0" "delete_rows ?usable live = live"
    using new by (auto simp: count_rows_zero delete_rows_def intro!: filter_True)
  have one: "count_rows ?usable (oauth_codes d1) = 1" "delete_rows ?usable (oauth_codes d1) = live"
    using none time(1) by (simp_all add: codes delete_rows_def) (simp add: count_rows_def)
  have free: "\<not> list_ex (\<lambda>g. gr_id g = i) (oauth_grants d1)" "\<not> grant_conflict i access refresh (oauth_grants d1)"
    using fresh by (auto simp: grant_conflict_def list_ex_iff)
  have exchange: "ExchangeOAuthCode hash challenge callback resource policy i access refresh now2 d2 = (Inr (), ?d3)"
    by (simp add: ExchangeOAuthCode_def Let_def one free same del: list_ex_key)
  have "unix_milli (now2 + hour) \<le> unix_milli (now2 + 30 * 24 * hour)" by (rule unix_milli_mono) simp
  with time(2) have live: "unix_milli t < unix_milli (now2 + 30 * 24 * hour)" by linarith
  have "query_row (\<lambda>g. gr_access g = access \<and> gr_policy g = policy \<and> unix_milli t < gr_access_expires g \<and> unix_milli t < gr_expires g)
      (oauth_grants d1) = None"
    using fresh(2) by (auto simp: find_None_iff)
  then have access: "OAuthAccess access policy t ?d3 = Some i"
    using time(2) live by (simp add: OAuthAccess_def query_row_append)
  have gone: "ExchangeOAuthCode hash ch u rs pl i' a' f' later ?d3 = (Inl ErrOAuthGrant, ?d3)" for ch u rs pl i' a' f' later
  proof -
    have "count_rows (\<lambda>c. co_hash c = hash \<and> co_challenge c = ch \<and> co_redirect c = u \<and> co_resource c = rs \<and> co_policy c = pl \<and>
        unix_milli later < co_expires c) live = 0"
      using new by (auto simp: count_rows_zero)
    then show ?thesis by (simp add: ExchangeOAuthCode_def Let_def)
  qed
  from that [OF exchange access gone] show ?thesis .
qed

text \<open>The form of a client that exchanges its code.\<close>

definition exchange_form :: "oauth_server \<Rightarrow> string \<Rightarrow> string \<Rightarrow> form_values" where
  "exchange_form srv code verifier =
     [(''client_id'', [OAuthClientID]), (''grant_type'', [''authorization_code'']), (''code'', [code]), (''code_verifier'', [verifier]),
      (''redirect_uri'', [ou_redirect srv]), (''resource'', [ou_resource srv])]"

text \<open>
  C26. A client that follows the flow gets in, once. When the consent page has sent a code back, the same
  client, with the verifier whose challenge it sent, gets its tokens from the token endpoint within the code's
  five minutes; the access token opens the gateway for an hour; and the code is of no use any more.
\<close>

theorem pkce_flow_completes:
  assumes consent: "authorize srv wb session False (Some buffer) now rq d = (r, d1)" "os_content r = CallbackTo u ((''code'', code) # ps)"
    and challenge: "value_of (wb_query wb (aq_raw_query rq)) ''code_challenge'' = s256_challenge verifier" "valid_verifier verifier"
    and call: "aq_method rq2 = ''POST''" "aq_path rq2 = ''/oauth/token''" "or_authorization rq2 = []"
        "has_prefix ''application/x-www-form-urlencoded'' (aq_content_type rq2)"
        "post_form wb 8192 rq2 = Some (exchange_form srv code verifier)"
    and rate: "RecordRateLimit ''mcp-oauth-token'' now2 60 d1 = (Inr (), d2)"
    and random: "random 0 = Some a" "random 1 = Some f" "random 2 = Some i"
    and fresh: "rawURLEncode i \<notin> gr_id ` set (oauth_grants d1)" "tokenHash (rawURLEncode a) \<notin> gr_access ` set (oauth_grants d1)"
        "tokenHash (rawURLEncode f) \<notin> gr_refresh ` set (oauth_grants d1)"
    and time: "unix_milli now2 < unix_milli (now + 5 * minute)" "unix_milli t < unix_milli (now2 + hour)"
  shows "\<exists>d3. token srv wb (\<lambda>_. False) random now2 rq2 d1 =
      (oauth_reply 200 (Tokens (rawURLEncode a) (rawURLEncode f)), d3) \<and>
    OAuthAccess (tokenHash (rawURLEncode a)) (ou_policy srv) t d3 = Some (rawURLEncode i) \<and>
    ExchangeOAuthCode (tokenHash code) ch u' rs pl i' a' f' later d3 = (Inl ErrOAuthGrant, d3)"
proof -
  have same: "oauth_codes d2 = oauth_codes d1" "oauth_grants d2 = oauth_grants d1"
    using rate_limit_oauth [of False "''mcp-oauth-token''" now2 60 d1] rate by simp_all
  from consented_code [OF consent] have saved: "SaveOAuthCode (tokenHash code) (s256_challenge verifier) (ou_redirect srv)
      (ou_resource srv) (ou_policy srv) now d = (Inr (), d1)" unfolding challenge(1) by blast
  from saved_code_exchanged [OF saved same fresh time] obtain d3 where
    exchange: "ExchangeOAuthCode (tokenHash code) (s256_challenge verifier) (ou_redirect srv) (ou_resource srv) (ou_policy srv)
      (rawURLEncode i) (tokenHash (rawURLEncode a)) (tokenHash (rawURLEncode f)) now2 d2 = (Inr (), d3)"
    and rest: "OAuthAccess (tokenHash (rawURLEncode a)) (ou_policy srv) t d3 = Some (rawURLEncode i)"
      "ExchangeOAuthCode (tokenHash code) ch u' rs pl i' a' f' later d3 = (Inl ErrOAuthGrant, d3)"
    by metis
  have "token srv wb (\<lambda>_. False) random now2 rq2 d1 = (oauth_reply 200 (Tokens (rawURLEncode a) (rawURLEncode f)), d3)"
    using call challenge(2) exchange
    by (simp add: token_def rate token_form_def exchange_form_def value_of_def random random(2) [simplified] randomOAuthToken_def grant_tokens_def
        OAuthClientID_def)
  with rest show ?thesis by blast
qed

section \<open>A flow\<close>

lemma valid_challenge_s256: "valid_challenge (s256_challenge v)"
  using rawURL_chars [of _ "sha256 v"]
  by (auto simp: valid_challenge_def s256_challenge_def length_raw url_token_char_def list_all_iff)

definition flow_server :: oauth_server where
  "flow_server = \<lparr>ou_issuer = ''https://gw'', ou_resource = ''https://gw/mcp'', ou_redirect = ''https://client/cb'', ou_policy = ''p'',
     ou_routes = ''ops'', ou_events = False\<rparr>"

abbreviation flow_verifier :: string where "flow_verifier \<equiv> replicate 43 CHR ''v''"

definition flow_buffer :: string where "flow_buffer = ''code''"

definition flow_code :: string where "flow_code = rawURLEncode flow_buffer"

definition flow_query :: form_values where
  "flow_query = [(''client_id'', [OAuthClientID]), (''redirect_uri'', [''https://client/cb'']), (''response_type'', [''code'']),
     (''code_challenge'', [s256_challenge flow_verifier]), (''code_challenge_method'', [''S256'']), (''resource'', [''https://gw/mcp'']),
     (''scope'', [OAuthScope]), (''state'', [''s''])]"

definition flow_web :: web where
  "flow_web = \<lparr>wb_media_type = (\<lambda>s. Some s),
     wb_query = (\<lambda>s. if s = ''query'' then flow_query else if s = ''allow'' then [(''csrf'', [''c'']), (''decision'', [''allow''])]
                    else if s = ''exchange'' then exchange_form flow_server flow_code flow_verifier else []),
     wb_query_ok = (\<lambda>_. True), wb_parse_url = (\<lambda>_. None), wb_url_text = (\<lambda>s. s), wb_split_host_port = (\<lambda>_. None),
     wb_is_ip = (\<lambda>_. False), wb_parse_time = (\<lambda>_ _. None), wb_format_time = (\<lambda>_ _. [])\<rparr>"

definition flow_rq :: "string \<Rightarrow> string \<Rightarrow> string \<Rightarrow> oauth_request" where
  "flow_rq path query body = \<lparr>aq_method = ''POST'', aq_path = path, aq_raw_query = query,
     aq_content_type = ''application/x-www-form-urlencoded'', aq_cookie = None, aq_oidc_cookie = None, aq_host = ''gw'', aq_tls = True,
     aq_forwarded_proto = [], aq_body = Some body, or_authorization = [], or_uri = path\<rparr>"

abbreviation consent_rq :: oauth_request where "consent_rq \<equiv> flow_rq ''/admin/mcp/authorize'' ''query'' ''allow''"

definition flow_code_row :: code_row where
  "flow_code_row = \<lparr>co_hash = tokenHash flow_code, co_challenge = s256_challenge flow_verifier, co_redirect = ''https://client/cb'',
     co_resource = ''https://gw/mcp'', co_policy = ''p'', co_expires = unix_milli (5 * minute)\<rparr>"

definition flow_db :: db where "flow_db = empty_db\<lparr>oauth_codes := [flow_code_row]\<rparr>"

lemma flow_web_simps [simp]:
  "wb_query flow_web ''query'' = flow_query" "wb_query flow_web ''allow'' = [(''csrf'', [''c'']), (''decision'', [''allow''])]"
  "wb_query flow_web ''exchange'' = exchange_form flow_server flow_code flow_verifier" "wb_query flow_web [] = []"
  "wb_query_ok flow_web s" "wb_media_type flow_web s = Some s"
  by (simp_all add: flow_web_def)

lemma flow_rq_simps [simp]:
  "aq_method (flow_rq path query body) = ''POST''" "aq_path (flow_rq path query body) = path"
  "aq_raw_query (flow_rq path query body) = query" "aq_body (flow_rq path query body) = Some body"
  "aq_content_type (flow_rq path query body) = ''application/x-www-form-urlencoded''" "or_authorization (flow_rq path query body) = []"
  by (simp_all add: flow_rq_def)

lemma flow_consent:
  "authorize flow_server flow_web (\<lambda>_ _. Some ''c'') False (Some flow_buffer) 0 consent_rq empty_db =
     (oauth_reply 303 (CallbackTo ''https://client/cb'' [(''code'', flow_code), (''iss'', ''https://gw''), (''state'', ''s'')]), flow_db)"
proof -
  have ok: "authorize_request_ok flow_server flow_query"
    by (simp add: authorize_request_ok_def value_of_def flow_query_def flow_server_def valid_challenge_s256)
  have single: "\<not> list_ex (\<lambda>k. 1 < length (values_at flow_query k)) authorize_keys"
    by (simp add: authorize_keys_def values_at_def flow_query_def)
  have save: "SaveOAuthCode (tokenHash flow_code) (s256_challenge flow_verifier) ''https://client/cb'' ''https://gw/mcp'' ''p'' 0 empty_db
      = (Inr (), flow_db)"
    by (simp add: SaveOAuthCode_def Let_def insert_row_def delete_grants_def delete_rows_def flow_db_def flow_code_row_def empty_db_def)
  have decision: "authorize_decision flow_server False (Some flow_buffer) 0 flow_query [(''csrf'', [''c'']), (''decision'', [''allow''])] empty_db =
      (oauth_reply 303 (CallbackTo ''https://client/cb'' [(''code'', flow_code), (''iss'', ''https://gw''), (''state'', ''s'')]), flow_db)"
    using save by (simp add: authorize_decision_def Let_def value_of_def randomOAuthToken_def flow_code_def [symmetric] flow_server_def flow_query_def)
  have form: "post_form flow_web 4096 consent_rq = Some [(''csrf'', [''c'']), (''decision'', [''allow''])]"
    by (simp add: post_form_def)
  show ?thesis
    using decision by (simp add: authorize_def Let_def ok single [simplified] form value_of_def)
qed

theorem tokens_need_consent_witness:
  "consented flow_server flow_web (\<lambda>_ _. Some ''c'') 0 consent_rq empty_db flow_code_row"
proof -
  obtain r where run: "ServeOAuth flow_server flow_web (\<lambda>_ _. Some ''c'') (\<lambda>_. False) (\<lambda>_. Some flow_buffer) 0 consent_rq empty_db = (r, flow_db)"
    by (simp add: ServeOAuth_def Let_def flow_consent)
  from tokens_need_consent [OF run] show ?thesis by (simp add: flow_db_def empty_db_def)
qed

theorem pkce_flow_completes_witness:
  "\<exists>d3. token flow_server flow_web (\<lambda>_. False) (\<lambda>k. Some (show_nat k)) minute (flow_rq ''/oauth/token'' [] ''exchange'') flow_db =
      (oauth_reply 200 (Tokens (rawURLEncode (show_nat 0)) (rawURLEncode (show_nat 1))), d3) \<and>
    OAuthAccess (tokenHash (rawURLEncode (show_nat 0))) ''p'' (2 * minute) d3 = Some (rawURLEncode (show_nat 2)) \<and>
    ExchangeOAuthCode (tokenHash flow_code) [] [] [] [] [] [] [] minute d3 = (Inl ErrOAuthGrant, d3)"
proof -
  have content: "os_content (oauth_reply 303 (CallbackTo ''https://client/cb'' [(''code'', flow_code), (''iss'', ''https://gw''), (''state'', ''s'')])) =
      CallbackTo ''https://client/cb'' ((''code'', flow_code) # [(''iss'', ''https://gw''), (''state'', ''s'')])"
    by (simp add: oauth_reply_def)
  have "fst (RecordRateLimit ''mcp-oauth-token'' minute 60 flow_db) = Inr ()"
    by (simp add: RecordRateLimit_def recordRateWindow_def Let_def flow_db_def empty_db_def upsert_row_def delete_rows_def)
  then obtain d2 where rate: "RecordRateLimit ''mcp-oauth-token'' minute 60 flow_db = (Inr (), d2)" by (metis prod.collapse)
  have prefix: "has_prefix ''application/x-www-form-urlencoded'' (aq_content_type (flow_rq ''/oauth/token'' [] ''exchange''))"
    by (simp add: has_prefix_def)
  have form: "post_form flow_web 8192 (flow_rq ''/oauth/token'' [] ''exchange'') = Some (exchange_form flow_server flow_code flow_verifier)"
    by (simp add: post_form_def)
  have challenge: "value_of (wb_query flow_web (aq_raw_query consent_rq)) ''code_challenge'' = s256_challenge flow_verifier"
    by (simp add: value_of_def flow_query_def)
  have verifier: "valid_verifier flow_verifier" by (simp add: valid_verifier_def is_alnum_def is_lower_def list_all_iff)
  have free: "oauth_grants flow_db = []" by (simp add: flow_db_def empty_db_def)
  have policy: "ou_policy flow_server = ''p''" by (simp add: flow_server_def)
  show ?thesis
    using pkce_flow_completes [OF flow_consent content challenge verifier _ _ _ prefix form rate, of "\<lambda>k. Some (show_nat k)"
        "show_nat 0" "show_nat 1" "show_nat 2" "2 * minute" "[]" "[]" "[]" "[]" "[]" "[]" "[]" minute]
    by (simp add: free policy unix_milli_def)
qed

end
