(* ===== verification/Worker.thy ===== *)
theory Worker
  imports Delivery Channel
begin

text \<open>
  \<open>internal/worker/worker.go\<close>: one worker takes due deliveries from the queue, sends them, and records
  the outcome. \<open>ProcessOne\<close> takes the three store methods it calls as arguments; the locale
  \<open>delivery_queue\<close> is what it relies on, and the store's methods are shown to provide it.
\<close>

section \<open>Configuration\<close>

text \<open>\<open>None\<close> for a nil function or location; the display location does not change an instant.\<close>

record worker_config =
  EventSenderFor :: "(delivery \<Rightarrow> sender option) option"
  PollInterval :: duration
  LeaseDuration :: duration
  RetryDelays :: "duration list"
  MaxAttempts :: int
  Retention :: duration
  SenderFor :: "(string \<Rightarrow> sender option) option"

record worker =
  wk_senderFor :: "string \<Rightarrow> sender option"
  wk_cfg :: worker_config

definition New :: "(string \<Rightarrow> sender option) \<Rightarrow> worker_config \<Rightarrow> worker" where
  "New senders cfg0 =
     (let cfg1 = (if PollInterval cfg0 \<le> 0 then cfg0\<lparr>PollInterval := 500 * millisecond\<rparr> else cfg0);
          cfg2 = (if LeaseDuration cfg1 \<le> 0 then cfg1\<lparr>LeaseDuration := 30 * second\<rparr> else cfg1);
          cfg3 = (if MaxAttempts cfg2 \<le> 0 then cfg2\<lparr>MaxAttempts := 6\<rparr> else cfg2);
          cfg4 = (if RetryDelays cfg3 = []
                  then cfg3\<lparr>RetryDelays := [second, 5 * second, 30 * second, 2 * minute, 10 * minute]\<rparr>
                  else cfg3);
          cfg5 = (if Retention cfg4 \<le> 0 then cfg4\<lparr>Retention := 30 * 24 * hour\<rparr> else cfg4)
      in \<lparr>wk_senderFor = (case SenderFor cfg5 of None \<Rightarrow> senders | Some f \<Rightarrow> f), wk_cfg = cfg5\<rparr>)"

text \<open>What every worker made by \<open>New\<close> satisfies.\<close>

definition worker_ok :: "worker \<Rightarrow> bool" where
  "worker_ok w \<longleftrightarrow> 0 < PollInterval (wk_cfg w) \<and> 0 < LeaseDuration (wk_cfg w) \<and>
     0 < MaxAttempts (wk_cfg w) \<and> RetryDelays (wk_cfg w) \<noteq> [] \<and> 0 < Retention (wk_cfg w)"

lemma New_ok: "worker_ok (New senders cfg)"
  by (simp add: worker_ok_def New_def Let_def)

section \<open>One delivery\<close>

definition resolve_sender :: "worker \<Rightarrow> delivery \<Rightarrow> sender option" where
  "resolve_sender w dv =
     (if has_prefix eventChannelPrefix (dv_channel dv)
      then (case EventSenderFor (wk_cfg w) of None \<Rightarrow> None | Some f \<Rightarrow> f dv)
      else wk_senderFor w (dv_channel dv))"

definition retryable :: "send_failure \<Rightarrow> bool" where
  "retryable e = (case e of Typed t \<Rightarrow> se_retryable t | Untyped _ \<Rightarrow> True)"

definition failure_code :: "int \<Rightarrow> send_failure \<Rightarrow> int" where
  "failure_code code e = (case e of Typed t \<Rightarrow> if code = 0 then se_status t else code | Untyped _ \<Rightarrow> code)"

text \<open>The index into \<open>RetryDelays\<close> is taken only for an attempt that is not the last.\<close>

definition retry_delay :: "worker \<Rightarrow> int \<Rightarrow> duration" where
  "retry_delay w attempts =
     (let delays = RetryDelays (wk_cfg w);
          index = (if int (length delays) \<le> attempts - 1 then int (length delays) - 1 else attempts - 1)
      in delays ! nat index)"

type_synonym 's complete_success = "string \<Rightarrow> int \<Rightarrow> instant \<Rightarrow> 's \<Rightarrow> (store_error + unit) \<times> 's"
type_synonym 's complete_failure =
  "string \<Rightarrow> int \<Rightarrow> instant \<Rightarrow> string \<Rightarrow> int \<Rightarrow> bool \<Rightarrow> 's \<Rightarrow> (store_error + unit) \<times> 's"
type_synonym 's claim_delivery =
  "nat \<Rightarrow> instant \<Rightarrow> duration \<Rightarrow> 's \<Rightarrow> (store_error + delivery option) \<times> 's"

text \<open>The error of the final call; the result \<open>(True, error)\<close> is the pair the Go method returns.\<close>

definition completed :: "(store_error + unit) \<times> 's \<Rightarrow> (bool \<times> store_error option) \<times> 's" where
  "completed out = (case out of (Inl e, q) \<Rightarrow> ((True, Some e), q) | (Inr u, q) \<Rightarrow> ((True, None), q))"

definition ProcessOne ::
  "'s claim_delivery \<Rightarrow> 's complete_success \<Rightarrow> 's complete_failure \<Rightarrow> worker \<Rightarrow> nat \<Rightarrow> instant \<Rightarrow> 's
     \<Rightarrow> (bool \<times> store_error option) \<times> 's" where
  "ProcessOne claim succeed fail w choice now q =
     (case claim choice now (LeaseDuration (wk_cfg w)) q of
        (Inl e, q1) \<Rightarrow> ((False, Some e), q1)
      | (Inr None, q1) \<Rightarrow> ((False, None), q1)
      | (Inr (Some dv), q1) \<Rightarrow>
         (case resolve_sender w dv of
            None \<Rightarrow> completed (fail (dv_id dv) (dv_attempts dv) now ''channel is unavailable'' 0 True q1)
          | Some send \<Rightarrow>
             (case send (dv_event dv) of
                (code, None) \<Rightarrow> completed (succeed (dv_id dv) code now q1)
              | (code, Some e) \<Rightarrow>
                 (let dead = (\<not> retryable e \<or> MaxAttempts (wk_cfg w) \<le> dv_attempts dv);
                      next_at = (if dead then now else now + retry_delay w (dv_attempts dv))
                  in completed (fail (dv_id dv) (dv_attempts dv) next_at
                       (''delivery failed: '' @ failure_text e) (failure_code code e) dead q1)))))"

section \<open>The loop\<close>

text \<open>
  The hourly cleanup at the head of each iteration of \<open>Run\<close>; \<open>prune_fault\<close> and \<open>sub_fault\<close> say whether
  its two calls fail. Errors are only logged. The loop's local variable is the time of the next cleanup.
\<close>

definition cleanup :: "worker \<Rightarrow> bool \<Rightarrow> bool \<Rightarrow> instant \<Rightarrow> instant \<times> db \<Rightarrow> instant \<times> db" where
  "cleanup w prune_fault sub_fault now st =
     (let (nextCleanup, d) = st in
      if now < nextCleanup then st
      else let d1 = snd (store_call prune_fault (Prune (now - Retention (wk_cfg w))) d);
               d2 = snd (store_call sub_fault (PruneEventSubscriptions now) d1)
           in (now + hour, d2))"

text \<open>The delivery step on the store, each of its calls failing or not.\<close>

definition process_store :: "worker \<Rightarrow> bool \<Rightarrow> bool \<Rightarrow> nat \<Rightarrow> instant \<Rightarrow> db \<Rightarrow> (bool \<times> store_error option) \<times> db" where
  "process_store w claim_fault complete_fault =
     ProcessOne (\<lambda>choice now lease. store_call claim_fault (ClaimDelivery choice now lease))
       (\<lambda>i code t. store_call complete_fault (CompleteSuccess i code t))
       (\<lambda>i n t msg code dead. store_call complete_fault (CompleteFailure i n t msg code dead)) w"

text \<open>One iteration: the environment picks the clock, the faults and SQL's choice among ties.\<close>

record iteration =
  it_now :: instant
  it_choice :: nat
  it_prune_fault :: bool
  it_sub_fault :: bool
  it_claim_fault :: bool
  it_complete_fault :: bool

definition Run_step :: "worker \<Rightarrow> iteration \<Rightarrow> instant \<times> db \<Rightarrow> bool \<times> instant \<times> db" where
  "Run_step w it st =
     (let (nextCleanup, d) = cleanup w (it_prune_fault it) (it_sub_fault it) (it_now it) st;
          ((processed, err), d1) = process_store w (it_claim_fault it) (it_complete_fault it)
             (it_choice it) (it_now it) d
      in (processed, nextCleanup, d1))"

section \<open>The queue as the worker sees it\<close>

text \<open>Status, attempts and time of the next attempt of each delivery, by id.\<close>

type_synonym view = "(delivery_status \<times> int \<times> millis) option"

locale delivery_queue =
  fixes inv :: "'s \<Rightarrow> bool" and view :: "string \<Rightarrow> 's \<Rightarrow> view"
    and claim :: "'s claim_delivery" and succeed :: "'s complete_success" and fail :: "'s complete_failure"
  assumes finite_view: "finite {i. view i q \<noteq> None}"
    and claim_error: "inv q \<Longrightarrow> claim c now l q = (Inl e, q') \<Longrightarrow> q' = q"
    and claim_none: "inv q \<Longrightarrow> claim c now l q = (Inr None, q') \<Longrightarrow> q' = q"
    and claim_some: "inv q \<Longrightarrow> claim c now l q = (Inr (Some dv), q') \<Longrightarrow>
      inv q' \<and> (\<exists>s n t. live_status s \<and> view (dv_id dv) q = Some (s, n, t) \<and> dv_attempts dv = n + 1 \<and>
        view (dv_id dv) q' = Some (Processing, n + 1, t)) \<and>
      (\<forall>i. i \<noteq> dv_id dv \<longrightarrow> view i q' = view i q)"
    and succeed_ok: "inv q \<Longrightarrow> view i q = Some (Processing, n, t) \<Longrightarrow>
      \<exists>q'. succeed i code now q = (Inr (), q') \<and> inv q' \<and> view i q' = Some (Sent, n, t) \<and>
        (\<forall>j. j \<noteq> i \<longrightarrow> view j q' = view j q)"
    and fail_ok: "inv q \<Longrightarrow> view i q = Some (Processing, n, t) \<Longrightarrow>
      \<exists>q'. fail i n next_at msg code dead q = (Inr (), q') \<and> inv q' \<and>
        view i q' = Some (if dead then Dead else Retrying, n, unix_milli next_at) \<and>
        (\<forall>j. j \<noteq> i \<longrightarrow> view j q' = view j q)"

text \<open>What becomes of a claimed delivery, and when it is tried again.\<close>

definition verdict :: "worker \<Rightarrow> delivery \<Rightarrow> delivery_status" where
  "verdict w dv =
     (case resolve_sender w dv of
        None \<Rightarrow> Dead
      | Some send \<Rightarrow>
         (case snd (send (dv_event dv)) of
            None \<Rightarrow> Sent
          | Some e \<Rightarrow> if \<not> retryable e \<or> MaxAttempts (wk_cfg w) \<le> dv_attempts dv then Dead else Retrying))"

text \<open>The one delivery a processed call moves, and how: everything else stays as it is.\<close>

definition advances :: "worker \<Rightarrow> instant \<Rightarrow> (string \<Rightarrow> view) \<Rightarrow> (string \<Rightarrow> view) \<Rightarrow> delivery \<Rightarrow> bool" where
  "advances w now v v' dv \<longleftrightarrow>
     (\<exists>s n t t'. live_status s \<and> v (dv_id dv) = Some (s, n, t) \<and> dv_attempts dv = n + 1 \<and>
        v' (dv_id dv) = Some (verdict w dv, n + 1, t') \<and>
        (verdict w dv = Retrying \<longrightarrow>
           n + 1 < MaxAttempts (wk_cfg w) \<and> t' = unix_milli (now + retry_delay w (n + 1)))) \<and>
     (\<forall>i. i \<noteq> dv_id dv \<longrightarrow> v' i = v i)"

text \<open>The attempts a delivery may still use, and a sequence of calls that counts the processed ones.\<close>

definition budget :: "int \<Rightarrow> view \<Rightarrow> nat" where
  "budget maxAttempts v =
     (case v of None \<Rightarrow> 0
      | Some (s, n, t) \<Rightarrow> if live_status s then nat (max 1 (maxAttempts - n)) else 0)"

fun work ::
  "'s claim_delivery \<Rightarrow> 's complete_success \<Rightarrow> 's complete_failure \<Rightarrow> (worker \<times> nat \<times> instant) list \<Rightarrow> 's
     \<Rightarrow> nat \<times> 's" where
  "work claim succeed fail [] q = (0, q)"
| "work claim succeed fail ((w, c, now) # rest) q =
     (case ProcessOne claim succeed fail w c now q of
        ((processed, err), q1) \<Rightarrow>
          (case work claim succeed fail rest q1 of (n, q2) \<Rightarrow> (n + of_bool processed, q2)))"

lemma verdict_live: "live_status (verdict w dv) \<longleftrightarrow> verdict w dv = Retrying"
  by (auto simp: verdict_def split: option.splits)

lemma advances_budget:
  assumes "advances w now v v' dv"
  shows "budget (MaxAttempts (wk_cfg w)) (v' (dv_id dv)) < budget (MaxAttempts (wk_cfg w)) (v (dv_id dv))"
  using assms by (auto simp: advances_def budget_def verdict_live)

lemma advances_sum:
  assumes "advances w now v v' dv" and "finite {i. v i \<noteq> None}" and "MaxAttempts (wk_cfg w) = m"
  shows "(\<Sum>i | v' i \<noteq> None. budget m (v' i)) < (\<Sum>i | v i \<noteq> None. budget m (v i))"
proof -
  have dom: "v (dv_id dv) \<noteq> None" "v' (dv_id dv) \<noteq> None" and other: "\<forall>i. i \<noteq> dv_id dv \<longrightarrow> v' i = v i"
    using assms(1) by (auto simp: advances_def)
  have dom_eq: "{i. v' i \<noteq> None} = {i. v i \<noteq> None}"
    using dom other by (metis (mono_tags, lifting) Collect_cong)
  have less: "budget m (v' (dv_id dv)) < budget m (v (dv_id dv))"
    using advances_budget [OF assms(1)] assms(3) by simp
  have "budget m (v' i) \<le> budget m (v i)" for i
    using less other by (cases "i = dv_id dv") simp_all
  then have "(\<Sum>i | v i \<noteq> None. budget m (v' i)) < (\<Sum>i | v i \<noteq> None. budget m (v i))"
    using assms(2) dom(1) less by (intro sum_strict_mono_ex1) blast+
  then show ?thesis by (simp only: dom_eq)
qed

context delivery_queue
begin

lemma process_outcome:
  assumes "inv q" and "ProcessOne claim succeed fail w c now q = ((processed, err), q')"
  shows "(\<not> processed \<and> q' = q) \<or>
    (processed \<and> err = None \<and> inv q' \<and> (\<exists>dv. advances w now (\<lambda>i. view i q) (\<lambda>i. view i q') dv))"
proof -
  obtain res q1 where cl: "claim c now (LeaseDuration (wk_cfg w)) q = (res, q1)"
    by (cases "claim c now (LeaseDuration (wk_cfg w)) q")
  consider e where "res = Inl e" | "res = Inr None" | dv where "res = Inr (Some dv)"
    by (cases res) auto
  then show ?thesis
  proof cases
    case 1
    then show ?thesis using assms(2) cl claim_error [OF assms(1)] by (auto simp: ProcessOne_def)
  next
    case 2
    then show ?thesis using assms(2) cl claim_none [OF assms(1)] by (auto simp: ProcessOne_def)
  next
    case 3
    from claim_some [OF assms(1) cl [unfolded 3]] obtain s n t where q1: "inv q1"
      and s: "live_status s" "view (dv_id dv) q = Some (s, n, t)" "dv_attempts dv = n + 1"
      and v1: "view (dv_id dv) q1 = Some (Processing, n + 1, t)"
      and other: "\<forall>i. i \<noteq> dv_id dv \<longrightarrow> view i q1 = view i q" by blast
    have failed: ?thesis
      if run: "((processed, err), q') = completed (fail (dv_id dv) (n + 1) next_at msg code dead q1)"
        and v: "verdict w dv = (if dead then Dead else Retrying)"
        and retry: "\<not> dead \<Longrightarrow> n + 1 < MaxAttempts (wk_cfg w) \<and> next_at = now + retry_delay w (n + 1)"
      for next_at msg code dead
    proof -
      from fail_ok [OF q1 v1, of next_at msg code dead] obtain q2 where
        "fail (dv_id dv) (n + 1) next_at msg code dead q1 = (Inr (), q2)" "inv q2"
        "view (dv_id dv) q2 = Some (verdict w dv, n + 1, unix_milli next_at)"
        "\<forall>j. j \<noteq> dv_id dv \<longrightarrow> view j q2 = view j q1" using v by auto
      with run s other retry v show ?thesis
        by (intro disjI2 conjI exI [of _ dv]) (auto simp: completed_def advances_def split: if_splits)
    qed
    show ?thesis
    proof (cases "resolve_sender w dv")
      case None
      then show ?thesis
        using assms(2) cl 3 s(3) by (intro failed [of now "''channel is unavailable''" 0 True])
            (auto simp: ProcessOne_def verdict_def)
    next
      case (Some send)
      obtain code out where sent: "send (dv_event dv) = (code, out)" by (cases "send (dv_event dv)")
      show ?thesis
      proof (cases out)
        case None
        from succeed_ok [OF q1 v1, of code now] obtain q2 where
          "succeed (dv_id dv) code now q1 = (Inr (), q2)" "inv q2"
          "view (dv_id dv) q2 = Some (Sent, n + 1, t)"
          "\<forall>j. j \<noteq> dv_id dv \<longrightarrow> view j q2 = view j q1" by auto
        with assms(2) cl 3 Some sent None s other show ?thesis
          by (intro disjI2 conjI exI [of _ dv]) (auto simp: ProcessOne_def completed_def verdict_def advances_def)
      next
        case (Some e)
        let ?dead = "\<not> retryable e \<or> MaxAttempts (wk_cfg w) \<le> n + 1"
        let ?next = "if ?dead then now else now + retry_delay w (n + 1)"
        show ?thesis
        proof (rule failed [of ?next "''delivery failed: '' @ failure_text e" "failure_code code e" ?dead])
          show "((processed, err), q') = completed (fail (dv_id dv) (n + 1) ?next
              (''delivery failed: '' @ failure_text e) (failure_code code e) ?dead q1)"
            using assms(2) [symmetric] cl 3 \<open>resolve_sender w dv = Some send\<close> sent Some s(3)
            by (simp add: ProcessOne_def Let_def split del: if_split cong: if_cong)
          show "verdict w dv = (if ?dead then Dead else Retrying)"
            using \<open>resolve_sender w dv = Some send\<close> sent Some s(3) by (simp add: verdict_def)
        qed auto
      qed
    qed
  qed
qed

lemma work_bound:
  assumes "inv q" and "\<forall>(w, c, now)\<in>set steps. MaxAttempts (wk_cfg w) = m"
  shows "fst (work claim succeed fail steps q) \<le> (\<Sum>i | view i q \<noteq> None. budget m (view i q))"
  using assms
proof (induction steps arbitrary: q)
  case (Cons step rest)
  obtain w c now where step: "step = (w, c, now)" by (cases step)
  obtain processed err q1 where run: "ProcessOne claim succeed fail w c now q = ((processed, err), q1)"
    by (metis surj_pair)
  obtain n q2 where tail: "work claim succeed fail rest q1 = (n, q2)"
    by (cases "work claim succeed fail rest q1")
  from process_outcome [OF Cons.prems(1) run] show ?case
  proof
    assume "\<not> processed \<and> q1 = q"
    then show ?thesis using Cons.IH [of q] Cons.prems run tail step by auto
  next
    assume out: "processed \<and> err = None \<and> inv q1 \<and> (\<exists>dv. advances w now (\<lambda>i. view i q) (\<lambda>i. view i q1) dv)"
    then obtain dv where "advances w now (\<lambda>i. view i q) (\<lambda>i. view i q1) dv" by blast
    from advances_sum [OF this finite_view] have
      "(\<Sum>i | view i q1 \<noteq> None. budget m (view i q1)) < (\<Sum>i | view i q \<noteq> None. budget m (view i q))"
      using Cons.prems(2) step by auto
    moreover have "n \<le> (\<Sum>i | view i q1 \<noteq> None. budget m (view i q1))"
      using Cons.IH [of q1] Cons.prems out tail by auto
    ultimately show ?thesis using out run tail step by simp
  qed
qed simp

end

section \<open>The store provides it\<close>

definition queue_view :: "string \<Rightarrow> db \<Rightarrow> view" where
  "queue_view i d = map_option (\<lambda>r. (dl_status r, dl_attempts r, dl_next r)) (delivery_at i d)"

lemma requireOne_ok:
  assumes "queue_integrity d" and "delivery_at i d = Some r" and "Q r"
    and "\<And>x. dl_id (f x) = dl_id x \<and> dl_event (f x) = dl_event x \<and> dl_channel (f x) = dl_channel x"
  shows "\<exists>d'. requireOne (\<lambda>x. dl_id x = i \<and> Q x) f d = (Inr (), d') \<and> queue_integrity d' \<and>
    delivery_at i d' = Some (f r) \<and> (\<forall>j. j \<noteq> i \<longrightarrow> delivery_at j d' = delivery_at j d)"
proof -
  let ?P = "\<lambda>x. dl_id x = i \<and> Q x"
  let ?d = "d\<lparr>deliveries := update_rows ?P f (deliveries d)\<rparr>"
  have r: "r \<in> set (deliveries d)" "dl_id r = i" using query_row_SomeD [OF assms(2)] by simp_all
  have "count_rows ?P (deliveries d) = 1"
    using due_once [of "deliveries d" r Q] assms(1,3) r by (simp add: queue_integrity_def)
  then have "requireOne ?P f d = (Inr (), ?d)" by (simp add: requireOne_def Let_def)
  moreover have "queue_integrity ?d" by (rule queue_integrity_update) (use assms in simp_all)
  moreover have at: "delivery_at j ?d = map_option (\<lambda>x. if ?P x then f x else x) (delivery_at j d)" for j
    using assms(4) by (simp add: query_row_update_key [where key = dl_id])
  moreover have "delivery_at j ?d = delivery_at j d" if "j \<noteq> i" for j
    unfolding at using that by (cases "delivery_at j d") (auto dest: query_row_SomeD)
  moreover have "delivery_at i ?d = Some (f r)" unfolding at assms(2) using assms(3) r(2) by simp
  ultimately show ?thesis by blast
qed

lemma finite_queue_view: "finite {i. queue_view i d \<noteq> None}"
proof (rule finite_subset)
  show "{i. queue_view i d \<noteq> None} \<subseteq> dl_id ` set (deliveries d)"
    by (auto simp: queue_view_def dest!: query_row_SomeD)
qed simp

interpretation queue: delivery_queue queue_integrity queue_view ClaimDelivery CompleteSuccess CompleteFailure
proof (unfold_locales, goal_cases)
  case (1 q)
  then show ?case by (rule finite_queue_view)
next
  case (2 q c now l e q')
  then show ?case by (auto elim: ClaimDelivery_cases)
next
  case (3 q c now l q')
  then show ?case using ClaimDelivery_None by blast
next
  case (4 q c now l dv q')
  from ClaimDelivery_Some [OF this] obtain r where "delivery_at (dv_id dv) q = Some r" "due now r"
    "dv_attempts dv = dl_attempts r + 1"
    "delivery_at (dv_id dv) q' = Some (r\<lparr>dl_status := Processing, dl_attempts := dv_attempts dv,
        dl_lease := Some (unix_milli (now + l))\<rparr>)"
    "\<And>i. i \<noteq> dv_id dv \<Longrightarrow> delivery_at i q' = delivery_at i q" by metis
  moreover have "queue_integrity q'" using ClaimDelivery_integrity [OF 4(1), of c now l] 4(2) by simp
  ultimately show ?case by (simp add: queue_view_def due_live)
next
  case (5 q i n t code now)
  then obtain r where r: "delivery_at i q = Some r" "dl_status r = Processing" "dl_attempts r = n" "dl_next r = t"
    by (auto simp: queue_view_def)
  from requireOne_ok [OF 5(1) r(1), of "\<lambda>x. dl_status x = Processing", OF r(2),
      of "\<lambda>r. r\<lparr>dl_status := Sent, dl_lease := None, dl_code := code, dl_error := [],
             dl_sent := Some (unix_milli now)\<rparr>"]
  show ?case using r by (auto simp: CompleteSuccess_def queue_view_def)
next
  case (6 q i n t next_at msg code dead)
  then obtain r where r: "delivery_at i q = Some r" "dl_status r = Processing" "dl_attempts r = n" "dl_next r = t"
    by (auto simp: queue_view_def)
  have q: "dl_status r = Processing \<and> dl_attempts r = n" using r by simp
  from requireOne_ok [OF 6(1) r(1), of "\<lambda>x. dl_status x = Processing \<and> dl_attempts x = n", OF q,
      of "\<lambda>r. r\<lparr>dl_status := if dead then Dead else Retrying, dl_lease := None, dl_next := unix_milli next_at,
                 dl_code := code, dl_error := truncate_message msg\<rparr>"]
  show ?case using r by (auto simp: CompleteFailure_def queue_view_def Let_def)
qed

section \<open>Properties of the worker\<close>

lemma retry_delay_index:
  assumes "worker_ok w" and "0 \<le> n"
  shows "retry_delay w (n + 1) =
      RetryDelays (wk_cfg w) ! min (nat n) (length (RetryDelays (wk_cfg w)) - 1)"
    and "retry_delay w (n + 1) \<in> set (RetryDelays (wk_cfg w))"
proof -
  let ?ds = "RetryDelays (wk_cfg w)"
  have ne: "?ds \<noteq> []" using assms(1) by (simp add: worker_ok_def)
  show eq: "retry_delay w (n + 1) = ?ds ! min (nat n) (length ?ds - 1)"
  proof (cases "int (length ?ds) \<le> n")
    case True
    then have "min (nat n) (length ?ds - 1) = length ?ds - 1" and "nat (int (length ?ds) - 1) = length ?ds - 1"
      by linarith+
    then show ?thesis using True by (simp add: retry_delay_def Let_def)
  next
    case False
    then have "min (nat n) (length ?ds - 1) = nat n" using ne by linarith
    then show ?thesis using False by (simp add: retry_delay_def Let_def)
  qed
  have "min (nat n) (length ?ds - 1) < length ?ds" using ne by (cases ?ds) simp_all
  then show "retry_delay w (n + 1) \<in> set ?ds" unfolding eq by (rule nth_mem)
qed

definition attempts_ok :: "db \<Rightarrow> bool" where
  "attempts_ok d \<longleftrightarrow> (\<forall>r\<in>set (deliveries d). 0 \<le> dl_attempts r)"

abbreviation ProcessStore :: "worker \<Rightarrow> nat \<Rightarrow> instant \<Rightarrow> db \<Rightarrow> (bool \<times> store_error option) \<times> db" where
  "ProcessStore \<equiv> ProcessOne ClaimDelivery CompleteSuccess CompleteFailure"


definition demo_worker :: worker where
  "demo_worker = New (\<lambda>i. Some (\<lambda>e. (503, Some (Typed
       \<lparr>se_message = ''down'', se_status = 503, se_retryable = True\<rparr>))))
     \<lparr>EventSenderFor = None, PollInterval = 0, LeaseDuration = 0, RetryDelays = [], MaxAttempts = 0,
      Retention = 0, SenderFor = None\<rparr>"


lemma sum_views:
  assumes "queue_integrity d"
  shows "(\<Sum>i | queue_view i d \<noteq> None. f (queue_view i d)) =
    (\<Sum>r\<leftarrow>deliveries d. f (Some (dl_status r, dl_attempts r, dl_next r)) :: nat)"
proof -
  have keyed: "keyed dl_id (deliveries d)" using assms by (simp add: queue_integrity_def)
  then have inj: "inj_on dl_id (set (deliveries d))" and dist: "distinct (deliveries d)"
    by (simp_all add: keyed_def distinct_map)
  have "{i. queue_view i d \<noteq> None} = dl_id ` set (deliveries d)"
    by (auto simp: queue_view_def query_row_None_key dest!: query_row_SomeD)
  then have "(\<Sum>i | queue_view i d \<noteq> None. f (queue_view i d)) =
      (\<Sum>r\<in>set (deliveries d). f (queue_view (dl_id r) d))"
    using inj by (simp add: sum.reindex)
  also have "\<dots> = (\<Sum>r\<in>set (deliveries d). f (Some (dl_status r, dl_attempts r, dl_next r)))"
    by (rule sum.cong) (simp_all add: queue_view_def delivery_at_keyed [OF assms])
  finally show ?thesis using dist by (simp add: sum_list_distinct_conv_sum_set)
qed

text \<open>
  C17. The worker cannot spin. Whatever the clock, the senders, and SQL's order among equally overdue
  deliveries, when no event arrives the number of calls that process a delivery is at most
  \<open>MaxAttempts\<close> times the number of unfinished deliveries: the loop of \<open>Run\<close>, which starts over at once
  after such a call, reaches its wait, and the queue drains.
\<close>

theorem worker_work_is_bounded:
  assumes "queue_integrity d" and "attempts_ok d" and "0 < m"
    and "\<forall>(w, choice, now)\<in>set steps. MaxAttempts (wk_cfg w) = m"
  shows "fst (work ClaimDelivery CompleteSuccess CompleteFailure steps d)
    \<le> nat m * count_rows (\<lambda>r. live_status (dl_status r)) (deliveries d)"
proof -
  have "fst (work ClaimDelivery CompleteSuccess CompleteFailure steps d)
      \<le> (\<Sum>i | queue_view i d \<noteq> None. budget m (queue_view i d))"
    by (rule queue.work_bound [OF assms(1,4)])
  also have "\<dots> = (\<Sum>r\<leftarrow>deliveries d. budget m (Some (dl_status r, dl_attempts r, dl_next r)))"
    by (rule sum_views [OF assms(1)])
  also have "\<dots> \<le> (\<Sum>r\<leftarrow>deliveries d. nat m * of_bool (live_status (dl_status r)))"
    using assms(2,3) by (intro sum_list_mono) (auto simp: budget_def attempts_ok_def)
  also have "\<dots> = nat m * count_rows (\<lambda>r. live_status (dl_status r)) (deliveries d)"
    by (rule sum_count_rows)
  finally show ?thesis .
qed

theorem worker_work_is_bounded_witness:
  "fst (work ClaimDelivery CompleteSuccess CompleteFailure
     (map (\<lambda>t. (demo_worker, 0, int t * hour)) [0..<100]) queue_db) \<le> 6 * 2"
proof -
  have "attempts_ok queue_db" by (simp add: attempts_ok_def queue_db_def)
  from worker_work_is_bounded [OF queue_db_integrity this,
      of 6 "map (\<lambda>t. (demo_worker, 0, int t * hour)) [0..<100]"]
  show ?thesis by (simp add: demo_worker_def New_def Let_def queue_db_def count_rows_def)
qed

section \<open>Retention\<close>

text \<open>
  The cleanup keeps what is recent and what is unfinished. It runs at most once an hour; it removes
  exactly the events older than the retention that have no unfinished delivery, with their deliveries,
  and leaves every other event and delivery, all incidents, nonces and rate windows as they are.
\<close>

theorem cleanup_keeps_recent_and_unfinished:
  assumes "queue_integrity d" and "cleanup w False sub_fault now (nextCleanup, d) = (nextCleanup', d')"
  shows "if now < nextCleanup then nextCleanup' = nextCleanup \<and> d' = d
    else nextCleanup' = now + hour \<and> queue_integrity d' \<and>
      (\<forall>e. e \<in> set (events d') \<longleftrightarrow> e \<in> set (events d) \<and>
         (unix_milli (now - Retention (wk_cfg w)) \<le> ev_created e \<or>
          (\<exists>r\<in>set (deliveries d). dl_event r = ev_id e \<and> live_status (dl_status r)))) \<and>
      (\<forall>r. r \<in> set (deliveries d') \<longleftrightarrow> r \<in> set (deliveries d) \<and> dl_event r \<in> ev_id ` set (events d')) \<and>
      incidents d' = incidents d \<and> nonces d' = nonces d \<and> rate_windows d' = rate_windows d"
proof (cases "now < nextCleanup")
  case True
  then show ?thesis using assms(2) by (simp add: cleanup_def)
next
  case False
  let ?before = "now - Retention (wk_cfg w)"
  define d1 where "d1 = snd (Prune ?before d)"
  have d': "nextCleanup' = now + hour" "events d' = events d1" "deliveries d' = deliveries d1"
    "incidents d' = incidents d1" "nonces d' = nonces d1" "rate_windows d' = rate_windows d1"
    "event_deliveries d' = event_deliveries d1"
    using assms(2) False by (auto simp: cleanup_def Let_def d1_def PruneEventSubscriptions_def db_call_def)
  have d1: "events d1 = delete_rows (prunable ?before d) (events d)"
    "deliveries d1 = delete_rows (\<lambda>r. dl_event r \<in> set (map ev_id (filter (prunable ?before d) (events d)))) (deliveries d)"
    "incidents d1 = incidents d" "nonces d1 = nonces d" "rate_windows d1 = rate_windows d"
    by (simp_all add: d1_def Prune_def Let_def)
  have keyed: "keyed ev_id (events d)" and fk: "dl_event ` set (deliveries d) \<subseteq> ev_id ` set (events d)"
    using assms(1) by (simp_all add: queue_integrity_def)
  have ev: "e \<in> set (events d1) \<longleftrightarrow> e \<in> set (events d) \<and> \<not> prunable ?before d e" for e
    by (simp add: d1 table_simps)
  have dl: "r \<in> set (deliveries d1) \<longleftrightarrow> r \<in> set (deliveries d) \<and> dl_event r \<in> ev_id ` set (events d1)" for r
  proof
    assume r: "r \<in> set (deliveries d1)"
    have "queue_integrity d1" unfolding d1_def by (rule Prune_integrity [OF assms(1)])
    with r show "r \<in> set (deliveries d) \<and> dl_event r \<in> ev_id ` set (events d1)"
      by (auto simp: queue_integrity_def d1 table_simps)
  next
    assume r: "r \<in> set (deliveries d) \<and> dl_event r \<in> ev_id ` set (events d1)"
    then obtain e where e: "e \<in> set (events d)" "\<not> prunable ?before d e" "dl_event r = ev_id e"
      using ev by (metis imageE)
    have "dl_event r \<notin> set (map ev_id (filter (prunable ?before d) (events d)))"
      using e keyed_unique [OF keyed] by auto
    with r show "r \<in> set (deliveries d1)" by (simp add: d1 table_simps)
  qed
  have "queue_integrity d1" unfolding d1_def by (rule Prune_integrity [OF assms(1)])
  then have int: "queue_integrity d'"
    by (rule queue_integrity_frame) (simp_all only: d')
  have kept: "\<forall>e. e \<in> set (events d') \<longleftrightarrow> e \<in> set (events d) \<and> (unix_milli ?before \<le> ev_created e \<or>
      (\<exists>r\<in>set (deliveries d). dl_event r = ev_id e \<and> live_status (dl_status r)))"
    unfolding d'(2) ev prunable_def list_ex_iff by (simp add: not_less)
  have cascade: "\<forall>r. r \<in> set (deliveries d') \<longleftrightarrow> r \<in> set (deliveries d) \<and> dl_event r \<in> ev_id ` set (events d')"
    unfolding d'(2,3) using dl by simp
  show ?thesis
    unfolding if_not_P [OF False] using d'(1,4-6) d1(3-5) int kept cascade by (intro conjI) simp_all
qed

theorem cleanup_keeps_recent_and_unfinished_witness:
  "queue_event \<in> set (events (snd (cleanup demo_worker False False (1000 * 24 * hour) (zero_time, queue_db))))"
proof -
  let ?out = "cleanup demo_worker False False (1000 * 24 * hour) (zero_time, queue_db)"
  have run: "?out = (fst ?out, snd ?out)" by simp
  have "queue_event \<in> set (events queue_db)" and "\<not> 1000 * 24 * hour < zero_time"
    and "\<exists>r\<in>set (deliveries queue_db). dl_event r = ev_id queue_event \<and> live_status (dl_status r)"
    by (simp_all add: queue_db_def zero_time_def queue_event_def)
  then show ?thesis
    using cleanup_keeps_recent_and_unfinished [OF queue_db_integrity run] by simp
qed

end
