(* ===== verification/System.thy ===== *)
theory System
  imports StoreSystem McpProps AdminProps OAuthProps NotifyProps Worker
begin

text \<open>
  The whole gateway over one database: every endpoint, the worker and the start are sequences of operations of the
  store, so the invariants of the store hold after any history of requests, whatever the inputs, the failures of
  the database, the clock and the random source.
\<close>

section \<open>Calls of the store\<close>

lemma runs_step: "store_step d d' \<Longrightarrow> store_runs d d'"
  by blast

lemma runs_call: "store_step d (snd (wop d)) \<Longrightarrow> store_runs d (snd (store_call fault wop d))"
  by (simp add: db_call_def runs_step)

lemma runs_call_eq: "store_call fault wop d = (x, d') \<Longrightarrow> store_step d (snd (wop d)) \<Longrightarrow> store_runs d d'"
  using runs_call [of d wop fault] by simp

section \<open>Ingress\<close>

lemma contract_typed: "Validate parse e now = None \<Longrightarrow> typed_alert e"
  by (simp add: Validate_None event_contract_def typed_alert_def)

lemma accept_runs: "AcceptEvent ids p d = (r, d') \<Longrightarrow> typed_alert (Event p) \<Longrightarrow> store_runs d d'"
  using store_step.accept [of p d ids] by (simp add: runs_step)

lemma record_runs: "RecordRequest c n x now l d = (r, d') \<Longrightarrow> store_runs d d'"
  using store_step.request [of d c n x now l] by (simp add: runs_step)

lemma limit_runs: "RecordRateLimit k now l d = (r, d') \<Longrightarrow> store_runs d d'"
  using store_step.rate [of d k now l] by (simp add: runs_step)

lemma events_runs:
  assumes "handle_events sv cd fault ids verified now i rq d = (rs, d')"
  shows "store_runs d d'"
  using assms
proof (cases rule: handle_events_cases)
  case (stored c e body d1 result)
  have "typed_alert e" using stored(1) contract_typed by (auto simp: admitted_def)
  then have "store_runs d1 d'" by (intro accept_runs [OF stored(3)]) simp
  with record_runs [OF stored(2)] show ?thesis by (rule rtranclp_trans)
qed (auto dest: record_runs)

lemma notifications_runs:
  assumes "handle_notifications sv cd fault ids random now i rq d = (rs, d')"
  shows "store_runs d d'"
  using assms
proof (cases rule: handle_notifications_cases)
  case (stored token d1 body input category eventID e result)
  have "typed_alert e" using stored(7) by (rule contract_typed)
  then have "store_runs d1 d'" by (intro accept_runs [OF stored(5)]) simp
  with limit_runs [OF stored(2)] show ?thesis by (rule rtranclp_trans)
qed (auto dest: limit_runs)

section \<open>MCP\<close>

text \<open>What others do to the database during a challenge is itself a history.\<close>

lemma save_runs: "store_call f (SaveEventSubscription s now) x = (r, y) \<Longrightarrow> store_runs z x \<Longrightarrow> store_runs z y"
  using runs_call_eq store_step.subscription by (metis rtranclp_trans)

lemma remove_runs: "store_call f (RemoveEventSubscription i owner) x = (r, y) \<Longrightarrow> store_runs x y"
  using runs_call_eq store_step.unsubscription by metis

lemma subscribe_runs:
  assumes "subscribe ev hk cd fault random deadline now later between req owner i p (cache, d) = (reply, cache', d')"
    and "\<forall>x. store_runs x (between x)"
  shows "store_runs d d'"
proof -
  have "store_runs d (between d)" using assms(2) by blast
  with assms(1) show ?thesis unfolding subscribe_def Let_def
    by (auto split: if_splits option.splits prod.splits sum.splits dest: save_runs)
qed

lemma event_rpc_runs:
  assumes "handle_event_rpc ev hk cd fault random deadline now later between json owner req (cache, d) = Some (reply, cache', d')"
    and "\<forall>x. store_runs x (between x)"
  shows "store_runs d d'"
  using assms subscribe_runs
  by (auto simp: handle_event_rpc_def Let_def split: if_splits option.splits prod.splits sum.splits dest: remove_runs)

lemma mcp_runs:
  assumes "handle_mcp ml cd cfg subs fault now now' rq (cache, d) = (r, cache', d')"
    and "\<forall>ep. subs = Some ep \<longrightarrow> (\<forall>x. store_runs x (ep_between ep x))"
  shows "store_runs d d'"
  using assms(1)
proof (cases rule: handle_mcp_cases)
  case (called key owner res d1)
  have d1: "store_runs d d1" using runs_call_eq [OF called(4) store_step.rate] .
  have "store_runs d1 d'"
    using called(5) assms(2) event_rpc_runs
    by (auto simp: serveModern_def serve_method_def split: if_splits option.splits sum.splits prod.splits)
  with d1 show ?thesis by (rule rtranclp_trans)
qed auto

section \<open>OAuth\<close>

lemma token_form_runs: "store_runs d (snd (token_form srv fault random now rq p d))"
  by (auto simp: token_form_def grant_tokens_def Let_def split: option.split prod.split sum.split intro: runs_call_eq store_step.intros)

lemma authorize_runs: "store_runs d (snd (authorize srv wb session fault random now rq d))"
  by (auto simp: authorize_def authorize_decision_def Let_def split: option.split prod.split sum.split
      intro: runs_call_eq store_step.intros)

lemma token_runs: "store_runs d (snd (token srv wb fault random now rq d))"
proof -
  obtain x d1 where rate: "store_call (fault 0) (RecordRateLimit ''mcp-oauth-token'' now 60) d = (x, d1)" by fastforce
  have d1: "store_runs d d1" using runs_call_eq [OF rate store_step.rate] .
  have "store_runs d (snd (token_form srv (fault 1) random now rq p d1))" for p
    using d1 token_form_runs by (rule rtranclp_trans)
  then show ?thesis using rate d1 by (simp add: token_def split: option.split sum.split)
qed

lemma oauth_runs: "ServeOAuth srv wb session fault random now rq d = (r, d') \<Longrightarrow> store_runs d d'"
  using authorize_runs [of d srv wb session "fault 0" "random 0" now rq] token_runs [of d srv wb fault random now rq]
  by (auto simp: ServeOAuth_def Let_def split: if_splits prod.splits)

section \<open>Administration\<close>

lemma write_reload_db: "mg_db (snd (write_reload env fault x wop m)) = snd (store_call (fault 0) wop (mg_db m))"
  by (auto simp: write_reload_def Reload_def split: prod.split sum.split)

lemma write_reload_runs:
  "(\<And>d. store_step d (snd (wop d))) \<Longrightarrow> store_runs (mg_db m) (mg_db (snd (write_reload env fault x wop m)))"
  by (simp add: write_reload_db runs_call)

named_theorems page_runs \<open>operations of the manager as histories of the store\<close>

lemma gateway_runs [page_runs]:
  "store_runs (mg_db m) (mg_db (snd (CreateClient env fault b now i en rts lim m)))"
  "store_runs (mg_db m) (mg_db (snd (UpdateClient env fault now i en rts lim m)))"
  "store_runs (mg_db m) (mg_db (snd (RotateClientSecret env fault b now i m)))"
  "store_runs (mg_db m) (mg_db (snd (RemoveClient env fault i m)))"
  "store_runs (mg_db m) (mg_db (snd (CreateIngressToken env fault bs now i en rt sv lim m)))"
  "store_runs (mg_db m) (mg_db (snd (UpdateIngressToken env fault now i en rt sv lim m)))"
  "store_runs (mg_db m) (mg_db (snd (RotateIngressToken env fault bs now i m)))"
  "store_runs (mg_db m) (mg_db (snd (RemoveIngressToken env fault i m)))"
  "store_runs (mg_db m) (mg_db (snd (SaveChannel env fault now input m)))"
  "store_runs (mg_db m) (mg_db (snd (RemoveChannel env fault i m)))"
  "store_runs (mg_db m) (mg_db (snd (SetRoute env fault now rt sv cs m)))"
  "store_runs (mg_db m) (mg_db (snd (RemoveRoute env fault rt sv m)))"
  "store_runs (mg_db m) (mg_db (snd (AddSilence env fault newID now rt sv starts ends reason m)))"
  "store_runs (mg_db m) (mg_db (snd (RemoveSilence env fault i m)))"
  by (auto simp: CreateClient_def UpdateClient_def RotateClientSecret_def RemoveClient_def CreateIngressToken_def
      UpdateIngressToken_def RotateIngressToken_def RemoveIngressToken_def SaveChannel_def RemoveChannel_def SetRoute_def
      RemoveRoute_def AddSilence_def RemoveSilence_def Let_def split: option.split sum.split
      intro!: write_reload_runs store_step.intros)

lemma typed_test_event: "typed_alert (test_event now)"
proof -
  have "well_formed_identifier 64 ''admin''" "well_formed_identifier 64 ''admin-test''" by code_simp+
  moreover have "known_status StatusTest" "known_severity SeverityInfo" by (simp_all add: known_status_def known_severity_def)
  ultimately show ?thesis by (simp add: typed_alert_def test_event_def)
qed

lemma accept_call_runs: "store_call f (AcceptEvent ids p) d = (x, d') \<Longrightarrow> typed_alert (Event p) \<Longrightarrow> store_runs d d'"
  using runs_call_eq store_step.accept by metis

lemma channel_test_runs [page_runs]: "store_runs (mg_db m) (mg_db (snd (QueueChannelTest fault ids now i m)))"
  using typed_test_event [of now]
  by (auto simp: QueueChannelTest_def split: prod.split sum.split intro: accept_call_runs)

lemma serve_page_runs: "store_runs (mg_db m) (mg_db (snd (serve_page path env c m)))"
proof (rule serve_page_rule [where P = "\<lambda>h. store_runs (mg_db m) (mg_db (snd (h env c m)))"])
  have "store_runs (mg_db m) (mg_db (snd (logout_page env c m)))"
    by (auto simp: logout_page_def logout_def split: option.split intro!: runs_call store_step.no_session)
  then show "list_all (\<lambda>h. store_runs (mg_db m) (mg_db (snd (h env c m)))) (map snd pages)"
    by (simp add: pages_def)
      (intro conjI; auto simp: page_defs only_def Let_def page_runs split: option.split prod.split sum.split
         intro: runs_call_eq store_step.intros)
qed (simp add: unknown_page_def)

lemma session_runs: "serve_session env fault random now rq m = (r, m') \<Longrightarrow> store_runs (mg_db m) (mg_db m')"
  using serve_session_cases [of env fault random now rq m r m'] serve_page_runs by (metis rtranclp.rtrancl_refl snd_conv)

lemma login_runs: "store_runs d (snd (login cfg wb idkey fault random cancelled now rq d))"
proof -
  obtain x d1 where count: "store_call (fault 0) (RecordAdminLoginAttempt now 10) d = (x, d1)" by fastforce
  have d1: "store_runs d d1" using runs_call_eq [OF count store_step.attempt] .
  have "store_runs d1 (snd (open_session cfg f rs next now d1))" for f rs "next"
    by (auto simp: open_session_def split: option.split prod.split sum.split intro: runs_call_eq store_step.session)
  then have "store_runs d (snd (open_session cfg f rs next now d1))" for f rs "next" using d1 rtranclp_trans by metis
  then have "store_runs d (snd (login_form cfg idkey fault random cancelled now form next d))" for form "next"
    using count d1 by (simp add: login_form_def split: sum.split store_error.split)
  then show ?thesis by (simp add: login_def split: option.split)
qed

lemma oidcLogin_runs: "oidcLogin cfg wb pr fault random verifier now rq (att, d) = (r, att', d') \<Longrightarrow> store_runs d d'"
  by (auto simp: oidcLogin_def Let_def split: if_splits option.splits prod.splits sum.splits
      dest: runs_call_eq [OF _ store_step.attempt])

lemma rotate_session_runs: "rotate_session cfg fault old tk csrf now d = (ok, d') \<Longrightarrow> store_runs d d'"
proof -
  assume run: "rotate_session cfg fault old tk csrf now d = (ok, d')"
  obtain x d1 where create: "store_call (fault 0) (CreateAdminSession (sha256 tk) csrf (now + ad_SessionLifetime cfg) now) d = (x, d1)"
    by fastforce
  obtain y d2 where old: "store_call (fault 1) (DeleteAdminSession old) d1 = (y, d2)" by fastforce
  have 1: "store_runs d d1" using runs_call_eq [OF create store_step.session] .
  have 2: "store_runs d d2" using 1 runs_call_eq [OF old store_step.no_session] by (rule rtranclp_trans)
  have 3: "store_runs d (snd (store_call (fault 2) (DeleteAdminSession (sha256 tk)) d2))"
    using 2 runs_call [OF store_step.no_session] by (rule rtranclp_trans)
  show ?thesis using run create old 1 2 3 by (auto simp: rotate_session_def split: sum.splits if_splits)
qed

lemma oidcCallback_runs: "oidcCallback cfg wb pr fault random now rq (att, d) = (r, att', d') \<Longrightarrow> store_runs d d'"
  by (auto simp: oidcCallback_def Let_def split: if_splits option.splits prod.splits bool.splits dest: rotate_session_runs)

lemma admin_runs:
  assumes "ServeAdmin env fault random verifier cancelled now rq (att, m) = (r, att', m')"
  shows "store_runs (mg_db m) (mg_db m')"
  using assms login_runs [of "mg_db m" "ae_config env" "ae_web env" "ae_idkey env" fault "(random 0, random 1)" cancelled now rq]
  by (auto simp: ServeAdmin_def Let_def split: if_splits prod.splits dest: oidcLogin_runs oidcCallback_runs session_runs)

section \<open>The worker\<close>

lemma completed_db: "snd (completed out) = snd out"
  by (cases out; cases "fst out") (auto simp: completed_def)

lemma process_runs: "process_store w cf ff choice now d = (x, d') \<Longrightarrow> store_runs d d'"
proof -
  assume run: "process_store w cf ff choice now d = (x, d')"
  obtain r d1 where claim: "store_call cf (ClaimDelivery choice now (LeaseDuration (wk_cfg w))) d = (r, d1)" by fastforce
  have d1: "store_runs d d1" using runs_call_eq [OF claim store_step.claim] .
  have "store_runs d1 (snd (store_call ff (CompleteSuccess i code t) d1))" for i code t
    by (intro runs_call store_step.success)
  moreover have "store_runs d1 (snd (store_call ff (CompleteFailure i n t msg code dead) d1))" for i n t msg code dead
    by (intro runs_call store_step.failure)
  moreover have "snd (process_store w cf ff choice now d) = d' " using run by simp
  ultimately have "store_runs d1 d' \<or> d' = d1"
    using claim by (auto simp: process_store_def ProcessOne_def completed_db Let_def split: sum.splits option.splits prod.splits)
  then show ?thesis using d1 by (auto intro: rtranclp_trans)
qed

lemma cleanup_runs: "cleanup w pf sf now (t, d) = (t', d') \<Longrightarrow> store_runs d d'"
proof -
  assume run: "cleanup w pf sf now (t, d) = (t', d')"
  let ?d1 = "snd (store_call pf (Prune (now - Retention (wk_cfg w))) d)"
  have "store_runs d ?d1" by (intro runs_call store_step.prune)
  moreover have "store_runs ?d1 (snd (store_call sf (PruneEventSubscriptions now) ?d1))"
    by (intro runs_call store_step.prune_subscriptions)
  ultimately have "store_runs d (snd (store_call sf (PruneEventSubscriptions now) ?d1))" by (rule rtranclp_trans)
  then show ?thesis using run by (auto simp: cleanup_def Let_def split: if_splits)
qed

lemma event_send_runs: "event_send ev hk cd fault now sender e d = (x, d') \<Longrightarrow> store_runs d d'"
  by (auto simp: event_send_def Let_def split: if_splits option.splits hook_outcome.splits intro!: runs_call store_step.unsubscription)

section \<open>Histories of the gateway\<close>

text \<open>
  One request, one pass of the worker, one delivery to a subscription or the start, on the database they share.
  During the challenge of a subscription the others go on: that part of the history is \<open>ep_between\<close>.
\<close>

inductive gateway_step :: "db \<Rightarrow> db \<Rightarrow> bool" where
  event: "handle_events sv cd fault ids verified now i rq d = (rs, d') \<Longrightarrow> gateway_step d d'"
| notification: "handle_notifications sv cd fault ids random now i nrq d = (rs, d') \<Longrightarrow> gateway_step d d'"
| mcp: "handle_mcp ml ec cfg subs fault now now' mrq (cache, d) = (mr, cache', d') \<Longrightarrow>
    \<forall>ep. subs = Some ep \<longrightarrow> (\<forall>x. store_runs x (ep_between ep x)) \<Longrightarrow> gateway_step d d'"
| oauth: "ServeOAuth srv wb session fault random now orq d = (orr, d') \<Longrightarrow> gateway_step d d'"
| admin: "ServeAdmin env fault random verifier cancelled now arq (att, m) = (ar, att', m') \<Longrightarrow> mg_db m = d \<Longrightarrow> gateway_step d (mg_db m')"
| worker: "process_store w cf ff choice now d = (x, d') \<Longrightarrow> gateway_step d d'"
| hourly: "cleanup w pf sf now (t, d) = (t', d') \<Longrightarrow> gateway_step d d'"
| callback: "event_send ev hk ec fault now sender e d = (sent, d') \<Longrightarrow> gateway_step d d'"
| start: "store_call f (InitializeAdminCredential name hash now) d = (started, d') \<Longrightarrow> gateway_step d d'"

lemma gateway_step_runs: "gateway_step d d' \<Longrightarrow> store_runs d d'"
  by (induction rule: gateway_step.induct)
    (auto dest: events_runs notifications_runs mcp_runs oauth_runs admin_runs process_runs cleanup_runs event_send_runs
      runs_call_eq [OF _ store_step.credential])

lemma gateway_runs_store: "gateway_step\<^sup>*\<^sup>* d d' \<Longrightarrow> store_runs d d'"
  by (induction rule: rtranclp_induct) (auto dest: gateway_step_runs intro: rtranclp_trans)

text \<open>
  C2. Whatever is sent to the gateway and whatever fails, the database it started empty keeps its invariants: every
  key is unique, every delivery belongs to a stored alert, every retired refresh token to a live grant, every route
  to existing channels, and every owner stays within the limits of subscriptions.
\<close>

theorem gateway_invariant:
  assumes "gateway_step\<^sup>*\<^sup>* empty_db d"
  shows "queue_integrity d \<and> oauth_integrity d \<and> config_integrity d \<and> subscription_limits d"
  using runs_ok [OF gateway_runs_store [OF assms] store_ok_empty] by (simp add: store_ok_def)

text \<open>
  C4. Every stored alert, whichever endpoint or page it came through, has a source and a route that are identifiers
  of at most 64 characters, and a status and a severity of the contract.
\<close>

theorem stored_alerts_typed:
  assumes "gateway_step\<^sup>*\<^sup>* empty_db d" and "e \<in> set (events d)"
  shows "well_formed_identifier 64 (ev_source e) \<and> well_formed_identifier 64 (ev_route e) \<and>
    known_status (ev_status e) \<and> known_severity (ev_severity e)"
  using runs_ok [OF gateway_runs_store [OF assms(1)] store_ok_empty] assms(2) by (simp add: store_ok_def typed_row_def)


section \<open>Witnesses\<close>

text \<open>The signed request of the ingress witnesses, from an empty database.\<close>

lemma demo_history: "gateway_step\<^sup>*\<^sup>* empty_db demo_stored"
  using gateway_step.event [OF demo_call] by (rule r_into_rtranclp)

theorem gateway_invariant_witness: "queue_integrity demo_stored \<and> length (events demo_stored) = 1"
proof -
  have "length (events demo_stored) = 1" by code_simp
  then show ?thesis using gateway_invariant [OF demo_history] by simp
qed

theorem stored_alerts_typed_witness:
  "hd (events demo_stored) \<in> set (events demo_stored) \<and> known_severity (ev_severity (hd (events demo_stored)))"
proof -
  have "length (events demo_stored) = 1" by code_simp
  then have "hd (events demo_stored) \<in> set (events demo_stored)" by (cases "events demo_stored") auto
  with stored_alerts_typed [OF demo_history this] show ?thesis by blast
qed


end
