(* ===== verification/Spec2Isabelle.thy ===== *)
theory Spec2Isabelle
  imports GatewayProps ChannelConfig Bootstrap SenderProps System
begin

text \<open>
  Alertbridge: a gateway that takes alerts over HTTP, deduplicates them into incidents, and delivers them
  to notification channels.
\<close>

end
